(* ===== verification/Prelude.thy ===== *)
theory Prelude
  imports Complex_Main "HOL-Library.Sublist" "HOL-Library.Char_ord"
begin

text \<open>
  The shared base of the development.

  First the part of the ECMAScript library the sources use on strings. A JavaScript
  string is a sequence of 16-bit code units; here it is a \<^typ>\<open>string\<close>, so the
  model covers the strings whose code units are below 256 (Latin-1), one \<^typ>\<open>char\<close>
  per code unit. On that alphabet \<open>length\<close>, \<open>trim\<close>, \<open>toLowerCase\<close> and \<open>includes\<close> are
  the ECMAScript functions. \<open>null\<close> and \<open>undefined\<close> are \<^const>\<open>None\<close>; the operator
  \<open>??\<close> is \<open>coalesce\<close>, and a truthiness test on a string or on \<open>null\<close> is \<open>truthy\<close>.

  Then the computations of the services: functions from a state to a result or a thrown
  value, with the new state (\<open>ret\<close>, \<open>throw\<close>, \<open>bnd\<close>, \<open>try_catch\<close>), the weakest
  precondition \<open>wp\<close> of one, and \<open>obeys\<close>, which says that every run of a computation
  relates its first to its last state. The collections \<open>wp_simps\<close> and \<open>obeys_intros\<close>
  carry the component proofs.
\<close>

section \<open>Lemma collections\<close>

named_theorems wp_simps \<open>equations that push a weakest precondition through a computation\<close>
named_theorems obeys_intros \<open>rules that show that a computation obeys a relation\<close>

section \<open>ECMAScript strings on the Latin-1 alphabet\<close>

definition code_unit :: "char \<Rightarrow> nat" where
  "code_unit c = of_char c"

text \<open>White space and line terminators, as \<open>String.prototype.trim\<close> and \<open>\s\<close> define them.\<close>

definition js_ws :: "char \<Rightarrow> bool" where
  "js_ws c = (let n = code_unit c in (9 \<le> n \<and> n \<le> 13) \<or> n = 32 \<or> n = 160)"

definition js_trim :: "string \<Rightarrow> string" where
  "js_trim s = rev (dropWhile js_ws (rev (dropWhile js_ws s)))"

definition js_lower_char :: "char \<Rightarrow> char" where
  "js_lower_char c = (let n = code_unit c in
     if (65 \<le> n \<and> n \<le> 90) \<or> (192 \<le> n \<and> n \<le> 222 \<and> n \<noteq> 215) then char_of (n + 32) else c)"

definition js_lower :: "string \<Rightarrow> string" where
  "js_lower s = map js_lower_char s"

text \<open>\<open>js_includes s p\<close> is \<open>s.includes(p)\<close>.\<close>

fun js_includes :: "string \<Rightarrow> string \<Rightarrow> bool" where
  "js_includes [] p = (p = [])"
| "js_includes (c # s) p = (prefix p (c # s) \<or> js_includes s p)"

text \<open>\<open>js_join sep xs\<close> is \<open>xs.join(sep)\<close>.\<close>

fun js_join :: "string \<Rightarrow> string list \<Rightarrow> string" where
  "js_join sep [] = []"
| "js_join sep [x] = x"
| "js_join sep (x # y # xs) = x @ sep @ js_join sep (y # xs)"

definition nl :: string where
  "nl = [CHR 0x0A]"

text \<open>A text between double quotes, as the error messages quote names and identifiers.\<close>

definition quoted :: "string \<Rightarrow> string" where
  "quoted s = [CHR 0x22] @ s @ [CHR 0x22]"

text \<open>Decimal numerals, as a template literal prints an integer.\<close>

definition digit_char :: "nat \<Rightarrow> char" where
  "digit_char d = char_of (48 + d)"

fun show_nat :: "nat \<Rightarrow> string" where
  "show_nat n = (if n < 10 then [digit_char n] else show_nat (n div 10) @ [digit_char (n mod 10)])"

declare show_nat.simps [simp del]

definition show_int :: "int \<Rightarrow> string" where
  "show_int i = (if i < 0 then CHR ''-'' # show_nat (nat (- i)) else show_nat (nat i))"

section \<open>Null, undefined and truthiness\<close>

fun coalesce :: "'a option \<Rightarrow> 'a option \<Rightarrow> 'a option" where
  "coalesce (Some x) _ = Some x"
| "coalesce None y = y"

definition from_option :: "'a \<Rightarrow> 'a option \<Rightarrow> 'a" where
  "from_option d x = (case x of None \<Rightarrow> d | Some y \<Rightarrow> y)"

definition truthy :: "string option \<Rightarrow> bool" where
  "truthy x = (case x of None \<Rightarrow> False | Some s \<Rightarrow> s \<noteq> [])"

text \<open>\<open>x?.trim() || null\<close>.\<close>

definition trim_or_null :: "string option \<Rightarrow> string option" where
  "trim_or_null x = (case x of None \<Rightarrow> None
     | Some s \<Rightarrow> (let t = js_trim s in if t = [] then None else Some t))"

lemma from_option_simps [simp]:
  "from_option d None = d" "from_option d (Some x) = x"
  by (simp_all add: from_option_def)

lemma truthy_simps [simp]:
  "\<not> truthy None" "truthy (Some s) \<longleftrightarrow> s \<noteq> []"
  by (simp_all add: truthy_def)

lemma truthyE: "truthy x \<Longrightarrow> (\<And>s. x = Some s \<Longrightarrow> s \<noteq> [] \<Longrightarrow> P) \<Longrightarrow> P"
  by (cases x) auto

lemma coalesce_None_iff [simp]: "coalesce x y = None \<longleftrightarrow> x = None \<and> y = None"
  by (cases x) auto

lemma coalesce_None_right [simp]: "coalesce x None = x"
  by (cases x) auto

section \<open>Facts on strings\<close>

lemma js_includes_iff: "js_includes s p \<longleftrightarrow> (\<exists>u v. s = u @ p @ v)"
proof (induction s)
  case Nil
  show ?case by auto
next
  case (Cons c s)
  show ?case
  proof
    assume "js_includes (c # s) p"
    then consider "prefix p (c # s)" | "js_includes s p" by auto
    then show "\<exists>u v. c # s = u @ p @ v"
    proof cases
      case 1
      then obtain v where "c # s = [] @ p @ v" by (auto elim: prefixE)
      then show ?thesis by blast
    next
      case 2
      with Cons.IH obtain u v where "c # s = (c # u) @ p @ v" by auto
      then show ?thesis by blast
    qed
  next
    assume "\<exists>u v. c # s = u @ p @ v"
    then obtain u v where uv: "c # s = u @ p @ v" by blast
    show "js_includes (c # s) p"
    proof (cases u)
      case Nil
      with uv have "prefix p (c # s)" by simp
      then show ?thesis by simp
    next
      case (Cons d u')
      with uv have "s = u' @ p @ v" by simp
      with Cons.IH show ?thesis by auto
    qed
  qed
qed

lemma js_includes_empty [simp]: "js_includes s []"
  by (cases s) simp_all

lemma js_includes_length: "js_includes s p \<Longrightarrow> length p \<le> length s"
  by (auto simp: js_includes_iff)

lemma length_js_lower [simp]: "length (js_lower s) = length s"
  by (simp add: js_lower_def)

lemma js_trim_length: "length (js_trim s) \<le> length s"
proof -
  have "length (dropWhile js_ws (rev (dropWhile js_ws s))) \<le> length (rev (dropWhile js_ws s))"
    by (rule length_dropWhile_le)
  also have "\<dots> \<le> length s" by (simp add: length_dropWhile_le)
  finally show ?thesis by (simp add: js_trim_def)
qed

lemma js_trim_eq_Nil: "js_trim s = [] \<longleftrightarrow> (\<forall>c\<in>set s. js_ws c)"
proof
  assume "js_trim s = []"
  then have "\<forall>c\<in>set (dropWhile js_ws s). js_ws c"
    by (simp add: js_trim_def dropWhile_eq_Nil_conv)
  moreover have "s = takeWhile js_ws s @ dropWhile js_ws s" by simp
  ultimately show "\<forall>c\<in>set s. js_ws c"
    by (metis UnE set_append set_takeWhileD)
next
  assume "\<forall>c\<in>set s. js_ws c"
  then show "js_trim s = []"
    by (auto simp: js_trim_def dropWhile_eq_Nil_conv dest: set_dropWhileD)
qed

lemma js_join_map_Nil [simp]: "js_join sep (map f []) = []"
  by simp

section \<open>Computations\<close>

type_synonym ('s, 'e, 'a) act = "'s \<Rightarrow> ('e + 'a) \<times> 's"

definition ret :: "'a \<Rightarrow> ('s, 'e, 'a) act" where
  "ret x = (\<lambda>w. (Inr x, w))"

definition throw :: "'e \<Rightarrow> ('s, 'e, 'a) act" where
  "throw e = (\<lambda>w. (Inl e, w))"

text \<open>Sequencing: an error stops the rest, as an exception does.\<close>

definition bnd :: "('s, 'e, 'a) act \<Rightarrow> ('a \<Rightarrow> ('s, 'e, 'b) act) \<Rightarrow> ('s, 'e, 'b) act" where
  "bnd m f = (\<lambda>w. case m w of (Inl e, w') \<Rightarrow> (Inl e, w') | (Inr x, w') \<Rightarrow> f x w')"

text \<open>\<open>try { m } catch (e) { h(e) }\<close>.\<close>

definition try_catch :: "('s, 'e, 'a) act \<Rightarrow> ('e \<Rightarrow> ('s, 'e, 'a) act) \<Rightarrow> ('s, 'e, 'a) act" where
  "try_catch m h = (\<lambda>w. case m w of (Inl e, w') \<Rightarrow> h e w' | (Inr x, w') \<Rightarrow> (Inr x, w'))"

definition gets :: "('s \<Rightarrow> 'a) \<Rightarrow> ('s, 'e, 'a) act" where
  "gets f = (\<lambda>w. (Inr (f w), w))"

definition modify :: "('s \<Rightarrow> 's) \<Rightarrow> ('s, 'e, unit) act" where
  "modify f = (\<lambda>w. (Inr (), f w))"

text \<open>A result computed from the state without changing it; an error is thrown.\<close>

definition reads :: "('s \<Rightarrow> 'e + 'a) \<Rightarrow> ('s, 'e, 'a) act" where
  "reads f = (\<lambda>w. (f w, w))"

definition do_when :: "bool \<Rightarrow> ('s, 'e, unit) act \<Rightarrow> ('s, 'e, unit) act" where
  "do_when b m = (if b then m else ret ())"

subsection \<open>Weakest preconditions\<close>

definition wp :: "('s, 'e, 'a) act \<Rightarrow> ('a \<Rightarrow> 's \<Rightarrow> bool) \<Rightarrow> ('e \<Rightarrow> 's \<Rightarrow> bool) \<Rightarrow> 's \<Rightarrow> bool" where
  "wp m Q E w = (case m w of (Inl e, w') \<Rightarrow> E e w' | (Inr x, w') \<Rightarrow> Q x w')"

lemma wp_ret [wp_simps]: "wp (ret x) Q E w = Q x w"
  by (simp add: wp_def ret_def)

lemma wp_throw [wp_simps]: "wp (throw e) Q E w = E e w"
  by (simp add: wp_def throw_def)

lemma wp_bnd [wp_simps]: "wp (bnd m f) Q E w = wp m (\<lambda>x. wp (f x) Q E) E w"
  by (simp add: wp_def bnd_def split: prod.split sum.split)

lemma wp_try_catch [wp_simps]: "wp (try_catch m h) Q E w = wp m Q (\<lambda>e. wp (h e) Q E) w"
  by (simp add: wp_def try_catch_def split: prod.split sum.split)

lemma wp_gets [wp_simps]: "wp (gets f) Q E w = Q (f w) w"
  by (simp add: wp_def gets_def)

lemma wp_modify [wp_simps]: "wp (modify f) Q E w = Q () (f w)"
  by (simp add: wp_def modify_def)

lemma wp_reads [wp_simps]:
  "wp (reads f) Q E w = (case f w of Inl e \<Rightarrow> E e w | Inr x \<Rightarrow> Q x w)"
  by (simp add: wp_def reads_def split: sum.split)

lemma wp_do_when [wp_simps]: "wp (do_when b m) Q E w = (if b then wp m Q E w else Q () w)"
  by (simp add: do_when_def wp_ret)

lemma wp_mono:
  "wp m Q E w \<Longrightarrow> (\<And>x w'. Q x w' \<Longrightarrow> Q' x w') \<Longrightarrow> (\<And>e w'. E e w' \<Longrightarrow> E' e w') \<Longrightarrow> wp m Q' E' w"
  by (auto simp: wp_def split: prod.splits sum.splits)

lemma wp_conj: "wp m Q E w \<Longrightarrow> wp m Q' E' w \<Longrightarrow>
    wp m (\<lambda>x s. Q x s \<and> Q' x s) (\<lambda>e s. E e s \<and> E' e s) w"
  by (auto simp: wp_def split: prod.splits sum.splits)

lemma wp_resultI:
  "m w = (r, w') \<Longrightarrow> (case r of Inl e \<Rightarrow> E e w' | Inr x \<Rightarrow> Q x w') \<Longrightarrow> wp m Q E w"
  by (auto simp: wp_def split: sum.splits)

lemma wp_Inr: "wp m Q E w \<Longrightarrow> m w = (Inr x, w') \<Longrightarrow> Q x w'"
  by (simp add: wp_def)

lemma wp_Inl: "wp m Q E w \<Longrightarrow> m w = (Inl e, w') \<Longrightarrow> E e w'"
  by (simp add: wp_def)

lemma wp_snd: "wp m (\<lambda>_. P) (\<lambda>_. P) w \<longleftrightarrow> P (snd (m w))"
  by (simp add: wp_def split: prod.split sum.split)

lemma wp_bnd_fun: "wp (bnd m f) Q E = wp m (\<lambda>x. wp (f x) Q E) E"
  by (rule ext) (rule wp_bnd)

lemma wp_total: "wp m Q (\<lambda>_ _. False) w \<Longrightarrow> \<exists>x w'. m w = (Inr x, w') \<and> Q x w'"
  by (auto simp: wp_def split: prod.splits sum.splits)

lemma wp_trivial: "wp m (\<lambda>_ _. True) (\<lambda>_ _. True) w"
  by (simp add: wp_def split: prod.split sum.split)

text \<open>When only the result of the last step matters.\<close>

lemma wp_bnd_any: "(\<And>x w. wp (f x) Q (\<lambda>_ _. True) w) \<Longrightarrow> wp (bnd m f) Q (\<lambda>_ _. True) w"
  unfolding wp_bnd by (rule wp_mono [OF wp_trivial]) auto

subsection \<open>Computations that obey a relation between states\<close>

definition obeys :: "('s \<Rightarrow> 's \<Rightarrow> bool) \<Rightarrow> ('s, 'e, 'a) act \<Rightarrow> bool" where
  "obeys R m \<longleftrightarrow> (\<forall>w. R w (snd (m w)))"

text \<open>The relation of an invariant: if it held before, it holds afterwards.\<close>

definition keeps :: "('s \<Rightarrow> bool) \<Rightarrow> 's \<Rightarrow> 's \<Rightarrow> bool" where
  "keeps I w w' \<longleftrightarrow> (I w \<longrightarrow> I w')"

lemma obeysD: "obeys R m \<Longrightarrow> m w = (r, w') \<Longrightarrow> R w w'"
  unfolding obeys_def by (metis snd_conv)

lemma obeysI: "(\<And>w r w'. m w = (r, w') \<Longrightarrow> R w w') \<Longrightarrow> obeys R m"
  by (simp add: obeys_def prod_eq_iff)

lemma obeys_keeps_wp: "obeys (keeps I) m \<Longrightarrow> I w \<Longrightarrow> wp m (\<lambda>_. I) (\<lambda>_. I) w"
  by (auto simp: obeys_def keeps_def wp_snd)

locale step_relation =
  fixes R :: "'s \<Rightarrow> 's \<Rightarrow> bool"
  assumes R_refl: "R w w"
    and R_trans: "R w1 w2 \<Longrightarrow> R w2 w3 \<Longrightarrow> R w1 w3"
begin

lemma obeys_ret [obeys_intros]: "obeys R (ret x)"
  by (simp add: obeys_def ret_def R_refl)

lemma obeys_throw [obeys_intros]: "obeys R (throw e)"
  by (simp add: obeys_def throw_def R_refl)

lemma obeys_gets [obeys_intros]: "obeys R (gets f)"
  by (simp add: obeys_def gets_def R_refl)

lemma obeys_reads [obeys_intros]: "obeys R (reads f)"
  by (simp add: obeys_def reads_def R_refl)

lemma obeys_bnd [obeys_intros]: "obeys R m \<Longrightarrow> (\<And>x. obeys R (f x)) \<Longrightarrow> obeys R (bnd m f)"
  unfolding obeys_def bnd_def
  by (auto split: prod.split sum.split) (metis R_trans snd_conv)+

lemma obeys_try_catch [obeys_intros]:
  "obeys R m \<Longrightarrow> (\<And>e. obeys R (h e)) \<Longrightarrow> obeys R (try_catch m h)"
  unfolding obeys_def try_catch_def
  by (auto split: prod.split sum.split) (metis R_trans snd_conv)+

lemma obeys_do_when [obeys_intros]: "obeys R m \<Longrightarrow> obeys R (do_when b m)"
  by (simp add: do_when_def obeys_ret)

lemma obeys_if [obeys_intros]: "obeys R m \<Longrightarrow> obeys R m' \<Longrightarrow> obeys R (if b then m else m')"
  by simp

lemma obeys_case_option [obeys_intros]:
  "obeys R m \<Longrightarrow> (\<And>x. obeys R (f x)) \<Longrightarrow> obeys R (case x of None \<Rightarrow> m | Some y \<Rightarrow> f y)"
  by (cases x) auto

lemma obeys_case_sum [obeys_intros]:
  "(\<And>y. obeys R (f y)) \<Longrightarrow> (\<And>y. obeys R (g y)) \<Longrightarrow> obeys R (case x of Inl y \<Rightarrow> f y | Inr y \<Rightarrow> g y)"
  by (cases x) auto

lemma obeys_case_prod [obeys_intros]:
  "(\<And>y z. obeys R (f y z)) \<Longrightarrow> obeys R (case x of (y, z) \<Rightarrow> f y z)"
  by (cases x) auto

lemma obeys_let [obeys_intros]: "(\<And>x. obeys R (f x)) \<Longrightarrow> obeys R (let x = t in f x)"
  by simp

end

end
