(* ===== verification/Regex.thy ===== *)
theory Regex
  imports Prelude
begin

text \<open>
  The ECMAScript regular expressions the sources use: character classes, greedy
  repetition of a class, concatenation, ordered choice, the word boundary \<open>\b\<close>
  and one capture group. \<open>ends\<close> lists the ways an expression can match at a
  position in the order the backtracking matcher of the standard tries them, so
  the first one is the match; \<open>rx_find\<close> is the leftmost match (\<open>s.match(re)\<close>) and
  \<open>rx_replace_all\<close> is \<open>s.replace(re, ...)\<close> of a global expression.
\<close>

datatype rx =
    Eps
  | Cls "char \<Rightarrow> bool"
  | Rep nat "char \<Rightarrow> bool"
  | Bnd
  | Seq rx rx
  | Alt rx rx
  | Cap rx

text \<open>A matcher state: the text before (reversed), the text ahead, the captured text.\<close>

type_synonym rx_state = "string \<times> string \<times> string option"

definition is_digit :: "char \<Rightarrow> bool" where
  "is_digit c = (let n = code_unit c in 48 \<le> n \<and> n \<le> 57)"

definition is_alpha :: "char \<Rightarrow> bool" where
  "is_alpha c = (let n = code_unit c in (65 \<le> n \<and> n \<le> 90) \<or> (97 \<le> n \<and> n \<le> 122))"

definition is_alnum :: "char \<Rightarrow> bool" where
  "is_alnum c = (is_alpha c \<or> is_digit c)"

definition is_word :: "char \<Rightarrow> bool" where
  "is_word c = (is_alnum c \<or> c = CHR ''_'')"

definition at_boundary :: "string \<Rightarrow> string \<Rightarrow> bool" where
  "at_boundary b s =
     ((case b of [] \<Rightarrow> False | c # _ \<Rightarrow> is_word c) \<noteq> (case s of [] \<Rightarrow> False | c # _ \<Rightarrow> is_word c))"

text \<open>Moving \<open>i\<close> characters ahead.\<close>

definition advance :: "nat \<Rightarrow> rx_state \<Rightarrow> rx_state" where
  "advance i st = (case st of (b, s, c) \<Rightarrow> (rev (take i s) @ b, drop i s, c))"

fun ends :: "rx \<Rightarrow> rx_state \<Rightarrow> rx_state list" where
  "ends Eps st = [st]"
| "ends (Cls P) (b, s, c) = (case s of [] \<Rightarrow> [] | x # xs \<Rightarrow> if P x then [(x # b, xs, c)] else [])"
| "ends (Rep n P) (b, s, c) =
     map (\<lambda>i. advance i (b, s, c)) (rev [n..<Suc (length (takeWhile P s))])"
| "ends Bnd (b, s, c) = (if at_boundary b s then [(b, s, c)] else [])"
| "ends (Seq r q) st = concat (map (ends q) (ends r st))"
| "ends (Alt r q) st = ends r st @ ends q st"
| "ends (Cap r) (b, s, c) =
     map (\<lambda>(b', s', _). (b', s', Some (take (length s - length s') s))) (ends r (b, s, c))"

fun seqs :: "rx list \<Rightarrow> rx" where
  "seqs [] = Eps"
| "seqs [r] = r"
| "seqs (r # rs) = Seq r (seqs rs)"

definition opt :: "rx \<Rightarrow> rx" where
  "opt r = Alt r Eps"

fun alts :: "rx list \<Rightarrow> rx" where
  "alts [] = Cls (\<lambda>_. False)"
| "alts [r] = r"
| "alts (r # rs) = Alt r (alts rs)"

text \<open>A literal, case-sensitive and (flag \<open>i\<close>) case-insensitive.\<close>

definition lit :: "string \<Rightarrow> rx" where
  "lit s = seqs (map (\<lambda>d. Cls (\<lambda>c. c = d)) s)"

definition lit_i :: "string \<Rightarrow> rx" where
  "lit_i s = seqs (map (\<lambda>d. Cls (\<lambda>c. js_lower_char c = js_lower_char d)) s)"

text \<open>The leftmost match: the text before it, the match, the group, the state after it.\<close>

record rx_match =
  preceding :: string
  matched :: string
  group1 :: "string option"
  after :: string
  left_context :: string

fun rx_find :: "rx \<Rightarrow> string \<Rightarrow> string \<Rightarrow> rx_match option" where
  "rx_find r b s =
     (case ends r (b, s, None) of
        (b', s', c) # _ \<Rightarrow>
          Some \<lparr>preceding = [], matched = take (length s - length s') s, group1 = c,
                after = s', left_context = b'\<rparr>
      | [] \<Rightarrow> (case s of [] \<Rightarrow> None
                | x # xs \<Rightarrow> map_option (\<lambda>m. m\<lparr>preceding := x # preceding m\<rparr>) (rx_find r (x # b) xs)))"

declare rx_find.simps [simp del]

definition rx_match :: "rx \<Rightarrow> string \<Rightarrow> rx_match option" where
  "rx_match r s = rx_find r [] s"

lemma ends_suffix:
  "(b', s', c') \<in> set (ends r (b, s, c)) \<Longrightarrow> \<exists>u. s = u @ s' \<and> b' = rev u @ b"
proof (induction r "(b, s, c)" arbitrary: b s c b' s' c' rule: ends.induct)
  case (2 P b s c)
  then show ?case by (auto split: list.splits if_splits)
next
  case (3 n P b s c)
  then show ?case by (auto simp: advance_def)
next
  case (5 r q b s c)
  then obtain b1 s1 c1 where 1: "(b1, s1, c1) \<in> set (ends r (b, s, c))"
    and 2: "(b', s', c') \<in> set (ends q (b1, s1, c1))" by auto
  from "5.hyps"(1) [OF 1] obtain u where u: "s = u @ s1" "b1 = rev u @ b" by blast
  from "5.hyps"(2) [OF 1 2] obtain v where "s1 = v @ s'" "b' = rev v @ b1" by blast
  with u have "s = (u @ v) @ s' \<and> b' = rev (u @ v) @ b" by simp
  then show ?case by blast
qed (auto split: if_splits)

lemma rx_find_here:
  assumes e: "ends r (b, s, None) = (b', s', c) # sts" and f: "rx_find r b s = Some m"
  shows "s = preceding m @ matched m @ after m"
proof -
  from e have "(b', s', c) \<in> set (ends r (b, s, None))" by simp
  then obtain u where "s = u @ s'" using ends_suffix by blast
  with e f show ?thesis by (subst (asm) rx_find.simps) auto
qed

lemma rx_find_split:
  "rx_find r b s = Some m \<Longrightarrow> s = preceding m @ matched m @ after m"
proof (induction s arbitrary: b m)
  case Nil
  show ?case
  proof (cases "ends r (b, [], None)")
    case Nil
    with Nil.prems show ?thesis by (subst (asm) rx_find.simps) auto
  next
    case (Cons st sts)
    then show ?thesis using Nil.prems by (cases st) (metis rx_find_here)
  qed
next
  case (Cons x xs)
  show ?case
  proof (cases "ends r (b, x # xs, None)")
    case Nil
    with Cons.prems obtain m' where m': "rx_find r (x # b) xs = Some m'"
      and m: "m = m'\<lparr>preceding := x # preceding m'\<rparr>"
      by (subst (asm) rx_find.simps) auto
    from Cons.IH [OF m'] m show ?thesis by simp
  next
    case (Cons st sts)
    then show ?thesis using Cons.prems by (cases st) (metis rx_find_here)
  qed
qed

text \<open>
  Global replacement. An empty match would be replaced in place and one character
  copied, as the standard advances \<open>lastIndex\<close>; none of the expressions here can
  match the empty text.
\<close>

function rx_replace_from :: "rx \<Rightarrow> (rx_match \<Rightarrow> string) \<Rightarrow> string \<Rightarrow> string \<Rightarrow> string" where
  "rx_replace_from r f b s =
     (case rx_find r b s of
        None \<Rightarrow> s
      | Some m \<Rightarrow>
          preceding m @ f m @
          (if matched m \<noteq> [] then rx_replace_from r f (left_context m) (after m)
           else (case after m of [] \<Rightarrow> []
                  | x # xs \<Rightarrow> x # rx_replace_from r f (x # left_context m) xs)))"
  by pat_completeness auto
termination
proof (relation "measure (\<lambda>(r, f, b, s). length s)", goal_cases)
  case 1
  show ?case by simp
next
  case (2 r f b s m)
  from rx_find_split [OF 2(1)] 2(2) show ?case
    by (cases "matched m") (auto dest: arg_cong [where f = length])
next
  case (3 r f b s m x xs)
  from rx_find_split [OF 3(1)] 3(2,3) show ?case
    by (auto dest: arg_cong [where f = length])
qed

declare rx_replace_from.simps [simp del]

definition rx_replace_all :: "rx \<Rightarrow> (rx_match \<Rightarrow> string) \<Rightarrow> string \<Rightarrow> string" where
  "rx_replace_all r f s = rx_replace_from r f [] s"

text \<open>\<open>s.replaceAll(p, q)\<close> for a non-empty text \<open>p\<close>.\<close>

function replace_text :: "string \<Rightarrow> string \<Rightarrow> string \<Rightarrow> string" where
  "replace_text p q s =
     (if p = [] then s
      else if prefix p s then q @ replace_text p q (drop (length p) s)
      else (case s of [] \<Rightarrow> [] | x # xs \<Rightarrow> x # replace_text p q xs))"
  by pat_completeness auto
termination
  by (relation "measure (\<lambda>(p, q, s). length s)") (auto simp: prefix_def)

declare replace_text.simps [simp del]

lemma replace_text_absent: "\<not> js_includes s p \<Longrightarrow> replace_text p q s = s"
proof (induction s)
  case Nil
  then show ?case by (cases p) (simp_all add: replace_text.simps)
next
  case (Cons x xs)
  then show ?case by (subst replace_text.simps) auto
qed

end
