(* ===== verification/ModelErrors.thy ===== *)
theory ModelErrors
  imports Regex
begin

text \<open>
  Thrown values, the adapter error classes and their wire forms
  (\<open>model-adapters/errors/\<close>): redaction of secrets, the message a client may see, the
  sanitised cause, and the classification of an upstream failure
  (\<open>normalizeProviderError\<close>). The text of a stack trace is whatever the engine wrote;
  an error constructed by the sources carries an empty one.
\<close>

section \<open>JSON values and thrown values\<close>

datatype json =
    JNull
  | JBool bool
  | JNum rat
  | JStr string
  | JArr "json list"
  | JObj "(string \<times> json) list"

datatype adapter_code =
    AUTHENTICATION_FAILED | AUTHORIZATION_FAILED | RATE_LIMIT_EXCEEDED | INVALID_REQUEST
  | MODEL_NOT_FOUND | CONTENT_FILTERED | CONTEXT_LENGTH_EXCEEDED | PROVIDER_UNAVAILABLE
  | CONNECTION_FAILED | REQUEST_TIMEOUT | REQUEST_ABORTED | UNSUPPORTED_PROVIDER_KIND
  | UNSUPPORTED_CAPABILITY | UNKNOWN_ERROR

record adapter_info =
  ai_code :: adapter_code
  ai_statusCode :: nat
  ai_retryable :: bool
  ai_providerKind :: "string option"
  ai_modelIdentifier :: "string option"
  ai_retryAfterSeconds :: "int option"
  ai_isCancellation :: bool

text \<open>
  An \<open>Error\<close> has a name, a message, a stack and possibly a cause. Its kind tells a
  plain error (with the \<open>code\<close> property Node and the SQLite driver set), an HTTP
  exception of the framework (status and response code) and a \<open>ModelAdapterError\<close>
  apart. A program may also throw a string.
\<close>

datatype error_kind =
    Plain "string option"
  | Http nat string
  | Adapter adapter_info

datatype exn =
    Err (err_kind: error_kind) (err_name: string) (err_message: string) (err_stack: string)
      (err_cause: "exn option")
  | ThrownString string

definition http_error :: "nat \<Rightarrow> string \<Rightarrow> string \<Rightarrow> string \<Rightarrow> exn" where
  "http_error status name code msg = Err (Http status code) name msg [] None"

definition not_found :: "string \<Rightarrow> string \<Rightarrow> exn" where
  "not_found = http_error 404 ''NotFoundException''"

definition unprocessable :: "string \<Rightarrow> string \<Rightarrow> exn" where
  "unprocessable = http_error 422 ''UnprocessableEntityException''"

definition bad_request :: "string \<Rightarrow> string \<Rightarrow> exn" where
  "bad_request = http_error 400 ''BadRequestException''"

definition conflict :: "string \<Rightarrow> string \<Rightarrow> exn" where
  "conflict = http_error 409 ''ConflictException''"

definition internal_error :: "string \<Rightarrow> string \<Rightarrow> exn" where
  "internal_error = http_error 500 ''InternalServerErrorException''"

definition type_error :: "string \<Rightarrow> exn" where
  "type_error msg = Err (Plain None) ''TypeError'' msg [] None"

text \<open>\<open>new Error(msg)\<close>.\<close>

definition plain_error :: "string \<Rightarrow> exn" where
  "plain_error msg = Err (Plain None) ''Error'' msg [] None"

definition is_not_found :: "exn \<Rightarrow> bool" where
  "is_not_found e = (case e of Err (Http status _) _ _ _ _ \<Rightarrow> status = 404 | _ \<Rightarrow> False)"

definition is_adapter_error :: "exn \<Rightarrow> bool" where
  "is_adapter_error e = (case e of Err (Adapter _) _ _ _ _ \<Rightarrow> True | _ \<Rightarrow> False)"

definition adapter_code_of :: "exn \<Rightarrow> adapter_code option" where
  "adapter_code_of e = (case e of Err (Adapter i) _ _ _ _ \<Rightarrow> Some (ai_code i) | _ \<Rightarrow> None)"

lemmas http_defs = not_found_def unprocessable_def bad_request_def conflict_def
  internal_error_def http_error_def

section \<open>The error classes\<close>

definition model_adapter_error ::
  "string \<Rightarrow> string \<Rightarrow> adapter_code \<Rightarrow> nat option \<Rightarrow> bool option \<Rightarrow> string option \<Rightarrow> string option
   \<Rightarrow> int option \<Rightarrow> bool option \<Rightarrow> exn option \<Rightarrow> exn" where
  "model_adapter_error name msg code status retryable providerKind modelIdentifier retryAfter
     isCancellation cause =
     Err (Adapter \<lparr>ai_code = code, ai_statusCode = from_option 500 status,
                   ai_retryable = from_option False retryable, ai_providerKind = providerKind,
                   ai_modelIdentifier = modelIdentifier, ai_retryAfterSeconds = retryAfter,
                   ai_isCancellation = from_option False isCancellation\<rparr>)
         name msg [] cause"

definition authentication_error :: "string \<Rightarrow> string option \<Rightarrow> exn option \<Rightarrow> string option \<Rightarrow> exn" where
  "authentication_error msg pk cause model = model_adapter_error ''AuthenticationError'' msg
     AUTHENTICATION_FAILED (Some 502) (Some False) pk model None None cause"

definition authorization_error :: "string \<Rightarrow> string option \<Rightarrow> exn option \<Rightarrow> string option \<Rightarrow> exn" where
  "authorization_error msg pk cause model = model_adapter_error ''AuthorizationError'' msg
     AUTHORIZATION_FAILED (Some 502) (Some False) pk model None None cause"

definition rate_limit_error ::
  "string \<Rightarrow> string option \<Rightarrow> int option \<Rightarrow> exn option \<Rightarrow> string option \<Rightarrow> exn" where
  "rate_limit_error msg pk retryAfter cause model = model_adapter_error ''RateLimitError'' msg
     RATE_LIMIT_EXCEEDED (Some 429) (Some True) pk model retryAfter None cause"

definition invalid_request_error :: "string \<Rightarrow> string option \<Rightarrow> exn option \<Rightarrow> string option \<Rightarrow> exn" where
  "invalid_request_error msg pk cause model = model_adapter_error ''InvalidRequestError'' msg
     INVALID_REQUEST (Some 400) (Some False) pk model None None cause"

definition model_not_found_error ::
  "string \<Rightarrow> string option \<Rightarrow> string option \<Rightarrow> exn option \<Rightarrow> exn" where
  "model_not_found_error model pk msg cause = model_adapter_error ''ModelNotFoundError''
     (from_option (''Model '' @ quoted model @ '' was not found for provider''
                   @ (if truthy pk then '' '' @ quoted (from_option [] pk) else []) @ ''.'') msg)
     MODEL_NOT_FOUND (Some 404) (Some False) pk (Some model) None None cause"

definition content_filtered_error :: "string \<Rightarrow> string option \<Rightarrow> exn option \<Rightarrow> string option \<Rightarrow> exn" where
  "content_filtered_error msg pk cause model = model_adapter_error ''ContentFilteredError'' msg
     CONTENT_FILTERED (Some 422) (Some False) pk model None None cause"

definition context_length_exceeded_error ::
  "string \<Rightarrow> string option \<Rightarrow> exn option \<Rightarrow> string option \<Rightarrow> exn" where
  "context_length_exceeded_error msg pk cause model =
     model_adapter_error ''ContextLengthExceededError'' msg
     CONTEXT_LENGTH_EXCEEDED (Some 413) (Some False) pk model None None cause"

definition provider_unavailable_error ::
  "string \<Rightarrow> string option \<Rightarrow> exn option \<Rightarrow> string option \<Rightarrow> exn" where
  "provider_unavailable_error msg pk cause model =
     model_adapter_error ''ProviderUnavailableError'' msg
     PROVIDER_UNAVAILABLE (Some 503) (Some True) pk model None None cause"

definition connection_failed_error ::
  "string \<Rightarrow> string option \<Rightarrow> exn option \<Rightarrow> string option \<Rightarrow> exn" where
  "connection_failed_error msg pk cause model = model_adapter_error ''ConnectionFailedError'' msg
     CONNECTION_FAILED (Some 502) (Some True) pk model None None cause"

definition request_timeout_error ::
  "string \<Rightarrow> string option \<Rightarrow> exn option \<Rightarrow> string option \<Rightarrow> exn" where
  "request_timeout_error msg pk cause model = model_adapter_error ''RequestTimeoutError'' msg
     REQUEST_TIMEOUT (Some 504) (Some True) pk model None None cause"

definition request_aborted_error ::
  "string \<Rightarrow> string option \<Rightarrow> exn option \<Rightarrow> string option \<Rightarrow> exn" where
  "request_aborted_error msg pk cause model = model_adapter_error ''RequestAbortedError'' msg
     REQUEST_ABORTED (Some 499) (Some False) pk model None (Some True) cause"

definition unknown_model_adapter_error ::
  "string \<Rightarrow> string option \<Rightarrow> exn option \<Rightarrow> string option \<Rightarrow> exn" where
  "unknown_model_adapter_error msg pk cause model =
     model_adapter_error ''UnknownModelAdapterError'' msg
     UNKNOWN_ERROR (Some 502) (Some False) pk model None None cause"

definition unsupported_provider_kind_error :: "string \<Rightarrow> string list \<Rightarrow> exn" where
  "unsupported_provider_kind_error kind kinds =
     model_adapter_error ''UnsupportedProviderKindError''
     (''Unsupported provider kind '' @ quoted kind @ ''.''
       @ (if kinds \<noteq> [] then '' Registered kinds: '' @ js_join '', '' kinds else []))
     UNSUPPORTED_PROVIDER_KIND (Some 400) (Some False) (Some kind) None None None None"

definition unsupported_capability_error :: "string \<Rightarrow> string option \<Rightarrow> exn" where
  "unsupported_capability_error capability pk =
     model_adapter_error ''UnsupportedCapabilityError''
     (''Provider'' @ (if truthy pk then '' '' @ quoted (from_option [] pk) else [])
       @ '' does not support capability: '' @ capability @ ''.'')
     UNSUPPORTED_CAPABILITY (Some 400) (Some False) pk None None None None"

lemmas adapter_error_defs = authentication_error_def authorization_error_def rate_limit_error_def
  invalid_request_error_def model_not_found_error_def content_filtered_error_def
  context_length_exceeded_error_def provider_unavailable_error_def connection_failed_error_def
  request_timeout_error_def request_aborted_error_def unknown_model_adapter_error_def
  unsupported_provider_kind_error_def unsupported_capability_error_def model_adapter_error_def

text \<open>\<open>mapErrorCodeToHttpStatus\<close>.\<close>

fun mapErrorCodeToHttpStatus :: "adapter_code \<Rightarrow> nat" where
  "mapErrorCodeToHttpStatus AUTHENTICATION_FAILED = 502"
| "mapErrorCodeToHttpStatus AUTHORIZATION_FAILED = 502"
| "mapErrorCodeToHttpStatus CONNECTION_FAILED = 502"
| "mapErrorCodeToHttpStatus UNKNOWN_ERROR = 502"
| "mapErrorCodeToHttpStatus RATE_LIMIT_EXCEEDED = 429"
| "mapErrorCodeToHttpStatus INVALID_REQUEST = 400"
| "mapErrorCodeToHttpStatus UNSUPPORTED_PROVIDER_KIND = 400"
| "mapErrorCodeToHttpStatus UNSUPPORTED_CAPABILITY = 400"
| "mapErrorCodeToHttpStatus MODEL_NOT_FOUND = 404"
| "mapErrorCodeToHttpStatus CONTENT_FILTERED = 422"
| "mapErrorCodeToHttpStatus CONTEXT_LENGTH_EXCEEDED = 413"
| "mapErrorCodeToHttpStatus PROVIDER_UNAVAILABLE = 503"
| "mapErrorCodeToHttpStatus REQUEST_TIMEOUT = 504"
| "mapErrorCodeToHttpStatus REQUEST_ABORTED = 499"

fun show_code :: "adapter_code \<Rightarrow> string" where
  "show_code AUTHENTICATION_FAILED = ''AUTHENTICATION_FAILED''"
| "show_code AUTHORIZATION_FAILED = ''AUTHORIZATION_FAILED''"
| "show_code RATE_LIMIT_EXCEEDED = ''RATE_LIMIT_EXCEEDED''"
| "show_code INVALID_REQUEST = ''INVALID_REQUEST''"
| "show_code MODEL_NOT_FOUND = ''MODEL_NOT_FOUND''"
| "show_code CONTENT_FILTERED = ''CONTENT_FILTERED''"
| "show_code CONTEXT_LENGTH_EXCEEDED = ''CONTEXT_LENGTH_EXCEEDED''"
| "show_code PROVIDER_UNAVAILABLE = ''PROVIDER_UNAVAILABLE''"
| "show_code CONNECTION_FAILED = ''CONNECTION_FAILED''"
| "show_code REQUEST_TIMEOUT = ''REQUEST_TIMEOUT''"
| "show_code REQUEST_ABORTED = ''REQUEST_ABORTED''"
| "show_code UNSUPPORTED_PROVIDER_KIND = ''UNSUPPORTED_PROVIDER_KIND''"
| "show_code UNSUPPORTED_CAPABILITY = ''UNSUPPORTED_CAPABILITY''"
| "show_code UNKNOWN_ERROR = ''UNKNOWN_ERROR''"

section \<open>Redaction\<close>

definition REDACTED_MARKER :: string where
  "REDACTED_MARKER = ''[REDACTED]''"

definition REDACTED_KEY_MARKER :: string where
  "REDACTED_KEY_MARKER = ''[REDACTED_API_KEY]''"

text \<open>The character classes of the patterns.\<close>

definition key_char :: "char \<Rightarrow> bool" where
  "key_char c = (is_alnum c \<or> c = CHR ''_'' \<or> c = CHR ''-'')"

definition OPENAI_KEY_REGEX :: rx where
  "OPENAI_KEY_REGEX = seqs [Bnd, lit ''sk-'', Rep 20 key_char, Bnd]"

definition ANTHROPIC_KEY_REGEX :: rx where
  "ANTHROPIC_KEY_REGEX = seqs [Bnd, lit ''sk-ant-'', Rep 15 key_char, Bnd]"

definition GOOGLE_KEY_REGEX :: rx where
  "GOOGLE_KEY_REGEX = seqs [Bnd, lit ''AIza'', Rep 30 key_char, Bnd]"

definition BEARER_TOKEN_REGEX :: rx where
  "BEARER_TOKEN_REGEX = seqs [lit_i ''Bearer'', Rep 1 js_ws, Rep 1 (\<lambda>c. key_char c \<or> c = CHR ''.'')]"

definition QUERY_PARAM_KEY_REGEX :: rx where
  "QUERY_PARAM_KEY_REGEX = seqs
     [Cap (seqs [Cls (\<lambda>c. c = CHR ''?'' \<or> c = CHR ''&''),
                 alts [lit_i ''key'',
                       seqs [lit_i ''api'', opt (Cls (\<lambda>c. c = CHR ''_'' \<or> c = CHR ''-'')), lit_i ''key''],
                       lit_i ''secret'', lit_i ''token''],
                 lit ''='']),
      Rep 1 (\<lambda>c. c \<noteq> CHR ''&'' \<and> \<not> js_ws c)]"

definition ORG_IDENTIFIER_REGEX :: rx where
  "ORG_IDENTIFIER_REGEX = seqs [Bnd,
     alts [seqs [lit_i ''org-'', Rep 8 is_alnum],
           seqs [lit_i ''organization:'', Rep 0 js_ws, Rep 1 key_char]]]"

definition ACCOUNT_IDENTIFIER_REGEX :: rx where
  "ACCOUNT_IDENTIFIER_REGEX = seqs [Bnd,
     alts [seqs [lit_i ''acc-'', Rep 8 is_alnum],
           seqs [lit_i ''account'', opt (lit_i ''_id''), lit '':'', Rep 0 js_ws, Rep 1 key_char]]]"

definition PROJECT_IDENTIFIER_REGEX :: rx where
  "PROJECT_IDENTIFIER_REGEX = seqs [Bnd,
     alts [lit_i ''projects/'', seqs [lit_i ''project'', Rep 1 js_ws]], Rep 6 is_digit, Bnd]"

definition USER_IDENTIFIER_REGEX :: rx where
  "USER_IDENTIFIER_REGEX = seqs [Bnd, lit_i ''user'', opt (lit_i ''_id''), lit '':'',
     Rep 0 js_ws, Rep 1 key_char, Bnd]"

definition redact_known :: "string list \<Rightarrow> string \<Rightarrow> string" where
  "redact_known secrets text = foldl (\<lambda>result secret.
     if length (js_trim secret) > 3 then replace_text secret REDACTED_MARKER result else result)
     text secrets"

definition redactSecrets :: "string \<Rightarrow> string list option \<Rightarrow> string" where
  "redactSecrets text knownSecrets =
     (if text = [] then []
      else let r0 = redact_known (from_option [] knownSecrets) text;
               r1 = rx_replace_all ANTHROPIC_KEY_REGEX (\<lambda>_. REDACTED_KEY_MARKER) r0;
               r2 = rx_replace_all OPENAI_KEY_REGEX (\<lambda>_. REDACTED_KEY_MARKER) r1;
               r3 = rx_replace_all GOOGLE_KEY_REGEX (\<lambda>_. REDACTED_KEY_MARKER) r2;
               r4 = rx_replace_all BEARER_TOKEN_REGEX (\<lambda>_. ''Bearer '' @ REDACTED_MARKER) r3;
               r5 = rx_replace_all QUERY_PARAM_KEY_REGEX
                      (\<lambda>m. from_option [] (group1 m) @ REDACTED_MARKER) r4;
               r6 = rx_replace_all ORG_IDENTIFIER_REGEX (\<lambda>_. ''[REDACTED_ORG]'') r5;
               r7 = rx_replace_all ACCOUNT_IDENTIFIER_REGEX (\<lambda>_. ''[REDACTED_ACCOUNT]'') r6;
               r8 = rx_replace_all PROJECT_IDENTIFIER_REGEX (\<lambda>_. ''[REDACTED_PROJECT]'') r7
           in rx_replace_all USER_IDENTIFIER_REGEX (\<lambda>_. ''[REDACTED_USER]'') r8)"

section \<open>The message a client may see\<close>

definition json_falsy :: "json \<Rightarrow> bool" where
  "json_falsy v = (case v of JNull \<Rightarrow> True | JBool b \<Rightarrow> \<not> b | JNum n \<Rightarrow> n = 0 | JStr s \<Rightarrow> s = []
                    | JArr _ \<Rightarrow> False | JObj _ \<Rightarrow> False)"

definition str_field :: "(string \<times> json) list \<Rightarrow> string \<Rightarrow> string option" where
  "str_field kvs k = (case map_of kvs k of Some (JStr s) \<Rightarrow> Some s | _ \<Rightarrow> None)"

definition gemini_safety_block :: "(string \<times> json) list \<Rightarrow> bool" where
  "gemini_safety_block kvs = (case map_of kvs ''promptFeedback'' of
     Some (JObj fb) \<Rightarrow> str_field fb ''blockReason'' = Some ''SAFETY'' | _ \<Rightarrow> False)"

text \<open>The candidate message of a parsed body: \<open>error\<close>, \<open>error.message\<close>, \<open>message\<close>, \<open>detail\<close>.\<close>

definition object_candidate :: "(string \<times> json) list \<Rightarrow> string option" where
  "object_candidate kvs =
     (let c1 = (case map_of kvs ''error'' of
                  Some (JStr s) \<Rightarrow> Some s
                | Some (JObj e) \<Rightarrow> str_field e ''message''
                | _ \<Rightarrow> None);
          c2 = (if \<not> truthy c1 \<and> str_field kvs ''message'' \<noteq> None then str_field kvs ''message'' else c1)
      in if \<not> truthy c2 \<and> str_field kvs ''detail'' \<noteq> None then str_field kvs ''detail'' else c2)"

definition finish_candidate ::
  "string option \<Rightarrow> string \<Rightarrow> string list option \<Rightarrow> string" where
  "finish_candidate candidate fallback knownSecrets =
     (case candidate of
        None \<Rightarrow> fallback
      | Some c \<Rightarrow>
          if js_trim c = [] then fallback
          else let clean = redactSecrets (js_trim c) knownSecrets in
            if prefix ''<!DOCTYPE'' clean \<or> prefix ''<html'' clean
               \<or> prefix [CHR ''{'', CHR 0x22] clean then fallback
            else if length clean > 300 then take 297 clean @ ''...'' else clean)"

text \<open>
  A body that is no string. A JSON text between braces parses to an object, so the
  recursive call of the source on the parsed text is this function.
\<close>

definition extract_from_value ::
  "json \<Rightarrow> string \<Rightarrow> string list option \<Rightarrow> string" where
  "extract_from_value v fallback knownSecrets =
     (if json_falsy v then fallback
      else case v of
        JObj kvs \<Rightarrow>
          if gemini_safety_block kvs then ''Generation was blocked by Google Gemini safety filters.''
          else finish_candidate (object_candidate kvs) fallback knownSecrets
      | JStr s \<Rightarrow> finish_candidate (Some s) fallback knownSecrets
      | _ \<Rightarrow> finish_candidate None fallback knownSecrets)"

text \<open>\<open>JSON.parse\<close> of the engine is the parameter \<open>parse\<close>; \<^const>\<open>None\<close> is a \<open>SyntaxError\<close>.\<close>

definition extractSafeErrorMessage ::
  "(string \<Rightarrow> json option) \<Rightarrow> json option \<Rightarrow> string \<Rightarrow> string list option \<Rightarrow> string" where
  "extractSafeErrorMessage parse rawBody fallback knownSecrets =
     (case rawBody of
        None \<Rightarrow> fallback
      | Some (JStr body) \<Rightarrow>
          if body = [] then fallback
          else let trimmed = js_trim body in
            (case (if prefix ''{'' trimmed \<and> suffix ''}'' trimmed then parse trimmed else None) of
               Some v \<Rightarrow> extract_from_value v fallback knownSecrets
             | None \<Rightarrow> finish_candidate (Some body) fallback knownSecrets)
      | Some v \<Rightarrow> extract_from_value v fallback knownSecrets)"

definition sanitizeErrorCause :: "exn option \<Rightarrow> string list option \<Rightarrow> exn option" where
  "sanitizeErrorCause cause knownSecrets =
     (case cause of
        None \<Rightarrow> None
      | Some (ThrownString s) \<Rightarrow>
          if s = [] then Some (ThrownString s) else Some (ThrownString (redactSecrets s knownSecrets))
      | Some (Err _ name msg stack _) \<Rightarrow>
          Some (Err (Plain None) name (redactSecrets msg knownSecrets)
                 (if stack \<noteq> [] then redactSecrets stack knownSecrets else []) None))"

section \<open>Classification of an upstream failure\<close>

record normalize_input =
  ni_providerKind :: string
  ni_status :: "nat option"
  ni_errorBody :: "json option"
  ni_rawMessage :: "string option"
  ni_model :: "string option"
  ni_cause :: "exn option"
  ni_retryAfterHeader :: "string option"
  ni_knownSecrets :: "string list option"

text \<open>\<open>parseInt(s, 10)\<close>: leading white space, a sign, then the digits there are.\<close>

definition js_parse_int :: "string \<Rightarrow> int option" where
  "js_parse_int s =
     (let t = dropWhile js_ws s;
          neg = prefix ''-'' t;
          u = (if prefix ''-'' t \<or> prefix ''+'' t then tl t else t);
          ds = takeWhile is_digit u;
          n = foldl (\<lambda>a c. 10 * a + (int (code_unit c) - 48)) 0 ds
      in if ds = [] then None else Some (if neg then - n else n))"

definition cause_code :: "exn option \<Rightarrow> string option" where
  "cause_code cause = (case cause of
     Some (Err (Plain c) _ _ _ _) \<Rightarrow> c
   | Some (Err (Adapter i) _ _ _ _) \<Rightarrow> Some (show_code (ai_code i))
   | _ \<Rightarrow> None)"

definition cause_msg :: "exn option \<Rightarrow> string" where
  "cause_msg cause = (case cause of
     None \<Rightarrow> [] | Some (Err _ _ m _ _) \<Rightarrow> m | Some (ThrownString s) \<Rightarrow> s)"

definition is_abort_cause :: "exn option \<Rightarrow> bool" where
  "is_abort_cause cause = ((case cause of Some (Err _ name _ _ _) \<Rightarrow> name = ''AbortError'' | _ \<Rightarrow> False)
     \<or> cause_code cause = Some ''ABORT_ERR'')"

definition is_connection_failure :: "exn option \<Rightarrow> bool" where
  "is_connection_failure cause =
     (cause_code cause \<in> Some ` {''ECONNREFUSED'', ''ENOTFOUND'', ''ECONNRESET'', ''EAI_AGAIN''}
      \<or> js_includes (js_lower (cause_msg cause)) ''fetch failed''
      \<or> js_includes (js_lower (cause_msg cause)) ''network error'')"

definition is_timeout :: "nat option \<Rightarrow> exn option \<Rightarrow> bool" where
  "is_timeout status cause =
     (status = Some 504 \<or> cause_code cause = Some ''ETIMEDOUT''
      \<or> js_includes (js_lower (cause_msg cause)) ''timed out''
      \<or> js_includes (js_lower (cause_msg cause)) ''timeout'')"

definition includes_any :: "string \<Rightarrow> string list \<Rightarrow> bool" where
  "includes_any s ps = list_ex (js_includes s) ps"

definition retry_after_seconds :: "string option \<Rightarrow> int option" where
  "retry_after_seconds header = (case header of
     None \<Rightarrow> None
   | Some h \<Rightarrow> (case js_parse_int h of Some n \<Rightarrow> if n > 0 then Some n else None | None \<Rightarrow> None))"

text \<open>The rules that look at the status and at the safe message, in the source's order.\<close>

definition classify_response ::
  "normalize_input \<Rightarrow> exn option \<Rightarrow> string \<Rightarrow> exn" where
  "classify_response inp cause safeMessage =
     (let pk = ni_providerKind inp; status = ni_status inp; model = ni_model inp;
          lowerMsg = js_lower safeMessage; has = includes_any lowerMsg in
      if status = Some 429 \<or> has [''rate limit'', ''resource_exhausted'', ''insufficient_quota'',
                                   ''quota exceeded'']
      then rate_limit_error (pk @ '' rate limit exceeded: '' @ safeMessage) (Some pk)
             (retry_after_seconds (ni_retryAfterHeader inp)) cause model
      else if status = Some 401 \<or> status = Some 403
              \<or> has [''invalid_api_key'', ''unauthenticated'', ''api key not valid'']
      then (if status = Some 403
               \<or> has [''permission_denied'', ''unauthorized model'', ''access not granted'']
            then authorization_error (pk @ '' authorization failed: '' @ safeMessage) (Some pk) cause model
            else authentication_error (pk @ '' authentication failed: '' @ safeMessage) (Some pk) cause model)
      else if status = Some 404 \<or> has [''not found'', ''try pulling'', ''does not exist'']
      then model_not_found_error (from_option ''unknown'' model) (Some pk)
             (Some (if pk = ''ollama'' \<and> truthy model
                    then ''Model '' @ quoted (from_option [] model) @ '' is not installed in Ollama. Run ''
                         @ [CHR 0x27] @ ''ollama pull '' @ from_option [] model @ [CHR 0x27] @ '' to install it.''
                    else ''Model '' @ quoted (from_option ''unknown'' model)
                         @ '' was not found for provider '' @ quoted pk @ ''.''))
             cause
      else if status = Some 422
              \<or> has [''safety'', ''blocked by safety'', ''content filter'', ''harm_category'']
      then content_filtered_error (''Generation was blocked by '' @ pk @ '' safety or moderation filters.'')
             (Some pk) cause model
      else if status = Some 413
              \<or> (status = Some 400 \<and> has [''context length'', ''prompt is too long'', ''maximum token'',
                                            ''too many tokens'', ''input token limit''])
      then context_length_exceeded_error (pk @ '' context length exceeded: '' @ safeMessage)
             (Some pk) cause model
      else if status = Some 400
      then invalid_request_error (pk @ '' rejected request: '' @ safeMessage) (Some pk) cause model
      else if (case status of None \<Rightarrow> False | Some n \<Rightarrow> n = 529 \<or> n \<ge> 500)
      then provider_unavailable_error
             (pk @ '' service unavailable (HTTP '' @ show_nat (from_option 0 status) @ ''): '' @ safeMessage)
             (Some pk) cause model
      else unknown_model_adapter_error (pk @ '' error: '' @ safeMessage) (Some pk) cause model)"

definition normalizeProviderError ::
  "(string \<Rightarrow> json option) \<Rightarrow> normalize_input \<Rightarrow> exn" where
  "normalizeProviderError parse inp =
     (let pk = ni_providerKind inp; status = ni_status inp; model = ni_model inp;
          cause = ni_cause inp; secrets = ni_knownSecrets inp;
          sanitizedCause = sanitizeErrorCause cause secrets in
      case cause of
        Some e \<Rightarrow>
          if is_adapter_error e then e
          else if status = Some 499 \<or> is_abort_cause cause
          then request_aborted_error ''The model request was aborted.'' (Some pk) sanitizedCause model
          else if is_connection_failure cause
          then connection_failed_error
                 (if pk = ''ollama''
                  then ''Ollama is not running at http://localhost:11434. Please ensure the Ollama daemon is started.''
                  else ''Failed to connect to '' @ pk @ '' endpoint. Check network connectivity.'')
                 (Some pk) sanitizedCause model
          else if is_timeout status cause
          then request_timeout_error (''Request to '' @ pk @ '' timed out.'') (Some pk) sanitizedCause model
          else classify_response inp sanitizedCause
                 (redactSecrets (from_option
                    (extractSafeErrorMessage parse (ni_errorBody inp) ''Provider request failed.'' secrets)
                    (ni_rawMessage inp)) secrets)
      | None \<Rightarrow>
          if status = Some 499
          then request_aborted_error ''The model request was aborted.'' (Some pk) sanitizedCause model
          else if is_timeout status None
          then request_timeout_error (''Request to '' @ pk @ '' timed out.'') (Some pk) sanitizedCause model
          else classify_response inp sanitizedCause
                 (redactSecrets (from_option
                    (extractSafeErrorMessage parse (ni_errorBody inp) ''Provider request failed.'' secrets)
                    (ni_rawMessage inp)) secrets))"

section \<open>The in-band error of a stream\<close>

record stream_error_payload =
  sep_code :: string
  sep_message :: string
  sep_retryable :: bool
  sep_providerKind :: "string option"
  sep_model :: "string option"
  sep_retryAfterSeconds :: "int option"

definition present :: "string option \<Rightarrow> string option" where
  "present x = (if truthy x then x else None)"

definition toStreamErrorPayload :: "exn \<Rightarrow> stream_error_payload" where
  "toStreamErrorPayload e =
     (case e of
        Err (Adapter i) _ msg _ _ \<Rightarrow>
          \<lparr>sep_code = show_code (ai_code i), sep_message = msg, sep_retryable = ai_retryable i,
           sep_providerKind = present (ai_providerKind i), sep_model = present (ai_modelIdentifier i),
           sep_retryAfterSeconds = ai_retryAfterSeconds i\<rparr>
      | _ \<Rightarrow>
          \<lparr>sep_code = ''UNKNOWN_ERROR'',
           sep_message = ''An unexpected error occurred during generation.'',
           sep_retryable = False, sep_providerKind = None, sep_model = None,
           sep_retryAfterSeconds = None\<rparr>)"

text \<open>The serialised form of an adapter error (\<open>toJSON\<close>).\<close>

definition adapter_error_toJSON :: "exn \<Rightarrow> (string \<times> json) list" where
  "adapter_error_toJSON e =
     (case e of
        Err (Adapter i) name msg _ _ \<Rightarrow>
          [(''name'', JStr name), (''code'', JStr (show_code (ai_code i))), (''message'', JStr msg),
           (''statusCode'', JNum (of_nat (ai_statusCode i))), (''retryable'', JBool (ai_retryable i))]
          @ (case ai_providerKind i of None \<Rightarrow> [] | Some p \<Rightarrow> [(''providerKind'', JStr p)])
          @ (case ai_modelIdentifier i of None \<Rightarrow> []
               | Some m \<Rightarrow> [(''modelIdentifier'', JStr m), (''model'', JStr m)])
          @ (case ai_retryAfterSeconds i of None \<Rightarrow> []
               | Some s \<Rightarrow> [(''retryAfterSeconds'', JNum (of_int s))])
          @ (if ai_isCancellation i then [(''isCancellation'', JBool True)] else [])
      | _ \<Rightarrow> [])"

text \<open>
  The redaction the completion handlers apply to what an adapter threw: an adapter
  error keeps its class, with its message and its cause redacted when there is a key;
  anything else is normalised.
\<close>

definition exn_truthy :: "exn \<Rightarrow> bool" where
  "exn_truthy e = (case e of ThrownString s \<Rightarrow> s \<noteq> [] | _ \<Rightarrow> True)"

definition redact_adapter_error :: "string \<Rightarrow> exn \<Rightarrow> exn" where
  "redact_adapter_error key e =
     (case e of
        Err k name msg stack cause \<Rightarrow>
          Err k name (redactSecrets msg (Some [key])) stack
            (case cause of
               None \<Rightarrow> None
             | Some c \<Rightarrow> if exn_truthy c then sanitizeErrorCause cause (Some [key]) else cause)
      | ThrownString s \<Rightarrow> ThrownString s)"

definition provider_failure ::
  "(string \<Rightarrow> json option) \<Rightarrow> string \<Rightarrow> string \<Rightarrow> string option \<Rightarrow> exn \<Rightarrow> exn" where
  "provider_failure parse kind model apiKey e =
     (if is_adapter_error e
      then (if truthy apiKey then redact_adapter_error (from_option [] apiKey) e else e)
      else normalizeProviderError parse
             \<lparr>ni_providerKind = kind, ni_status = None, ni_errorBody = None, ni_rawMessage = None,
              ni_model = Some model, ni_cause = Some e, ni_retryAfterHeader = None,
              ni_knownSecrets = (if truthy apiKey then Some [from_option [] apiKey] else None)\<rparr>)"

section \<open>Every classified failure is consistent\<close>

definition retryable_code :: "adapter_code \<Rightarrow> bool" where
  "retryable_code c = (c \<in> {RATE_LIMIT_EXCEEDED, PROVIDER_UNAVAILABLE, CONNECTION_FAILED, REQUEST_TIMEOUT})"

definition consistent_error :: "exn \<Rightarrow> bool" where
  "consistent_error e = (case e of
     Err (Adapter i) _ _ _ _ \<Rightarrow>
       ai_statusCode i = mapErrorCodeToHttpStatus (ai_code i)
       \<and> ai_retryable i = retryable_code (ai_code i)
       \<and> ai_isCancellation i = (ai_code i = REQUEST_ABORTED)
   | _ \<Rightarrow> False)"

lemma consistent_adapter_errors [simp]:
  "consistent_error (authentication_error m pk c md)"
  "consistent_error (authorization_error m pk c md)"
  "consistent_error (rate_limit_error m pk r c md)"
  "consistent_error (invalid_request_error m pk c md)"
  "consistent_error (model_not_found_error mid pk mo c)"
  "consistent_error (content_filtered_error m pk c md)"
  "consistent_error (context_length_exceeded_error m pk c md)"
  "consistent_error (provider_unavailable_error m pk c md)"
  "consistent_error (connection_failed_error m pk c md)"
  "consistent_error (request_timeout_error m pk c md)"
  "consistent_error (request_aborted_error m pk c md)"
  "consistent_error (unknown_model_adapter_error m pk c md)"
  "consistent_error (unsupported_provider_kind_error k ks)"
  by (simp_all add: consistent_error_def adapter_error_defs retryable_code_def)

lemma consistent_is_adapter_error: "consistent_error e \<Longrightarrow> is_adapter_error e"
  by (cases e) (auto simp: consistent_error_def is_adapter_error_def split: error_kind.splits)

lemma consistent_classify_response: "consistent_error (classify_response inp cause msg)"
  by (simp add: classify_response_def Let_def)

lemma normalize_adapter_or_consistent:
  "(\<exists>e. ni_cause inp = Some e \<and> is_adapter_error e \<and> normalizeProviderError parse inp = e)
   \<or> consistent_error (normalizeProviderError parse inp)"
  by (simp add: normalizeProviderError_def Let_def consistent_classify_response split: option.split)

lemma is_adapter_error_normalize: "is_adapter_error (normalizeProviderError parse inp)"
  using normalize_adapter_or_consistent [of inp parse] consistent_is_adapter_error by auto

lemma consistent_redact [simp]:
  "consistent_error (redact_adapter_error k e) \<longleftrightarrow> consistent_error e"
  by (cases e) (simp_all add: redact_adapter_error_def consistent_error_def)

lemma is_adapter_error_redact [simp]:
  "is_adapter_error (redact_adapter_error k e) \<longleftrightarrow> is_adapter_error e"
  by (cases e) (simp_all add: redact_adapter_error_def is_adapter_error_def)

lemma is_adapter_error_provider_failure: "is_adapter_error (provider_failure parse kind model key e)"
  by (simp add: provider_failure_def is_adapter_error_normalize)

lemma finish_candidate_length:
  "length (finish_candidate c fallback secrets) \<le> max 300 (length fallback)"
  by (auto simp: finish_candidate_def Let_def split: option.split)

end
