(* ===== verification/Persistence.thy ===== *)
theory Persistence
  imports Prelude "HOL-Library.Word" "HOL-Library.List_Lexorder" "HOL-Library.Product_Lexorder"
begin

text \<open>
  \<open>common/persistence/\<close>: the identifiers and timestamps every table stores. Stored text
  is compared by SQLite byte by byte, which on this alphabet is the lexicographic
  order \<open><\<close> of \<open>HOL-Library.List_Lexorder\<close> on strings.
\<close>

unbundle bit_operations_syntax

section \<open>UUIDv7 identifiers\<close>

type_synonym byte = "8 word"

text \<open>
  The loop that writes the timestamp into bytes 5 down to 0: the low byte, then
  \<open>Math.floor(timestamp / 256)\<close>.
\<close>

fun timestamp_bytes :: "nat \<Rightarrow> nat \<Rightarrow> byte list" where
  "timestamp_bytes 0 t = []"
| "timestamp_bytes (Suc k) t = timestamp_bytes k (t div 256) @ [of_nat (t mod 256)]"

definition uuid_bytes :: "nat \<Rightarrow> byte list \<Rightarrow> byte list" where
  "uuid_bytes now rnd =
     (let bytes = timestamp_bytes 6 now @ take 10 rnd;
          b6 = bytes[6 := ((bytes ! 6) AND 0x0f) OR 0x70]
      in b6[8 := ((b6 ! 8) AND 0x3f) OR 0x80])"

definition hex_digit :: "nat \<Rightarrow> char" where
  "hex_digit d = (if d < 10 then char_of (48 + d) else char_of (87 + d))"

definition hex_byte :: "byte \<Rightarrow> string" where
  "hex_byte b = [hex_digit (unat b div 16), hex_digit (unat b mod 16)]"

definition slice :: "nat \<Rightarrow> nat \<Rightarrow> 'a list \<Rightarrow> 'a list" where
  "slice a b xs = take (b - a) (drop a xs)"

definition formatUuid :: "byte list \<Rightarrow> string" where
  "formatUuid bytes =
     (let hex = concat (map hex_byte bytes)
      in js_join ''-'' [slice 0 8 hex, slice 8 12 hex, slice 12 16 hex, slice 16 20 hex, slice 20 32 hex])"

text \<open>\<open>newId()\<close> with the clock reading and the ten random bytes it draws.\<close>

definition newId :: "nat \<Rightarrow> byte list \<Rightarrow> string" where
  "newId now rnd = formatUuid (uuid_bytes now rnd)"

subsection \<open>The sixteen bytes\<close>

lemma length_timestamp_bytes [simp]: "length (timestamp_bytes k t) = k"
  by (induction k t rule: timestamp_bytes.induct) simp_all

lemma length_uuid_bytes [simp]: "length rnd = 10 \<Longrightarrow> length (uuid_bytes t rnd) = 16"
  by (simp add: uuid_bytes_def Let_def)

lemma length_hex_byte [simp]: "length (hex_byte b) = 2"
  by (simp add: hex_byte_def)

lemma length_hex_bytes [simp]: "length (concat (map hex_byte bs)) = 2 * length bs"
  by (induction bs) simp_all

lemma take_uuid_bytes: "length rnd = 10 \<Longrightarrow> take 6 (uuid_bytes t rnd) = timestamp_bytes 6 t"
  by (simp add: uuid_bytes_def Let_def)

lemma hex_digit_less: "d < 16 \<Longrightarrow> e < 16 \<Longrightarrow> hex_digit d < hex_digit e \<longleftrightarrow> d < e"
  by (auto simp: hex_digit_def less_char_def)

lemma hex_digit_eq: "d < 16 \<Longrightarrow> e < 16 \<Longrightarrow> hex_digit d = hex_digit e \<longleftrightarrow> d = e"
  using hex_digit_less [of d e] hex_digit_less [of e d] by (cases d e rule: linorder_cases) auto

lemma nibble_less:
  "(m :: nat) < n \<longleftrightarrow> m div 16 < n div 16 \<or> (m div 16 = n div 16 \<and> m mod 16 < n mod 16)"
proof -
  obtain a b where m: "a = m div 16" "b = m mod 16" by simp
  obtain c d where n: "c = n div 16" "d = n mod 16" by simp
  have "m = 16 * a + b" "b < 16" "n = 16 * c + d" "d < 16" by (simp_all add: m n)
  then show ?thesis unfolding m [symmetric] n [symmetric] by auto
qed

lemma hex_byte_less: "hex_byte a < hex_byte b \<longleftrightarrow> unat a < unat b"
proof -
  have a: "unat a < 256" "unat b < 256"
    using unsigned_less [of a, where ?'a = nat] unsigned_less [of b, where ?'a = nat] by simp_all
  then have d: "unat a div 16 < 16" "unat b div 16 < 16" by simp_all
  have "unat a < unat b \<longleftrightarrow> unat a div 16 < unat b div 16
     \<or> (unat a div 16 = unat b div 16 \<and> unat a mod 16 < unat b mod 16)"
    by (rule nibble_less)
  then show ?thesis
    by (simp add: hex_byte_def hex_digit_eq hex_digit_less d)
qed

lemma hex_byte_inj: "hex_byte a = hex_byte b \<longleftrightarrow> a = b"
  using hex_byte_less [of a b] hex_byte_less [of b a]
  by (metis less_irrefl linorder_neqE_nat word_unat_eq_iff)

lemma append_less_iff:
  "length xs = length ys \<Longrightarrow> xs @ us < ys @ vs \<longleftrightarrow> xs < ys \<or> (xs = ys \<and> us < (vs :: 'a :: order list))"
  by (induction xs ys rule: list_induct2) auto

lemma hex_bytes_less:
  "length as = length bs \<Longrightarrow> map unat as < map unat bs \<Longrightarrow>
   concat (map hex_byte as) < concat (map hex_byte bs)"
  by (induction as bs rule: list_induct2)
    (auto simp: append_less_iff hex_byte_less hex_byte_inj word_unat_eq_iff)

lemma timestamp_bytes_less:
  "t < u \<Longrightarrow> u < 256 ^ k \<Longrightarrow> map unat (timestamp_bytes k t) < map unat (timestamp_bytes k u)"
proof (induction k arbitrary: t u)
  case 0
  then show ?case by simp
next
  case (Suc k)
  have u: "u div 256 < 256 ^ k" using Suc.prems(2) by (simp add: less_mult_imp_div_less mult.commute)
  have m: "unat (of_nat (n mod 256) :: byte) = n mod 256" for n
    by (simp add: unat_of_nat)
  show ?case
  proof (cases "t div 256 < u div 256")
    case True
    from Suc.IH [OF this u] show ?thesis by (simp add: append_less_iff)
  next
    case False
    with Suc.prems(1) have eq: "t div 256 = u div 256" by (meson div_le_mono le_neq_implies_less less_imp_le)
    with Suc.prems(1) have "t mod 256 < u mod 256"
      by (metis div_mult_mod_eq nat_add_left_cancel_less)
    with eq show ?thesis by (simp add: append_less_iff m)
  qed
qed


text \<open>The 36 characters: eight hexadecimal digits, a dash, four more, and so on.\<close>

lemma newId_split:
  fixes t :: nat
  assumes r: "length rnd = 10"
  defines "T \<equiv> concat (map hex_byte (timestamp_bytes 6 t))"
  shows "\<exists>rest. newId t rnd = take 8 T @ ''-'' @ drop 8 T @ ''-'' @ rest"
proof -
  have "concat (map hex_byte (uuid_bytes t rnd)) = T @ concat (map hex_byte (drop 6 (uuid_bytes t rnd)))"
    unfolding T_def using take_uuid_bytes [OF r, of t]
    by (metis append_take_drop_id concat_append map_append)
  moreover have "length T = 12" by (simp add: T_def del: timestamp_bytes.simps)
  ultimately show ?thesis
    by (simp add: newId_def formatUuid_def Let_def slice_def take_drop)
qed

lemma split_dash_less:
  assumes "length xs = length ys" "xs < (ys :: string)"
  shows "take n xs @ sep @ drop n xs < take n ys @ sep @ drop n ys"
proof -
  have "take n xs @ drop n xs < take n ys @ drop n ys" using assms(2) by simp
  with assms(1) show ?thesis by (auto simp: append_less_iff simp del: append_take_drop_id)
qed

lemma newId_mono:
  assumes r: "length r1 = 10" "length r2 = 10" and t: "t1 < t2" "t2 < 2 ^ 48"
  shows "newId t1 r1 < newId t2 r2"
proof -
  let ?T = "\<lambda>t. concat (map hex_byte (timestamp_bytes 6 t))"
  have len: "length (?T t) = 12" for t by (simp del: timestamp_bytes.simps)
  have "map unat (timestamp_bytes 6 t1) < map unat (timestamp_bytes 6 t2)"
    using t by (intro timestamp_bytes_less) simp_all
  then have "?T t1 < ?T t2" by (intro hex_bytes_less) simp_all
  then have less: "take 8 (?T t1) @ ''-'' @ drop 8 (?T t1) < take 8 (?T t2) @ ''-'' @ drop 8 (?T t2)"
    by (intro split_dash_less) (simp_all add: len)
  obtain u where u: "newId t1 r1 = (take 8 (?T t1) @ ''-'' @ drop 8 (?T t1)) @ ''-'' @ u"
    using newId_split [OF r(1), of t1] by auto
  obtain v where v: "newId t2 r2 = (take 8 (?T t2) @ ''-'' @ drop 8 (?T t2)) @ ''-'' @ v"
    using newId_split [OF r(2), of t2] by auto
  show ?thesis unfolding u v using less by (subst append_less_iff) (simp_all add: len)
qed


text \<open>The version nibble and the variant bits.\<close>

lemma high_nibble: "unat (b :: byte) div 16 = unat (drop_bit 4 b)"
  by (simp only: unat_drop_bit_eq) (simp add: drop_bit_eq_div)

lemma version_nibble: "unat (((b :: byte) AND 0x0f) OR 0x70) div 16 = 7"
  by (simp add: high_nibble drop_bit_and drop_bit_or)

lemma and_three: "(b :: byte) AND 3 \<in> {0, 1, 2, 3}"
proof -
  have "unat (b AND 3) \<le> unat (3 :: byte)"
    by (rule word_and_le1 [THEN word_le_nat_alt [THEN iffD1]])
  then have "unat (b AND 3) \<in> {0, 1, 2, 3}" by auto
  then show ?thesis by (auto simp: word_unat_eq_iff)
qed

lemma variant_nibble: "unat (((b :: byte) AND 0x3f) OR 0x80) div 16 \<in> {8, 9, 10, 11}"
  using and_three [of "drop_bit 4 b"] by (auto simp: high_nibble drop_bit_and drop_bit_or)


text \<open>
  The shape \<open>xxxxxxxx-xxxx-7xxx-Vxxx-xxxxxxxxxxxx\<close> with lowercase hexadecimal digits
  and \<open>V\<close> one of \<open>8\<close>, \<open>9\<close>, \<open>a\<close>, \<open>b\<close>.
\<close>

definition is_hex :: "char \<Rightarrow> bool" where
  "is_hex c = (c \<in> set ''0123456789abcdef'')"

definition matches_mask :: "char \<Rightarrow> char \<Rightarrow> bool" where
  "matches_mask m c = (if m = CHR ''x'' then is_hex c else if m = CHR ''V'' then c \<in> set ''89ab'' else c = m)"

definition is_uuid_v7 :: "string \<Rightarrow> bool" where
  "is_uuid_v7 s = list_all2 matches_mask ''xxxxxxxx-xxxx-7xxx-Vxxx-xxxxxxxxxxxx'' s"

lemma hex_digit_upt: "map hex_digit [0..<16] = ''0123456789abcdef''"
  by code_simp

lemma is_hex_digit: "d < 16 \<Longrightarrow> is_hex (hex_digit d)"
  unfolding is_hex_def hex_digit_upt [symmetric] by simp

lemma is_hex_byte: "is_hex (hex_digit (unat (b :: byte) div 16))" "is_hex (hex_digit (unat b mod 16))"
  using unsigned_less [of b, where ?'a = nat] by (auto intro!: is_hex_digit)

lemma hex_digit_values: "hex_digit 7 = CHR ''7''" "hex_digit 8 = CHR ''8''" "hex_digit 9 = CHR ''9''"
  "hex_digit 10 = CHR ''a''" "hex_digit 11 = CHR ''b''"
  by code_simp+

lemma mask_hex: "length xs = n \<Longrightarrow> \<forall>c\<in>set xs. is_hex c \<Longrightarrow> list_all2 matches_mask (replicate n (CHR ''x'')) xs"
  by (auto simp: list_all2_conv_all_nth matches_mask_def)

lemma mask_split: "''xxxxxxxx-xxxx-7xxx-Vxxx-xxxxxxxxxxxx''
  = replicate 8 (CHR ''x'') @ ''-'' @ replicate 4 (CHR ''x'') @ ''-'' @ ''7'' @ replicate 3 (CHR ''x'')
    @ ''-'' @ ''V'' @ replicate 3 (CHR ''x'') @ ''-'' @ replicate 12 (CHR ''x'')"
  by (simp add: numeral_eq_Suc)

lemma slice_Cons: "a < b \<Longrightarrow> a < length xs \<Longrightarrow> slice a b xs = xs ! a # slice (Suc a) b xs"
  by (simp add: slice_def Cons_nth_drop_Suc [symmetric] take_Cons' )

lemma length_slice: "length (slice a b xs) = min (length xs - a) (b - a)"
  by (simp add: slice_def min.commute)

lemma set_slice: "set (slice a b xs) \<subseteq> set xs"
  unfolding slice_def by (meson order_trans set_drop_subset set_take_subset)

lemma uuid_shape:
  assumes h: "length hx = 32" "\<forall>c\<in>set hx. is_hex c" "hx ! 12 = CHR ''7''" "hx ! 16 \<in> set ''89ab''"
  shows "is_uuid_v7 (js_join ''-'' [slice 0 8 hx, slice 8 12 hx, slice 12 16 hx, slice 16 20 hx, slice 20 32 hx])"
proof -
  have m: "list_all2 matches_mask (replicate n (CHR ''x'')) (slice a b hx)" if "b - a = n" "b \<le> 32" for a b n
    using that h(1,2) set_slice [of a b hx] by (intro mask_hex) (auto simp: length_slice)
  have dash: "list_all2 matches_mask ''-'' ''-''" and seven: "list_all2 matches_mask ''7'' [hx ! 12]"
    by (simp_all add: matches_mask_def h(3))
  have var: "list_all2 matches_mask ''V'' [hx ! 16]"
    using h(4) by (simp add: matches_mask_def)
  have eq: "js_join ''-'' [slice 0 8 hx, slice 8 12 hx, slice 12 16 hx, slice 16 20 hx, slice 20 32 hx]
    = slice 0 8 hx @ ''-'' @ slice 8 12 hx @ ''-'' @ [hx ! 12] @ slice 13 16 hx @ ''-'' @ [hx ! 16]
      @ slice 17 20 hx @ ''-'' @ slice 20 32 hx"
    using h(1) slice_Cons [of 12 16 hx] slice_Cons [of 16 20 hx] by simp
  note app = list_all2_appendI
  have "list_all2 matches_mask
     (replicate 8 (CHR ''x'') @ ''-'' @ replicate 4 (CHR ''x'') @ ''-'' @ ''7'' @ replicate 3 (CHR ''x'')
      @ ''-'' @ ''V'' @ replicate 3 (CHR ''x'') @ ''-'' @ replicate 12 (CHR ''x''))
     (slice 0 8 hx @ ''-'' @ slice 8 12 hx @ ''-'' @ [hx ! 12] @ slice 13 16 hx @ ''-'' @ [hx ! 16]
      @ slice 17 20 hx @ ''-'' @ slice 20 32 hx)"
    by (rule app [OF m app [OF dash app [OF m app [OF dash app [OF seven app [OF m app [OF dash
          app [OF var app [OF m app [OF dash m]]]]]]]]]]) simp_all
  then show ?thesis
    unfolding is_uuid_v7_def by (simp only: mask_split eq)
qed

lemma hex_digit_version: "n = 7 \<Longrightarrow> hex_digit n = CHR ''7''"
  by (simp add: hex_digit_values)

lemma hex_digit_variant: "n \<in> {8, 9, 10, 11} \<Longrightarrow> hex_digit n \<in> set ''89ab''"
  by (auto simp: hex_digit_values)

lemma nth_hex_bytes: "i < length bs \<Longrightarrow> concat (map hex_byte bs) ! (2 * i) = hex_digit (unat (bs ! i) div 16)"
proof (induction bs arbitrary: i)
  case (Cons b bs)
  then show ?case by (cases i) (simp_all add: hex_byte_def)
qed simp

lemma uuid_v7_newId:
  assumes r: "length rnd = 10"
  shows "is_uuid_v7 (newId t rnd)"
proof -
  let ?bs = "uuid_bytes t rnd" and ?hx = "concat (map hex_byte (uuid_bytes t rnd))"
  have len: "length ?bs = 16" using r by simp
  have b6: "?bs ! 6 = ((timestamp_bytes 6 t @ take 10 rnd) ! 6 AND 0x0f) OR 0x70"
    using r by (simp add: uuid_bytes_def Let_def del: timestamp_bytes.simps)
  have "?hx ! 12 = hex_digit (unat (?bs ! 6) div 16)"
    using nth_hex_bytes [of 6 ?bs] len by simp
  then have "?hx ! 12 = CHR ''7''"
    by (simp only: b6 version_nibble hex_digit_values)
  moreover obtain b where b8: "?bs ! 8 = (b AND 0x3f) OR 0x80"
    using r by (simp add: uuid_bytes_def Let_def del: timestamp_bytes.simps)
  have h16: "?hx ! 16 = hex_digit (unat (?bs ! 8) div 16)"
    using nth_hex_bytes [of 8 ?bs] len by simp
  have "?hx ! 16 \<in> set ''89ab''"
    unfolding h16 b8 by (rule hex_digit_variant [OF variant_nibble])
  moreover have "\<forall>c\<in>set ?hx. is_hex c"
    by (auto simp: hex_byte_def is_hex_byte)
  moreover have "length ?hx = 32" using len by simp
  ultimately show ?thesis
    unfolding newId_def formatUuid_def Let_def using uuid_shape by blast
qed

section \<open>Timestamps\<close>

text \<open>
  \<open>Date.prototype.toISOString\<close> on a count of milliseconds since the epoch (not before
  it): the proleptic Gregorian calendar date, by whole years and then whole months.
\<close>

definition is_leap :: "nat \<Rightarrow> bool" where
  "is_leap y = (y mod 4 = 0 \<and> (y mod 100 \<noteq> 0 \<or> y mod 400 = 0))"

definition year_days :: "nat \<Rightarrow> nat" where
  "year_days y = (if is_leap y then 366 else 365)"

definition month_days :: "nat \<Rightarrow> nat list" where
  "month_days y = [31, if is_leap y then 29 else 28, 31, 30, 31, 30, 31, 31, 30, 31, 30, 31]"

function split_year :: "nat \<Rightarrow> nat \<Rightarrow> nat \<times> nat" where
  "split_year y d = (if d < year_days y then (y, d) else split_year (y + 1) (d - year_days y))"
  by pat_completeness auto
termination by (relation "measure snd") (auto simp: year_days_def)

declare split_year.simps [simp del]

fun split_month :: "nat list \<Rightarrow> nat \<Rightarrow> nat \<Rightarrow> nat \<times> nat" where
  "split_month [] m d = (m, d)"
| "split_month (l # ls) m d = (if d < l then (m, d) else split_month ls (m + 1) (d - l))"

fun zero_pad :: "nat \<Rightarrow> nat \<Rightarrow> string" where
  "zero_pad 0 n = []"
| "zero_pad (Suc w) n = zero_pad w (n div 10) @ [digit_char (n mod 10)]"

text \<open>The years \<open>0\<close> to \<open>9999\<close> take four digits.\<close>

definition toISOString :: "nat \<Rightarrow> string" where
  "toISOString ms =
     (let days = ms div 86400000; rest = ms mod 86400000;
          (y, yd) = split_year 1970 days;
          (m, d) = split_month (month_days y) 1 yd
      in zero_pad 4 y @ ''-'' @ zero_pad 2 m @ ''-'' @ zero_pad 2 (d + 1) @ ''T''
         @ zero_pad 2 (rest div 3600000) @ '':'' @ zero_pad 2 (rest div 60000 mod 60) @ '':''
         @ zero_pad 2 (rest div 1000 mod 60) @ ''.'' @ zero_pad 3 (rest mod 1000) @ ''Z'')"

text \<open>\<open>nowIso()\<close> with the clock reading it takes.\<close>

definition nowIso :: "nat \<Rightarrow> string" where
  "nowIso now = toISOString now"

lemma length_zero_pad [simp]: "length (zero_pad w n) = w"
  by (induction w n rule: zero_pad.induct) simp_all

lemma length_nowIso [simp]: "length (nowIso t) = 24"
  by (simp add: nowIso_def toISOString_def Let_def split: prod.split)

end
