(* ===== verification/Schema.thy ===== *)
theory Schema
  imports ModelErrors Persistence
begin

text \<open>
  The tables of \<open>data/\<close> and the statements the services run on them. A table is the
  list of its rows in insertion order; a statement is a function on the database that
  either fails with the error the driver throws and changes nothing, or returns the new
  database. Foreign keys are on (\<open>DatabaseService.connect\<close>), so the statements check the
  references of the rows they write, after the \<open>CHECK\<close>, primary key and \<open>UNIQUE\<close>
  constraints, which SQLite reports first.
\<close>

section \<open>Rows\<close>

datatype message_status = Pending | Streaming | Complete | Errored

record chat_row =
  ch_id :: string
  ch_title :: "string option"
  ch_project_id :: "string option"
  ch_agent_id :: "string option"
  ch_team_id :: "string option"
  ch_context_summary :: "string option"
  ch_compacted_before_sequence :: "int option"
  ch_created_at :: string
  ch_updated_at :: string

record message_row =
  msg_id :: string
  msg_chat_id :: string
  msg_sequence :: int
  msg_role :: string
  msg_agent_id :: "string option"
  msg_content :: string
  msg_status :: message_status
  msg_token_count :: "int option"
  msg_created_at :: string

record agent_row =
  ag_id :: string
  ag_name :: string
  ag_personality :: "string option"
  ag_instructions :: "string option"
  ag_system_prompt_id :: "string option"
  ag_model_id :: "string option"
  ag_temperature :: "rat option"
  ag_max_tokens :: "int option"
  ag_model_params :: "string option"
  ag_picture_path :: "string option"
  ag_created_at :: string
  ag_updated_at :: string

record team_row =
  te_id :: string
  te_name :: string
  te_description :: "string option"
  te_strategy :: string
  te_max_turns_per_interaction :: "int option"
  te_created_at :: string
  te_updated_at :: string

record team_member_row =
  tm_team_id :: string
  tm_agent_id :: string
  tm_role :: "string option"
  tm_position :: "int option"
  tm_is_coordinator :: int
  tm_created_at :: string

record model_row =
  mo_id :: string
  mo_provider_id :: string
  mo_model_identifier :: string
  mo_display_name :: string
  mo_source :: string
  mo_context_window :: "int option"
  mo_default_temperature :: "rat option"
  mo_default_max_tokens :: "int option"
  mo_enabled :: int
  mo_created_at :: string
  mo_updated_at :: string

record provider_row =
  pr_id :: string
  pr_name :: string
  pr_kind :: string
  pr_is_local :: int
  pr_base_url :: "string option"
  pr_enabled :: int
  pr_created_at :: string
  pr_updated_at :: string

record credential_row =
  cr_provider_id :: string
  cr_encrypted_value :: "byte list"
  cr_nonce :: "byte list"
  cr_masked_preview :: "string option"
  cr_created_at :: string
  cr_updated_at :: string

record system_prompt_row =
  sp_id :: string
  sp_name :: string
  sp_content :: string
  sp_created_at :: string
  sp_updated_at :: string

record project_row =
  pj_id :: string
  pj_name :: string
  pj_description :: "string option"
  pj_image_path :: "string option"
  pj_created_at :: string
  pj_updated_at :: string

record usage_row =
  us_id :: string
  us_occurred_at :: string
  us_event_type :: string
  us_agent_id :: "string option"
  us_provider_id :: "string option"
  us_model_id :: "string option"
  us_chat_id :: "string option"
  us_input_tokens :: "int option"
  us_output_tokens :: "int option"
  us_cost_usd :: "rat option"
  us_metadata :: "string option"

record agent_memory_row =
  mem_id :: string
  mem_agent_id :: string
  mem_content :: string
  mem_tags :: "string option"
  mem_created_at :: string
  mem_updated_at :: string

record shared_memory_row =
  shm_id :: string
  shm_content :: string
  shm_tags :: "string option"
  shm_created_at :: string
  shm_updated_at :: string

record artifact_row =
  art_id :: string
  art_project_id :: "string option"
  art_chat_id :: "string option"
  art_agent_id :: "string option"
  art_title :: string
  art_type :: string
  art_mime_type :: "string option"
  art_content :: "string option"
  art_file_path :: "string option"
  art_version :: int
  art_created_at :: string
  art_updated_at :: string

record user_profile_row =
  usr_id :: string
  usr_singleton :: int
  usr_display_name :: "string option"
  usr_pronouns :: "string option"
  usr_about :: "string option"
  usr_locale :: "string option"
  usr_timezone :: "string option"
  usr_include_in_prompts :: int
  usr_picture_path :: "string option"
  usr_picture_updated_at :: "string option"
  usr_created_at :: string
  usr_updated_at :: string

record spend_budget_row =
  bud_id :: string
  bud_singleton :: int
  bud_limit_usd :: "rat option"
  bud_period :: string
  bud_created_at :: string
  bud_updated_at :: string

record database =
  chats :: "chat_row list"
  messages :: "message_row list"
  agents :: "agent_row list"
  teams :: "team_row list"
  team_members :: "team_member_row list"
  models :: "model_row list"
  providers :: "provider_row list"
  credentials :: "credential_row list"
  system_prompts :: "system_prompt_row list"
  projects :: "project_row list"
  usage_events :: "usage_row list"
  agent_memories :: "agent_memory_row list"
  shared_memories :: "shared_memory_row list"
  artifacts :: "artifact_row list"
  user_profile :: "user_profile_row list"
  spend_budget :: "spend_budget_row list"

section \<open>Queries\<close>

definition chat_by_id :: "database \<Rightarrow> string \<Rightarrow> chat_row option" where
  "chat_by_id d i = find (\<lambda>r. ch_id r = i) (chats d)"

definition message_by_id :: "database \<Rightarrow> string \<Rightarrow> message_row option" where
  "message_by_id d i = find (\<lambda>r. msg_id r = i) (messages d)"

definition agent_by_id :: "database \<Rightarrow> string \<Rightarrow> agent_row option" where
  "agent_by_id d i = find (\<lambda>r. ag_id r = i) (agents d)"

definition team_by_id :: "database \<Rightarrow> string \<Rightarrow> team_row option" where
  "team_by_id d i = find (\<lambda>r. te_id r = i) (teams d)"

definition model_by_id :: "database \<Rightarrow> string \<Rightarrow> model_row option" where
  "model_by_id d i = find (\<lambda>r. mo_id r = i) (models d)"

definition provider_by_id :: "database \<Rightarrow> string \<Rightarrow> provider_row option" where
  "provider_by_id d i = find (\<lambda>r. pr_id r = i) (providers d)"

definition credential_by_provider :: "database \<Rightarrow> string \<Rightarrow> credential_row option" where
  "credential_by_provider d i = find (\<lambda>r. cr_provider_id r = i) (credentials d)"

definition system_prompt_by_id :: "database \<Rightarrow> string \<Rightarrow> system_prompt_row option" where
  "system_prompt_by_id d i = find (\<lambda>r. sp_id r = i) (system_prompts d)"

definition project_by_id :: "database \<Rightarrow> string \<Rightarrow> project_row option" where
  "project_by_id d i = find (\<lambda>r. pj_id r = i) (projects d)"

text \<open>The rows of one chat, and \<open>ORDER BY sequence ASC\<close>.\<close>

definition chat_messages :: "database \<Rightarrow> string \<Rightarrow> message_row list" where
  "chat_messages d c = filter (\<lambda>r. msg_chat_id r = c) (messages d)"

definition transcript :: "database \<Rightarrow> string \<Rightarrow> message_row list" where
  "transcript d c = sort_key msg_sequence (chat_messages d c)"

text \<open>\<open>SELECT COALESCE(MAX(sequence), 0) + 1 FROM messages WHERE chat_id = ?\<close>.\<close>

definition sql_max :: "int list \<Rightarrow> int option" where
  "sql_max xs = (if xs = [] then None else Some (Max (set xs)))"

definition next_sequence :: "database \<Rightarrow> string \<Rightarrow> int" where
  "next_sequence d c = from_option 0 (sql_max (map msg_sequence (chat_messages d c))) + 1"

section \<open>Statements\<close>

definition sqlite_error :: "string \<Rightarrow> string \<Rightarrow> exn" where
  "sqlite_error code msg = Err (Plain (Some code)) ''SqliteError'' msg [] None"

definition foreign_key_error :: exn where
  "foreign_key_error = sqlite_error ''SQLITE_CONSTRAINT_FOREIGNKEY'' ''FOREIGN KEY constraint failed''"

definition message_roles :: "string list" where
  "message_roles = [''user'', ''assistant'', ''system'', ''tool'']"

definition sql_quote :: "string \<Rightarrow> string" where
  "sql_quote s = [CHR 0x27] @ s @ [CHR 0x27]"

text \<open>A nullable reference: \<open>NULL\<close>, or the key of a row.\<close>

definition references :: "('k \<Rightarrow> 'r option) \<Rightarrow> 'k option \<Rightarrow> bool" where
  "references look k = (case k of None \<Rightarrow> True | Some i \<Rightarrow> look i \<noteq> None)"

definition insert_message :: "message_row \<Rightarrow> database \<Rightarrow> exn + database" where
  "insert_message r d =
     (if msg_role r \<notin> set message_roles
      then Inl (sqlite_error ''SQLITE_CONSTRAINT_CHECK''
             (''CHECK constraint failed: role IN ('' @ js_join '', '' (map sql_quote message_roles) @ '')''))
      else if message_by_id d (msg_id r) \<noteq> None
      then Inl (sqlite_error ''SQLITE_CONSTRAINT_PRIMARYKEY'' ''UNIQUE constraint failed: messages.id'')
      else if list_ex (\<lambda>m. msg_sequence m = msg_sequence r) (chat_messages d (msg_chat_id r))
      then Inl (sqlite_error ''SQLITE_CONSTRAINT_UNIQUE''
             ''UNIQUE constraint failed: messages.chat_id, messages.sequence'')
      else if chat_by_id d (msg_chat_id r) = None \<or> \<not> references (agent_by_id d) (msg_agent_id r)
      then Inl foreign_key_error
      else Inr (d\<lparr>messages := messages d @ [r]\<rparr>))"

text \<open>The insertion that takes the next sequence number of the chat in the same statement.\<close>

definition append_message :: "message_row \<Rightarrow> database \<Rightarrow> exn + database" where
  "append_message r d = insert_message (r\<lparr>msg_sequence := next_sequence d (msg_chat_id r)\<rparr>) d"

definition update_message ::
  "string \<Rightarrow> message_status \<Rightarrow> string \<Rightarrow> int option \<Rightarrow> database \<Rightarrow> exn + database" where
  "update_message i status content tokens d =
     Inr (d\<lparr>messages := map (\<lambda>m. if msg_id m = i
        then m\<lparr>msg_status := status, msg_content := content, msg_token_count := tokens\<rparr> else m) (messages d)\<rparr>)"

definition touch_chat :: "string \<Rightarrow> string \<Rightarrow> database \<Rightarrow> exn + database" where
  "touch_chat i now d =
     Inr (d\<lparr>chats := map (\<lambda>c. if ch_id c = i then c\<lparr>ch_updated_at := now\<rparr> else c) (chats d)\<rparr>)"

definition update_chat_summary ::
  "string \<Rightarrow> string \<Rightarrow> int \<Rightarrow> string \<Rightarrow> database \<Rightarrow> exn + database" where
  "update_chat_summary i summary boundary now d =
     Inr (d\<lparr>chats := map (\<lambda>c. if ch_id c = i
        then c\<lparr>ch_context_summary := Some summary, ch_compacted_before_sequence := Some boundary,
               ch_updated_at := now\<rparr> else c) (chats d)\<rparr>)"

definition insert_usage :: "usage_row \<Rightarrow> database \<Rightarrow> exn + database" where
  "insert_usage r d =
     (if list_ex (\<lambda>u. us_id u = us_id r) (usage_events d)
      then Inl (sqlite_error ''SQLITE_CONSTRAINT_PRIMARYKEY'' ''UNIQUE constraint failed: usage_events.id'')
      else if \<not> references (agent_by_id d) (us_agent_id r) \<or> \<not> references (provider_by_id d) (us_provider_id r)
           \<or> \<not> references (model_by_id d) (us_model_id r) \<or> \<not> references (chat_by_id d) (us_chat_id r)
      then Inl foreign_key_error
      else Inr (d\<lparr>usage_events := usage_events d @ [r]\<rparr>))"

text \<open>\<open>DatabaseService.sweepStrandedMessages\<close>: what a crash left in progress becomes an error.\<close>

definition sweep_row :: "message_row \<Rightarrow> message_row" where
  "sweep_row m = (if msg_status m = Pending \<or> msg_status m = Streaming
     then m\<lparr>msg_status := Errored,
            msg_content := (if msg_content m = [] then ''Generation interrupted unexpectedly''
                            else msg_content m)\<rparr>
     else m)"

definition sweepStrandedMessages :: "database \<Rightarrow> database" where
  "sweepStrandedMessages d = d\<lparr>messages := map sweep_row (messages d)\<rparr>"

section \<open>Sequence numbers\<close>

text \<open>
  In every chat the messages are numbered \<open>1, 2, \<dots>, n\<close> in the order of their insertion,
  and no two messages share an identifier.
\<close>

definition count_up :: "nat \<Rightarrow> int list" where
  "count_up n = map (\<lambda>i. int i + 1) [0..<n]"

definition dense_sequences :: "database \<Rightarrow> bool" where
  "dense_sequences d \<longleftrightarrow>
     (\<forall>c. map msg_sequence (chat_messages d c) = count_up (length (chat_messages d c)))"

definition unique_ids :: "database \<Rightarrow> bool" where
  "unique_ids d \<longleftrightarrow> distinct (map msg_id (messages d))"

lemma count_up_simps [simp]: "count_up 0 = []" "count_up (Suc n) = count_up n @ [int n + 1]"
  by (simp_all add: count_up_def)

lemma length_count_up [simp]: "length (count_up n) = n"
  by (simp add: count_up_def)

lemma set_count_up: "set (count_up n) = {1..int n}"
  by (induction n) auto

lemma sorted_count_up: "sorted (count_up n)"
  by (induction n) (auto simp: sorted_append set_count_up)

lemma sql_max_dense: "from_option 0 (sql_max (count_up n)) = int n"
proof (cases n)
  case (Suc k)
  then have "count_up n \<noteq> []" "Max {1..int n} = int n" by (auto intro!: Max_eqI)
  then show ?thesis by (simp add: sql_max_def set_count_up)
qed (simp add: sql_max_def)

lemma next_sequence_dense:
  "dense_sequences d \<Longrightarrow> next_sequence d c = int (length (chat_messages d c)) + 1"
  unfolding dense_sequences_def next_sequence_def by (simp only: sql_max_dense)

lemma insert_messageD:
  "insert_message r d = Inr d' \<Longrightarrow> d' = d\<lparr>messages := messages d @ [r]\<rparr> \<and> message_by_id d (msg_id r) = None
     \<and> msg_role r \<in> set message_roles \<and> chat_by_id d (msg_chat_id r) \<noteq> None"
  by (auto simp: insert_message_def split: if_splits)

lemma message_by_id_None: "message_by_id d i = None \<longleftrightarrow> i \<notin> msg_id ` set (messages d)"
  by (auto simp: message_by_id_def find_None_iff)

lemma append_message_dense:
  assumes "append_message r d = Inr d'" "dense_sequences d"
  shows "dense_sequences d'"
proof -
  let ?r = "r\<lparr>msg_sequence := next_sequence d (msg_chat_id r)\<rparr>"
  have d': "d' = d\<lparr>messages := messages d @ [?r]\<rparr>"
    using assms(1) by (auto simp: append_message_def dest: insert_messageD)
  have cm: "chat_messages d' c = chat_messages d c @ (if c = msg_chat_id r then [?r] else [])" for c
    by (simp add: chat_messages_def d')
  show ?thesis
    unfolding dense_sequences_def
  proof
    fix c
    have "map msg_sequence (chat_messages d c) = count_up (length (chat_messages d c))"
      using assms(2) by (simp add: dense_sequences_def)
    then show "map msg_sequence (chat_messages d' c) = count_up (length (chat_messages d' c))"
      using next_sequence_dense [OF assms(2), of c] by (auto simp: cm)
  qed
qed

lemma append_message_unique_ids:
  "append_message r d = Inr d' \<Longrightarrow> unique_ids d \<Longrightarrow> unique_ids d'"
  by (auto simp: append_message_def unique_ids_def message_by_id_None dest!: insert_messageD)

text \<open>
  On a database whose sequences are dense, the number the insertion takes is free: the
  statement never violates the uniqueness of \<open>(chat_id, sequence)\<close>.
\<close>

lemma append_message_no_collision:
  assumes "dense_sequences d"
  shows "append_message r d \<noteq> Inl (sqlite_error ''SQLITE_CONSTRAINT_UNIQUE''
             ''UNIQUE constraint failed: messages.chat_id, messages.sequence'')"
proof -
  let ?c = "msg_chat_id r"
  have "set (map msg_sequence (chat_messages d ?c)) = {1..int (length (chat_messages d ?c))}"
    using assms unfolding dense_sequences_def by (metis set_count_up)
  then have "msg_sequence m \<noteq> next_sequence d ?c" if "m \<in> set (chat_messages d ?c)" for m
    using that next_sequence_dense [OF assms, of ?c] by (metis atLeastAtMost_iff image_eqI list.set_map not_le zless_add1_eq)
  then have "\<not> list_ex (\<lambda>m. msg_sequence m = next_sequence d ?c) (chat_messages d ?c)"
    by (auto simp: list_ex_iff)
  then show ?thesis
    by (simp add: append_message_def insert_message_def sqlite_error_def foreign_key_error_def)
qed

subsection \<open>Statements that leave the sequence numbers alone\<close>

lemma chat_messages_map:
  "(\<And>m. msg_chat_id (f m) = msg_chat_id m) \<Longrightarrow> messages d' = map f (messages d) \<Longrightarrow>
   chat_messages d' c = map f (chat_messages d c)"
  by (simp add: chat_messages_def filter_map o_def)

lemma map_message_dense:
  assumes "\<And>m. msg_chat_id (f m) = msg_chat_id m" "\<And>m. msg_sequence (f m) = msg_sequence m"
    and "messages d' = map f (messages d)"
  shows "dense_sequences d' \<longleftrightarrow> dense_sequences d"
  using assms by (simp add: dense_sequences_def chat_messages_map [of f d' d] o_def)

lemma same_messages_dense: "messages d' = messages d \<Longrightarrow> dense_sequences d' \<longleftrightarrow> dense_sequences d"
  by (simp add: dense_sequences_def chat_messages_def)

lemma same_messages_unique_ids: "messages d' = messages d \<Longrightarrow> unique_ids d' \<longleftrightarrow> unique_ids d"
  by (simp add: unique_ids_def)

lemma map_message_unique_ids:
  "(\<And>m. msg_id (f m) = msg_id m) \<Longrightarrow> messages d' = map f (messages d) \<Longrightarrow> unique_ids d' \<longleftrightarrow> unique_ids d"
  by (simp add: unique_ids_def o_def)

lemma statement_messages:
  "touch_chat i now d = Inr d' \<Longrightarrow> messages d' = messages d"
  "update_chat_summary i s b now d = Inr d' \<Longrightarrow> messages d' = messages d"
  "insert_usage u d = Inr d' \<Longrightarrow> messages d' = messages d"
  by (auto simp: touch_chat_def update_chat_summary_def insert_usage_def split: if_splits)

lemma dense_sorted:
  assumes "dense_sequences d"
  shows "transcript d c = chat_messages d c"
proof -
  have "sorted (map msg_sequence (chat_messages d c))"
    using assms sorted_count_up unfolding dense_sequences_def by metis
  then show ?thesis by (simp add: transcript_def sorted_sort_id sort_key_id_if_sorted)
qed

end
