(* ===== verification/Adapters.thy ===== *)
theory Adapters
  imports Schema
begin

text \<open>
  The provider-neutral types of \<open>model-adapters/types/\<close>, the events of a streamed
  completion (\<open>modules/chats/completions/dto/sse-event.ts\<close>) and the registry of
  \<open>adapter-factory.service.ts\<close>. An adapter itself is a parameter: what a call returns, and
  what happened in the rest of the process while it was awaited, is whatever the
  provider and the other requests made it. A streamed answer is the finite list of
  its steps, each with its interference; it ends or throws.
\<close>

section \<open>Requests, responses and stream events\<close>

record token_usage =
  inputTokens :: int
  outputTokens :: int
  totalTokens :: int
  reasoningTokens :: "int option"

record adapter_message =
  am_role :: string
  am_content :: string
  am_name :: "string option"
  am_toolCallId :: "string option"

record completion_request =
  cq_model :: "string option"
  cq_systemPrompt :: "string option"
  cq_messages :: "adapter_message list"
  cq_temperature :: "rat option"
  cq_maxTokens :: "int option"
  cq_modelParams :: "json option"

datatype finish_reason =
  FinishStop | FinishLength | FinishToolCalls | FinishContentFilter | FinishAbort | FinishOther

record completion_response =
  cs_content :: string
  cs_reasoningContent :: "string option"
  cs_finishReason :: finish_reason
  cs_usage :: "token_usage option"
  cs_model :: string

datatype stream_event =
    TextDelta string
  | ThoughtDelta string
  | UsageReport token_usage
  | CompleteReport finish_reason "token_usage option" "string option"
  | ErrorReport exn

datatype sse_event =
    MessageStart string string int "string option" "string option"
  | Token string string
  | Thought string string
  | Usage token_usage
  | MessageComplete string "int option" "token_usage option"
  | ErrorEvent stream_error_payload
  | Done

section \<open>Adapters\<close>

text \<open>What the rest of the process did during an \<open>await\<close> or while a generator was suspended.\<close>

record effect =
  eff_db :: "database \<Rightarrow> database"
  eff_abort :: bool

datatype stream_run =
    Yields effect stream_event stream_run
  | Throws effect exn
  | Ends effect

text \<open>The natural number is the position of the call among the calls of the run.\<close>

record adapter =
  ad_supportsStreaming :: bool
  ad_complete :: "nat \<Rightarrow> completion_request \<Rightarrow> (exn + completion_response) \<times> effect"
  ad_stream :: "nat \<Rightarrow> completion_request \<Rightarrow> stream_run"

record adapter_config =
  ac_providerId :: string
  ac_providerKind :: string
  ac_baseUrl :: "string option"
  ac_apiKey :: "string option"
  ac_modelIdentifier :: "string option"

type_synonym adapter_creator = "adapter_config \<Rightarrow> exn + adapter"

section \<open>AdapterFactoryService\<close>

text \<open>A \<open>Map\<close>: its entries in insertion order, each key once.\<close>

type_synonym registry = "(string \<times> adapter_creator) list"

fun registry_set :: "string \<Rightarrow> adapter_creator \<Rightarrow> registry \<Rightarrow> registry" where
  "registry_set k c [] = [(k, c)]"
| "registry_set k c ((k', c') # r) = (if k' = k then (k, c) # r else (k', c') # registry_set k c r)"

definition registry_register :: "string list \<Rightarrow> adapter_creator \<Rightarrow> registry \<Rightarrow> registry" where
  "registry_register kinds creator r = foldl (\<lambda>acc k. registry_set k creator acc) r kinds"

definition registry_unregister :: "string \<Rightarrow> registry \<Rightarrow> bool \<times> registry" where
  "registry_unregister kind r = (list_ex (\<lambda>e. fst e = kind) r, filter (\<lambda>e. fst e \<noteq> kind) r)"

definition registry_clear :: "registry \<Rightarrow> registry" where
  "registry_clear r = []"

definition isSupported :: "registry \<Rightarrow> string \<Rightarrow> bool" where
  "isSupported r kind = list_ex (\<lambda>e. fst e = kind) r"

definition getSupportedKinds :: "registry \<Rightarrow> string list" where
  "getSupportedKinds r = map fst r"

definition adapter_create :: "registry \<Rightarrow> adapter_config \<Rightarrow> exn + adapter" where
  "adapter_create r config =
     (case map_of r (ac_providerKind config) of
        None \<Rightarrow> Inl (unsupported_provider_kind_error (ac_providerKind config) (getSupportedKinds r))
      | Some creator \<Rightarrow> creator config)"

subsection \<open>The registry is a map\<close>

definition registry_ok :: "registry \<Rightarrow> bool" where
  "registry_ok r = distinct (map fst r)"

lemma set_registry_set: "fst ` set (registry_set k c r) = insert k (fst ` set r)"
  by (induction k c r rule: registry_set.induct) auto

lemma registry_set_ok: "registry_ok r \<Longrightarrow> registry_ok (registry_set k c r)"
proof (induction k c r rule: registry_set.induct)
  case (2 k c k' c' r)
  then show ?case using set_registry_set [of k c r] by (auto simp: registry_ok_def)
qed (simp add: registry_ok_def)

lemma map_of_registry_set: "map_of (registry_set k c r) = (map_of r)(k \<mapsto> c)"
  by (induction k c r rule: registry_set.induct) auto

lemma registry_register_ok: "registry_ok r \<Longrightarrow> registry_ok (registry_register ks c r)"
  unfolding registry_register_def
  by (induction ks arbitrary: r) (simp_all add: registry_set_ok)

lemma map_of_registry_register:
  "map_of (registry_register ks c r) k = (if k \<in> set ks then Some c else map_of r k)"
  unfolding registry_register_def
  by (induction ks arbitrary: r) (auto simp: map_of_registry_set)

lemma isSupported_iff: "isSupported r k \<longleftrightarrow> map_of r k \<noteq> None"
  by (induction r) (auto simp: isSupported_def)

lemma adapter_create_unsupported:
  "\<not> isSupported r (ac_providerKind config) \<Longrightarrow> adapter_create r config =
     Inl (unsupported_provider_kind_error (ac_providerKind config) (getSupportedKinds r))"
  by (auto simp: isSupported_iff adapter_create_def)

lemma map_of_filter_other: "k' \<noteq> k \<Longrightarrow> map_of (filter (\<lambda>e. fst e \<noteq> k) r) k' = map_of r k'"
  by (induction r) auto

lemma map_of_filter_same: "map_of (filter (\<lambda>e. fst e \<noteq> k) r) k = None"
  by (induction r) auto

end
