(* ===== verification/Runtime.thy ===== *)
theory Runtime
  imports Adapters
begin

text \<open>
  The process a service runs in. The environment \<open>env\<close> holds what is outside the
  sources: the clock, the random bytes, the failures of the database driver, the cipher
  behind \<open>EncryptionService.decrypt\<close>, \<open>JSON.parse\<close>, the registered adapters, and what
  other requests do while a generator waits for its consumer. The state \<open>world\<close> is the
  database, the local variables of the streamed turn in progress, the abort signal of the
  request, the events emitted so far, and the counters of the environment's inputs.

  A computation ends with a value, with an exception, or because the consumer of a
  generator called \<open>return()\<close> on it: \<open>Returned\<close> is no exception and no \<open>catch\<close> sees it.
\<close>

datatype interrupt = Raised exn | Returned

record env =
  clock :: "nat \<Rightarrow> nat"
  rand :: "nat \<Rightarrow> byte list"
  fault :: "nat \<Rightarrow> exn option"
  decrypt :: "byte list \<Rightarrow> byte list \<Rightarrow> string \<Rightarrow> exn + string"
  json_parse :: "string \<Rightarrow> json option"
  adapters :: registry
  on_yield :: "nat \<Rightarrow> effect"
  stops :: "nat \<Rightarrow> bool"

text \<open>The local variables of the streamed turn in progress.\<close>

record stream_state =
  accumulatedContent :: string
  lastFlushedContent :: string
  lastFlushTime :: nat
  currentStatus :: message_status
  reportedUsage :: "token_usage option"

record world =
  db :: database
  gen :: stream_state
  aborted :: bool
  emitted :: "sse_event list"
  ticks :: nat
  draws :: nat
  writes :: nat
  calls :: nat

type_synonym 'a comp = "(world, interrupt, 'a) act"

section \<open>Primitive steps\<close>

definition raise_exn :: "exn \<Rightarrow> 'a comp" where
  "raise_exn e = throw (Raised e)"

definition catch_exn :: "'a comp \<Rightarrow> (exn \<Rightarrow> 'a comp) \<Rightarrow> 'a comp" where
  "catch_exn m h = try_catch m (\<lambda>i. case i of Raised e \<Rightarrow> h e | Returned \<Rightarrow> throw Returned)"

definition of_sum :: "exn + 'a \<Rightarrow> 'a comp" where
  "of_sum x = (case x of Inl e \<Rightarrow> raise_exn e | Inr y \<Rightarrow> ret y)"

text \<open>A query: a function of the database that may throw.\<close>

definition query :: "(database \<Rightarrow> exn + 'a) \<Rightarrow> 'a comp" where
  "query f = bnd (gets (\<lambda>w. f (db w))) of_sum"

definition select :: "(database \<Rightarrow> 'a) \<Rightarrow> 'a comp" where
  "select f = gets (\<lambda>w. f (db w))"

definition is_aborted :: "bool comp" where
  "is_aborted = gets aborted"

text \<open>\<open>Date.now()\<close>, \<open>nowIso()\<close> and \<open>newId()\<close>.\<close>

definition date_now :: "env \<Rightarrow> nat comp" where
  "date_now env = (\<lambda>w. (Inr (clock env (ticks w)), w\<lparr>ticks := Suc (ticks w)\<rparr>))"

definition now_iso :: "env \<Rightarrow> string comp" where
  "now_iso env = bnd (date_now env) (\<lambda>t. ret (nowIso t))"

definition draw_bytes :: "env \<Rightarrow> byte list comp" where
  "draw_bytes env = (\<lambda>w. (Inr (rand env (draws w)), w\<lparr>draws := Suc (draws w)\<rparr>))"

definition fresh_id :: "env \<Rightarrow> string comp" where
  "fresh_id env = bnd (date_now env) (\<lambda>t. bnd (draw_bytes env) (\<lambda>r. ret (newId t r)))"

text \<open>
  \<open>DatabaseService.run\<close> (and \<open>get\<close> of an \<open>INSERT \<dots> RETURNING\<close>): the driver may fail, or the
  statement itself does; either way nothing is written.
\<close>

definition exec_write :: "env \<Rightarrow> (database \<Rightarrow> exn + database) \<Rightarrow> unit comp" where
  "exec_write env stmt = (\<lambda>w.
     let w' = w\<lparr>writes := Suc (writes w)\<rparr> in
     case fault env (writes w) of
       Some e \<Rightarrow> (Inl (Raised e), w')
     | None \<Rightarrow> (case stmt (db w) of
         Inl e \<Rightarrow> (Inl (Raised e), w')
       | Inr d \<Rightarrow> (Inr (), w'\<lparr>db := d\<rparr>)))"

text \<open>
  \<open>DatabaseService.transaction\<close>: when the callback throws, or the \<open>COMMIT\<close> fails, the
  database is what it was before.
\<close>

definition transaction :: "env \<Rightarrow> 'a comp \<Rightarrow> 'a comp" where
  "transaction env m = (\<lambda>w. case m w of
     (Inl i, w') \<Rightarrow> (Inl i, w'\<lparr>db := db w\<rparr>)
   | (Inr x, w') \<Rightarrow>
      (case exec_write env Inr w' of
         (Inl i, w'') \<Rightarrow> (Inl i, w''\<lparr>db := db w\<rparr>)
       | (Inr _, w'') \<Rightarrow> (Inr x, w'')))"

definition apply_effect :: "effect \<Rightarrow> unit comp" where
  "apply_effect f = modify (\<lambda>w. w\<lparr>db := eff_db f (db w), aborted := aborted w \<or> eff_abort f\<rparr>)"

text \<open>\<open>await adapter.complete(request, { signal })\<close>.\<close>

definition await_complete :: "adapter \<Rightarrow> completion_request \<Rightarrow> completion_response comp" where
  "await_complete a req = (\<lambda>w.
     let (r, f) = ad_complete a (calls w) req
     in bnd (apply_effect f) (\<lambda>_. of_sum r) (w\<lparr>calls := Suc (calls w)\<rparr>))"

definition open_stream :: "adapter \<Rightarrow> completion_request \<Rightarrow> stream_run comp" where
  "open_stream a req = (\<lambda>w. (Inr (ad_stream a (calls w) req), w\<lparr>calls := Suc (calls w)\<rparr>))"

text \<open>
  \<open>yield event\<close>: the consumer takes the event, the others run, and then the consumer
  resumes the generator or leaves it.
\<close>

definition emit :: "env \<Rightarrow> sse_event \<Rightarrow> unit comp" where
  "emit env ev = (\<lambda>w.
     let n = length (emitted w) in
     bnd (apply_effect (on_yield env n))
       (\<lambda>_. if stops env n then throw Returned else ret ()) (w\<lparr>emitted := emitted w @ [ev]\<rparr>))"

lemmas comp_defs = raise_exn_def of_sum_def query_def select_def is_aborted_def now_iso_def fresh_id_def

section \<open>Weakest preconditions of the primitive steps\<close>

lemma wp_raise_exn [wp_simps]: "wp (raise_exn e) Q E w = E (Raised e) w"
  by (simp add: raise_exn_def wp_throw)

lemma wp_catch_exn [wp_simps]:
  "wp (catch_exn m h) Q E w =
   wp m Q (\<lambda>i w. case i of Raised e \<Rightarrow> wp (h e) Q E w | Returned \<Rightarrow> E Returned w) w"
  unfolding catch_exn_def wp_try_catch
  by (rule arg_cong [where f = "\<lambda>F. wp m Q F w"]) (auto simp: fun_eq_iff wp_throw split: interrupt.split)

lemma wp_of_sum [wp_simps]:
  "wp (of_sum x) Q E w = (case x of Inl e \<Rightarrow> E (Raised e) w | Inr y \<Rightarrow> Q y w)"
  by (simp add: of_sum_def wp_simps split: sum.split)

lemma wp_query [wp_simps]:
  "wp (query f) Q E w = (case f (db w) of Inl e \<Rightarrow> E (Raised e) w | Inr y \<Rightarrow> Q y w)"
  by (simp add: query_def wp_simps)

lemma wp_select [wp_simps]: "wp (select f) Q E w = Q (f (db w)) w"
  by (simp add: select_def wp_simps)

lemma wp_is_aborted [wp_simps]: "wp is_aborted Q E w = Q (aborted w) w"
  by (simp add: is_aborted_def wp_simps)

lemma wp_date_now [wp_simps]:
  "wp (date_now env) Q E w = Q (clock env (ticks w)) (w\<lparr>ticks := Suc (ticks w)\<rparr>)"
  by (simp add: date_now_def wp_def)

lemma wp_now_iso [wp_simps]:
  "wp (now_iso env) Q E w = Q (nowIso (clock env (ticks w))) (w\<lparr>ticks := Suc (ticks w)\<rparr>)"
  by (simp add: now_iso_def wp_simps)

lemma wp_draw_bytes [wp_simps]:
  "wp (draw_bytes env) Q E w = Q (rand env (draws w)) (w\<lparr>draws := Suc (draws w)\<rparr>)"
  by (simp add: draw_bytes_def wp_def)

lemma wp_fresh_id [wp_simps]:
  "wp (fresh_id env) Q E w = Q (newId (clock env (ticks w)) (rand env (draws w)))
     (w\<lparr>ticks := Suc (ticks w), draws := Suc (draws w)\<rparr>)"
  by (simp add: fresh_id_def wp_simps)

lemma wp_apply_effect [wp_simps]:
  "wp (apply_effect f) Q E w = Q () (w\<lparr>db := eff_db f (db w), aborted := aborted w \<or> eff_abort f\<rparr>)"
  by (simp add: apply_effect_def wp_simps)

lemma wp_exec_write [wp_simps]:
  "wp (exec_write env stmt) Q E w =
     (case fault env (writes w) of
        Some e \<Rightarrow> E (Raised e) (w\<lparr>writes := Suc (writes w)\<rparr>)
      | None \<Rightarrow> (case stmt (db w) of
          Inl e \<Rightarrow> E (Raised e) (w\<lparr>writes := Suc (writes w)\<rparr>)
        | Inr d \<Rightarrow> Q () (w\<lparr>writes := Suc (writes w), db := d\<rparr>)))"
  by (simp add: exec_write_def wp_def Let_def split: option.split sum.split)

lemma wp_emit [wp_simps]:
  "wp (emit env ev) Q E w =
     (let n = length (emitted w); f = on_yield env n;
          w' = w\<lparr>emitted := emitted w @ [ev], db := eff_db f (db w), aborted := aborted w \<or> eff_abort f\<rparr>
      in if stops env n then E Returned w' else Q () w')"
  by (simp add: emit_def wp_def bnd_def apply_effect_def modify_def Let_def throw_def ret_def)

lemma wp_await_complete [wp_simps]:
  "wp (await_complete a req) Q E w =
     (let (r, f) = ad_complete a (calls w) req;
          w' = w\<lparr>calls := Suc (calls w), db := eff_db f (db w), aborted := aborted w \<or> eff_abort f\<rparr>
      in case r of Inl e \<Rightarrow> E (Raised e) w' | Inr x \<Rightarrow> Q x w')"
  by (simp add: await_complete_def wp_def bnd_def apply_effect_def modify_def of_sum_def raise_exn_def
      throw_def ret_def Let_def split: prod.split sum.split)

lemma wp_transaction:
  "wp (transaction env m) Q E w =
     wp m (\<lambda>x w'. wp (exec_write env Inr) (\<lambda>_. Q x) (\<lambda>i w''. E i (w''\<lparr>db := db w\<rparr>)) w')
          (\<lambda>i w'. E i (w'\<lparr>db := db w\<rparr>)) w"
  by (simp add: transaction_def wp_def split: prod.split sum.split)

text \<open>A transaction that fails leaves the database as it was.\<close>

lemma wp_transaction_any:
  assumes "wp m (\<lambda>x w'. Q x (db w')) (\<lambda>_ _. True) w"
  shows "wp (transaction env m) (\<lambda>x w'. Q x (db w')) (\<lambda>_ _. True) w"
  unfolding wp_transaction by (rule wp_mono [OF assms]) (simp_all add: wp_simps split: option.split)

lemma wp_transaction_cases:
  assumes "wp m (\<lambda>x w'. Q x (db w')) (\<lambda>_ _. True) w"
  shows "wp (transaction env m) (\<lambda>x w'. Q x (db w')) (\<lambda>_ w'. db w' = db w) w"
  unfolding wp_transaction by (rule wp_mono [OF assms]) (simp_all add: wp_simps split: option.split)

section \<open>Relations on the database\<close>

text \<open>
  \<open>on_db R\<close> is the relation of two worlds whose databases are related by \<open>R\<close>. An
  environment obeys \<open>R\<close> when everything that runs beside the request does.
\<close>

definition on_db :: "(database \<Rightarrow> database \<Rightarrow> bool) \<Rightarrow> world \<Rightarrow> world \<Rightarrow> bool" where
  "on_db R w w' \<longleftrightarrow> R (db w) (db w')"

definition effect_obeys :: "(database \<Rightarrow> database \<Rightarrow> bool) \<Rightarrow> effect \<Rightarrow> bool" where
  "effect_obeys R f \<longleftrightarrow> (\<forall>d. R d (eff_db f d))"

fun run_obeys :: "(database \<Rightarrow> database \<Rightarrow> bool) \<Rightarrow> stream_run \<Rightarrow> bool" where
  "run_obeys R (Yields f e r) \<longleftrightarrow> effect_obeys R f \<and> run_obeys R r"
| "run_obeys R (Throws f e) \<longleftrightarrow> effect_obeys R f"
| "run_obeys R (Ends f) \<longleftrightarrow> effect_obeys R f"

definition adapter_obeys :: "(database \<Rightarrow> database \<Rightarrow> bool) \<Rightarrow> adapter \<Rightarrow> bool" where
  "adapter_obeys R a \<longleftrightarrow>
     (\<forall>n req. effect_obeys R (snd (ad_complete a n req)) \<and> run_obeys R (ad_stream a n req))"

definition env_obeys :: "(database \<Rightarrow> database \<Rightarrow> bool) \<Rightarrow> env \<Rightarrow> bool" where
  "env_obeys R env \<longleftrightarrow> (\<forall>n. effect_obeys R (on_yield env n))
     \<and> (\<forall>config a. adapter_create (adapters env) config = Inr a \<longrightarrow> adapter_obeys R a)"

locale store_relation =
  fixes R :: "database \<Rightarrow> database \<Rightarrow> bool"
  assumes store_refl: "R d d"
    and store_trans: "R d1 d2 \<Longrightarrow> R d2 d3 \<Longrightarrow> R d1 d3"

sublocale store_relation \<subseteq> step_relation "on_db R"
  by unfold_locales (auto simp: on_db_def store_refl intro: store_trans)

context store_relation
begin

lemma obeys_same_db: "(\<And>w. db (snd (m w)) = db w) \<Longrightarrow> obeys (on_db R) m"
  by (simp add: obeys_def on_db_def store_refl)

lemma obeys_raise_exn [obeys_intros]: "obeys (on_db R) (raise_exn e)"
  by (simp add: raise_exn_def obeys_throw)

lemma obeys_catch_exn [obeys_intros]:
  "obeys (on_db R) m \<Longrightarrow> (\<And>e. obeys (on_db R) (h e)) \<Longrightarrow> obeys (on_db R) (catch_exn m h)"
  unfolding catch_exn_def by (rule obeys_try_catch) (auto split: interrupt.split intro: obeys_throw)

lemma obeys_of_sum [obeys_intros]: "obeys (on_db R) (of_sum x)"
  by (cases x) (simp_all add: of_sum_def obeys_raise_exn obeys_ret)

lemma obeys_query [obeys_intros]: "obeys (on_db R) (query f)"
  by (simp add: query_def obeys_bnd obeys_gets obeys_of_sum)

lemma obeys_select [obeys_intros]: "obeys (on_db R) (select f)"
  by (simp add: select_def obeys_gets)

lemma obeys_is_aborted [obeys_intros]: "obeys (on_db R) is_aborted"
  by (simp add: is_aborted_def obeys_gets)

lemma obeys_date_now [obeys_intros]: "obeys (on_db R) (date_now env)"
  by (rule obeys_same_db) (simp add: date_now_def)

lemma obeys_now_iso [obeys_intros]: "obeys (on_db R) (now_iso env)"
  by (simp add: now_iso_def obeys_bnd obeys_date_now obeys_ret)

lemma obeys_draw_bytes [obeys_intros]: "obeys (on_db R) (draw_bytes env)"
  by (rule obeys_same_db) (simp add: draw_bytes_def)

lemma obeys_fresh_id [obeys_intros]: "obeys (on_db R) (fresh_id env)"
  unfolding fresh_id_def by (intro obeys_bnd obeys_date_now obeys_draw_bytes obeys_ret)

lemma obeys_exec_write:
  "(\<And>d d'. stmt d = Inr d' \<Longrightarrow> R d d') \<Longrightarrow> obeys (on_db R) (exec_write env stmt)"
  by (rule obeysI)
    (auto simp: exec_write_def on_db_def Let_def store_refl split: option.splits sum.splits)

lemma obeys_transaction [obeys_intros]:
  assumes "obeys (on_db R) m"
  shows "obeys (on_db R) (transaction env m)"
proof (rule obeysI)
  fix w r w'
  assume run: "transaction env m w = (r, w')"
  have m: "R (db w) (db w1)" if "m w = (x, w1)" for x w1
    using obeysD [OF assms that] by (simp add: on_db_def)
  show "on_db R w w'"
    using run m
    by (auto simp: transaction_def exec_write_def on_db_def Let_def store_refl
        split: prod.splits sum.splits option.splits)
qed

lemma obeys_apply_effect: "effect_obeys R f \<Longrightarrow> obeys (on_db R) (apply_effect f)"
  by (simp add: obeys_def on_db_def apply_effect_def modify_def effect_obeys_def)

lemma obeys_emit [obeys_intros]:
  assumes "env_obeys R env"
  shows "obeys (on_db R) (emit env ev)"
  using assms
  by (intro obeysI)
    (auto simp: emit_def bnd_def apply_effect_def modify_def on_db_def env_obeys_def effect_obeys_def
      Let_def throw_def ret_def split: if_splits)

lemma obeys_await_complete [obeys_intros]:
  "adapter_obeys R a \<Longrightarrow> obeys (on_db R) (await_complete a req)"
  by (intro obeysI)
    (auto simp: await_complete_def bnd_def apply_effect_def modify_def on_db_def adapter_obeys_def
      effect_obeys_def Let_def of_sum_def raise_exn_def throw_def ret_def split: prod.splits sum.splits;
     metis snd_conv)+

end

end
