(* ===== verification/ContextConstruction.thy ===== *)
theory ContextConstruction
  imports Runtime "HOL-Library.Multiset"
begin

text \<open>
  \<open>modules/inference/context-construction.service.ts\<close>: the prompt of a model call. The
  pure part (\<open>buildContextPure\<close>) orders the messages of a chat, keeps the eligible ones,
  frames those of other team members, and fits them to the context window of the model;
  the service reads its inputs from the database. A memory seam is what
  \<open>retrieveMemories\<close> gave: \<open>Some None\<close> when it threw or returned no array.
\<close>

section \<open>Inputs and outputs\<close>

record context_message =
  cm_id :: "string option"
  cm_sequence :: int
  cm_role :: string
  cm_content :: string
  cm_status :: string
  cm_agentId :: "string option"
  cm_agentName :: "string option"
  cm_agentRole :: "string option"
  cm_tokenCount :: "int option"

record context_source_data =
  src_systemPromptTemplate :: "string option"
  src_personality :: "string option"
  src_instructions :: "string option"
  src_contextSummary :: "string option"

datatype fitting_strategy = Refuse | TruncateOldest

type_synonym memory_seam = "string list option option"

record context_options =
  co_contextWindow :: "int option"
  co_fittingStrategy :: "fitting_strategy option"
  co_compactedBeforeSequence :: "int option"
  co_memorySeam :: memory_seam
  co_targetAgentId :: "string option"
  co_maxSequence :: "int option"

definition no_context_options :: context_options where
  "no_context_options = \<lparr>co_contextWindow = None, co_fittingStrategy = None,
     co_compactedBeforeSequence = None, co_memorySeam = None, co_targetAgentId = None,
     co_maxSequence = None\<rparr>"

record build_context_input =
  bi_sources :: context_source_data
  bi_messages :: "context_message list"
  bi_contextWindow :: "int option"
  bi_fittingStrategy :: "fitting_strategy option"
  bi_compactedBeforeSequence :: "int option"
  bi_memorySeam :: memory_seam
  bi_isTeamChat :: bool
  bi_currentAgentId :: "string option"
  bi_maxSequence :: "int option"

record prompt_breakdown =
  bd_promptTemplate :: "string option"
  bd_personality :: "string option"
  bd_instructions :: "string option"
  bd_memorySeam :: "string option"
  bd_contextSummary :: "string option"
  bd_combined :: "string option"

record message_detail =
  md_id :: "string option"
  md_sequence :: int
  md_role :: string
  md_content :: string
  md_agentId :: "string option"
  md_estimatedTokens :: int
  md_status :: string

datatype exclusion_reason =
  StatusNotComplete | EmptyContent | CompactedHistory | TruncatedForWindow | MaxSequenceBoundary

record excluded_message =
  ex_id :: "string option"
  ex_sequence :: int
  ex_role :: string
  ex_status :: string
  ex_reason :: exclusion_reason
  ex_detail :: string

record token_estimate =
  te_systemTokens :: int
  te_messagesTokens :: int
  te_totalTokens :: int
  te_contextWindow :: "int option"
  te_fitsContextWindow :: bool
  te_heuristic :: string

record assembled_context =
  ctx_systemPrompt :: "string option"
  ctx_messages :: "adapter_message list"
  ctx_systemDetails :: prompt_breakdown
  ctx_messageDetails :: "message_detail list"
  ctx_excludedMessages :: "excluded_message list"
  ctx_tokenEstimate :: token_estimate

section \<open>Token estimates\<close>

text \<open>\<open>Math.ceil(text.length / 4)\<close>, and 0 for an absent or empty text.\<close>

definition estimateTokens :: "string option \<Rightarrow> int" where
  "estimateTokens t = (case t of None \<Rightarrow> 0
     | Some s \<Rightarrow> if s = [] then 0 else \<lceil>rat_of_nat (length s) / 4\<rceil>)"

definition estimateMessageTokens :: "adapter_message \<Rightarrow> int" where
  "estimateMessageTokens m = 4 + estimateTokens (Some (am_content m))
     + (if truthy (am_name m) then estimateTokens (am_name m) else 0)"

section \<open>The system prompt\<close>

definition somes :: "'a option list \<Rightarrow> 'a list" where
  "somes xs = map the (filter (\<lambda>x. x \<noteq> None) xs)"

definition assembleSystemPrompt ::
  "context_source_data \<Rightarrow> string option \<Rightarrow> string option \<times> prompt_breakdown" where
  "assembleSystemPrompt sources memorySeamContent =
     (let promptTemplate = trim_or_null (src_systemPromptTemplate sources);
          personality = trim_or_null (src_personality sources);
          instructions = trim_or_null (src_instructions sources);
          memorySeam = trim_or_null memorySeamContent;
          rawSummary = trim_or_null (src_contextSummary sources);
          contextSummary = map_option (\<lambda>s. ''Context summary:'' @ nl @ s) rawSummary;
          sections = somes [promptTemplate, personality, instructions, memorySeam, contextSummary];
          combined = (if sections \<noteq> [] then Some (js_join (nl @ nl) sections) else None)
      in (combined,
          \<lparr>bd_promptTemplate = promptTemplate, bd_personality = personality,
           bd_instructions = instructions, bd_memorySeam = memorySeam,
           bd_contextSummary = rawSummary, bd_combined = combined\<rparr>))"

definition memory_seam_content :: "memory_seam \<Rightarrow> string option" where
  "memory_seam_content seam = (case seam of
     Some (Some ms) \<Rightarrow> if ms \<noteq> []
       then Some (''<memories>'' @ nl @ js_join nl ms @ nl @ ''</memories>'') else None
   | _ \<Rightarrow> None)"

section \<open>Filtering\<close>

record candidate =
  cand_msg :: context_message
  cand_adapterMessage :: adapter_message
  cand_estimatedTokens :: int

definition excluded :: "context_message \<Rightarrow> exclusion_reason \<Rightarrow> string \<Rightarrow> excluded_message" where
  "excluded m reason detail = \<lparr>ex_id = cm_id m, ex_sequence = cm_sequence m, ex_role = cm_role m,
     ex_status = cm_status m, ex_reason = reason, ex_detail = detail\<rparr>"

definition validRole :: "string \<Rightarrow> string" where
  "validRole r = (if r \<in> set [''user'', ''assistant'', ''system'', ''tool''] then r else ''user'')"

definition format_content :: "build_context_input \<Rightarrow> context_message \<Rightarrow> string" where
  "format_content inp m =
     (if bi_isTeamChat inp \<and> validRole (cm_role m) = ''assistant''
      then (if truthy (bi_currentAgentId inp) \<and> cm_agentId m = bi_currentAgentId inp
            then cm_content m
            else if truthy (cm_agentId m)
            then ''[Team Member: ''
                   @ (if truthy (cm_agentName m) then from_option [] (cm_agentName m) else ''Team Member'')
                   @ (if truthy (cm_agentRole m) then '' ('' @ from_option [] (cm_agentRole m) @ '')'' else [])
                   @ '']:'' @ nl @ cm_content m
            else ''[Team Member: Former Agent]:'' @ nl @ cm_content m)
      else cm_content m)"

definition classify_message ::
  "build_context_input \<Rightarrow> context_message \<Rightarrow> excluded_message + candidate" where
  "classify_message inp m =
     (if cm_status m \<noteq> ''complete''
      then Inl (excluded m StatusNotComplete
             (''Message status '' @ quoted (cm_status m)
              @ '' is not complete (in-flight generation or partial error output).''))
      else if cm_content m = [] \<or> length (js_trim (cm_content m)) = 0
      then Inl (excluded m EmptyContent ''Message text content is empty or contains only whitespace.'')
      else if (case bi_compactedBeforeSequence inp of None \<Rightarrow> False | Some c \<Rightarrow> cm_sequence m < c)
      then Inl (excluded m CompactedHistory
             (''Message sequence '' @ show_int (cm_sequence m)
              @ '' superseded by compaction summary (prior to sequence ''
              @ show_int (from_option 0 (bi_compactedBeforeSequence inp)) @ '').''))
      else if (case bi_maxSequence inp of None \<Rightarrow> False | Some c \<Rightarrow> cm_sequence m > c)
      then Inl (excluded m MaxSequenceBoundary
             (''Message sequence '' @ show_int (cm_sequence m)
              @ '' excluded because it exceeds max sequence boundary ''
              @ show_int (from_option 0 (bi_maxSequence inp)) @ ''.''))
      else let am = \<lparr>am_role = validRole (cm_role m), am_content = format_content inp m,
                     am_name = None, am_toolCallId = None\<rparr>
           in Inr \<lparr>cand_msg = m, cand_adapterMessage = am,
                   cand_estimatedTokens = estimateMessageTokens am\<rparr>)"

text \<open>The loop over the ordered messages: the exclusions and the candidates, in order.\<close>

fun partition_messages ::
  "build_context_input \<Rightarrow> context_message list \<Rightarrow> excluded_message list \<times> candidate list" where
  "partition_messages inp [] = ([], [])"
| "partition_messages inp (m # ms) =
     (let (es, cs) = partition_messages inp ms in
      case classify_message inp m of Inl e \<Rightarrow> (e # es, cs) | Inr c \<Rightarrow> (es, c # cs))"

section \<open>Fitting\<close>

definition candidate_tokens :: "candidate list \<Rightarrow> int" where
  "candidate_tokens cs = sum_list (map cand_estimatedTokens cs)"

text \<open>
  The loop of \<open>truncate_oldest\<close>: while more than one message is left and the total is
  over the window, the oldest is dropped.
\<close>

fun truncate_oldest :: "int \<Rightarrow> int \<Rightarrow> candidate list \<Rightarrow> excluded_message list \<times> candidate list" where
  "truncate_oldest window system (c # c' # cs) =
     (let tot = system + candidate_tokens (c # c' # cs) in
      if tot > window
      then (let (es, ks) = truncate_oldest window system (c' # cs)
            in (excluded (cand_msg c) TruncatedForWindow
                  (''Message dropped because total estimated tokens ('' @ show_int tot
                   @ '') exceeded model context window ('' @ show_int window @ '').'') # es, ks))
      else ([], c # c' # cs))"
| "truncate_oldest window system cs = ([], cs)"

definition context_exceeded :: "int \<Rightarrow> int \<Rightarrow> string \<Rightarrow> exn" where
  "context_exceeded tot window tail = context_length_exceeded_error
     (''Context length exceeded: prompt contains approximately '' @ show_int tot
      @ '' tokens, which exceeds the model limit of '' @ show_int window @ '' tokens'' @ tail)
     None None None"

definition fit_candidates ::
  "fitting_strategy \<Rightarrow> int option \<Rightarrow> int \<Rightarrow> candidate list \<Rightarrow> exn + excluded_message list \<times> candidate list" where
  "fit_candidates strategy window system cs =
     (case window of
        None \<Rightarrow> Inr ([], cs)
      | Some w \<Rightarrow>
          let tot = system + candidate_tokens cs in
          if tot > w
          then (case strategy of
                  TruncateOldest \<Rightarrow>
                    let (es, ks) = truncate_oldest w system cs; newTotal = system + candidate_tokens ks in
                    if newTotal > w then Inl (context_exceeded newTotal w '' even after dropping older messages.'')
                    else Inr (es, ks)
                | Refuse \<Rightarrow> Inl (context_exceeded tot w ''.''))
          else Inr ([], cs))"

definition heuristic_text :: string where
  "heuristic_text = ''Character-based heuristic (~4 characters per token + 4 tokens overhead per message/system turn). Exact token count requires model-specific tokenizer.''"

definition window_of :: "int option \<Rightarrow> int option" where
  "window_of w = (case w of Some n \<Rightarrow> if n > 0 then Some n else None | None \<Rightarrow> None)"

definition system_tokens :: "string option \<Rightarrow> int" where
  "system_tokens p = (if truthy p then 4 + estimateTokens p else 0)"

definition detail_of :: "candidate \<Rightarrow> message_detail" where
  "detail_of c = \<lparr>md_id = cm_id (cand_msg c), md_sequence = cm_sequence (cand_msg c),
     md_role = am_role (cand_adapterMessage c), md_content = am_content (cand_adapterMessage c),
     md_agentId = cm_agentId (cand_msg c), md_estimatedTokens = cand_estimatedTokens c,
     md_status = cm_status (cand_msg c)\<rparr>"

definition buildContextPure :: "build_context_input \<Rightarrow> exn + assembled_context" where
  "buildContextPure inp =
     (let strategy = from_option Refuse (bi_fittingStrategy inp);
          (systemPrompt, breakdown) =
            assembleSystemPrompt (bi_sources inp) (memory_seam_content (bi_memorySeam inp));
          systemTokens = system_tokens systemPrompt;
          rawMessages = sort_key cm_sequence (bi_messages inp);
          (excl, candidates) = partition_messages inp rawMessages;
          window = window_of (bi_contextWindow inp)
      in case fit_candidates strategy window systemTokens candidates of
           Inl e \<Rightarrow> Inl e
         | Inr (dropped, active) \<Rightarrow>
             let messagesTokens = candidate_tokens active; tot = systemTokens + messagesTokens in
             Inr \<lparr>ctx_systemPrompt = systemPrompt,
                  ctx_messages = map cand_adapterMessage active,
                  ctx_systemDetails = breakdown,
                  ctx_messageDetails = map detail_of active,
                  ctx_excludedMessages = excl @ dropped,
                  ctx_tokenEstimate = \<lparr>te_systemTokens = systemTokens, te_messagesTokens = messagesTokens,
                     te_totalTokens = tot, te_contextWindow = window,
                     te_fitsContextWindow = (case window of None \<Rightarrow> True | Some w \<Rightarrow> tot \<le> w),
                     te_heuristic = heuristic_text\<rparr>\<rparr>)"

section \<open>The service\<close>

definition show_status :: "message_status \<Rightarrow> string" where
  "show_status s = (case s of Pending \<Rightarrow> ''pending'' | Streaming \<Rightarrow> ''streaming''
     | Complete \<Rightarrow> ''complete'' | Errored \<Rightarrow> ''error'')"

definition member_of :: "database \<Rightarrow> string option \<Rightarrow> string option \<Rightarrow> team_member_row option" where
  "member_of d team agent =
     find (\<lambda>t. Some (tm_team_id t) = team \<and> Some (tm_agent_id t) = agent) (team_members d)"

text \<open>The two message queries; the one of a team chat joins the speaker's name and role.\<close>

definition input_message :: "database \<Rightarrow> chat_row \<Rightarrow> message_row \<Rightarrow> context_message" where
  "input_message d chat r =
     \<lparr>cm_id = Some (msg_id r), cm_sequence = msg_sequence r, cm_role = msg_role r,
      cm_content = msg_content r, cm_status = show_status (msg_status r), cm_agentId = msg_agent_id r,
      cm_agentName = (if ch_team_id chat \<noteq> None
         then Option.bind (msg_agent_id r) (\<lambda>i. map_option ag_name (agent_by_id d i)) else None),
      cm_agentRole = (if ch_team_id chat \<noteq> None
         then Option.bind (member_of d (ch_team_id chat) (msg_agent_id r)) tm_role else None),
      cm_tokenCount = msg_token_count r\<rparr>"

definition role_directive :: "database \<Rightarrow> chat_row \<Rightarrow> agent_row \<Rightarrow> string option" where
  "role_directive d chat agent =
     (if ch_team_id chat \<noteq> None
      then (case Option.bind (member_of d (ch_team_id chat) (Some (ag_id agent))) tm_role of
              Some role \<Rightarrow> if role \<noteq> [] \<and> length (js_trim role) > 0
                then Some (''In this conversation, you are collaborating as the '' @ js_trim role
                       @ '' for team '' @ [CHR 0x27]
                       @ (case Option.bind (ch_team_id chat) (team_by_id d) of
                            None \<Rightarrow> ''Team'' | Some t \<Rightarrow> te_name t) @ [CHR 0x27] @ ''.'')
                else None
            | None \<Rightarrow> None)
      else None)"

definition with_directive :: "string option \<Rightarrow> string option \<Rightarrow> string option" where
  "with_directive instructions extra = (case extra of None \<Rightarrow> instructions
     | Some x \<Rightarrow> Some (if truthy instructions then from_option [] instructions @ nl @ nl @ x else x))"

definition system_prompt_template :: "database \<Rightarrow> agent_row \<Rightarrow> string option" where
  "system_prompt_template d agent =
     (if truthy (ag_system_prompt_id agent)
      then (case Option.bind (ag_system_prompt_id agent) (system_prompt_by_id d) of
              Some sp \<Rightarrow> if sp_content sp \<noteq> [] then Some (sp_content sp) else None
            | None \<Rightarrow> None)
      else None)"

definition context_input ::
  "database \<Rightarrow> chat_row \<Rightarrow> agent_row \<Rightarrow> model_row option \<Rightarrow> context_options option \<Rightarrow> build_context_input" where
  "context_input d chat agent model opts =
     \<lparr>bi_sources = \<lparr>src_systemPromptTemplate = system_prompt_template d agent,
        src_personality = ag_personality agent,
        src_instructions = with_directive (ag_instructions agent) (role_directive d chat agent),
        src_contextSummary = ch_context_summary chat\<rparr>,
      bi_messages = map (input_message d chat) (transcript d (ch_id chat)),
      bi_contextWindow = coalesce (Option.bind opts co_contextWindow) (Option.bind model mo_context_window),
      bi_fittingStrategy = coalesce (Option.bind opts co_fittingStrategy) (Some Refuse),
      bi_compactedBeforeSequence =
        coalesce (Option.bind opts co_compactedBeforeSequence) (ch_compacted_before_sequence chat),
      bi_memorySeam = Option.bind opts co_memorySeam,
      bi_isTeamChat = (ch_team_id chat \<noteq> None),
      bi_currentAgentId = Some (ag_id agent),
      bi_maxSequence = Option.bind opts co_maxSequence\<rparr>"

definition buildForChat ::
  "database \<Rightarrow> chat_row \<Rightarrow> agent_row \<Rightarrow> model_row option \<Rightarrow> context_options option \<Rightarrow> exn + assembled_context" where
  "buildForChat d chat agent model opts = buildContextPure (context_input d chat agent model opts)"

text \<open>
  The members of a team in the order they speak: by position, unset positions last, then
  by the time they joined, then by agent.
\<close>

record team_member =
  me_agent_id :: string
  me_role :: "string option"
  me_position :: "int option"
  me_agent_name :: string
  me_is_coordinator :: int

definition member_key :: "team_member_row \<Rightarrow> int \<times> int \<times> string \<times> string" where
  "member_key t = (case tm_position t of None \<Rightarrow> 1 | Some _ \<Rightarrow> 0, from_option 0 (tm_position t),
     tm_created_at t, tm_agent_id t)"

definition join_agent :: "database \<Rightarrow> team_member_row \<Rightarrow> team_member option" where
  "join_agent d t = map_option (\<lambda>a. \<lparr>me_agent_id = tm_agent_id t, me_role = tm_role t,
     me_position = tm_position t, me_agent_name = ag_name a, me_is_coordinator = tm_is_coordinator t\<rparr>)
     (agent_by_id d (tm_agent_id t))"

definition getActiveTeamMembers :: "database \<Rightarrow> string \<Rightarrow> team_member list" where
  "getActiveTeamMembers d team =
     somes (map (join_agent d) (sort_key member_key (filter (\<lambda>t. tm_team_id t = team) (team_members d))))"

definition lookup_model :: "database \<Rightarrow> agent_row \<Rightarrow> model_row option" where
  "lookup_model d agent =
     (if truthy (ag_model_id agent) then Option.bind (ag_model_id agent) (model_by_id d) else None)"

definition buildByChatId :: "database \<Rightarrow> string \<Rightarrow> context_options option \<Rightarrow> exn + assembled_context" where
  "buildByChatId d chatId opts =
     (case chat_by_id d chatId of
        None \<Rightarrow> Inl (not_found ''CHAT_NOT_FOUND'' (''Chat with ID '' @ quoted chatId @ '' not found''))
      | Some chat \<Rightarrow>
         (case ch_team_id chat of
            Some team \<Rightarrow>
             (case getActiveTeamMembers d team of
                [] \<Rightarrow> Inl (unprocessable ''TEAM_HAS_NO_MEMBERS''
                        ''Team has no active members to execute completions'')
              | first # rest \<Rightarrow>
                 let target = Option.bind opts co_targetAgentId;
                     member = (if truthy target
                       then from_option first (find (\<lambda>m. Some (me_agent_id m) = target) (first # rest))
                       else first)
                 in case agent_by_id d (me_agent_id member) of
                      None \<Rightarrow> Inl (not_found ''AGENT_NOT_FOUND''
                                (''Agent '' @ quoted (me_agent_id member) @ '' was not found''))
                    | Some agent \<Rightarrow> buildForChat d chat agent (lookup_model d agent) opts)
          | None \<Rightarrow>
             (if \<not> truthy (ch_agent_id chat)
              then Inl (unprocessable ''CHAT_HAS_NO_AGENT'' ''Chat has no assigned agent to execute completions'')
              else case Option.bind (ch_agent_id chat) (agent_by_id d) of
                     None \<Rightarrow> Inl (not_found ''AGENT_NOT_FOUND''
                        (''Agent '' @ quoted (from_option [] (ch_agent_id chat)) @ '' assigned to chat ''
                         @ quoted chatId @ '' not found''))
                   | Some agent \<Rightarrow> buildForChat d chat agent (lookup_model d agent) opts)))"

section \<open>Facts on the pure construction\<close>

lemma estimateTokens_ceiling:
  "0 < length s \<Longrightarrow> 4 * (estimateTokens (Some s) - 1) < int (length s)
     \<and> int (length s) \<le> 4 * estimateTokens (Some s)"
proof -
  assume "0 < length s"
  then have e: "estimateTokens (Some s) = \<lceil>rat_of_nat (length s) / 4\<rceil>"
    by (auto simp: estimateTokens_def)
  have lo: "rat_of_int \<lceil>rat_of_nat (length s) / 4\<rceil> - 1 < rat_of_nat (length s) / 4"
    by (rule conjunct1 [OF ceiling_correct])
  have hi: "rat_of_nat (length s) / 4 \<le> rat_of_int \<lceil>rat_of_nat (length s) / 4\<rceil>"
    by (rule le_of_int_ceiling)
  have "rat_of_int (4 * (\<lceil>rat_of_nat (length s) / 4\<rceil> - 1)) < rat_of_int (int (length s))"
    using lo by simp
  moreover have "rat_of_int (int (length s)) \<le> rat_of_int (4 * \<lceil>rat_of_nat (length s) / 4\<rceil>)"
    unfolding of_int_mult of_int_of_nat_eq of_int_numeral using hi by linarith
  ultimately show ?thesis unfolding e by (simp only: of_int_less_iff of_int_le_iff)
qed

text \<open>What makes a message eligible for the prompt.\<close>

definition eligible :: "build_context_input \<Rightarrow> context_message \<Rightarrow> bool" where
  "eligible inp m \<longleftrightarrow> cm_status m = ''complete'' \<and> js_trim (cm_content m) \<noteq> []
     \<and> (\<forall>c. bi_compactedBeforeSequence inp = Some c \<longrightarrow> c \<le> cm_sequence m)
     \<and> (\<forall>c. bi_maxSequence inp = Some c \<longrightarrow> cm_sequence m \<le> c)"

definition candidate_of :: "build_context_input \<Rightarrow> context_message \<Rightarrow> candidate" where
  "candidate_of inp m = (let am = \<lparr>am_role = validRole (cm_role m), am_content = format_content inp m,
                     am_name = None, am_toolCallId = None\<rparr>
     in \<lparr>cand_msg = m, cand_adapterMessage = am, cand_estimatedTokens = estimateMessageTokens am\<rparr>)"

lemma js_trim_Nil [simp]: "js_trim [] = []"
  by (simp add: js_trim_def)

lemma classify_eligible: "eligible inp m \<Longrightarrow> classify_message inp m = Inr (candidate_of inp m)"
  by (auto simp: classify_message_def eligible_def candidate_of_def Let_def split: option.split)

lemma classify_not_eligible:
  "\<not> eligible inp m \<Longrightarrow> \<exists>e. classify_message inp m = Inl e \<and> ex_id e = cm_id m \<and> ex_sequence e = cm_sequence m
     \<and> ex_reason e \<noteq> TruncatedForWindow"
  by (auto simp: classify_message_def eligible_def excluded_def Let_def split: option.splits)

lemma partition_candidates:
  "snd (partition_messages inp ms) = map (candidate_of inp) (filter (eligible inp) ms)"
proof (induction ms)
  case (Cons m ms)
  then show ?case
    using classify_eligible [of inp m] classify_not_eligible [of inp m]
    by (cases "eligible inp m") (auto simp: case_prod_beta Let_def)
qed simp

lemma partition_excluded:
  "map (\<lambda>e. (ex_id e, ex_sequence e)) (fst (partition_messages inp ms))
     = map (\<lambda>m. (cm_id m, cm_sequence m)) (filter (\<lambda>m. \<not> eligible inp m) ms)"
proof (induction ms)
  case (Cons m ms)
  then show ?case
    using classify_eligible [of inp m] classify_not_eligible [of inp m]
    by (cases "eligible inp m") (auto simp: case_prod_beta Let_def)
qed simp

lemma truncate_split:
  "truncate_oldest w s cs = (es, ks) \<Longrightarrow>
   \<exists>ds. cs = ds @ ks \<and> map (\<lambda>e. (ex_id e, ex_sequence e)) es
      = map (\<lambda>c. (cm_id (cand_msg c), cm_sequence (cand_msg c))) ds
     \<and> (cs \<noteq> [] \<longrightarrow> ks \<noteq> [])"
proof (induction w s cs arbitrary: es rule: truncate_oldest.induct)
  case (1 w s c c' cs)
  show ?case
  proof (cases "s + candidate_tokens (c # c' # cs) > w")
    case True
    with 1(2) obtain es' where t: "truncate_oldest w s (c' # cs) = (es', ks)"
      and es: "map (\<lambda>e. (ex_id e, ex_sequence e)) es
        = (cm_id (cand_msg c), cm_sequence (cand_msg c)) # map (\<lambda>e. (ex_id e, ex_sequence e)) es'"
      by (auto simp: Let_def excluded_def split: prod.splits)
    from "1.IH" [OF refl True t] obtain ds where "c' # cs = ds @ ks"
      "map (\<lambda>e. (ex_id e, ex_sequence e)) es' = map (\<lambda>c. (cm_id (cand_msg c), cm_sequence (cand_msg c))) ds"
      "ks \<noteq> []" by auto
    then have "c # c' # cs = (c # ds) @ ks \<and> map (\<lambda>e. (ex_id e, ex_sequence e)) es
      = map (\<lambda>c. (cm_id (cand_msg c), cm_sequence (cand_msg c))) (c # ds) \<and> ks \<noteq> []"
      by (simp add: es)
    then show ?thesis by blast
  next
    case False
    with 1(2) have "es = [] \<and> ks = c # c' # cs" by (simp add: Let_def)
    then show ?thesis by auto
  qed
qed auto

text \<open>Nothing is dropped that would have fitted.\<close>

lemma truncate_minimal:
  "truncate_oldest w s cs = (es, ks) \<Longrightarrow> cs = ds @ [c] @ ks \<Longrightarrow> w < s + candidate_tokens (c # ks)"
proof (induction w s cs arbitrary: es ds rule: truncate_oldest.induct)
  case (1 w s c0 c' cs)
  have big: "s + candidate_tokens (c0 # c' # cs) > w"
  proof (rule ccontr)
    assume "\<not> s + candidate_tokens (c0 # c' # cs) > w"
    with 1(2) have "ks = c0 # c' # cs" by (simp add: Let_def)
    with 1(3) show False by (metis append_eq_append_conv2 append_self_conv2 list.distinct(1) append_is_Nil_conv append_assoc append_self_conv)
  qed
  with 1(2) obtain es' where t: "truncate_oldest w s (c' # cs) = (es', ks)"
    by (auto simp: Let_def split: prod.splits)
  show ?case
  proof (cases ds)
    case Nil
    with 1(3) have "c0 = c" "c' # cs = ks" by simp_all
    with big show ?thesis by simp
  next
    case (Cons d ds')
    with 1(3) have "c' # cs = ds' @ [c] @ ks" by simp
    from "1.IH" [OF refl big t this] show ?thesis .
  qed
qed (auto simp: Cons_eq_append_conv)

lemma fit_candidates_cases:
  assumes "fit_candidates strategy window s cs = Inr (es, ks)"
  shows "\<exists>ds. cs = ds @ ks \<and> map (\<lambda>e. (ex_id e, ex_sequence e)) es
      = map (\<lambda>c. (cm_id (cand_msg c), cm_sequence (cand_msg c))) ds
    \<and> (\<forall>w. window = Some w \<longrightarrow> s + candidate_tokens ks \<le> w)
    \<and> (ds \<noteq> [] \<longrightarrow> strategy = TruncateOldest)"
  using assms
  by (auto simp: fit_candidates_def Let_def split: option.splits if_splits fitting_strategy.splits prod.splits
      dest!: truncate_split)

lemma buildContextPure_cases:
  assumes "buildContextPure inp = Inr ctx"
  obtains ds ks es where
    "map (candidate_of inp) (filter (eligible inp) (sort_key cm_sequence (bi_messages inp))) = ds @ ks"
    "ctx_messages ctx = map cand_adapterMessage ks"
    "ctx_messageDetails ctx = map detail_of ks"
    "ctx_excludedMessages ctx = fst (partition_messages inp (sort_key cm_sequence (bi_messages inp))) @ es"
    "map (\<lambda>e. (ex_id e, ex_sequence e)) es = map (\<lambda>c. (cm_id (cand_msg c), cm_sequence (cand_msg c))) ds"
    "te_systemTokens (ctx_tokenEstimate ctx) = system_tokens (ctx_systemPrompt ctx)"
    "te_messagesTokens (ctx_tokenEstimate ctx) = candidate_tokens ks"
    "te_totalTokens (ctx_tokenEstimate ctx) = system_tokens (ctx_systemPrompt ctx) + candidate_tokens ks"
    "\<forall>w. window_of (bi_contextWindow inp) = Some w \<longrightarrow> te_totalTokens (ctx_tokenEstimate ctx) \<le> w"
    "ds \<noteq> [] \<longrightarrow> bi_fittingStrategy inp = Some TruncateOldest"
proof -
  let ?p = "assembleSystemPrompt (bi_sources inp) (memory_seam_content (bi_memorySeam inp))"
  let ?raw = "sort_key cm_sequence (bi_messages inp)"
  let ?cs = "snd (partition_messages inp ?raw)"
  obtain es ks where f: "fit_candidates (from_option Refuse (bi_fittingStrategy inp))
      (window_of (bi_contextWindow inp)) (system_tokens (fst ?p)) ?cs = Inr (es, ks)"
    and c: "ctx_systemPrompt ctx = fst ?p" "ctx_messages ctx = map cand_adapterMessage ks"
      "ctx_messageDetails ctx = map detail_of ks"
      "ctx_excludedMessages ctx = fst (partition_messages inp ?raw) @ es"
      "te_systemTokens (ctx_tokenEstimate ctx) = system_tokens (fst ?p)"
      "te_messagesTokens (ctx_tokenEstimate ctx) = candidate_tokens ks"
      "te_totalTokens (ctx_tokenEstimate ctx) = system_tokens (fst ?p) + candidate_tokens ks"
    using assms
    by (auto simp: buildContextPure_def Let_def case_prod_beta split: sum.splits prod.splits)
  from fit_candidates_cases [OF f] obtain ds where
    "?cs = ds @ ks" "map (\<lambda>e. (ex_id e, ex_sequence e)) es
      = map (\<lambda>c. (cm_id (cand_msg c), cm_sequence (cand_msg c))) ds"
    "\<forall>w. window_of (bi_contextWindow inp) = Some w \<longrightarrow> system_tokens (fst ?p) + candidate_tokens ks \<le> w"
    "ds \<noteq> [] \<longrightarrow> bi_fittingStrategy inp = Some TruncateOldest"
    by (cases "bi_fittingStrategy inp") auto
  with c show ?thesis by (intro that [of ds ks es]) (simp_all add: partition_candidates)
qed

end
