(* ===== verification/InferenceCore.thy ===== *)
theory InferenceCore
  imports ContextConstruction
begin

text \<open>
  The private helpers of \<open>modules/inference/inference.service.ts\<close> that every completion
  uses: the execution chain from a chat to its model, provider and credential, the
  precedence of the sampling parameters, the rows a turn writes, and the call of a
  provider. \<open>CredentialsService.getDecryptedCredential\<close> is here too.
\<close>

section \<open>Requests and replies\<close>

record create_completion =
  cc_modelId :: "string option"
  cc_temperature :: "rat option"
  cc_maxTokens :: "int option"
  cc_strategy :: "string option"
  cc_maxTurns :: "int option"

record completion_dto =
  cd_id :: string
  cd_chatId :: string
  cd_sequence :: int
  cd_role :: string
  cd_agentId :: "string option"
  cd_content :: string
  cd_status :: message_status
  cd_tokenCount :: "int option"
  cd_createdAt :: string
  cd_usage :: "token_usage option"

section \<open>The execution chain\<close>

definition getDecryptedCredential :: "env \<Rightarrow> database \<Rightarrow> string \<Rightarrow> exn + string" where
  "getDecryptedCredential env d providerId =
     (case provider_by_id d providerId of
        None \<Rightarrow> Inl (not_found [] (''Provider '' @ sql_quote providerId @ '' not found''))
      | Some _ \<Rightarrow>
         (case credential_by_provider d providerId of
            None \<Rightarrow> Inl (not_found [] (''No credential configured for provider '' @ sql_quote providerId))
          | Some row \<Rightarrow> decrypt env (cr_encrypted_value row) (cr_nonce row) providerId))"

definition is_local_provider :: "provider_row \<Rightarrow> bool" where
  "is_local_provider p = (pr_is_local p = 1 \<or> pr_kind p = ''ollama'' \<or> pr_kind p = ''lmstudio'')"

text \<open>The credential step: no credential is no key, any other failure is thrown.\<close>

definition resolve_key :: "env \<Rightarrow> database \<Rightarrow> provider_row \<Rightarrow> exn + string option" where
  "resolve_key env d provider =
     (let key = (case getDecryptedCredential env d (pr_id provider) of
                   Inr k \<Rightarrow> Inr (Some k)
                 | Inl e \<Rightarrow> if is_not_found e then Inr None else Inl e)
      in case key of
           Inl e \<Rightarrow> Inl e
         | Inr apiKey \<Rightarrow>
             if \<not> is_local_provider provider \<and> (\<not> truthy apiKey \<or> js_trim (from_option [] apiKey) = [])
             then Inl (unprocessable ''CREDENTIAL_MISSING'' (''Provider '' @ quoted (pr_name provider)
                    @ '' requires an API credential that is not configured''))
             else Inr apiKey)"

definition resolveAgentExecution ::
  "env \<Rightarrow> database \<Rightarrow> agent_row \<Rightarrow> string option \<Rightarrow> exn + model_row \<times> provider_row \<times> string option" where
  "resolveAgentExecution env d agent overrideModelId =
     (let effectiveModelId = coalesce overrideModelId (ag_model_id agent) in
      if \<not> truthy effectiveModelId
      then Inl (unprocessable ''AGENT_HAS_NO_MODEL''
             (''Agent '' @ quoted (ag_name agent) @ '' has no model configured''))
      else case model_by_id d (from_option [] effectiveModelId) of
        None \<Rightarrow> Inl (unprocessable ''MODEL_NOT_FOUND''
                  (''Model with ID '' @ quoted (from_option [] effectiveModelId) @ '' was not found''))
      | Some model \<Rightarrow>
          if mo_enabled model = 0
          then Inl (unprocessable ''MODEL_DISABLED''
                 (''Model '' @ quoted (mo_display_name model) @ '' is disabled''))
          else case provider_by_id d (mo_provider_id model) of
            None \<Rightarrow> Inl (unprocessable ''PROVIDER_NOT_FOUND''
                      (''Provider with ID '' @ quoted (mo_provider_id model) @ '' was not found''))
          | Some provider \<Rightarrow>
              if pr_enabled provider = 0
              then Inl (unprocessable ''PROVIDER_DISABLED''
                     (''Provider '' @ quoted (pr_name provider) @ '' is disabled''))
              else case resolve_key env d provider of
                Inl e \<Rightarrow> Inl e
              | Inr apiKey \<Rightarrow> Inr (model, provider, apiKey))"

record execution =
  ex_chat :: chat_row
  ex_agent :: agent_row
  ex_model :: model_row
  ex_provider :: provider_row
  ex_apiKey :: "string option"

definition chat_not_found :: "string \<Rightarrow> exn" where
  "chat_not_found chatId =
     not_found ''CHAT_NOT_FOUND'' (''Chat with ID '' @ quoted chatId @ '' not found'')"

definition team_has_no_members :: exn where
  "team_has_no_members =
     unprocessable ''TEAM_HAS_NO_MEMBERS'' ''Team has no active members to execute completions''"

definition agent_not_found :: "string \<Rightarrow> exn" where
  "agent_not_found agentId =
     unprocessable ''AGENT_NOT_FOUND'' (''Agent with ID '' @ quoted agentId @ '' was not found'')"

definition resolve_for_agent ::
  "env \<Rightarrow> database \<Rightarrow> chat_row \<Rightarrow> string \<Rightarrow> string option \<Rightarrow> exn + execution" where
  "resolve_for_agent env d chat agentId overrideModelId =
     (case agent_by_id d agentId of
        None \<Rightarrow> Inl (agent_not_found agentId)
      | Some agent \<Rightarrow>
         (case resolveAgentExecution env d agent overrideModelId of
            Inl e \<Rightarrow> Inl e
          | Inr (model, provider, apiKey) \<Rightarrow>
              Inr \<lparr>ex_chat = chat, ex_agent = agent, ex_model = model, ex_provider = provider,
                   ex_apiKey = apiKey\<rparr>))"

definition resolveExecutionChain ::
  "env \<Rightarrow> database \<Rightarrow> string \<Rightarrow> string option \<Rightarrow> exn + execution" where
  "resolveExecutionChain env d chatId overrideModelId =
     (case chat_by_id d chatId of
        None \<Rightarrow> Inl (chat_not_found chatId)
      | Some chat \<Rightarrow>
         (case ch_team_id chat of
            Some team \<Rightarrow>
             (case getActiveTeamMembers d team of
                [] \<Rightarrow> Inl team_has_no_members
              | lead # _ \<Rightarrow> resolve_for_agent env d chat (me_agent_id lead) overrideModelId)
          | None \<Rightarrow>
             (if \<not> truthy (ch_agent_id chat)
              then Inl (unprocessable ''CHAT_HAS_NO_AGENT'' ''Chat has no assigned agent to execute completions'')
              else resolve_for_agent env d chat (from_option [] (ch_agent_id chat)) overrideModelId)))"

section \<open>Parameters: request body, then agent, then model\<close>

definition effective_temperature :: "create_completion \<Rightarrow> agent_row \<Rightarrow> model_row \<Rightarrow> rat option" where
  "effective_temperature dto agent model =
     coalesce (cc_temperature dto) (coalesce (ag_temperature agent) (mo_default_temperature model))"

definition effective_max_tokens :: "create_completion \<Rightarrow> agent_row \<Rightarrow> model_row \<Rightarrow> int option" where
  "effective_max_tokens dto agent model =
     coalesce (cc_maxTokens dto) (coalesce (ag_max_tokens agent) (mo_default_max_tokens model))"

definition effective_model_params :: "env \<Rightarrow> agent_row \<Rightarrow> json option" where
  "effective_model_params env agent =
     (if truthy (ag_model_params agent) then Option.bind (ag_model_params agent) (json_parse env) else None)"

definition build_request ::
  "env \<Rightarrow> create_completion \<Rightarrow> agent_row \<Rightarrow> model_row \<Rightarrow> assembled_context \<Rightarrow> completion_request" where
  "build_request env dto agent model ctx =
     \<lparr>cq_model = Some (mo_model_identifier model), cq_systemPrompt = ctx_systemPrompt ctx,
      cq_messages = ctx_messages ctx, cq_temperature = effective_temperature dto agent model,
      cq_maxTokens = effective_max_tokens dto agent model,
      cq_modelParams = effective_model_params env agent\<rparr>"

definition create_adapter ::
  "env \<Rightarrow> model_row \<Rightarrow> provider_row \<Rightarrow> string option \<Rightarrow> exn + adapter" where
  "create_adapter env model provider apiKey =
     adapter_create (adapters env)
       \<lparr>ac_providerId = pr_id provider, ac_providerKind = pr_kind provider, ac_baseUrl = pr_base_url provider,
        ac_apiKey = apiKey, ac_modelIdentifier = Some (mo_model_identifier model)\<rparr>"

text \<open>
  The call of the provider in the two non-streaming handlers, with the redaction of what
  it threw.
\<close>

definition call_provider ::
  "env \<Rightarrow> adapter \<Rightarrow> completion_request \<Rightarrow> model_row \<Rightarrow> provider_row \<Rightarrow> string option
   \<Rightarrow> completion_response comp" where
  "call_provider env a req model provider apiKey =
     catch_exn (await_complete a req)
       (\<lambda>e. raise_exn (provider_failure (json_parse env) (pr_kind provider) (mo_model_identifier model) apiKey e))"

section \<open>The rows of a turn\<close>

definition insert_returning :: "env \<Rightarrow> message_row \<Rightarrow> message_row comp" where
  "insert_returning env r =
     bnd (select (\<lambda>d. r\<lparr>msg_sequence := next_sequence d (msg_chat_id r)\<rparr>))
       (\<lambda>row. bnd (exec_write env (append_message r)) (\<lambda>_. ret row))"

definition is_unique_violation :: "exn \<Rightarrow> bool" where
  "is_unique_violation e = (case e of
     Err k _ msg _ _ \<Rightarrow> k = Plain (Some ''SQLITE_CONSTRAINT_UNIQUE'')
       \<or> js_includes msg ''UNIQUE constraint failed: messages.chat_id, messages.sequence''
   | ThrownString _ \<Rightarrow> False)"

definition sequence_allocation_failed :: exn where
  "sequence_allocation_failed =
     internal_error ''SEQUENCE_ALLOCATION_FAILED'' ''Failed to allocate sequence for chat message''"

definition maxRetries :: nat where
  "maxRetries = 3"

text \<open>The \<open>while\<close> loop with the number of attempts it has left.\<close>

fun pending_attempts :: "env \<Rightarrow> message_row \<Rightarrow> nat \<Rightarrow> message_row comp" where
  "pending_attempts env r 0 = raise_exn sequence_allocation_failed"
| "pending_attempts env r (Suc k) =
     catch_exn
       (transaction env
         (bnd (insert_returning env r) (\<lambda>row.
          bnd (exec_write env (touch_chat (msg_chat_id r) (msg_created_at r))) (\<lambda>_. ret row))))
       (\<lambda>e. if is_unique_violation e \<and> 0 < k then pending_attempts env r k
            else raise_exn sequence_allocation_failed)"

definition createPendingMessageRow :: "env \<Rightarrow> string \<Rightarrow> string \<Rightarrow> message_row comp" where
  "createPendingMessageRow env chatId agentId =
     bnd (fresh_id env) (\<lambda>messageId. bnd (now_iso env) (\<lambda>createdAt.
       pending_attempts env
         \<lparr>msg_id = messageId, msg_chat_id = chatId, msg_sequence = 0, msg_role = ''assistant'',
          msg_agent_id = Some agentId, msg_content = [], msg_status = Pending, msg_token_count = None,
          msg_created_at = createdAt\<rparr> maxRetries))"

definition usage_row_of ::
  "string \<Rightarrow> string \<Rightarrow> string \<Rightarrow> agent_row \<Rightarrow> provider_row \<Rightarrow> model_row \<Rightarrow> string \<Rightarrow> token_usage option \<Rightarrow> usage_row" where
  "usage_row_of i now eventType agent provider model chatId usage =
     \<lparr>us_id = i, us_occurred_at = now, us_event_type = eventType, us_agent_id = Some (ag_id agent),
      us_provider_id = Some (pr_id provider), us_model_id = Some (mo_id model), us_chat_id = Some chatId,
      us_input_tokens = map_option inputTokens usage, us_output_tokens = map_option outputTokens usage,
      us_cost_usd = None, us_metadata = None\<rparr>"

definition token_count_of :: "completion_response \<Rightarrow> int option" where
  "token_count_of r = (case cs_usage r of
     Some u \<Rightarrow> if outputTokens u > 0 then Some (outputTokens u) else None
   | None \<Rightarrow> None)"

definition persistence_failed :: exn where
  "persistence_failed = internal_error ''PERSISTENCE_FAILED''
     ''Completion generated successfully but failed to persist to conversation history''"

definition reply_dto :: "message_row \<Rightarrow> completion_response \<Rightarrow> completion_dto" where
  "reply_dto row response =
     \<lparr>cd_id = msg_id row, cd_chatId = msg_chat_id row, cd_sequence = msg_sequence row,
      cd_role = msg_role row, cd_agentId = msg_agent_id row, cd_content = msg_content row,
      cd_status = msg_status row, cd_tokenCount = msg_token_count row, cd_createdAt = msg_created_at row,
      cd_usage = cs_usage response\<rparr>"

fun persist_attempts ::
  "env \<Rightarrow> chat_row \<Rightarrow> agent_row \<Rightarrow> provider_row \<Rightarrow> model_row \<Rightarrow> completion_response \<Rightarrow> nat
   \<Rightarrow> message_row comp" where
  "persist_attempts env chat agent provider model response 0 =
     raise_exn (internal_error ''PERSISTENCE_FAILED'' ''Failed to persist completion message to database'')"
| "persist_attempts env chat agent provider model response (Suc k) =
     bnd (fresh_id env) (\<lambda>messageId. bnd (now_iso env) (\<lambda>now.
       catch_exn
         (transaction env
           (bnd (insert_returning env
                  \<lparr>msg_id = messageId, msg_chat_id = ch_id chat, msg_sequence = 0, msg_role = ''assistant'',
                   msg_agent_id = Some (ag_id agent), msg_content = cs_content response,
                   msg_status = Complete, msg_token_count = token_count_of response,
                   msg_created_at = now\<rparr>) (\<lambda>row.
            bnd (exec_write env (touch_chat (ch_id chat) now)) (\<lambda>_.
            bnd (fresh_id env) (\<lambda>usageId.
            bnd (exec_write env (insert_usage (usage_row_of usageId now ''chat_completion'' agent provider
                   model (ch_id chat) (cs_usage response)))) (\<lambda>_. ret row))))))
         (\<lambda>e. if is_unique_violation e \<and> 0 < k
              then persist_attempts env chat agent provider model response k
              else raise_exn persistence_failed)))"

definition persistAssistantReply ::
  "env \<Rightarrow> chat_row \<Rightarrow> agent_row \<Rightarrow> provider_row \<Rightarrow> model_row \<Rightarrow> completion_response \<Rightarrow> completion_dto comp" where
  "persistAssistantReply env chat agent provider model response =
     bnd (persist_attempts env chat agent provider model response maxRetries)
       (\<lambda>row. ret (reply_dto row response))"

definition recordTurnErrorRow :: "env \<Rightarrow> string \<Rightarrow> string \<Rightarrow> unit comp" where
  "recordTurnErrorRow env chatId agentId =
     catch_exn
       (bnd (fresh_id env) (\<lambda>i. bnd (now_iso env) (\<lambda>now.
          exec_write env (append_message
            \<lparr>msg_id = i, msg_chat_id = chatId, msg_sequence = 0, msg_role = ''assistant'',
             msg_agent_id = Some agentId, msg_content = ''Generation failed mid-team turn'',
             msg_status = Errored, msg_token_count = None, msg_created_at = now\<rparr>))))
       (\<lambda>_. ret ())"

section \<open>What the statements may do to the store\<close>

text \<open>
  The interface between the services and the database: a relation that every statement
  the inference services run respects. Whatever is a \<open>transcript_relation\<close> relates the
  databases before and after every completion, compaction and message request, once the
  requests that run beside it respect it too.
\<close>

locale transcript_relation = store_relation +
  assumes append_law: "append_message r d = Inr d' \<Longrightarrow> R d d'"
    and update_law: "update_message i st content tok d = Inr d' \<Longrightarrow> R d d'"
    and touch_law: "touch_chat i now d = Inr d' \<Longrightarrow> R d d'"
    and summary_law: "update_chat_summary i text b now d = Inr d' \<Longrightarrow> R d d'"
    and usage_law: "insert_usage u d = Inr d' \<Longrightarrow> R d d'"
begin

lemma obeys_append [obeys_intros]: "obeys (on_db R) (exec_write env (append_message r))"
  by (rule obeys_exec_write) (rule append_law)

lemma obeys_update [obeys_intros]: "obeys (on_db R) (exec_write env (update_message i st content tok))"
  by (rule obeys_exec_write) (rule update_law)

lemma obeys_touch [obeys_intros]: "obeys (on_db R) (exec_write env (touch_chat i now))"
  by (rule obeys_exec_write) (rule touch_law)

lemma obeys_summary [obeys_intros]: "obeys (on_db R) (exec_write env (update_chat_summary i text b now))"
  by (rule obeys_exec_write) (rule summary_law)

lemma obeys_usage [obeys_intros]: "obeys (on_db R) (exec_write env (insert_usage u))"
  by (rule obeys_exec_write) (rule usage_law)

lemma obeys_insert_returning [obeys_intros]: "obeys (on_db R) (insert_returning env r)"
  unfolding insert_returning_def by (intro obeys_intros)

lemma obeys_pending_attempts [obeys_intros]: "obeys (on_db R) (pending_attempts env r k)"
  by (induction k) (auto intro!: obeys_intros)

lemma obeys_createPendingMessageRow [obeys_intros]:
  "obeys (on_db R) (createPendingMessageRow env chatId agentId)"
  unfolding createPendingMessageRow_def by (intro obeys_intros)

lemma obeys_persist_attempts [obeys_intros]:
  "obeys (on_db R) (persist_attempts env chat agent provider model response k)"
  by (induction k) (auto intro!: obeys_intros)

lemma obeys_persistAssistantReply [obeys_intros]:
  "obeys (on_db R) (persistAssistantReply env chat agent provider model response)"
  unfolding persistAssistantReply_def by (intro obeys_intros)

lemma obeys_recordTurnErrorRow [obeys_intros]: "obeys (on_db R) (recordTurnErrorRow env chatId agentId)"
  unfolding recordTurnErrorRow_def by (intro obeys_intros)

lemma create_adapter_obeys:
  "env_obeys R env \<Longrightarrow> create_adapter env model provider apiKey = Inr a \<Longrightarrow> adapter_obeys R a"
  by (auto simp: create_adapter_def env_obeys_def)

lemma obeys_bnd_adapter:
  assumes "env_obeys R env" "\<And>a. adapter_obeys R a \<Longrightarrow> obeys (on_db R) (f a)"
  shows "obeys (on_db R) (bnd (of_sum (create_adapter env model provider apiKey)) f)"
proof (cases "create_adapter env model provider apiKey")
  case (Inl e)
  then have "bnd (of_sum (create_adapter env model provider apiKey)) f = raise_exn e"
    by (simp add: of_sum_def bnd_def raise_exn_def throw_def fun_eq_iff)
  then show ?thesis by (simp add: obeys_raise_exn)
next
  case (Inr a)
  then have "bnd (of_sum (create_adapter env model provider apiKey)) f = f a"
    by (simp add: of_sum_def bnd_def ret_def fun_eq_iff)
  with assms Inr show ?thesis by (simp add: create_adapter_obeys)
qed

lemma obeys_call_provider [obeys_intros]:
  "adapter_obeys R a \<Longrightarrow> obeys (on_db R) (call_provider env a req model provider apiKey)"
  unfolding call_provider_def by (intro obeys_intros)

end

subsection \<open>The relations of the development\<close>

text \<open>The invariants: dense sequence numbers and unique message identifiers.\<close>

lemma update_message_messages:
  "update_message i st content tok d = Inr d' \<Longrightarrow> messages d' = map (\<lambda>m. if msg_id m = i
     then m\<lparr>msg_status := st, msg_content := content, msg_token_count := tok\<rparr> else m) (messages d)"
  by (auto simp: update_message_def)

interpretation dense: transcript_relation "keeps dense_sequences"
proof unfold_locales
  fix i st content tok d d'
  assume "update_message i st content tok d = Inr d'"
  from update_message_messages [OF this] show "keeps dense_sequences d d'"
    by (subst keeps_def, subst map_message_dense) auto
qed (auto simp: keeps_def append_message_dense dest: statement_messages same_messages_dense)

interpretation ids: transcript_relation "keeps unique_ids"
proof unfold_locales
  fix i st content tok d d'
  assume "update_message i st content tok d = Inr d'"
  from update_message_messages [OF this] show "keeps unique_ids d d'"
    by (subst keeps_def, subst map_message_unique_ids) auto
qed (auto simp: keeps_def append_message_unique_ids dest: statement_messages same_messages_unique_ids)

text \<open>
  The transcript only grows: no message disappears, and what it is, who wrote it, where it
  stands and when it was created never change; only its status, content and token count do.
\<close>

definition message_identity :: "message_row \<Rightarrow> string \<times> string \<times> int \<times> string \<times> string option \<times> string" where
  "message_identity m =
     (msg_id m, msg_chat_id m, msg_sequence m, msg_role m, msg_agent_id m, msg_created_at m)"

definition append_only :: "database \<Rightarrow> database \<Rightarrow> bool" where
  "append_only d d' \<longleftrightarrow> prefix (map message_identity (messages d)) (map message_identity (messages d'))"

interpretation growth: transcript_relation append_only
proof unfold_locales
  fix r d d'
  assume "append_message r d = Inr d'"
  then have "messages d' = messages d @ [r\<lparr>msg_sequence := next_sequence d (msg_chat_id r)\<rparr>]"
    by (auto simp: append_message_def dest: insert_messageD)
  then show "append_only d d'" by (simp add: append_only_def)
next
  fix i st content tok d d'
  assume "update_message i st content tok d = Inr d'"
  then have "map message_identity (messages d') = map message_identity (messages d)"
    by (auto simp: update_message_messages message_identity_def)
  then show "append_only d d'" by (simp add: append_only_def)
qed (auto simp: append_only_def dest: statement_messages intro: prefix_order.trans)

text \<open>
  The frame: completions write messages, usage events, and of a chat its summary,
  boundary and time of update; no other table and no other column changes.
\<close>

definition chat_identity :: "chat_row \<Rightarrow> string \<times> string option \<times> string option \<times> string option \<times> string option \<times> string" where
  "chat_identity c =
     (ch_id c, ch_title c, ch_project_id c, ch_agent_id c, ch_team_id c, ch_created_at c)"

definition same_configuration :: "database \<Rightarrow> database \<Rightarrow> bool" where
  "same_configuration d d' \<longleftrightarrow>
     agents d' = agents d \<and> teams d' = teams d \<and> team_members d' = team_members d
     \<and> models d' = models d \<and> providers d' = providers d \<and> credentials d' = credentials d
     \<and> system_prompts d' = system_prompts d \<and> projects d' = projects d
     \<and> map chat_identity (chats d') = map chat_identity (chats d)"

interpretation frame: transcript_relation same_configuration
  by unfold_locales
    (auto simp: same_configuration_def chat_identity_def append_message_def update_message_def
      touch_chat_def update_chat_summary_def insert_usage_def o_def dest!: insert_messageD split: if_splits)

end
