(* ===== verification/StreamTurn.thy ===== *)
theory StreamTurn
  imports InferenceCore
begin

text \<open>
  One turn of a model, streamed or not. The streamed turn is the generator body of
  \<open>streamChat\<close> and \<open>streamMemberTurn\<close>: the pending row, the checkpoints
  (\<open>flushPartial\<close>), the loop over the events of the adapter, and the ends of the turn. The
  local variables live in the component \<open>gen\<close> of the world, so that a handler finds them
  as the body left them.
\<close>

section \<open>Checkpoints\<close>

definition set_gen :: "(stream_state \<Rightarrow> stream_state) \<Rightarrow> unit comp" where
  "set_gen f = modify (\<lambda>w. w\<lparr>gen := f (gen w)\<rparr>)"

definition begin_turn :: "env \<Rightarrow> unit comp" where
  "begin_turn env = bnd (date_now env) (\<lambda>t. set_gen (\<lambda>_.
     \<lparr>accumulatedContent = [], lastFlushedContent = [], lastFlushTime = t, currentStatus = Pending,
      reportedUsage = None\<rparr>))"

definition reported_output :: "stream_state \<Rightarrow> int option" where
  "reported_output g = map_option outputTokens (reportedUsage g)"

text \<open>The last argument is \<^const>\<open>None\<close> where the source passes nothing.\<close>

definition flushPartial ::
  "env \<Rightarrow> string \<Rightarrow> string \<Rightarrow> message_status \<Rightarrow> int option option \<Rightarrow> unit comp" where
  "flushPartial env messageId chatId newStatus finalOutputTokens =
     bnd (now_iso env) (\<lambda>now. bnd (gets gen) (\<lambda>g.
     bnd (exec_write env (update_message messageId newStatus (accumulatedContent g)
            (case finalOutputTokens of Some t \<Rightarrow> t | None \<Rightarrow> reported_output g))) (\<lambda>_.
     bnd (exec_write env (touch_chat chatId now)) (\<lambda>_.
     bnd (date_now env) (\<lambda>t.
     set_gen (\<lambda>g. g\<lparr>lastFlushedContent := accumulatedContent g, lastFlushTime := t,
                    currentStatus := newStatus\<rparr>))))))"

section \<open>The loop over the adapter's events\<close>

definition handle_text :: "env \<Rightarrow> string \<Rightarrow> string \<Rightarrow> string \<Rightarrow> unit comp" where
  "handle_text env messageId chatId delta =
     bnd (set_gen (\<lambda>g. g\<lparr>accumulatedContent := accumulatedContent g @ delta\<rparr>)) (\<lambda>_.
     bnd (gets gen) (\<lambda>g.
     bnd (if currentStatus g = Pending then flushPartial env messageId chatId Streaming None
          else bnd (date_now env) (\<lambda>now.
            let charsSinceFlush = length (accumulatedContent g) - length (lastFlushedContent g);
                timeSinceFlush = int now - int (lastFlushTime g)
            in do_when (200 \<le> charsSinceFlush \<or> 500 \<le> timeSinceFlush)
                 (flushPartial env messageId chatId Streaming None))) (\<lambda>_.
     emit env (Token messageId delta))))"

definition handle_event :: "env \<Rightarrow> string \<Rightarrow> string \<Rightarrow> stream_event \<Rightarrow> unit comp" where
  "handle_event env messageId chatId ev =
     (case ev of
        TextDelta delta \<Rightarrow> handle_text env messageId chatId delta
      | ThoughtDelta delta \<Rightarrow> emit env (Thought messageId delta)
      | UsageReport u \<Rightarrow> set_gen (\<lambda>g. g\<lparr>reportedUsage := Some u\<rparr>)
      | CompleteReport _ u _ \<Rightarrow> (case u of None \<Rightarrow> ret ()
          | Some v \<Rightarrow> set_gen (\<lambda>g. g\<lparr>reportedUsage := Some v\<rparr>))
      | ErrorReport e \<Rightarrow> raise_exn e)"

text \<open>\<open>for await (const event of stream)\<close>; an aborted request leaves the loop.\<close>

fun consume :: "env \<Rightarrow> string \<Rightarrow> string \<Rightarrow> stream_run \<Rightarrow> unit comp" where
  "consume env messageId chatId (Yields f ev rest) =
     bnd (apply_effect f) (\<lambda>_. bnd is_aborted (\<lambda>ab.
       if ab then ret ()
       else bnd (handle_event env messageId chatId ev) (\<lambda>_. consume env messageId chatId rest)))"
| "consume env messageId chatId (Throws f e) = bnd (apply_effect f) (\<lambda>_. raise_exn e)"
| "consume env messageId chatId (Ends f) = apply_effect f"

definition run_stream :: "env \<Rightarrow> string \<Rightarrow> string \<Rightarrow> adapter \<Rightarrow> completion_request \<Rightarrow> unit comp" where
  "run_stream env messageId chatId a req = bnd (open_stream a req) (consume env messageId chatId)"

section \<open>The ends of a turn\<close>

text \<open>An aborted turn keeps what was received; one that received nothing is an error.\<close>

definition finish_aborted :: "env \<Rightarrow> string \<Rightarrow> string \<Rightarrow> unit comp" where
  "finish_aborted env messageId chatId =
     bnd (gets gen) (\<lambda>g.
       if 0 < length (accumulatedContent g)
       then flushPartial env messageId chatId Complete (Some (reported_output g))
       else bnd (set_gen (\<lambda>g. g\<lparr>accumulatedContent := ''Generation interrupted''\<rparr>)) (\<lambda>_.
            flushPartial env messageId chatId Errored (Some None)))"

text \<open>The final checkpoint and the usage event of a completed turn.\<close>

definition finish_complete ::
  "env \<Rightarrow> string \<Rightarrow> string \<Rightarrow> agent_row \<Rightarrow> provider_row \<Rightarrow> model_row \<Rightarrow> unit comp" where
  "finish_complete env messageId chatId agent provider model =
     bnd (gets gen) (\<lambda>g.
     bnd (flushPartial env messageId chatId Complete (Some (reported_output g))) (\<lambda>_.
     bnd (fresh_id env) (\<lambda>usageId. bnd (now_iso env) (\<lambda>now.
     exec_write env (insert_usage (usage_row_of usageId now ''chat_completion'' agent provider model chatId
       (reportedUsage g)))))))"

definition emit_message_complete :: "env \<Rightarrow> string \<Rightarrow> unit comp" where
  "emit_message_complete env messageId =
     bnd (gets gen) (\<lambda>g. emit env (MessageComplete messageId (reported_output g) (reportedUsage g)))"

definition finish_failed :: "env \<Rightarrow> string \<Rightarrow> string \<Rightarrow> exn \<Rightarrow> unit comp" where
  "finish_failed env messageId chatId normalizedError =
     bnd (gets gen) (\<lambda>g.
     bnd (flushPartial env messageId chatId Errored (Some (reported_output g))) (\<lambda>_.
     bnd (emit env (ErrorEvent (toStreamErrorPayload normalizedError))) (\<lambda>_.
     emit env Done)))"

section \<open>The turn of an agent's own chat\<close>

definition request_setup ::
  "env \<Rightarrow> database \<Rightarrow> create_completion \<Rightarrow> chat_row \<Rightarrow> agent_row \<Rightarrow> agent_row \<Rightarrow> model_row
   \<Rightarrow> context_options option \<Rightarrow> exn + completion_request" where
  "request_setup env d dto chat agent effectiveAgent model opts =
     (case buildForChat d chat effectiveAgent (Some model) opts of
        Inl e \<Rightarrow> Inl e
      | Inr ctx \<Rightarrow> Inr (build_request env dto agent model ctx))"

text \<open>Which exception ends a stream as an abort.\<close>

definition is_abort_error :: "exn \<Rightarrow> bool" where
  "is_abort_error e = (adapter_code_of e = Some REQUEST_ABORTED
     \<or> (case e of Err _ name msg _ _ \<Rightarrow> name = ''AbortError'' \<or> js_includes (js_lower msg) ''abort''
         | ThrownString _ \<Rightarrow> False))"

definition stream_body ::
  "env \<Rightarrow> string \<Rightarrow> execution \<Rightarrow> adapter \<Rightarrow> completion_request \<Rightarrow> unit comp" where
  "stream_body env messageId x a req =
     (let chatId = ch_id (ex_chat x) in
      bnd (run_stream env messageId chatId a req) (\<lambda>_. bnd is_aborted (\<lambda>ab.
        if ab then finish_aborted env messageId chatId
        else bnd (finish_complete env messageId chatId (ex_agent x) (ex_provider x) (ex_model x)) (\<lambda>_.
             bnd (gets gen) (\<lambda>g.
             bnd (case reportedUsage g of None \<Rightarrow> ret () | Some u \<Rightarrow> emit env (Usage u)) (\<lambda>_.
             bnd (emit_message_complete env messageId) (\<lambda>_. emit env Done)))))))"

definition stream_catch :: "env \<Rightarrow> string \<Rightarrow> execution \<Rightarrow> exn \<Rightarrow> unit comp" where
  "stream_catch env messageId x e =
     (let chatId = ch_id (ex_chat x) in
      bnd is_aborted (\<lambda>ab.
        if ab \<or> is_abort_error e then finish_aborted env messageId chatId
        else finish_failed env messageId chatId
               (provider_failure (json_parse env) (pr_kind (ex_provider x))
                 (mo_model_identifier (ex_model x)) (ex_apiKey x) e)))"

definition streaming_not_supported :: "model_row \<Rightarrow> exn" where
  "streaming_not_supported model = unprocessable ''STREAMING_NOT_SUPPORTED''
     (''Model '' @ quoted (mo_display_name model) @ '' does not support streaming completions'')"

definition streamAgentChat :: "env \<Rightarrow> chat_row \<Rightarrow> create_completion \<Rightarrow> unit comp" where
  "streamAgentChat env chat dto =
     bnd (query (\<lambda>d. resolveExecutionChain env d (ch_id chat) (cc_modelId dto))) (\<lambda>x.
     bnd is_aborted (\<lambda>ab.
     if ab then raise_exn (request_aborted_error ''Request was aborted before execution''
                  (Some (pr_kind (ex_provider x))) None None)
     else
     bnd (of_sum (create_adapter env (ex_model x) (ex_provider x) (ex_apiKey x))) (\<lambda>a.
     if \<not> ad_supportsStreaming a then raise_exn (streaming_not_supported (ex_model x))
     else
     bnd (query (\<lambda>d. request_setup env d dto chat (ex_agent x) (ex_agent x) (ex_model x) None)) (\<lambda>req.
     bnd (createPendingMessageRow env (ch_id chat) (ag_id (ex_agent x))) (\<lambda>pendingRow.
     bnd (emit env (MessageStart (msg_id pendingRow) (ch_id chat) (msg_sequence pendingRow)
            (Some (ag_id (ex_agent x))) (Some (ag_name (ex_agent x))))) (\<lambda>_.
     bnd (begin_turn env) (\<lambda>_.
     catch_exn (stream_body env (msg_id pendingRow) (x\<lparr>ex_chat := chat\<rparr>) a req)
       (stream_catch env (msg_id pendingRow) (x\<lparr>ex_chat := chat\<rparr>)))))))))"

definition completeAgentChat :: "env \<Rightarrow> chat_row \<Rightarrow> create_completion \<Rightarrow> completion_dto comp" where
  "completeAgentChat env chat dto =
     bnd (query (\<lambda>d. resolveExecutionChain env d (ch_id chat) (cc_modelId dto))) (\<lambda>x.
     bnd (query (\<lambda>d. request_setup env d dto chat (ex_agent x) (ex_agent x) (ex_model x) None)) (\<lambda>req.
     bnd (of_sum (create_adapter env (ex_model x) (ex_provider x) (ex_apiKey x))) (\<lambda>a.
     bnd (call_provider env a req (ex_model x) (ex_provider x) (ex_apiKey x)) (\<lambda>response.
     persistAssistantReply env chat (ex_agent x) (ex_provider x) (ex_model x) response))))"

section \<open>The turn of a team member\<close>

text \<open>
  The handlers read the agent of a member without checking that it is still there: the
  first property they read of \<open>undefined\<close> is a \<open>TypeError\<close>, unless the resolution of an
  overriding model fails before.
\<close>

definition undefined_property :: "string \<Rightarrow> exn" where
  "undefined_property p = type_error
     (''Cannot read properties of undefined (reading '' @ sql_quote p @ '')'')"

definition blank_agent :: agent_row where
  "blank_agent = \<lparr>ag_id = [], ag_name = [], ag_personality = None, ag_instructions = None,
     ag_system_prompt_id = None, ag_model_id = None, ag_temperature = None, ag_max_tokens = None,
     ag_model_params = None, ag_picture_path = None, ag_created_at = [], ag_updated_at = []\<rparr>"

definition missing_agent :: "env \<Rightarrow> database \<Rightarrow> create_completion \<Rightarrow> exn" where
  "missing_agent env d dto =
     (case cc_modelId dto of
        None \<Rightarrow> undefined_property ''model_id''
      | Some m \<Rightarrow>
          if m = [] then undefined_property ''name''
          else case resolveAgentExecution env d blank_agent (Some m) of
                 Inl e \<Rightarrow> e
               | Inr _ \<Rightarrow> undefined_property
                   (if cc_temperature dto = None then ''temperature''
                    else if cc_maxTokens dto = None then ''max_tokens'' else ''model_params''))"

definition with_extra_instructions :: "agent_row \<Rightarrow> string option \<Rightarrow> agent_row" where
  "with_extra_instructions agent extra =
     (if truthy extra then agent\<lparr>ag_instructions := with_directive (ag_instructions agent) extra\<rparr> else agent)"

definition member_setup ::
  "env \<Rightarrow> database \<Rightarrow> chat_row \<Rightarrow> team_member \<Rightarrow> create_completion \<Rightarrow> context_options option \<Rightarrow> string option
   \<Rightarrow> exn + execution \<times> completion_request" where
  "member_setup env d chat member dto opts extra =
     (case agent_by_id d (me_agent_id member) of
        None \<Rightarrow> Inl (missing_agent env d dto)
      | Some agent \<Rightarrow>
         (case resolveAgentExecution env d agent (cc_modelId dto) of
            Inl e \<Rightarrow> Inl e
          | Inr (model, provider, apiKey) \<Rightarrow>
             (case request_setup env d dto chat agent (with_extra_instructions agent extra) model opts of
                Inl e \<Rightarrow> Inl e
              | Inr req \<Rightarrow> Inr (\<lparr>ex_chat = chat, ex_agent = agent, ex_model = model, ex_provider = provider,
                                 ex_apiKey = apiKey\<rparr>, req))))"

definition executeMemberTurn ::
  "env \<Rightarrow> chat_row \<Rightarrow> team_member \<Rightarrow> create_completion \<Rightarrow> context_options option \<Rightarrow> string option
   \<Rightarrow> completion_dto comp" where
  "executeMemberTurn env chat member dto opts extra =
     bnd (query (\<lambda>d. member_setup env d chat member dto opts extra)) (\<lambda>(x, req).
     bnd (of_sum (create_adapter env (ex_model x) (ex_provider x) (ex_apiKey x))) (\<lambda>a.
     bnd (call_provider env a req (ex_model x) (ex_provider x) (ex_apiKey x)) (\<lambda>response.
     persistAssistantReply env chat (ex_agent x) (ex_provider x) (ex_model x) response)))"

record turn_result =
  tr_content :: string
  tr_usage :: "token_usage option"
  tr_error :: "exn option"

definition turn_result_with :: "exn option \<Rightarrow> turn_result comp" where
  "turn_result_with e = bnd (gets gen) (\<lambda>g.
     ret \<lparr>tr_content = accumulatedContent g, tr_usage = reportedUsage g, tr_error = e\<rparr>)"

definition finishMemberTurn ::
  "env \<Rightarrow> string \<Rightarrow> execution \<Rightarrow> exn option \<Rightarrow> turn_result comp" where
  "finishMemberTurn env messageId x turnError =
     (let chatId = ch_id (ex_chat x) in
      bnd is_aborted (\<lambda>ab.
        if ab
        then bnd (finish_aborted env messageId chatId) (\<lambda>_.
             turn_result_with (Some (request_aborted_error ''Aborted'' (Some ''generic'') None None)))
        else if (case turnError of None \<Rightarrow> False | Some e \<Rightarrow> exn_truthy e)
        then (let normalizedError = provider_failure (json_parse env) (pr_kind (ex_provider x))
                    (mo_model_identifier (ex_model x)) (ex_apiKey x) (the turnError)
              in bnd (finish_failed env messageId chatId normalizedError) (\<lambda>_.
                 turn_result_with (Some normalizedError)))
        else bnd (finish_complete env messageId chatId (ex_agent x) (ex_provider x) (ex_model x)) (\<lambda>_.
             bnd (emit_message_complete env messageId) (\<lambda>_. turn_result_with None))))"

definition member_display_name :: "team_member \<Rightarrow> string" where
  "member_display_name m = (if truthy (me_role m)
     then me_agent_name m @ '' ('' @ from_option [] (me_role m) @ '')'' else me_agent_name m)"

definition streamMemberTurn ::
  "env \<Rightarrow> chat_row \<Rightarrow> team_member \<Rightarrow> create_completion \<Rightarrow> context_options option \<Rightarrow> string option
   \<Rightarrow> turn_result comp" where
  "streamMemberTurn env chat member dto opts extra =
     bnd (query (\<lambda>d. member_setup env d chat member dto opts extra)) (\<lambda>(x, req).
     bnd (createPendingMessageRow env (ch_id chat) (ag_id (ex_agent x))) (\<lambda>pendingRow.
     bnd (emit env (MessageStart (msg_id pendingRow) (ch_id chat) (msg_sequence pendingRow)
            (Some (ag_id (ex_agent x))) (Some (member_display_name member)))) (\<lambda>_.
     bnd (begin_turn env) (\<lambda>_.
     bnd (of_sum (create_adapter env (ex_model x) (ex_provider x) (ex_apiKey x))) (\<lambda>a.
     bnd (catch_exn (bnd (run_stream env (msg_id pendingRow) (ch_id chat) a req) (\<lambda>_. ret None))
            (\<lambda>e. ret (Some e))) (\<lambda>turnError.
     finishMemberTurn env (msg_id pendingRow) x turnError))))))"

section \<open>Turns obey every transcript relation\<close>

context transcript_relation
begin

lemma obeys_set_gen [obeys_intros]: "obeys (on_db R) (set_gen f)"
  by (rule obeys_same_db) (simp add: set_gen_def modify_def)

lemma obeys_begin_turn [obeys_intros]: "obeys (on_db R) (begin_turn env)"
  unfolding begin_turn_def by (intro obeys_intros)

lemma obeys_flushPartial [obeys_intros]: "obeys (on_db R) (flushPartial env mid cid st tok)"
  unfolding flushPartial_def by (intro obeys_intros)

lemma obeys_handle_text [obeys_intros]:
  "env_obeys R env \<Longrightarrow> obeys (on_db R) (handle_text env mid cid delta)"
  unfolding handle_text_def Let_def by (intro obeys_intros)

lemma obeys_handle_event [obeys_intros]:
  "env_obeys R env \<Longrightarrow> obeys (on_db R) (handle_event env mid cid ev)"
  unfolding handle_event_def by (cases ev) (auto intro!: obeys_intros split: option.split)

lemma obeys_consume:
  "env_obeys R env \<Longrightarrow> run_obeys R run \<Longrightarrow> obeys (on_db R) (consume env mid cid run)"
  by (induction run) (auto intro!: obeys_intros intro: obeys_apply_effect)

lemma obeys_run_stream [obeys_intros]:
  assumes "env_obeys R env" "adapter_obeys R a"
  shows "obeys (on_db R) (run_stream env mid cid a req)"
proof (rule obeysI)
  fix w r w'
  assume "run_stream env mid cid a req w = (r, w')"
  then have "consume env mid cid (ad_stream a (calls w) req) (w\<lparr>calls := Suc (calls w)\<rparr>) = (r, w')"
    by (simp add: run_stream_def open_stream_def bnd_def)
  moreover have "run_obeys R (ad_stream a (calls w) req)"
    using assms(2) by (simp add: adapter_obeys_def)
  ultimately show "on_db R w w'"
    using obeys_consume [OF assms(1)] obeysD by (fastforce simp: on_db_def)
qed

lemma obeys_finish_aborted [obeys_intros]: "obeys (on_db R) (finish_aborted env mid cid)"
  unfolding finish_aborted_def by (intro obeys_intros)

lemma obeys_finish_complete [obeys_intros]:
  "obeys (on_db R) (finish_complete env mid cid agent provider model)"
  unfolding finish_complete_def by (intro obeys_intros)

lemma obeys_emit_message_complete [obeys_intros]:
  "env_obeys R env \<Longrightarrow> obeys (on_db R) (emit_message_complete env mid)"
  unfolding emit_message_complete_def by (intro obeys_intros)

lemma obeys_finish_failed [obeys_intros]:
  "env_obeys R env \<Longrightarrow> obeys (on_db R) (finish_failed env mid cid e)"
  unfolding finish_failed_def by (intro obeys_intros)

lemma obeys_stream_body [obeys_intros]:
  "env_obeys R env \<Longrightarrow> adapter_obeys R a \<Longrightarrow> obeys (on_db R) (stream_body env mid x a req)"
  unfolding stream_body_def Let_def by (intro obeys_intros)

lemma obeys_stream_catch [obeys_intros]:
  "env_obeys R env \<Longrightarrow> obeys (on_db R) (stream_catch env mid x e)"
  unfolding stream_catch_def Let_def by (intro obeys_intros)

lemma obeys_streamAgentChat [obeys_intros]:
  "env_obeys R env \<Longrightarrow> obeys (on_db R) (streamAgentChat env chat dto)"
  unfolding streamAgentChat_def by (intro obeys_bnd_adapter obeys_intros)

lemma obeys_completeAgentChat [obeys_intros]:
  "env_obeys R env \<Longrightarrow> obeys (on_db R) (completeAgentChat env chat dto)"
  unfolding completeAgentChat_def by (intro obeys_bnd_adapter obeys_intros)

lemma obeys_executeMemberTurn [obeys_intros]:
  "env_obeys R env \<Longrightarrow> obeys (on_db R) (executeMemberTurn env chat member dto opts extra)"
  unfolding executeMemberTurn_def by (intro obeys_bnd_adapter obeys_intros)

lemma obeys_turn_result_with [obeys_intros]: "obeys (on_db R) (turn_result_with e)"
  unfolding turn_result_with_def by (intro obeys_intros)

lemma obeys_finishMemberTurn [obeys_intros]:
  "env_obeys R env \<Longrightarrow> obeys (on_db R) (finishMemberTurn env mid x e)"
  unfolding finishMemberTurn_def Let_def by (intro obeys_intros)

lemma obeys_streamMemberTurn [obeys_intros]:
  "env_obeys R env \<Longrightarrow> obeys (on_db R) (streamMemberTurn env chat member dto opts extra)"
  unfolding streamMemberTurn_def by (intro obeys_bnd_adapter obeys_intros)

end

end
