(* ===== verification/TeamChat.thy ===== *)
theory TeamChat
  imports StreamTurn
begin

text \<open>
  The multi-agent turns of \<open>inference.service.ts\<close>: the four strategies (sequential,
  coordinator, broadcast, autonomous), each in its non-streaming and its streaming form,
  the validation of the members before the first turn, and the entry points
  \<open>completeChat\<close> and \<open>streamChat\<close> that choose between an agent's chat and a team's.
\<close>

section \<open>Routing\<close>

definition finish_marker :: string where
  "finish_marker = ''<!-- GB_TEAM_FINISH -->''"

text \<open>\<open>/\[DELEGATE:\s*([^\]]+)\]/i\<close> and \<open>/\[NEXT:\s*@?([^\]]+)\]/i\<close>.\<close>

definition not_bracket :: "char \<Rightarrow> bool" where
  "not_bracket c = (c \<noteq> CHR '']'')"

definition delegate_rx :: rx where
  "delegate_rx = seqs [lit_i ''[DELEGATE:'', Rep 0 js_ws, Cap (Rep 1 not_bracket), lit '']'']"

definition next_rx :: rx where
  "next_rx = seqs [lit_i ''[NEXT:'', Rep 0 js_ws, opt (lit ''@''), Cap (Rep 1 not_bracket), lit '']'']"

definition match_target :: "rx \<Rightarrow> string \<Rightarrow> string option" where
  "match_target r content =
     map_option (\<lambda>m. js_lower (js_trim (from_option [] (group1 m)))) (rx_match r content)"

definition find_target :: "team_member list \<Rightarrow> string \<Rightarrow> team_member option" where
  "find_target ms q =
     coalesce (find (\<lambda>m. js_lower (me_agent_id m) = q) ms)
       (coalesce (find (\<lambda>m. js_lower (me_agent_name m) = q) ms)
         (find (\<lambda>m. js_includes (js_lower (me_agent_name m)) q
                   \<or> js_includes q (js_lower (me_agent_name m))) ms))"

definition role_includes :: "string \<Rightarrow> team_member \<Rightarrow> bool" where
  "role_includes p m = (case me_role m of None \<Rightarrow> False | Some r \<Rightarrow> js_includes (js_lower r) p)"

definition pick_coordinator :: "team_member list \<Rightarrow> team_member" where
  "pick_coordinator ms =
     from_option (hd ms)
       (coalesce (find (\<lambda>m. me_is_coordinator m = 1) ms)
         (find (\<lambda>m. role_includes ''coordinator'' m \<or> role_includes ''router'' m) ms))"

definition others :: "team_member \<Rightarrow> team_member list \<Rightarrow> team_member list" where
  "others m ms = filter (\<lambda>x. me_agent_id x \<noteq> me_agent_id m) ms"

definition team_name :: "team_row option \<Rightarrow> string" where
  "team_name team = (case team of None \<Rightarrow> ''Team'' | Some t \<Rightarrow> te_name t)"

definition specialist_roster :: "team_member list \<Rightarrow> string" where
  "specialist_roster ms = js_join nl (map (\<lambda>s. ''- '' @ me_agent_name s
     @ (if truthy (me_role s) then '' (Role: '' @ from_option [] (me_role s) @ '')'' else [])
     @ '' [ID: '' @ me_agent_id s @ '']'') ms)"

definition coordinator_directive :: "team_row option \<Rightarrow> team_member list \<Rightarrow> string option" where
  "coordinator_directive team specialists =
     (if specialists \<noteq> []
      then Some (''You are the designated Coordinator for team '' @ quoted (team_name team) @ ''.'' @ nl
        @ ''Available team specialists:'' @ nl @ specialist_roster specialists @ nl @ nl
        @ ''If a specialist should handle or answer the request, output:'' @ nl
        @ ''[DELEGATE: <Specialist Name or ID>] <instructions for the specialist>'' @ nl
        @ ''If you can answer directly without delegation, provide your response directly.'')
      else None)"

definition colleague_roster :: "team_member list \<Rightarrow> string" where
  "colleague_roster ms = js_join nl (map (\<lambda>m. ''- @'' @ me_agent_name m
     @ (if truthy (me_role m) then '' ('' @ from_option [] (me_role m) @ '')'' else [])
     @ '' [ID: '' @ me_agent_id m @ '']'') ms)"

definition autonomous_directive :: "team_row option \<Rightarrow> team_member list \<Rightarrow> string option" where
  "autonomous_directive team colleagues =
     (if colleagues \<noteq> []
      then Some (''You are collaborating dynamically in an autonomous multi-agent team ''
        @ quoted (team_name team) @ ''.'' @ nl
        @ ''Available colleagues:'' @ nl @ colleague_roster colleagues @ nl @ nl
        @ ''If another colleague should continue the discussion, hand off by including:'' @ nl
        @ ''[NEXT: @ColleagueName]'' @ nl
        @ ''When the task is complete and no further response is needed, end with:'' @ nl
        @ ''[DONE] or '' @ finish_marker @ ''.'')
      else None)"

text \<open>The next speaker of an autonomous exchange, if the reply hands over to one.\<close>

definition next_speaker :: "team_member list \<Rightarrow> team_member \<Rightarrow> string \<Rightarrow> team_member option" where
  "next_speaker members current content =
     (if js_includes content ''[DONE]'' \<or> js_includes content finish_marker then None
      else Option.bind (match_target next_rx content) (find_target (others current members)))"

definition delegate_of :: "int \<Rightarrow> team_member list \<Rightarrow> string \<Rightarrow> team_member option" where
  "delegate_of boundedMaxTurns specialists content =
     (if 2 \<le> boundedMaxTurns \<and> specialists \<noteq> []
      then Option.bind (match_target delegate_rx content) (find_target specialists) else None)"

definition bounded_max_turns :: "create_completion \<Rightarrow> team_row option \<Rightarrow> int" where
  "bounded_max_turns dto team =
     min (max 1 (from_option 5 (coalesce (cc_maxTurns dto) (Option.bind team te_max_turns_per_interaction)))) 10"

definition team_strategy :: "create_completion \<Rightarrow> team_row option \<Rightarrow> string" where
  "team_strategy dto team = from_option ''sequential'' (coalesce (cc_strategy dto) (map_option te_strategy team))"

section \<open>Validation before the first turn\<close>

fun preValidateTeamMembers ::
  "env \<Rightarrow> database \<Rightarrow> team_member list \<Rightarrow> string option \<Rightarrow> bool \<Rightarrow> exn + unit" where
  "preValidateTeamMembers env d [] override requireStreaming = Inr ()"
| "preValidateTeamMembers env d (m # ms) override requireStreaming =
     (case agent_by_id d (me_agent_id m) of
        None \<Rightarrow> Inl (agent_not_found (me_agent_id m))
      | Some agent \<Rightarrow>
         (case resolveAgentExecution env d agent override of
            Inl e \<Rightarrow> Inl e
          | Inr (model, provider, apiKey) \<Rightarrow>
             (if requireStreaming
              then (case create_adapter env model provider apiKey of
                      Inl e \<Rightarrow> Inl e
                    | Inr a \<Rightarrow>
                       if ad_supportsStreaming a
                       then preValidateTeamMembers env d ms override requireStreaming
                       else Inl (streaming_not_supported model))
              else preValidateTeamMembers env d ms override requireStreaming)))"

section \<open>Non-streaming strategies\<close>

definition request_was_aborted :: exn where
  "request_was_aborted = request_aborted_error ''Request was aborted'' (Some ''generic'') None None"

text \<open>A turn after the first that fails leaves a row that says so.\<close>

definition guarded_turn ::
  "env \<Rightarrow> chat_row \<Rightarrow> team_member \<Rightarrow> create_completion \<Rightarrow> context_options option \<Rightarrow> string option
   \<Rightarrow> bool \<Rightarrow> completion_dto comp" where
  "guarded_turn env chat member dto opts extra later =
     catch_exn (executeMemberTurn env chat member dto opts extra)
       (\<lambda>e. bnd (do_when later (recordTurnErrorRow env (ch_id chat) (me_agent_id member)))
              (\<lambda>_. raise_exn e))"

fun sequential_turns ::
  "env \<Rightarrow> chat_row \<Rightarrow> create_completion \<Rightarrow> team_member list \<Rightarrow> completion_dto list
   \<Rightarrow> completion_dto list comp" where
  "sequential_turns env chat dto [] acc = ret acc"
| "sequential_turns env chat dto (m # ms) acc =
     bnd is_aborted (\<lambda>ab.
       if ab then (if acc = [] then raise_exn request_was_aborted else ret acc)
       else bnd (guarded_turn env chat m dto None None (acc \<noteq> [])) (\<lambda>reply.
         if js_includes (cd_content reply) finish_marker then ret (acc @ [reply])
         else sequential_turns env chat dto ms (acc @ [reply])))"

definition completeSequentialTeamChat ::
  "env \<Rightarrow> chat_row \<Rightarrow> team_member list \<Rightarrow> int \<Rightarrow> create_completion \<Rightarrow> completion_dto list comp" where
  "completeSequentialTeamChat env chat members boundedMaxTurns dto =
     sequential_turns env chat dto (take (nat (min (int (length members)) boundedMaxTurns)) members) []"

definition completeCoordinatorTeamChat ::
  "env \<Rightarrow> chat_row \<Rightarrow> team_row option \<Rightarrow> team_member list \<Rightarrow> int \<Rightarrow> create_completion
   \<Rightarrow> completion_dto list comp" where
  "completeCoordinatorTeamChat env chat team members boundedMaxTurns dto =
     (let coordinator = pick_coordinator members; specialists = others coordinator members in
      bnd (executeMemberTurn env chat coordinator dto None (coordinator_directive team specialists)) (\<lambda>coordReply.
      case delegate_of boundedMaxTurns specialists (cd_content coordReply) of
        None \<Rightarrow> ret [coordReply]
      | Some specialist \<Rightarrow>
          bnd (guarded_turn env chat specialist dto None None True) (\<lambda>specReply.
          ret [coordReply, specReply])))"

definition broadcast_options :: "database \<Rightarrow> string \<Rightarrow> context_options" where
  "broadcast_options d chatId = no_context_options
     \<lparr>co_maxSequence := Some (from_option 0 (sql_max (map msg_sequence (chat_messages d chatId))))\<rparr>"

fun broadcast_turns ::
  "env \<Rightarrow> chat_row \<Rightarrow> create_completion \<Rightarrow> context_options \<Rightarrow> team_member list \<Rightarrow> completion_dto list
   \<Rightarrow> completion_dto list comp" where
  "broadcast_turns env chat dto opts [] acc = ret acc"
| "broadcast_turns env chat dto opts (m # ms) acc =
     bnd is_aborted (\<lambda>ab.
       if ab then (if acc = [] then raise_exn request_was_aborted else ret acc)
       else bnd (guarded_turn env chat m dto (Some opts) None (acc \<noteq> [])) (\<lambda>reply.
         broadcast_turns env chat dto opts ms (acc @ [reply])))"

definition completeBroadcastTeamChat ::
  "env \<Rightarrow> chat_row \<Rightarrow> team_member list \<Rightarrow> int \<Rightarrow> create_completion \<Rightarrow> completion_dto list comp" where
  "completeBroadcastTeamChat env chat members boundedMaxTurns dto =
     bnd (select (\<lambda>d. broadcast_options d (ch_id chat))) (\<lambda>opts.
     broadcast_turns env chat dto opts (take (nat (min (int (length members)) boundedMaxTurns)) members) [])"

fun autonomous_turns ::
  "env \<Rightarrow> chat_row \<Rightarrow> team_row option \<Rightarrow> team_member list \<Rightarrow> create_completion \<Rightarrow> nat \<Rightarrow> team_member
   \<Rightarrow> completion_dto list \<Rightarrow> completion_dto list comp" where
  "autonomous_turns env chat team members dto 0 current acc = ret acc"
| "autonomous_turns env chat team members dto (Suc k) current acc =
     bnd is_aborted (\<lambda>ab.
       if ab then (if acc = [] then raise_exn request_was_aborted else ret acc)
       else bnd (guarded_turn env chat current dto None
                   (autonomous_directive team (others current members)) (acc \<noteq> [])) (\<lambda>reply.
         case next_speaker members current (cd_content reply) of
           None \<Rightarrow> ret (acc @ [reply])
         | Some m \<Rightarrow> autonomous_turns env chat team members dto k m (acc @ [reply])))"

definition completeAutonomousTeamChat ::
  "env \<Rightarrow> chat_row \<Rightarrow> team_row option \<Rightarrow> team_member list \<Rightarrow> int \<Rightarrow> create_completion
   \<Rightarrow> completion_dto list comp" where
  "completeAutonomousTeamChat env chat team members boundedMaxTurns dto =
     autonomous_turns env chat team members dto (nat boundedMaxTurns) (pick_coordinator members) []"

text \<open>The reply of a completion: the last message, and for a team all of them.\<close>

record completion_reply =
  rp_last :: completion_dto
  rp_messages :: "completion_dto list option"

definition team_reply :: "completion_dto list \<Rightarrow> completion_reply" where
  "team_reply completed = \<lparr>rp_last = last completed, rp_messages = Some completed\<rparr>"

definition completeTeamChat :: "env \<Rightarrow> chat_row \<Rightarrow> string \<Rightarrow> create_completion \<Rightarrow> completion_dto list comp" where
  "completeTeamChat env chat teamId dto =
     bnd (select (\<lambda>d. team_by_id d teamId)) (\<lambda>team.
     bnd (select (\<lambda>d. getActiveTeamMembers d teamId)) (\<lambda>members.
     if members = [] then raise_exn team_has_no_members
     else
     bnd (query (\<lambda>d. preValidateTeamMembers env d members (cc_modelId dto) False)) (\<lambda>_.
     let strategy = team_strategy dto team; turns = bounded_max_turns dto team in
     if strategy = ''coordinator'' then completeCoordinatorTeamChat env chat team members turns dto
     else if strategy = ''broadcast'' then completeBroadcastTeamChat env chat members turns dto
     else if strategy = ''autonomous'' then completeAutonomousTeamChat env chat team members turns dto
     else completeSequentialTeamChat env chat members turns dto)))"

definition completeChat :: "env \<Rightarrow> string \<Rightarrow> create_completion \<Rightarrow> completion_reply comp" where
  "completeChat env chatId dto =
     bnd (select (\<lambda>d. chat_by_id d chatId)) (\<lambda>found.
     case found of
       None \<Rightarrow> raise_exn (chat_not_found chatId)
     | Some chat \<Rightarrow>
        (case ch_team_id chat of
           Some teamId \<Rightarrow> bnd (completeTeamChat env chat teamId dto) (\<lambda>completed. ret (team_reply completed))
         | None \<Rightarrow> bnd (completeAgentChat env chat dto) (\<lambda>r. ret \<lparr>rp_last = r, rp_messages = None\<rparr>)))"

section \<open>Streaming strategies\<close>

record stream_totals =
  totalInputTokens :: int
  totalOutputTokens :: int
  totalTokensSum :: int
  totalReasoningTokens :: int

definition zero_totals :: stream_totals where
  "zero_totals = \<lparr>totalInputTokens = 0, totalOutputTokens = 0, totalTokensSum = 0, totalReasoningTokens = 0\<rparr>"

definition add_usage :: "turn_result \<Rightarrow> stream_totals \<Rightarrow> stream_totals" where
  "add_usage res t = (case tr_usage res of
     None \<Rightarrow> t
   | Some u \<Rightarrow> \<lparr>totalInputTokens = totalInputTokens t + inputTokens u,
       totalOutputTokens = totalOutputTokens t + outputTokens u,
       totalTokensSum = totalTokensSum t + totalTokens u,
       totalReasoningTokens = totalReasoningTokens t + from_option 0 (reasoningTokens u)\<rparr>)"

definition emitFinalStreamUsageAndDone :: "env \<Rightarrow> stream_totals \<Rightarrow> unit comp" where
  "emitFinalStreamUsageAndDone env t =
     bnd (do_when (totalInputTokens t > 0 \<or> totalOutputTokens t > 0)
            (emit env (Usage \<lparr>inputTokens = totalInputTokens t, outputTokens = totalOutputTokens t,
               totalTokens = totalTokensSum t,
               reasoningTokens = (if totalReasoningTokens t > 0 then Some (totalReasoningTokens t) else None)\<rparr>)))
       (\<lambda>_. emit env Done)"

text \<open>A loop that \<open>return\<close>s early gives \<^const>\<open>None\<close>: nothing more is emitted then.\<close>

definition final_events :: "env \<Rightarrow> stream_totals option \<Rightarrow> unit comp" where
  "final_events env t = (case t of None \<Rightarrow> ret () | Some totals \<Rightarrow> emitFinalStreamUsageAndDone env totals)"

fun stream_sequential_turns ::
  "env \<Rightarrow> chat_row \<Rightarrow> create_completion \<Rightarrow> team_member list \<Rightarrow> stream_totals \<Rightarrow> stream_totals option comp" where
  "stream_sequential_turns env chat dto [] t = ret (Some t)"
| "stream_sequential_turns env chat dto (m # ms) t =
     bnd is_aborted (\<lambda>ab. if ab then ret None
       else bnd (streamMemberTurn env chat m dto None None) (\<lambda>res.
         if tr_error res \<noteq> None then ret None
         else if js_includes (tr_content res) finish_marker then ret (Some (add_usage res t))
         else stream_sequential_turns env chat dto ms (add_usage res t)))"

definition streamSequentialTeamChat ::
  "env \<Rightarrow> chat_row \<Rightarrow> team_member list \<Rightarrow> int \<Rightarrow> create_completion \<Rightarrow> unit comp" where
  "streamSequentialTeamChat env chat members boundedMaxTurns dto =
     bnd (stream_sequential_turns env chat dto
            (take (nat (min (int (length members)) boundedMaxTurns)) members) zero_totals)
       (final_events env)"

definition streamCoordinatorTeamChat ::
  "env \<Rightarrow> chat_row \<Rightarrow> team_row option \<Rightarrow> team_member list \<Rightarrow> int \<Rightarrow> create_completion \<Rightarrow> unit comp" where
  "streamCoordinatorTeamChat env chat team members boundedMaxTurns dto =
     (let coordinator = pick_coordinator members; specialists = others coordinator members in
      bnd (streamMemberTurn env chat coordinator dto None (coordinator_directive team specialists)) (\<lambda>coordRes.
      if tr_error coordRes \<noteq> None then ret ()
      else case delegate_of boundedMaxTurns specialists (tr_content coordRes) of
        None \<Rightarrow> emitFinalStreamUsageAndDone env (add_usage coordRes zero_totals)
      | Some specialist \<Rightarrow>
          bnd (streamMemberTurn env chat specialist dto None None) (\<lambda>specRes.
          if tr_error specRes \<noteq> None then ret ()
          else emitFinalStreamUsageAndDone env (add_usage specRes (add_usage coordRes zero_totals)))))"

fun stream_broadcast_turns ::
  "env \<Rightarrow> chat_row \<Rightarrow> create_completion \<Rightarrow> context_options \<Rightarrow> team_member list \<Rightarrow> stream_totals
   \<Rightarrow> stream_totals option comp" where
  "stream_broadcast_turns env chat dto opts [] t = ret (Some t)"
| "stream_broadcast_turns env chat dto opts (m # ms) t =
     bnd is_aborted (\<lambda>ab. if ab then ret None
       else bnd (streamMemberTurn env chat m dto (Some opts) None) (\<lambda>res.
         if tr_error res \<noteq> None then ret None
         else stream_broadcast_turns env chat dto opts ms (add_usage res t)))"

definition streamBroadcastTeamChat ::
  "env \<Rightarrow> chat_row \<Rightarrow> team_member list \<Rightarrow> int \<Rightarrow> create_completion \<Rightarrow> unit comp" where
  "streamBroadcastTeamChat env chat members boundedMaxTurns dto =
     bnd (select (\<lambda>d. broadcast_options d (ch_id chat))) (\<lambda>opts.
     bnd (stream_broadcast_turns env chat dto opts
            (take (nat (min (int (length members)) boundedMaxTurns)) members) zero_totals)
       (final_events env))"

fun stream_autonomous_turns ::
  "env \<Rightarrow> chat_row \<Rightarrow> team_row option \<Rightarrow> team_member list \<Rightarrow> create_completion \<Rightarrow> nat \<Rightarrow> team_member
   \<Rightarrow> stream_totals \<Rightarrow> stream_totals option comp" where
  "stream_autonomous_turns env chat team members dto 0 current t = ret (Some t)"
| "stream_autonomous_turns env chat team members dto (Suc k) current t =
     bnd is_aborted (\<lambda>ab. if ab then ret None
       else bnd (streamMemberTurn env chat current dto None
                   (autonomous_directive team (others current members))) (\<lambda>res.
         if tr_error res \<noteq> None then ret None
         else case next_speaker members current (tr_content res) of
           None \<Rightarrow> ret (Some (add_usage res t))
         | Some m \<Rightarrow> stream_autonomous_turns env chat team members dto k m (add_usage res t)))"

definition streamAutonomousTeamChat ::
  "env \<Rightarrow> chat_row \<Rightarrow> team_row option \<Rightarrow> team_member list \<Rightarrow> int \<Rightarrow> create_completion \<Rightarrow> unit comp" where
  "streamAutonomousTeamChat env chat team members boundedMaxTurns dto =
     bnd (stream_autonomous_turns env chat team members dto (nat boundedMaxTurns)
            (pick_coordinator members) zero_totals)
       (final_events env)"

definition streamTeamChat :: "env \<Rightarrow> chat_row \<Rightarrow> string \<Rightarrow> create_completion \<Rightarrow> unit comp" where
  "streamTeamChat env chat teamId dto =
     bnd (select (\<lambda>d. team_by_id d teamId)) (\<lambda>team.
     bnd (select (\<lambda>d. getActiveTeamMembers d teamId)) (\<lambda>members.
     if members = [] then raise_exn team_has_no_members
     else
     bnd is_aborted (\<lambda>ab.
     if ab then raise_exn (request_aborted_error ''Request was aborted before execution''
                  (Some ''generic'') None None)
     else
     bnd (query (\<lambda>d. preValidateTeamMembers env d members (cc_modelId dto) True)) (\<lambda>_.
     let strategy = team_strategy dto team; turns = bounded_max_turns dto team in
     if strategy = ''coordinator'' then streamCoordinatorTeamChat env chat team members turns dto
     else if strategy = ''broadcast'' then streamBroadcastTeamChat env chat members turns dto
     else if strategy = ''autonomous'' then streamAutonomousTeamChat env chat team members turns dto
     else streamSequentialTeamChat env chat members turns dto))))"

definition streamChat :: "env \<Rightarrow> string \<Rightarrow> create_completion \<Rightarrow> unit comp" where
  "streamChat env chatId dto =
     bnd (select (\<lambda>d. chat_by_id d chatId)) (\<lambda>found.
     case found of
       None \<Rightarrow> raise_exn (chat_not_found chatId)
     | Some chat \<Rightarrow>
        (case ch_team_id chat of
           Some teamId \<Rightarrow> streamTeamChat env chat teamId dto
         | None \<Rightarrow> streamAgentChat env chat dto))"

section \<open>Every completion obeys every transcript relation\<close>

context transcript_relation
begin

lemma obeys_guarded_turn [obeys_intros]:
  "env_obeys R env \<Longrightarrow> obeys (on_db R) (guarded_turn env chat member dto opts extra later)"
  unfolding guarded_turn_def by (intro obeys_intros)

lemma obeys_sequential_turns [obeys_intros]:
  "env_obeys R env \<Longrightarrow> obeys (on_db R) (sequential_turns env chat dto ms acc)"
  by (induction ms arbitrary: acc) (auto intro!: obeys_intros)

lemma obeys_broadcast_turns [obeys_intros]:
  "env_obeys R env \<Longrightarrow> obeys (on_db R) (broadcast_turns env chat dto opts ms acc)"
  by (induction ms arbitrary: acc) (auto intro!: obeys_intros)

lemma obeys_autonomous_turns [obeys_intros]:
  "env_obeys R env \<Longrightarrow> obeys (on_db R) (autonomous_turns env chat team members dto k current acc)"
  by (induction k arbitrary: current acc) (auto intro!: obeys_intros)

lemma obeys_completeTeamChat [obeys_intros]:
  "env_obeys R env \<Longrightarrow> obeys (on_db R) (completeTeamChat env chat teamId dto)"
  unfolding completeTeamChat_def completeCoordinatorTeamChat_def completeBroadcastTeamChat_def
    completeAutonomousTeamChat_def completeSequentialTeamChat_def Let_def
  by (intro obeys_intros)

lemma obeys_completeChat [obeys_intros]:
  "env_obeys R env \<Longrightarrow> obeys (on_db R) (completeChat env chatId dto)"
  unfolding completeChat_def by (intro obeys_intros)

lemma obeys_emitFinal [obeys_intros]:
  "env_obeys R env \<Longrightarrow> obeys (on_db R) (emitFinalStreamUsageAndDone env t)"
  unfolding emitFinalStreamUsageAndDone_def by (intro obeys_intros)

lemma obeys_final_events [obeys_intros]:
  "env_obeys R env \<Longrightarrow> obeys (on_db R) (final_events env t)"
  unfolding final_events_def by (intro obeys_intros)

lemma obeys_stream_sequential_turns [obeys_intros]:
  "env_obeys R env \<Longrightarrow> obeys (on_db R) (stream_sequential_turns env chat dto ms t)"
  by (induction ms arbitrary: t) (auto intro!: obeys_intros)

lemma obeys_stream_broadcast_turns [obeys_intros]:
  "env_obeys R env \<Longrightarrow> obeys (on_db R) (stream_broadcast_turns env chat dto opts ms t)"
  by (induction ms arbitrary: t) (auto intro!: obeys_intros)

lemma obeys_stream_autonomous_turns [obeys_intros]:
  "env_obeys R env \<Longrightarrow> obeys (on_db R) (stream_autonomous_turns env chat team members dto k current t)"
  by (induction k arbitrary: current t) (auto intro!: obeys_intros)

lemma obeys_streamTeamChat [obeys_intros]:
  "env_obeys R env \<Longrightarrow> obeys (on_db R) (streamTeamChat env chat teamId dto)"
  unfolding streamTeamChat_def streamCoordinatorTeamChat_def streamBroadcastTeamChat_def
    streamAutonomousTeamChat_def streamSequentialTeamChat_def Let_def
  by (intro obeys_intros)

lemma obeys_streamChat [obeys_intros]:
  "env_obeys R env \<Longrightarrow> obeys (on_db R) (streamChat env chatId dto)"
  unfolding streamChat_def by (intro obeys_intros)

end

end
