(* ===== verification/Compaction.thy ===== *)
theory Compaction
  imports InferenceCore
begin

text \<open>
  \<open>modules/inference/compaction-prompts.ts\<close> and \<open>InferenceService.compactChat\<close>: the
  history before a boundary is folded into the summary of the chat.
\<close>

section \<open>Prompts\<close>

definition COMPACTION_SYSTEM_PROMPT :: string where
  "COMPACTION_SYSTEM_PROMPT =
     ''You are an expert conversation summariser. Your task is to produce a clear, dense, ''
     @ ''and factual summary of the provided conversation history.'' @ nl @ nl
     @ ''Guidelines:'' @ nl
     @ ''- Preserve key decisions, requirements, architecture details, user preferences, and constraints.'' @ nl
     @ ''- Keep track of current project state, completed actions, and any unresolved issues or pending next steps.'' @ nl
     @ ''- Omit conversational filler, polite greetings, and repetitive exchanges.'' @ nl
     @ ''- Structure the summary cleanly using markdown headings or bullet points where appropriate.'' @ nl
     @ ''- When an existing summary is provided, synthesize the new conversation turns into it to produce a single, cohesive, updated summary.'' @ nl
     @ ''- Be concise and dense: do not generate unnecessary narrative prose.''"

definition formatMessagesForCompaction :: "message_row list \<Rightarrow> string" where
  "formatMessagesForCompaction ms = js_join (nl @ nl)
     (map (\<lambda>m. ''[Sequence '' @ show_int (msg_sequence m) @ '' | '' @ msg_role m @ '']:'' @ nl
        @ js_trim (msg_content m)) ms)"

definition buildCompactionUserPrompt :: "string option \<Rightarrow> message_row list \<Rightarrow> string" where
  "buildCompactionUserPrompt existingSummary ms =
     (let formattedMessages = formatMessagesForCompaction ms in
      if truthy existingSummary \<and> length (js_trim (from_option [] existingSummary)) > 0
      then ''The conversation was previously summarised as follows:'' @ nl @ nl
         @ ''<prior_summary>'' @ nl @ js_trim (from_option [] existingSummary) @ nl @ ''</prior_summary>'' @ nl @ nl
         @ ''Here are the new conversation turns that have taken place since that summary:'' @ nl @ nl
         @ ''<new_turns>'' @ nl @ formattedMessages @ nl @ ''</new_turns>'' @ nl @ nl
         @ ''Please produce an updated, cohesive summary that incorporates these new turns into the prior summary. ''
         @ ''Return only the updated summary.''
      else ''Here are the conversation turns to summarise:'' @ nl @ nl
         @ ''<conversation_turns>'' @ nl @ formattedMessages @ nl @ ''</conversation_turns>'' @ nl @ nl
         @ ''Please produce a dense, factual summary of this conversation history. ''
         @ ''Return only the summary.'')"

section \<open>What is compacted\<close>

record compact_chat_dto =
  cp_modelId :: "string option"
  cp_preserveRecentCount :: "int option"

record compaction_plan =
  plan_compact :: "message_row list"
  plan_prompted :: "message_row list"
  plan_boundary :: int

definition uncompacted_messages :: "chat_row \<Rightarrow> message_row list \<Rightarrow> message_row list" where
  "uncompacted_messages chat ms =
     (case ch_compacted_before_sequence chat of
        None \<Rightarrow> ms
      | Some b \<Rightarrow> if b \<noteq> 0 then filter (\<lambda>m. b \<le> msg_sequence m) ms else ms)"

definition has_prompt_content :: "message_row \<Rightarrow> bool" where
  "has_prompt_content m =
     (msg_status m = Complete \<and> msg_content m \<noteq> [] \<and> length (js_trim (msg_content m)) > 0)"

definition nothing_to_compact :: "nat \<Rightarrow> int \<Rightarrow> exn" where
  "nothing_to_compact n preserve = bad_request ''NO_MESSAGES_TO_COMPACT''
     (''Chat has no messages eligible for compaction (found '' @ show_nat n
      @ '' uncompacted messages, but preserveRecentCount is '' @ show_int preserve @ '')'')"

definition plan_compaction :: "chat_row \<Rightarrow> message_row list \<Rightarrow> int \<Rightarrow> exn + compaction_plan" where
  "plan_compaction chat allMessages preserveRecentCount =
     (let uncompacted = uncompacted_messages chat allMessages in
      if int (length uncompacted) \<le> preserveRecentCount
      then Inl (nothing_to_compact (length uncompacted) preserveRecentCount)
      else
        let toCompact = take (length uncompacted - nat preserveRecentCount) uncompacted;
            valid = filter has_prompt_content toCompact
        in if valid = []
           then Inl (bad_request ''NO_MESSAGES_TO_COMPACT''
                  ''No complete messages with content are available for compaction'')
           else Inr \<lparr>plan_compact = toCompact, plan_prompted = valid,
                     plan_boundary = msg_sequence (last toCompact) + 1\<rparr>)"

definition compaction_request :: "model_row \<Rightarrow> chat_row \<Rightarrow> compaction_plan \<Rightarrow> completion_request" where
  "compaction_request model chat plan =
     \<lparr>cq_model = Some (mo_model_identifier model), cq_systemPrompt = Some COMPACTION_SYSTEM_PROMPT,
      cq_messages = [\<lparr>am_role = ''user'',
         am_content = buildCompactionUserPrompt (ch_context_summary chat) (plan_prompted plan), am_name = None, am_toolCallId = None\<rparr>],
      cq_temperature = Some (1 / 5), cq_maxTokens = Some 1024, cq_modelParams = None\<rparr>"

section \<open>The operation\<close>

record compact_response =
  cpr_chat :: chat_row
  cpr_compactedMessagesCount :: nat

definition save_compaction ::
  "env \<Rightarrow> execution \<Rightarrow> compaction_plan \<Rightarrow> completion_response \<Rightarrow> string \<Rightarrow> unit comp" where
  "save_compaction env x plan response now =
     transaction env
       (bnd (exec_write env (update_chat_summary (ch_id (ex_chat x)) (js_trim (cs_content response))
               (plan_boundary plan) now)) (\<lambda>_.
        case cs_usage response of
          None \<Rightarrow> ret ()
        | Some u \<Rightarrow> bnd (fresh_id env) (\<lambda>i. exec_write env (insert_usage
            (usage_row_of i now ''chat_compaction'' (ex_agent x) (ex_provider x) (ex_model x)
               (ch_id (ex_chat x)) (Some u))))))"

definition compact_result :: "database \<Rightarrow> string \<Rightarrow> int \<Rightarrow> exn + compact_response" where
  "compact_result d chatId boundary =
     (case chat_by_id d chatId of
        None \<Rightarrow> Inl (type_error (''Cannot read properties of undefined (reading '' @ sql_quote ''id'' @ '')''))
      | Some c \<Rightarrow> Inr \<lparr>cpr_chat = c,
          cpr_compactedMessagesCount = length (filter (\<lambda>m. msg_sequence m < boundary) (chat_messages d chatId))\<rparr>)"

definition compactChat :: "env \<Rightarrow> string \<Rightarrow> compact_chat_dto \<Rightarrow> compact_response comp" where
  "compactChat env chatId dto =
     (let preserveRecentCount = from_option 2 (cp_preserveRecentCount dto) in
      if preserveRecentCount < 0
      then raise_exn (bad_request ''INVALID_OPTIONS''
             ''preserveRecentCount must be an integer greater than or equal to 0'')
      else
      bnd (query (\<lambda>d. resolveExecutionChain env d chatId (cp_modelId dto))) (\<lambda>x.
      bnd (query (\<lambda>d. plan_compaction (ex_chat x) (transcript d (ch_id (ex_chat x))) preserveRecentCount)) (\<lambda>plan.
      bnd (of_sum (create_adapter env (ex_model x) (ex_provider x) (ex_apiKey x))) (\<lambda>a.
      bnd (call_provider env a (compaction_request (ex_model x) (ex_chat x) plan) (ex_model x) (ex_provider x)
             (ex_apiKey x)) (\<lambda>response.
      bnd (now_iso env) (\<lambda>now.
      bnd (save_compaction env x plan response now) (\<lambda>_.
      query (\<lambda>d. compact_result d (ch_id (ex_chat x)) (plan_boundary plan)))))))))"

section \<open>Facts on the plan\<close>

text \<open>
  The plan splits the uncompacted messages into the compacted ones, all of them before
  the boundary, and the preserved ones, all of them at or after it.
\<close>

lemma plan_compactionD:
  assumes "plan_compaction chat ms k = Inr plan" "0 \<le> k"
  shows "\<exists>rest. uncompacted_messages chat ms = plan_compact plan @ rest \<and> length rest = nat k
     \<and> plan_compact plan \<noteq> [] \<and> plan_prompted plan = filter has_prompt_content (plan_compact plan)
     \<and> plan_prompted plan \<noteq> [] \<and> plan_boundary plan = msg_sequence (last (plan_compact plan)) + 1"
proof -
  let ?u = "uncompacted_messages chat ms"
  let ?c = "take (length ?u - nat k) ?u"
  have len: "\<not> int (length ?u) \<le> k" and v: "filter has_prompt_content ?c \<noteq> []"
    and p: "plan = \<lparr>plan_compact = ?c, plan_prompted = filter has_prompt_content ?c,
      plan_boundary = msg_sequence (last ?c) + 1\<rparr>"
    using assms(1) by (auto simp: plan_compaction_def Let_def split: if_splits)
  have "?u = ?c @ drop (length ?u - nat k) ?u" by simp
  moreover have "length (drop (length ?u - nat k) ?u) = nat k" using len assms(2) by simp
  moreover have "?c \<noteq> []" using v by auto
  moreover have "plan_compact plan = ?c" by (simp add: p)
  ultimately show ?thesis using v p
    by (intro exI [of _ "drop (length ?u - nat k) ?u"] conjI) simp_all
qed

lemma uncompacted_sorted:
  "sorted_wrt (<) (map msg_sequence ms) \<Longrightarrow> sorted_wrt (<) (map msg_sequence (uncompacted_messages chat ms))"
  by (auto simp: uncompacted_messages_def sorted_wrt_map sorted_wrt_filter split: option.split)

lemma sorted_wrt_last:
  assumes "sorted_wrt (<) (map f xs)" "x \<in> set xs"
  shows "f x \<le> (f (last xs) :: int)"
proof -
  obtain i where i: "i < length xs" "x = xs ! i" using assms(2) by (auto simp: in_set_conv_nth)
  then have l: "last xs = xs ! (length xs - 1)" by (cases xs) (auto simp: last_conv_nth)
  show ?thesis
  proof (cases "i = length xs - 1")
    case False
    with i have "i < length xs - 1" by simp
    with assms(1) i l show ?thesis by (fastforce simp: sorted_wrt_iff_nth_less)
  qed (simp add: i l)
qed

lemma plan_compaction_split:
  assumes "plan_compaction chat ms k = Inr plan" "0 \<le> k" "sorted_wrt (<) (map msg_sequence ms)"
  shows "plan_compact plan = filter (\<lambda>m. msg_sequence m < plan_boundary plan) (uncompacted_messages chat ms)"
proof -
  from plan_compactionD [OF assms(1,2)] obtain rest where
    u: "uncompacted_messages chat ms = plan_compact plan @ rest" and ne: "plan_compact plan \<noteq> []"
    and b: "plan_boundary plan = msg_sequence (last (plan_compact plan)) + 1" by blast
  have s: "sorted_wrt (<) (map msg_sequence (plan_compact plan @ rest))"
    using uncompacted_sorted [OF assms(3), of chat] by (simp add: u)
  have "msg_sequence m < plan_boundary plan" if "m \<in> set (plan_compact plan)" for m
    using sorted_wrt_last [of msg_sequence "plan_compact plan" m] s that b by (simp add: sorted_wrt_append)
  moreover have "\<not> msg_sequence m < plan_boundary plan" if "m \<in> set rest" for m
    using s that last_in_set [OF ne] b by (fastforce simp: sorted_wrt_append)
  ultimately show ?thesis by (simp add: u filter_id_conv filter_empty_conv)
qed

context transcript_relation
begin

lemma obeys_save_compaction [obeys_intros]: "obeys (on_db R) (save_compaction env x plan response now)"
  unfolding save_compaction_def by (intro obeys_intros)

lemma obeys_compactChat [obeys_intros]:
  "env_obeys R env \<Longrightarrow> obeys (on_db R) (compactChat env chatId dto)"
  unfolding compactChat_def Let_def by (intro obeys_bnd_adapter obeys_intros)

end

end
