(* ===== verification/Pagination.thy ===== *)
theory Pagination
  imports ModelErrors
begin

text \<open>
  \<open>common/pagination/\<close>: the clause every list endpoint appends to its query, the page it
  answers with, and the escaping of search terms. The \<open>LIKE\<close> operator is SQLite's, with
  \<open>ESCAPE '\'\<close>: it ignores the case of ASCII letters.
\<close>

record pagination_query =
  pq_limit :: "int option"
  pq_offset :: "int option"
  pq_sort :: "string option"
  pq_order :: "string option"

record sql_pagination_options =
  po_query :: pagination_query
  po_allowedSortColumns :: "(string \<times> string) list"
  po_defaultSortKey :: string
  po_defaultOrder :: string
  po_tiebreakerColumn :: "string option"

record sql_pagination_result =
  sr_clauseSql :: string
  sr_orderBySql :: string
  sr_limitOffsetSql :: string
  sr_params :: "int \<times> int"

record 'a page =
  page_items :: "'a list"
  page_total :: nat
  page_limit :: "int option"
  page_offset :: "int option"

definition createPaginatedResponse :: "'a list \<Rightarrow> nat \<Rightarrow> int option \<Rightarrow> int option \<Rightarrow> 'a page" where
  "createPaginatedResponse items total_count limit offset =
     \<lparr>page_items = items, page_total = total_count, page_limit = limit, page_offset = offset\<rparr>"

definition resolve_sort_column :: "sql_pagination_options \<Rightarrow> exn + string" where
  "resolve_sort_column opts =
     (let requestedSort = map_option js_trim (pq_sort (po_query opts));
          allowed = po_allowedSortColumns opts in
      if truthy requestedSort
      then (case map_of allowed (from_option [] requestedSort) of
              None \<Rightarrow> Inl (bad_request [] (''Invalid sort field '' @ quoted (from_option [] requestedSort)
                  @ ''. Allowed sort fields: '' @ js_join '', '' (map fst allowed)))
            | Some c \<Rightarrow> Inr c)
      else (case map_of allowed (po_defaultSortKey opts) of
              None \<Rightarrow> Inl (Err (Plain None) ''Error'' (''Default sort key '' @ quoted (po_defaultSortKey opts)
                  @ '' is not in allowedSortColumns mapping'') [] None)
            | Some c \<Rightarrow> Inr c))"

definition sort_ascending :: "sql_pagination_options \<Rightarrow> bool" where
  "sort_ascending opts =
     (from_option (po_defaultOrder opts) (map_option js_lower (pq_order (po_query opts))) = ''asc'')"

definition clamp_limit :: "int option \<Rightarrow> int" where
  "clamp_limit l = min (max 1 (from_option 50 l)) 100"

definition clamp_offset :: "int option \<Rightarrow> int" where
  "clamp_offset l = max 0 (from_option 0 l)"

definition buildPaginationSqlFragment :: "sql_pagination_options \<Rightarrow> exn + sql_pagination_result" where
  "buildPaginationSqlFragment opts =
     (case resolve_sort_column opts of
        Inl e \<Rightarrow> Inl e
      | Inr sortColumn \<Rightarrow>
          let orderUpper = (if sort_ascending opts then ''ASC'' else ''DESC'');
              tiebreakerClause = (case po_tiebreakerColumn opts of
                 None \<Rightarrow> []
               | Some t \<Rightarrow> if t \<noteq> [] \<and> sortColumn \<noteq> t then '', '' @ t @ '' '' @ orderUpper else []);
              orderBySql = ''ORDER BY '' @ sortColumn @ '' '' @ orderUpper @ tiebreakerClause;
              limitOffsetSql = ''LIMIT ? OFFSET ?''
          in Inr \<lparr>sr_clauseSql = orderBySql @ '' '' @ limitOffsetSql, sr_orderBySql = orderBySql,
                  sr_limitOffsetSql = limitOffsetSql,
                  sr_params = (clamp_limit (pq_limit (po_query opts)), clamp_offset (pq_offset (po_query opts)))\<rparr>)"

section \<open>Search terms\<close>

definition backslash :: char where
  "backslash = CHR 0x5C"

definition percent :: char where
  "percent = CHR 0x25"

definition underscore :: char where
  "underscore = CHR 0x5F"

definition escapeLikePattern :: "string \<Rightarrow> string" where
  "escapeLikePattern term =
     concat (map (\<lambda>c. if c = backslash \<or> c = percent \<or> c = underscore then [backslash, c] else [c]) term)"

definition ascii_lower :: "char \<Rightarrow> char" where
  "ascii_lower c = (let n = code_unit c in if 65 \<le> n \<and> n \<le> 90 then char_of (n + 32) else c)"

definition same_letter :: "char \<Rightarrow> char \<Rightarrow> bool" where
  "same_letter a b = (ascii_lower a = ascii_lower b)"

function sql_like :: "string \<Rightarrow> string \<Rightarrow> bool" where
  "sql_like [] s = (s = [])"
| "sql_like (c # p) s =
     (if c = percent
      then sql_like p s \<or> (case s of [] \<Rightarrow> False | x # xs \<Rightarrow> sql_like (c # p) xs)
      else if c = backslash
      then (case p of [] \<Rightarrow> False
            | d # p' \<Rightarrow> (case s of [] \<Rightarrow> False | x # xs \<Rightarrow> same_letter x d \<and> sql_like p' xs))
      else (case s of [] \<Rightarrow> False
            | x # xs \<Rightarrow> (c = underscore \<or> same_letter x c) \<and> sql_like p xs))"
  by pat_completeness auto
termination by (relation "measures [\<lambda>(p, s). length p, \<lambda>(p, s). length s]") auto

declare sql_like.simps(2) [simp del]

lemma sql_like_percent: "sql_like (percent # p) s \<longleftrightarrow> (\<exists>u v. s = u @ v \<and> sql_like p v)"
proof (induction s)
  case Nil
  then show ?case by (subst sql_like.simps) auto
next
  case (Cons x s)
  have "sql_like (percent # p) (x # s) \<longleftrightarrow> sql_like p (x # s) \<or> sql_like (percent # p) s"
    by (subst sql_like.simps) simp
  also have "\<dots> \<longleftrightarrow> (\<exists>u v. x # s = u @ v \<and> sql_like p v)"
    unfolding Cons.IH by (metis append_Cons append_Nil append_eq_Cons_conv list.inject)
  finally show ?case .
qed

lemma sql_like_escaped:
  "sql_like (escapeLikePattern t @ p) s \<longleftrightarrow>
   (\<exists>u v. s = u @ v \<and> map ascii_lower u = map ascii_lower t \<and> sql_like p v)"
proof (induction t arbitrary: s)
  case Nil
  then show ?case by (simp add: escapeLikePattern_def)
next
  case (Cons c t)
  have esc: "sql_like (escapeLikePattern (c # t) @ p) s \<longleftrightarrow>
      (case s of [] \<Rightarrow> False | x # xs \<Rightarrow> same_letter x c \<and> sql_like (escapeLikePattern t @ p) xs)"
    by (cases s)
      (auto simp: escapeLikePattern_def sql_like.simps(2) backslash_def percent_def underscore_def)
  show ?case
  proof (cases s)
    case Nil
    with esc show ?thesis by simp
  next
    case (Cons x xs)
    have "sql_like (escapeLikePattern (c # t) @ p) s \<longleftrightarrow>
        same_letter x c \<and> (\<exists>u v. xs = u @ v \<and> map ascii_lower u = map ascii_lower t \<and> sql_like p v)"
      using esc Cons Cons.IH by simp
    also have "\<dots> \<longleftrightarrow> (\<exists>u v. s = u @ v \<and> map ascii_lower u = map ascii_lower (c # t) \<and> sql_like p v)"
      unfolding Cons same_letter_def by (auto simp: Cons_eq_append_conv) (metis append_Cons list.simps(9))
    finally show ?thesis .
  qed
qed

end
