(* ===== verification/Chats.thy ===== *)
theory Chats
  imports Compaction Pagination
begin

text \<open>
  \<open>modules/chats/\<close>: the chat service with its mapper, and the message service. A list
  query is the rows that satisfy its conditions, in the order of its clause, cut to its
  page. A field of a partial update is \<^const>\<open>None\<close> when the request leaves it out and
  \<open>Some None\<close> when it is \<open>null\<close>.
\<close>

section \<open>Statements on chats\<close>

definition chat_owner_ok :: "chat_row \<Rightarrow> bool" where
  "chat_owner_ok r = ((ch_agent_id r \<noteq> None \<and> ch_team_id r = None) \<or> (ch_agent_id r = None \<and> ch_team_id r \<noteq> None))"

definition insert_chat :: "chat_row \<Rightarrow> database \<Rightarrow> exn + database" where
  "insert_chat r d =
     (if \<not> chat_owner_ok r
      then Inl (sqlite_error ''SQLITE_CONSTRAINT_CHECK'' ''CHECK constraint failed: chats'')
      else if chat_by_id d (ch_id r) \<noteq> None
      then Inl (sqlite_error ''SQLITE_CONSTRAINT_PRIMARYKEY'' ''UNIQUE constraint failed: chats.id'')
      else if \<not> references (project_by_id d) (ch_project_id r) \<or> \<not> references (agent_by_id d) (ch_agent_id r)
           \<or> \<not> references (team_by_id d) (ch_team_id r)
      then Inl foreign_key_error
      else Inr (d\<lparr>chats := chats d @ [r]\<rparr>))"

text \<open>The \<open>UPDATE\<close> of the changed columns, and \<open>DELETE FROM chats\<close> with its cascades.\<close>

definition update_chat_columns ::
  "string \<Rightarrow> string option option \<Rightarrow> string option option \<Rightarrow> string \<Rightarrow> database \<Rightarrow> exn + database" where
  "update_chat_columns i title project now d =
     (if \<not> references (project_by_id d) (from_option None project) then Inl foreign_key_error
      else Inr (d\<lparr>chats := map (\<lambda>c. if ch_id c = i
        then c\<lparr>ch_title := from_option (ch_title c) title, ch_project_id := from_option (ch_project_id c) project,
               ch_updated_at := now\<rparr> else c) (chats d)\<rparr>))"

definition delete_chats :: "(chat_row \<Rightarrow> bool) \<Rightarrow> database \<Rightarrow> database" where
  "delete_chats P d =
     (let gone = map ch_id (filter P (chats d)) in
      d\<lparr>chats := filter (\<lambda>c. \<not> P c) (chats d),
        messages := filter (\<lambda>m. msg_chat_id m \<notin> set gone) (messages d),
        usage_events := map (\<lambda>u. if (case us_chat_id u of None \<Rightarrow> False | Some c \<Rightarrow> c \<in> set gone)
           then u\<lparr>us_chat_id := None\<rparr> else u) (usage_events d),
        artifacts := map (\<lambda>a. if (case art_chat_id a of None \<Rightarrow> False | Some c \<Rightarrow> c \<in> set gone)
           then a\<lparr>art_chat_id := None\<rparr> else a) (artifacts d)\<rparr>)"

section \<open>The chat mapper\<close>

record create_chat_dto =
  nc_title :: "string option"
  nc_projectId :: "string option"
  nc_agentId :: "string option"
  nc_teamId :: "string option"
  nc_contextSummary :: "json option"
  nc_context_summary :: "json option"

record update_chat_dto =
  uc_title :: "string option option"
  uc_projectId :: "string option option"
  uc_agentId :: "string option option"
  uc_teamId :: "string option option"
  uc_contextSummary :: "json option"
  uc_context_summary :: "json option"

record chat_response =
  cr_id :: string
  cr_title :: "string option"
  cr_projectId :: "string option"
  cr_agentId :: "string option"
  cr_teamId :: "string option"
  cr_contextSummary :: "string option"
  cr_createdAt :: string
  cr_updatedAt :: string

definition mapChatRowToResponse :: "chat_row \<Rightarrow> chat_response" where
  "mapChatRowToResponse r =
     \<lparr>cr_id = ch_id r, cr_title = ch_title r, cr_projectId = ch_project_id r, cr_agentId = ch_agent_id r,
      cr_teamId = ch_team_id r, cr_contextSummary = ch_context_summary r, cr_createdAt = ch_created_at r,
      cr_updatedAt = ch_updated_at r\<rparr>"

definition mapCreateChatDtoToRow :: "create_chat_dto \<Rightarrow> string \<Rightarrow> string \<Rightarrow> chat_row" where
  "mapCreateChatDtoToRow dto now i =
     \<lparr>ch_id = i, ch_title = nc_title dto, ch_project_id = nc_projectId dto, ch_agent_id = nc_agentId dto,
      ch_team_id = nc_teamId dto, ch_context_summary = None, ch_compacted_before_sequence = None,
      ch_created_at = now, ch_updated_at = now\<rparr>"

record chat_update_result =
  ur_updatedRow :: chat_row
  ur_hasChanges :: bool
  ur_title :: "string option option"
  ur_projectId :: "string option option"

text \<open>A column is recorded when the request names it and its value differs.\<close>

definition changed :: "'a option \<Rightarrow> 'a \<Rightarrow> 'a option" where
  "changed requested current = (case requested of None \<Rightarrow> None
     | Some v \<Rightarrow> if v = current then None else Some v)"

definition applyChatUpdates :: "chat_row \<Rightarrow> update_chat_dto \<Rightarrow> string \<Rightarrow> chat_update_result" where
  "applyChatUpdates row dto now =
     (let t = changed (uc_title dto) (ch_title row); p = changed (uc_projectId dto) (ch_project_id row);
          hasChanges = (t \<noteq> None \<or> p \<noteq> None)
      in \<lparr>ur_updatedRow = row\<lparr>ch_title := from_option (ch_title row) t,
            ch_project_id := from_option (ch_project_id row) p,
            ch_updated_at := (if hasChanges then now else ch_updated_at row)\<rparr>,
          ur_hasChanges = hasChanges, ur_title = t, ur_projectId = p\<rparr>)"

section \<open>ChatsService\<close>

definition BOTH_OWNERS_ERROR_MESSAGE :: string where
  "BOTH_OWNERS_ERROR_MESSAGE =
     ''A chat cannot belong to both an agent and a team; specify either agentId or teamId, but not both''"

definition NEITHER_OWNER_ERROR_MESSAGE :: string where
  "NEITHER_OWNER_ERROR_MESSAGE = ''A chat must have an owner: specify either agentId or teamId''"

definition OWNER_IMMUTABLE_ERROR_MESSAGE :: string where
  "OWNER_IMMUTABLE_ERROR_MESSAGE = ''Changing the owner of a chat is not allowed: message history is tied to the original owner (agent or team)''"

definition CONTEXT_SUMMARY_READONLY_ERROR_MESSAGE :: string where
  "CONTEXT_SUMMARY_READONLY_ERROR_MESSAGE = ''context_summary is read-only and cannot be set directly; it is managed by the compaction endpoint''"

definition assertNoContextSummary :: "json option \<Rightarrow> json option \<Rightarrow> exn + unit" where
  "assertNoContextSummary a b = (if a \<noteq> None \<or> b \<noteq> None
     then Inl (bad_request ''BAD_REQUEST'' CONTEXT_SUMMARY_READONLY_ERROR_MESSAGE) else Inr ())"

definition given :: "string option \<Rightarrow> bool" where
  "given x = (case x of None \<Rightarrow> False | Some s \<Rightarrow> length (js_trim s) > 0)"

definition assertOwnerRule :: "create_chat_dto \<Rightarrow> exn + unit" where
  "assertOwnerRule dto =
     (if given (nc_agentId dto) \<and> given (nc_teamId dto)
      then Inl (bad_request ''BAD_REQUEST'' BOTH_OWNERS_ERROR_MESSAGE)
      else if \<not> given (nc_agentId dto) \<and> \<not> given (nc_teamId dto)
      then Inl (bad_request ''BAD_REQUEST'' NEITHER_OWNER_ERROR_MESSAGE)
      else Inr ())"

definition assertNoOwnerChange :: "update_chat_dto \<Rightarrow> exn + unit" where
  "assertNoOwnerChange dto = (if uc_agentId dto \<noteq> None \<or> uc_teamId dto \<noteq> None
     then Inl (bad_request ''BAD_REQUEST'' OWNER_IMMUTABLE_ERROR_MESSAGE) else Inr ())"

definition assertExists :: "database \<Rightarrow> string \<Rightarrow> exn + chat_row" where
  "assertExists d chatId = (case chat_by_id d chatId of
     None \<Rightarrow> Inl (chat_not_found chatId) | Some r \<Rightarrow> Inr r)"

definition findOneChat :: "database \<Rightarrow> string \<Rightarrow> exn + chat_response" where
  "findOneChat d chatId = (case assertExists d chatId of
     Inl e \<Rightarrow> Inl e | Inr r \<Rightarrow> Inr (mapChatRowToResponse r))"

text \<open>A reference of a request body: absent or empty, or the identifier of a row.\<close>

definition check_reference :: "(string \<Rightarrow> 'r option) \<Rightarrow> string \<Rightarrow> string \<Rightarrow> string option \<Rightarrow> exn + unit" where
  "check_reference look code field ref =
     (if truthy ref \<and> look (from_option [] ref) = None
      then Inl (unprocessable code (''Referenced '' @ field @ '' '' @ quoted (from_option [] ref) @ '' does not exist''))
      else Inr ())"

definition createChat :: "env \<Rightarrow> create_chat_dto \<Rightarrow> chat_response comp" where
  "createChat env dto =
     bnd (of_sum (assertNoContextSummary (nc_contextSummary dto) (nc_context_summary dto))) (\<lambda>_.
     bnd (of_sum (assertOwnerRule dto)) (\<lambda>_.
     transaction env
       (bnd (query (\<lambda>d. check_reference (agent_by_id d) ''AGENT_NOT_FOUND'' ''agentId'' (nc_agentId dto))) (\<lambda>_.
        bnd (query (\<lambda>d. check_reference (team_by_id d) ''TEAM_NOT_FOUND'' ''teamId'' (nc_teamId dto))) (\<lambda>_.
        bnd (query (\<lambda>d. check_reference (project_by_id d) ''PROJECT_NOT_FOUND'' ''projectId'' (nc_projectId dto))) (\<lambda>_.
        bnd (now_iso env) (\<lambda>now. bnd (fresh_id env) (\<lambda>i.
        let row = mapCreateChatDtoToRow dto now i in
        bnd (exec_write env (insert_chat row)) (\<lambda>_. ret (mapChatRowToResponse row))))))))))"

definition check_project_update :: "database \<Rightarrow> string option option \<Rightarrow> exn + unit" where
  "check_project_update d project = (case project of
     Some (Some p) \<Rightarrow> if project_by_id d p = None
       then Inl (unprocessable ''PROJECT_NOT_FOUND'' (''Referenced projectId '' @ quoted p @ '' does not exist''))
       else Inr ()
   | _ \<Rightarrow> Inr ())"

text \<open>\<open>applyChatUpdates\<close> reads the clock only when something changes.\<close>

definition updateChat :: "env \<Rightarrow> string \<Rightarrow> update_chat_dto \<Rightarrow> chat_response comp" where
  "updateChat env chatId dto =
     bnd (of_sum (assertNoContextSummary (uc_contextSummary dto) (uc_context_summary dto))) (\<lambda>_.
     bnd (of_sum (assertNoOwnerChange dto)) (\<lambda>_.
     transaction env
       (bnd (query (\<lambda>d. assertExists d chatId)) (\<lambda>existing.
        bnd (query (\<lambda>d. check_project_update d (uc_projectId dto))) (\<lambda>_.
        if \<not> ur_hasChanges (applyChatUpdates existing dto [])
        then ret (mapChatRowToResponse existing)
        else bnd (now_iso env) (\<lambda>now.
          let result = applyChatUpdates existing dto now in
          bnd (exec_write env (update_chat_columns chatId (ur_title result) (ur_projectId result) now)) (\<lambda>_.
          ret (mapChatRowToResponse (ur_updatedRow result)))))))))"

definition deleteChat :: "env \<Rightarrow> string \<Rightarrow> unit comp" where
  "deleteChat env chatId =
     bnd (select (\<lambda>d. chat_by_id d chatId)) (\<lambda>found.
     bnd (exec_write env (\<lambda>d. Inr (delete_chats (\<lambda>c. ch_id c = chatId) d))) (\<lambda>_.
     if found = None then raise_exn (chat_not_found chatId) else ret ()))"

definition removeAllChats :: "env \<Rightarrow> (nat \<times> nat) comp" where
  "removeAllChats env =
     transaction env
       (bnd (select (\<lambda>d. (length (chats d), length (messages d)))) (\<lambda>counts.
        bnd (exec_write env (\<lambda>d. Inr (delete_chats (\<lambda>_. True) d))) (\<lambda>_. ret counts)))"

subsection \<open>Listing chats\<close>

record list_chats_query =
  lc_page :: pagination_query
  lc_projectId :: "string option"
  lc_agentId :: "string option"
  lc_teamId :: "string option"
  lc_search :: "string option"

definition ALLOWED_CHAT_SORT_COLUMNS :: "(string \<times> string) list" where
  "ALLOWED_CHAT_SORT_COLUMNS = [(''createdAt'', ''created_at''), (''updatedAt'', ''updated_at''),
     (''title'', ''title''), (''id'', ''id'')]"

definition chat_pagination :: "list_chats_query \<Rightarrow> sql_pagination_options" where
  "chat_pagination q = \<lparr>po_query = lc_page q, po_allowedSortColumns = ALLOWED_CHAT_SORT_COLUMNS,
     po_defaultSortKey = ''createdAt'', po_defaultOrder = ''desc'', po_tiebreakerColumn = Some ''id''\<rparr>"

text \<open>A column is filtered to \<open>NULL\<close> by the literal \<open>null\<close>, else to the value.\<close>

definition matches_filter :: "string option \<Rightarrow> string option \<Rightarrow> bool" where
  "matches_filter requested column = (case requested of None \<Rightarrow> True
     | Some v \<Rightarrow> if v = ''null'' then column = None else column = Some v)"

definition search_pattern :: "string \<Rightarrow> string" where
  "search_pattern s = [percent] @ escapeLikePattern s @ [percent]"

definition matches_search :: "string option \<Rightarrow> string option \<Rightarrow> bool" where
  "matches_search search title =
     (let s = trim_or_null search in
      case s of None \<Rightarrow> True
      | Some t \<Rightarrow> (case title of None \<Rightarrow> False | Some x \<Rightarrow> sql_like (search_pattern t) x))"

definition chat_conditions :: "list_chats_query \<Rightarrow> chat_row \<Rightarrow> bool" where
  "chat_conditions q c = (matches_filter (lc_projectId q) (ch_project_id c)
     \<and> matches_filter (lc_agentId q) (ch_agent_id c) \<and> matches_filter (lc_teamId q) (ch_team_id c)
     \<and> matches_search (lc_search q) (ch_title c))"

text \<open>\<open>NULL\<close> sorts before every text.\<close>

definition chat_column :: "string \<Rightarrow> chat_row \<Rightarrow> nat \<times> string" where
  "chat_column col c =
     (if col = ''created_at'' then (1, ch_created_at c)
      else if col = ''updated_at'' then (1, ch_updated_at c)
      else if col = ''title'' then (case ch_title c of None \<Rightarrow> (0, []) | Some t \<Rightarrow> (1, t))
      else (1, ch_id c))"

definition page_of :: "int \<times> int \<Rightarrow> 'a list \<Rightarrow> 'a list" where
  "page_of p xs = take (nat (fst p)) (drop (nat (snd p)) xs)"

definition findAllChats :: "database \<Rightarrow> list_chats_query \<Rightarrow> exn + chat_response page" where
  "findAllChats d q =
     (let opts = chat_pagination q; rows = filter (chat_conditions q) (chats d) in
      case buildPaginationSqlFragment opts of
        Inl e \<Rightarrow> Inl e
      | Inr fragment \<Rightarrow>
         (case resolve_sort_column opts of
            Inl e \<Rightarrow> Inl e
          | Inr col \<Rightarrow>
              let asc = sort_key (\<lambda>c. (chat_column col c, ch_id c)) rows;
                  ordered = (if sort_ascending opts then asc else rev asc)
              in Inr (createPaginatedResponse (map mapChatRowToResponse (page_of (sr_params fragment) ordered))
                   (length rows) (pq_limit (lc_page q)) (pq_offset (lc_page q)))))"

section \<open>MessagesService\<close>

record create_message_dto =
  nm_content :: string
  nm_role :: "string option"
  nm_agentId :: "string option"

record message_response =
  mr_id :: string
  mr_chatId :: string
  mr_sequence :: int
  mr_role :: string
  mr_agentId :: "string option"
  mr_content :: string
  mr_status :: message_status
  mr_tokenCount :: "int option"
  mr_createdAt :: string

definition mapMessageRowToResponse :: "message_row \<Rightarrow> message_response" where
  "mapMessageRowToResponse r =
     \<lparr>mr_id = msg_id r, mr_chatId = msg_chat_id r, mr_sequence = msg_sequence r, mr_role = msg_role r,
      mr_agentId = msg_agent_id r, mr_content = msg_content r, mr_status = msg_status r,
      mr_tokenCount = msg_token_count r, mr_createdAt = msg_created_at r\<rparr>"

definition sequence_conflict :: "string \<Rightarrow> exn" where
  "sequence_conflict tail =
     conflict ''MESSAGE_SEQUENCE_CONFLICT'' (''Could not resolve sequence assignment conflict'' @ tail)"

fun create_message_attempts ::
  "env \<Rightarrow> string \<Rightarrow> string \<Rightarrow> string option \<Rightarrow> string \<Rightarrow> nat \<Rightarrow> message_response comp" where
  "create_message_attempts env chatId role agentId content 0 = raise_exn (sequence_conflict [])"
| "create_message_attempts env chatId role agentId content (Suc k) =
     bnd (fresh_id env) (\<lambda>messageId. bnd (now_iso env) (\<lambda>now.
       catch_exn
         (transaction env
           (bnd (insert_returning env
                  \<lparr>msg_id = messageId, msg_chat_id = chatId, msg_sequence = 0, msg_role = role,
                   msg_agent_id = agentId, msg_content = content, msg_status = Complete,
                   msg_token_count = None, msg_created_at = now\<rparr>) (\<lambda>row.
            bnd (exec_write env (touch_chat chatId now)) (\<lambda>_. ret (mapMessageRowToResponse row)))))
         (\<lambda>e. if is_unique_violation e \<and> 0 < k
              then create_message_attempts env chatId role agentId content k
              else if is_unique_violation e then raise_exn (sequence_conflict '' after multiple retries'')
              else raise_exn e)))"

definition createMessage :: "env \<Rightarrow> string \<Rightarrow> create_message_dto \<Rightarrow> message_response comp" where
  "createMessage env chatId dto =
     bnd (query (\<lambda>d. assertExists d chatId)) (\<lambda>_.
     bnd (query (\<lambda>d. check_reference (agent_by_id d) ''AGENT_NOT_FOUND'' ''agentId'' (nm_agentId dto))) (\<lambda>_.
     create_message_attempts env chatId (from_option ''user'' (nm_role dto)) (nm_agentId dto)
       (nm_content dto) maxRetries))"

subsection \<open>Listing messages\<close>

record list_messages_query =
  lm_page :: pagination_query
  lm_role :: "string option"
  lm_status :: "string option"
  lm_agentId :: "string option"
  lm_before :: "int option"
  lm_after :: "int option"

definition ALLOWED_MESSAGE_SORT_COLUMNS :: "(string \<times> string) list" where
  "ALLOWED_MESSAGE_SORT_COLUMNS = [(''sequence'', ''sequence'')]"

definition message_pagination :: "list_messages_query \<Rightarrow> sql_pagination_options" where
  "message_pagination q = \<lparr>po_query = lm_page q, po_allowedSortColumns = ALLOWED_MESSAGE_SORT_COLUMNS,
     po_defaultSortKey = ''sequence'', po_defaultOrder = ''asc'', po_tiebreakerColumn = None\<rparr>"

definition message_filter :: "string \<Rightarrow> list_messages_query \<Rightarrow> message_row \<Rightarrow> bool" where
  "message_filter chatId q m =
     (msg_chat_id m = chatId
      \<and> (truthy (lm_role q) \<longrightarrow> lm_role q = Some (msg_role m))
      \<and> (truthy (lm_status q) \<longrightarrow> lm_status q = Some (show_status (msg_status m)))
      \<and> matches_filter (lm_agentId q) (msg_agent_id m))"

definition message_cursor :: "list_messages_query \<Rightarrow> message_row \<Rightarrow> bool" where
  "message_cursor q m =
     ((case lm_before q of None \<Rightarrow> True | Some b \<Rightarrow> msg_sequence m < b)
      \<and> (case lm_after q of None \<Rightarrow> True | Some a \<Rightarrow> msg_sequence m > a))"

definition findAllMessages :: "database \<Rightarrow> string \<Rightarrow> list_messages_query \<Rightarrow> exn + message_response page" where
  "findAllMessages d chatId q =
     (case assertExists d chatId of
        Inl e \<Rightarrow> Inl e
      | Inr _ \<Rightarrow>
         (case buildPaginationSqlFragment (message_pagination q) of
            Inl e \<Rightarrow> Inl e
          | Inr fragment \<Rightarrow>
              let filtered = filter (message_filter chatId q) (messages d);
                  asc = sort_key msg_sequence (filter (message_cursor q) filtered);
                  ordered = (if sort_ascending (message_pagination q) then asc else rev asc)
              in Inr (createPaginatedResponse (map mapMessageRowToResponse (page_of (sr_params fragment) ordered))
                   (length filtered) (pq_limit (lm_page q)) (pq_offset (lm_page q)))))"

section \<open>Every request of a chat keeps the numbering\<close>

context transcript_relation
begin

lemma obeys_create_message_attempts [obeys_intros]:
  "obeys (on_db R) (create_message_attempts env chatId role agentId content k)"
  by (induction k) (auto intro!: obeys_intros)

lemma obeys_createMessage [obeys_intros]: "obeys (on_db R) (createMessage env chatId dto)"
  unfolding createMessage_def by (intro obeys_intros)

end

lemma insert_chatD:
  "insert_chat r d = Inr d' \<Longrightarrow> d' = d\<lparr>chats := chats d @ [r]\<rparr> \<and> chat_owner_ok r \<and> chat_by_id d (ch_id r) = None"
  by (auto simp: insert_chat_def split: if_splits)

lemma dense_insert_chat: "insert_chat r d = Inr d' \<Longrightarrow> keeps dense_sequences d d'"
  by (auto simp: keeps_def dense_sequences_def chat_messages_def dest!: insert_chatD)

lemma dense_update_chat_columns: "update_chat_columns i t p now d = Inr d' \<Longrightarrow> keeps dense_sequences d d'"
  by (auto simp: update_chat_columns_def keeps_def dense_sequences_def chat_messages_def split: if_splits)

lemma chat_messages_delete:
  "chat_messages (delete_chats P d) c = (if c \<in> ch_id ` {r \<in> set (chats d). P r} then [] else chat_messages d c)"
  by (auto simp: chat_messages_def delete_chats_def Let_def filter_empty_conv intro: filter_cong)

lemma dense_delete_chats: "keeps dense_sequences d (delete_chats P d)"
  by (simp add: keeps_def dense_sequences_def chat_messages_delete)

end
