(* ===== verification/StreamFacts.thy ===== *)
theory StreamFacts
  imports StreamTurn
begin

text \<open>
  What a streamed turn leaves behind. The loop invariant \<open>turn_inv\<close> ties the row of the
  message, the local variables and the emitted events together; \<open>turn_failed\<close> is what
  still holds when something was thrown; \<open>turn_final\<close> is the state of a turn that ended.
  Other requests may do anything but change or delete a message that exists
  (\<open>preserves_messages\<close>).
\<close>

section \<open>Events and rows\<close>

definition preserves_messages :: "database \<Rightarrow> database \<Rightarrow> bool" where
  "preserves_messages d d' \<longleftrightarrow> (\<forall>i r. message_by_id d i = Some r \<longrightarrow> message_by_id d' i = Some r)"

interpretation quiet: store_relation preserves_messages
  by unfold_locales (auto simp: preserves_messages_def)

fun delta_text :: "sse_event \<Rightarrow> string" where
  "delta_text (Token _ s) = s"
| "delta_text _ = []"

definition streamed_text :: "sse_event list \<Rightarrow> string" where
  "streamed_text evs = concat (map delta_text evs)"

fun is_delta :: "string \<Rightarrow> sse_event \<Rightarrow> bool" where
  "is_delta i (Token j _) = (j = i)"
| "is_delta i (Thought j _) = (j = i)"
| "is_delta i _ = False"

definition deltas :: "string \<Rightarrow> sse_event list \<Rightarrow> bool" where
  "deltas i evs = list_all (is_delta i) evs"

lemma deltas_simps [simp]:
  "deltas i []" "deltas i (evs @ evs') \<longleftrightarrow> deltas i evs \<and> deltas i evs'"
  "deltas i [e] \<longleftrightarrow> is_delta i e"
  by (simp_all add: deltas_def)

lemma streamed_text_simps [simp]:
  "streamed_text [] = []" "streamed_text (a @ b) = streamed_text a @ streamed_text b"
  "streamed_text [e] = delta_text e"
  by (simp_all add: streamed_text_def)

definition since :: "sse_event list \<Rightarrow> world \<Rightarrow> sse_event list" where
  "since pre w = drop (length pre) (emitted w)"

lemma prefix_minus [simp]: "prefix pre xs \<Longrightarrow> length pre - length xs = 0"
  by (simp add: prefix_length_le)

lemma find_map_row:
  "(\<And>m. msg_id (f m) = msg_id m) \<Longrightarrow>
   find (\<lambda>m. msg_id m = i) (map f ms) = map_option f (find (\<lambda>m. msg_id m = i) ms)"
  by (induction ms) auto

lemma message_by_id_update:
  "update_message i st c t d = Inr d' \<Longrightarrow> message_by_id d i = Some r \<Longrightarrow>
   message_by_id d' i = Some (r\<lparr>msg_status := st, msg_content := c, msg_token_count := t\<rparr>)"
  by (auto simp: update_message_def message_by_id_def find_map_row find_Some_iff)

lemma message_by_id_other:
  "touch_chat i now d = Inr d' \<Longrightarrow> message_by_id d' j = message_by_id d j"
  "insert_usage u d = Inr d' \<Longrightarrow> message_by_id d' j = message_by_id d j"
  by (auto simp: message_by_id_def dest: statement_messages)

lemma find_append_None: "find P xs = None \<Longrightarrow> find P (xs @ ys) = find P ys"
  by (induction xs) (auto split: if_splits)

lemma message_by_id_append:
  assumes "append_message r d = Inr d'"
  shows "message_by_id d' (msg_id r) = Some (r\<lparr>msg_sequence := next_sequence d (msg_chat_id r)\<rparr>)"
    and "message_by_id d (msg_id r) = None"
  using insert_messageD [OF assms [unfolded append_message_def]]
  by (auto simp: message_by_id_def find_append_None)

lemma preserves_effect:
  "effect_obeys preserves_messages f \<Longrightarrow> message_by_id d i = Some r \<Longrightarrow> message_by_id (eff_db f d) i = Some r"
  by (simp add: effect_obeys_def preserves_messages_def)

section \<open>The pending row\<close>

lemma wp_pending_attempts:
  "emitted w = em \<Longrightarrow> aborted w = ab \<Longrightarrow>
   wp (pending_attempts env r k)
     (\<lambda>row w'. message_by_id (db w') (msg_id r) = Some row \<and> (\<exists>s. row = r\<lparr>msg_sequence := s\<rparr>)
        \<and> emitted w' = em \<and> aborted w' = ab)
     (\<lambda>i w'. i \<noteq> Returned \<and> emitted w' = em \<and> aborted w' = ab) w"
proof (induction k arbitrary: w)
  case 0
  then show ?case by (simp add: wp_simps)
next
  case (Suc k)
  then show ?case
    by (auto simp: wp_simps wp_transaction insert_returning_def message_by_id_other message_by_id_append
        split: option.split sum.split interrupt.split intro!: Suc.IH)
qed

section \<open>The invariant of the loop\<close>

type_synonym row_key = "string \<times> string \<times> int \<times> string \<times> string option \<times> string"

text \<open>\<open>t\<close> is the text that is accumulated but not emitted yet.\<close>

definition turn_inv :: "sse_event list \<Rightarrow> string \<Rightarrow> row_key \<Rightarrow> string \<Rightarrow> world \<Rightarrow> bool" where
  "turn_inv pre i key t w \<longleftrightarrow>
     prefix pre (emitted w) \<and> deltas i (since pre w)
     \<and> streamed_text (since pre w) @ t = accumulatedContent (gen w)
     \<and> (\<exists>r. message_by_id (db w) i = Some r \<and> message_identity r = key
          \<and> msg_content r = lastFlushedContent (gen w) \<and> msg_status r = currentStatus (gen w))
     \<and> currentStatus (gen w) \<in> {Pending, Streaming}
     \<and> prefix (lastFlushedContent (gen w)) (accumulatedContent (gen w))
     \<and> length (accumulatedContent (gen w)) < length (lastFlushedContent (gen w)) + 200
     \<and> (currentStatus (gen w) = Pending \<longrightarrow> accumulatedContent (gen w) = [])"

definition turn_failed :: "sse_event list \<Rightarrow> string \<Rightarrow> row_key \<Rightarrow> world \<Rightarrow> bool" where
  "turn_failed pre i key w \<longleftrightarrow>
     prefix pre (emitted w) \<and> deltas i (since pre w)
     \<and> prefix (streamed_text (since pre w)) (accumulatedContent (gen w))
     \<and> (\<exists>r. message_by_id (db w) i = Some r \<and> message_identity r = key)"

lemma turn_inv_failed:
  assumes "turn_inv pre i key t w"
  shows "turn_failed pre i key w"
proof -
  have "prefix (streamed_text (since pre w)) (accumulatedContent (gen w))"
    using assms unfolding turn_inv_def by (intro prefixI [where zs = t]) simp
  with assms show ?thesis by (auto simp: turn_inv_def turn_failed_def)
qed

lemma wp_flushPartial:
  assumes "message_by_id (db w) i = Some r"
  shows "wp (flushPartial env i c st tok)
     (\<lambda>_ w'. (\<exists>tc. message_by_id (db w') i
                = Some (r\<lparr>msg_status := st, msg_content := accumulatedContent (gen w), msg_token_count := tc\<rparr>))
        \<and> emitted w' = emitted w \<and> aborted w' = aborted w
        \<and> (\<exists>t. gen w' = (gen w)\<lparr>lastFlushedContent := accumulatedContent (gen w), lastFlushTime := t,
                               currentStatus := st\<rparr>))
     (\<lambda>e w'. e \<noteq> Returned \<and> (\<exists>r'. message_by_id (db w') i = Some r' \<and> message_identity r' = message_identity r)
        \<and> emitted w' = emitted w \<and> aborted w' = aborted w \<and> gen w' = gen w) w"
  using assms message_by_id_update [of i st "accumulatedContent (gen w)"]
  by (auto simp: flushPartial_def set_gen_def wp_simps message_by_id_other message_identity_def
      split: option.split sum.split)

lemma turn_inv_effect:
  assumes "effect_obeys preserves_messages f" "turn_inv pre i key t w"
  shows "turn_inv pre i key t (w\<lparr>db := eff_db f (db w), aborted := ab\<rparr>)"
  using assms preserves_effect [OF assms(1)] by (fastforce simp: turn_inv_def since_def)

lemma turn_failed_effect:
  assumes "effect_obeys preserves_messages f" "turn_failed pre i key w"
  shows "turn_failed pre i key (w\<lparr>db := eff_db f (db w), aborted := ab\<rparr>)"
  using assms preserves_effect [OF assms(1)] by (fastforce simp: turn_failed_def since_def)

text \<open>How a loop step can end by an interrupt.\<close>

definition turn_stopped :: "sse_event list \<Rightarrow> string \<Rightarrow> row_key \<Rightarrow> interrupt \<Rightarrow> world \<Rightarrow> bool" where
  "turn_stopped pre i key e w = (case e of Returned \<Rightarrow> turn_inv pre i key [] w | Raised _ \<Rightarrow> turn_failed pre i key w)"

lemma wp_emit_delta:
  assumes q: "env_obeys preserves_messages env" and d: "is_delta i ev"
    and inv: "turn_inv pre i key (delta_text ev) w"
  shows "wp (emit env ev) (\<lambda>_. turn_inv pre i key []) (turn_stopped pre i key) w"
proof -
  let ?w = "w\<lparr>emitted := emitted w @ [ev]\<rparr>"
  have "effect_obeys preserves_messages (on_yield env (length (emitted w)))"
    using q by (simp add: env_obeys_def)
  moreover have "turn_inv pre i key [] ?w"
    using inv d by (auto simp: turn_inv_def since_def)
  ultimately have "turn_inv pre i key [] (?w\<lparr>db := eff_db (on_yield env (length (emitted w))) (db ?w),
      aborted := aborted w \<or> eff_abort (on_yield env (length (emitted w)))\<rparr>)"
    by (rule turn_inv_effect)
  then show ?thesis by (simp add: wp_emit Let_def turn_stopped_def)
qed

lemma wp_flush_streaming:
  assumes "turn_failed pre i key w" "streamed_text (since pre w) @ t = accumulatedContent (gen w)"
  shows "wp (flushPartial env i c Streaming tok) (\<lambda>_. turn_inv pre i key t) (turn_stopped pre i key) w"
proof -
  obtain r where r: "message_by_id (db w) i = Some r" "message_identity r = key"
    using assms(1) by (auto simp: turn_failed_def)
  show ?thesis
    by (rule wp_mono [OF wp_flushPartial [OF r(1)]])
      (use assms r in \<open>auto simp: turn_inv_def turn_failed_def turn_stopped_def since_def message_identity_def
         split: interrupt.split\<close>)
qed

lemma wp_handle_text:
  assumes q: "env_obeys preserves_messages env" and inv: "turn_inv pre i key [] w"
  shows "wp (handle_text env i c delta) (\<lambda>_. turn_inv pre i key []) (turn_stopped pre i key) w"
proof -
  let ?g = "\<lambda>g. g\<lparr>accumulatedContent := accumulatedContent g @ delta\<rparr>"
  let ?w = "w\<lparr>gen := ?g (gen w)\<rparr>"
  have failed: "turn_failed pre i key ?w"
    using inv by (force simp: turn_inv_def turn_failed_def since_def)
  have failed': "turn_failed pre i key (?w\<lparr>ticks := k\<rparr>)" for k
    using failed by (simp add: turn_failed_def since_def)
  have tx: "streamed_text (since pre ?w) @ delta = accumulatedContent (gen ?w)"
    using inv by (simp add: turn_inv_def since_def)
  have emit: "turn_inv pre i key delta v \<Longrightarrow>
      wp (emit env (Token i delta)) (\<lambda>_. turn_inv pre i key []) (turn_stopped pre i key) v" for v
    by (rule wp_emit_delta [OF q]) simp_all
  have flush: "wp (flushPartial env i c Streaming None)
      (\<lambda>_. wp (emit env (Token i delta)) (\<lambda>_. turn_inv pre i key []) (turn_stopped pre i key))
      (turn_stopped pre i key) v"
    if "turn_failed pre i key v" "streamed_text (since pre v) @ delta = accumulatedContent (gen v)" for v
    by (rule wp_mono [OF wp_flush_streaming [OF that]]) (auto intro: emit)
  have skip: "turn_inv pre i key delta (?w\<lparr>ticks := k\<rparr>)"
    if "length (accumulatedContent (gen w) @ delta) - length (lastFlushedContent (gen w)) < 200"
      "currentStatus (gen w) \<noteq> Pending" for k
    using inv that by (auto simp: turn_inv_def since_def)
  show ?thesis
    unfolding handle_text_def set_gen_def
    using flush [OF failed tx] flush [OF failed', of "Suc (ticks w)"] tx skip [THEN emit]
    by (auto simp: wp_simps Let_def since_def not_le)
qed

lemma wp_handle_event:
  assumes q: "env_obeys preserves_messages env" and inv: "turn_inv pre i key [] w"
  shows "wp (handle_event env i c ev) (\<lambda>_. turn_inv pre i key []) (turn_stopped pre i key) w"
proof (cases ev)
  case (TextDelta s)
  with wp_handle_text [OF q inv] show ?thesis by (simp add: handle_event_def)
next
  case (ThoughtDelta s)
  have "wp (emit env (Thought i s)) (\<lambda>_. turn_inv pre i key []) (turn_stopped pre i key) w"
    by (rule wp_emit_delta [OF q]) (use inv in simp_all)
  with ThoughtDelta show ?thesis by (simp add: handle_event_def)
next
  case (UsageReport u)
  with inv show ?thesis by (simp add: handle_event_def set_gen_def wp_simps turn_inv_def since_def)
next
  case (CompleteReport fr u mo)
  with inv show ?thesis
    by (cases u) (simp_all add: handle_event_def set_gen_def wp_simps turn_inv_def since_def)
next
  case (ErrorReport e)
  with turn_inv_failed [OF inv] show ?thesis by (simp add: handle_event_def wp_simps turn_stopped_def)
qed

lemma wp_consume:
  assumes q: "env_obeys preserves_messages env"
  shows "run_obeys preserves_messages run \<Longrightarrow> turn_inv pre i key [] w \<Longrightarrow>
    wp (consume env i c run) (\<lambda>_. turn_inv pre i key []) (turn_stopped pre i key) w"
proof (induction run arbitrary: w)
  case (Yields f ev rest)
  have e: "turn_inv pre i key [] (w\<lparr>db := eff_db f (db w), aborted := ab\<rparr>)" for ab
    using Yields.prems turn_inv_effect by simp
  have "wp (handle_event env i c ev) (\<lambda>_. wp (consume env i c rest) (\<lambda>_. turn_inv pre i key []) (turn_stopped pre i key))
      (turn_stopped pre i key) (w\<lparr>db := eff_db f (db w), aborted := ab\<rparr>)" for ab
    by (rule wp_mono [OF wp_handle_event [OF q e]]) (use Yields in auto)
  with e show ?case by (simp add: wp_simps)
next
  case (Throws f e)
  then have "turn_failed pre i key (w\<lparr>db := eff_db f (db w), aborted := ab\<rparr>)" for ab
    by (intro turn_inv_failed [where t = "[]"] turn_inv_effect) simp_all
  then show ?case by (simp add: wp_simps turn_stopped_def)
next
  case (Ends f)
  then show ?case using turn_inv_effect by (simp add: wp_simps)
qed

lemma wp_run_stream:
  assumes q: "env_obeys preserves_messages env" and a: "adapter_obeys preserves_messages a"
    and inv: "turn_inv pre i key [] w"
  shows "wp (run_stream env i c a req) (\<lambda>_. turn_inv pre i key []) (turn_stopped pre i key) w"
proof -
  let ?w = "w\<lparr>calls := Suc (calls w)\<rparr>"
  have "run_obeys preserves_messages (ad_stream a (calls w) req)" "turn_inv pre i key [] ?w"
    using a inv by (simp_all add: adapter_obeys_def turn_inv_def since_def)
  from wp_consume [OF q this] show ?thesis
    by (simp add: run_stream_def wp_bnd open_stream_def) (simp add: wp_def)
qed

section \<open>The ends of a turn\<close>

text \<open>
  The last events of a turn and the row they go with: an aborted turn emits nothing more,
  a completed one reports its usage, and a failed one its error.
\<close>

definition turn_ending :: "string \<Rightarrow> sse_event list \<Rightarrow> sse_event list \<Rightarrow> message_row \<Rightarrow> bool" where
  "turn_ending i ds tail r \<longleftrightarrow>
     (tail = [] \<and> msg_status r = Complete \<and> msg_content r \<noteq> [] \<and> prefix (streamed_text ds) (msg_content r))
   \<or> (tail = [] \<and> msg_status r = Errored \<and> msg_content r = ''Generation interrupted'' \<and> streamed_text ds = [])
   \<or> (\<exists>tc. tail = [MessageComplete i tc None, Done] \<and> msg_status r = Complete \<and> msg_content r = streamed_text ds)
   \<or> (\<exists>tc u. tail = [Usage u, MessageComplete i tc (Some u), Done] \<and> msg_status r = Complete
        \<and> msg_content r = streamed_text ds)
   \<or> (\<exists>p. tail = [ErrorEvent p, Done] \<and> msg_status r = Errored \<and> prefix (streamed_text ds) (msg_content r))"

definition turn_final :: "sse_event list \<Rightarrow> string \<Rightarrow> row_key \<Rightarrow> world \<Rightarrow> bool" where
  "turn_final pre i key w \<longleftrightarrow>
     prefix pre (emitted w)
     \<and> (\<exists>ds tail r. since pre w = ds @ tail \<and> deltas i ds \<and> message_by_id (db w) i = Some r
          \<and> message_identity r = key \<and> turn_ending i ds tail r)"

lemma turn_finalI:
  "emitted w' = emitted w @ tail \<Longrightarrow> prefix pre (emitted w) \<Longrightarrow> deltas i (since pre w) \<Longrightarrow>
   message_by_id (db w') i = Some r \<Longrightarrow> message_identity r = key \<Longrightarrow>
   turn_ending i (since pre w) tail r \<Longrightarrow> turn_final pre i key w'"
  unfolding turn_final_def since_def
  by (intro conjI exI [of _ "drop (length pre) (emitted w)"] exI [of _ tail] exI [of _ r]) simp_all

text \<open>What a consumer that leaves the generator leaves behind.\<close>

definition turn_left :: "sse_event list \<Rightarrow> string \<Rightarrow> row_key \<Rightarrow> world \<Rightarrow> bool" where
  "turn_left pre i key w \<longleftrightarrow>
     (\<exists>r. message_by_id (db w) i = Some r \<and> message_identity r = key
        \<and> (msg_status r \<in> {Complete, Errored}
           \<or> (prefix pre (emitted w) \<and> deltas i (since pre w) \<and> prefix (msg_content r) (streamed_text (since pre w))
              \<and> length (streamed_text (since pre w)) < length (msg_content r) + 200)))"

lemma turn_inv_left: "turn_inv pre i key [] w \<Longrightarrow> turn_left pre i key w"
  by (auto simp: turn_inv_def turn_left_def)

definition turn_interrupted :: "sse_event list \<Rightarrow> string \<Rightarrow> row_key \<Rightarrow> interrupt \<Rightarrow> world \<Rightarrow> bool" where
  "turn_interrupted pre i key e w = (case e of Returned \<Rightarrow> turn_left pre i key w | Raised _ \<Rightarrow> turn_failed pre i key w)"

lemma message_identity_update [simp]:
  "message_identity (r\<lparr>msg_status := st, msg_content := c, msg_token_count := tc\<rparr>) = message_identity r"
  by (simp add: message_identity_def)

lemma turn_failed_same:
  "turn_failed pre i key w \<Longrightarrow> emitted w' = emitted w \<Longrightarrow> gen w' = gen w \<Longrightarrow>
   message_by_id (db w') i = Some r \<Longrightarrow> message_identity r = key \<Longrightarrow> turn_failed pre i key w'"
  by (simp add: turn_failed_def since_def)

lemma wp_finish_aborted:
  assumes f: "turn_failed pre i key w"
  shows "wp (finish_aborted env i c) (\<lambda>_. turn_final pre i key) (turn_interrupted pre i key) w"
proof -
  obtain r where r: "message_by_id (db w) i = Some r" "message_identity r = key"
    using f by (auto simp: turn_failed_def)
  let ?w = "w\<lparr>gen := (gen w)\<lparr>accumulatedContent := ''Generation interrupted''\<rparr>\<rparr>"
  show ?thesis
  proof (cases "accumulatedContent (gen w) = []")
    case False
    then show ?thesis
      using f r
      by (auto simp: finish_aborted_def wp_simps turn_failed_def turn_ending_def turn_interrupted_def
          since_def split: interrupt.split
          intro!: wp_mono [OF wp_flushPartial [OF r(1)]] turn_finalI [where w = w and tail = "[]"])
  next
    case True
    have r': "message_by_id (db ?w) i = Some r" using r by simp
    show ?thesis
      using f r True
      by (auto simp: finish_aborted_def wp_simps set_gen_def turn_failed_def turn_ending_def
          turn_interrupted_def since_def split: interrupt.split
          intro!: wp_mono [OF wp_flushPartial [OF r']] turn_finalI [where w = w and tail = "[]"])
  qed
qed

lemma wp_emit_final:
  assumes q: "env_obeys preserves_messages env" and r: "message_by_id (db w) i = Some r"
  shows "wp (emit env ev)
     (\<lambda>_ w'. message_by_id (db w') i = Some r \<and> emitted w' = emitted w @ [ev] \<and> gen w' = gen w)
     (\<lambda>e w'. e = Returned \<and> message_by_id (db w') i = Some r \<and> emitted w' = emitted w @ [ev]) w"
  using q preserves_effect [OF _ r] by (simp add: wp_emit Let_def env_obeys_def)

lemma wp_finish_failed:
  assumes q: "env_obeys preserves_messages env" and f: "turn_failed pre i key w"
  shows "wp (finish_failed env i c e) (\<lambda>_. turn_final pre i key) (turn_interrupted pre i key) w"
proof -
  obtain r where r: "message_by_id (db w) i = Some r" "message_identity r = key"
    using f by (auto simp: turn_failed_def)
  let ?p = "toStreamErrorPayload e"
  have fin: "wp (emit env Done) (\<lambda>_. turn_final pre i key) (turn_interrupted pre i key) v"
    if "message_by_id (db v) i = Some r'" "message_identity r' = key" "emitted v = emitted w @ [ErrorEvent ?p]"
      "msg_status r' = Errored" "msg_content r' = accumulatedContent (gen w)" for v r'
    by (rule wp_mono [OF wp_emit_final [OF q that(1)]])
      (use f that in \<open>auto simp: turn_failed_def turn_ending_def turn_interrupted_def turn_left_def
         intro!: turn_finalI [where w = w and tail = "[ErrorEvent ?p, Done]"]\<close>)
  have err: "wp (emit env (ErrorEvent ?p)) (\<lambda>_. wp (emit env Done) (\<lambda>_. turn_final pre i key) (turn_interrupted pre i key))
      (turn_interrupted pre i key) v"
    if "message_by_id (db v) i = Some r'" "message_identity r' = key" "emitted v = emitted w"
      "msg_status r' = Errored" "msg_content r' = accumulatedContent (gen w)" for v r'
    by (rule wp_mono [OF wp_emit_final [OF q that(1)]], rule fin [where r' = r'])
      (use that in \<open>auto simp: turn_interrupted_def turn_left_def\<close>)
  show ?thesis
    unfolding finish_failed_def wp_bnd wp_gets
  proof (rule wp_mono [OF wp_flushPartial [OF r(1)]], goal_cases)
    case (1 u w')
    then obtain tc where "message_by_id (db w') i = Some (r\<lparr>msg_status := Errored,
        msg_content := accumulatedContent (gen w), msg_token_count := tc\<rparr>)" "emitted w' = emitted w"
      by auto
    then show ?case by (intro err) (simp, simp, rule r(2), simp, simp, simp)
  next
    case (2 e' w')
    then show ?case
      using r turn_failed_same [OF f] by (auto simp: turn_interrupted_def split: interrupt.split)
  qed
qed

text \<open>A turn whose final checkpoint is written and whose closing events are still to come.\<close>

definition turn_written :: "sse_event list \<Rightarrow> string \<Rightarrow> row_key \<Rightarrow> world \<Rightarrow> bool" where
  "turn_written pre i key w \<longleftrightarrow>
     prefix pre (emitted w) \<and> deltas i (since pre w)
     \<and> (\<exists>r. message_by_id (db w) i = Some r \<and> message_identity r = key \<and> msg_status r = Complete
          \<and> msg_content r = streamed_text (since pre w))"

lemma wp_finish_complete:
  assumes inv: "turn_inv pre i key [] w"
  shows "wp (finish_complete env i c agent provider model)
     (\<lambda>_ w'. turn_written pre i key w') (\<lambda>e w'. e \<noteq> Returned \<and> turn_failed pre i key w') w"
proof -
  obtain r where r: "message_by_id (db w) i = Some r" "message_identity r = key"
    using inv by (auto simp: turn_inv_def)
  show ?thesis
    unfolding finish_complete_def wp_bnd wp_gets
    by (rule wp_mono [OF wp_flushPartial [OF r(1)]])
      (use inv r turn_inv_failed [OF inv] in \<open>auto simp: wp_simps message_by_id_other turn_inv_def turn_written_def
         turn_failed_def since_def split: option.split sum.split\<close>)
qed

lemma wp_emit_message_complete:
  assumes q: "env_obeys preserves_messages env" and r: "message_by_id (db w) i = Some r"
  shows "wp (emit_message_complete env i)
     (\<lambda>_ w'. message_by_id (db w') i = Some r \<and> gen w' = gen w
        \<and> emitted w' = emitted w @ [MessageComplete i (reported_output (gen w)) (reportedUsage (gen w))])
     (\<lambda>e w'. e = Returned \<and> message_by_id (db w') i = Some r) w"
  unfolding emit_message_complete_def wp_bnd wp_gets
  by (rule wp_mono [OF wp_emit_final [OF q r]]) auto

section \<open>The streamed turn of an agent's chat\<close>

lemma wp_stream_report:
  assumes q: "env_obeys preserves_messages env" and wr: "turn_written pre i key w"
  shows "wp (bnd (case reportedUsage (gen w) of None \<Rightarrow> ret () | Some u \<Rightarrow> emit env (Usage u)) (\<lambda>_.
             bnd (emit_message_complete env i) (\<lambda>_. emit env Done)))
     (\<lambda>_. turn_final pre i key) (turn_interrupted pre i key) w"
proof -
  obtain r where e: "prefix pre (emitted w)" "deltas i (since pre w)"
    and r: "message_by_id (db w) i = Some r" "message_identity r = key" "msg_status r = Complete"
      "msg_content r = streamed_text (since pre w)"
    using wr by (auto simp: turn_written_def)
  have left: "turn_interrupted pre i key Returned v" if "message_by_id (db v) i = Some r" for v
    using that r by (auto simp: turn_interrupted_def turn_left_def)
  have fin: "wp (emit env Done) (\<lambda>_. turn_final pre i key) (turn_interrupted pre i key) v"
    if "message_by_id (db v) i = Some r"
      "emitted v = emitted w @ (case reportedUsage (gen w) of None \<Rightarrow> [] | Some u \<Rightarrow> [Usage u])
         @ [MessageComplete i tc (reportedUsage (gen w))]" for v tc
    by (rule wp_mono [OF wp_emit_final [OF q that(1)]])
      (use e r that left in \<open>auto simp: turn_ending_def split: option.splits
         intro!: turn_finalI [where w = w and r = r and tail = "(case reportedUsage (gen w) of None \<Rightarrow> [] | Some u \<Rightarrow> [Usage u])
           @ [MessageComplete i tc (reportedUsage (gen w)), Done]"]\<close>)
  have complete: "wp (emit_message_complete env i) (\<lambda>_. wp (emit env Done) (\<lambda>_. turn_final pre i key)
      (turn_interrupted pre i key)) (turn_interrupted pre i key) v"
    if "message_by_id (db v) i = Some r" "gen v = gen w"
      "emitted v = emitted w @ (case reportedUsage (gen w) of None \<Rightarrow> [] | Some u \<Rightarrow> [Usage u])" for v
    by (rule wp_mono [OF wp_emit_message_complete [OF q that(1)]]) (use that left in \<open>auto intro!: fin\<close>)
  show ?thesis
  proof (cases "reportedUsage (gen w)")
    case None
    with complete [OF r(1)] show ?thesis by (simp add: wp_simps)
  next
    case (Some u)
    show ?thesis
      unfolding wp_bnd Some option.case
      by (rule wp_mono [OF wp_emit_final [OF q r(1)]]) (use Some left in \<open>auto intro!: complete\<close>)
  qed
qed

lemma wp_stream_body:
  assumes q: "env_obeys preserves_messages env" and a: "adapter_obeys preserves_messages a"
    and inv: "turn_inv pre i key [] w"
  shows "wp (stream_body env i x a req) (\<lambda>_. turn_final pre i key) (turn_interrupted pre i key) w"
proof -
  let ?c = "ch_id (ex_chat x)"
  let ?report = "\<lambda>g. bnd (case reportedUsage g of None \<Rightarrow> ret () | Some u \<Rightarrow> emit env (Usage u)) (\<lambda>_.
             bnd (emit_message_complete env i) (\<lambda>_. emit env Done))"
  have complete: "wp (bnd (finish_complete env i ?c (ex_agent x) (ex_provider x) (ex_model x))
        (\<lambda>_. bnd (gets gen) ?report)) (\<lambda>_. turn_final pre i key) (turn_interrupted pre i key) v"
    if v: "turn_inv pre i key [] v" for v
    unfolding wp_bnd wp_gets
    by (rule wp_mono [OF wp_finish_complete [OF v]])
      (auto simp: turn_interrupted_def split: interrupt.split intro!: wp_stream_report [unfolded wp_bnd, OF q])
  have rest: "wp (bnd is_aborted (\<lambda>ab. if ab then finish_aborted env i ?c
      else bnd (finish_complete env i ?c (ex_agent x) (ex_provider x) (ex_model x)) (\<lambda>_. bnd (gets gen) ?report)))
      (\<lambda>_. turn_final pre i key) (turn_interrupted pre i key) v"
    if v: "turn_inv pre i key [] v" for v
    using complete [OF v] wp_finish_aborted [OF turn_inv_failed [OF v]] by (simp add: wp_bnd wp_is_aborted)
  show ?thesis
    unfolding stream_body_def Let_def
    unfolding wp_bnd [of "run_stream env i ?c a req"]
    by (rule wp_mono [OF wp_run_stream [OF q a inv]])
      (auto simp: turn_stopped_def turn_interrupted_def split: interrupt.splits intro!: rest turn_inv_left)
qed

lemma wp_stream_catch:
  assumes q: "env_obeys preserves_messages env" and f: "turn_failed pre i key w"
  shows "wp (stream_catch env i x e) (\<lambda>_. turn_final pre i key) (turn_interrupted pre i key) w"
  using wp_finish_aborted [OF f] wp_finish_failed [OF q f]
  by (simp add: stream_catch_def Let_def wp_bnd wp_is_aborted)

section \<open>Whole turns\<close>

definition start_event :: "chat_row \<Rightarrow> message_row \<Rightarrow> string option \<Rightarrow> sse_event" where
  "start_event chat row name =
     MessageStart (msg_id row) (ch_id chat) (msg_sequence row) (msg_agent_id row) name"

definition reply_row :: "chat_row \<Rightarrow> message_row \<Rightarrow> bool" where
  "reply_row chat row \<longleftrightarrow> msg_chat_id row = ch_id chat \<and> msg_role row = ''assistant''"

definition row_of :: "message_row \<Rightarrow> row_key" where
  "row_of row = message_identity row"

lemma wp_createPendingMessageRow:
  "wp (createPendingMessageRow env c a)
     (\<lambda>row w'. message_by_id (db w') (msg_id row) = Some row \<and> msg_chat_id row = c \<and> msg_role row = ''assistant''
        \<and> msg_agent_id row = Some a \<and> msg_content row = [] \<and> msg_status row = Pending
        \<and> emitted w' = emitted w \<and> aborted w' = aborted w)
     (\<lambda>i w'. i \<noteq> Returned) w"
proof -
  have "wp (pending_attempts env r k)
     (\<lambda>row w'. message_by_id (db w') (msg_id row) = Some row \<and> msg_chat_id row = msg_chat_id r
        \<and> msg_role row = msg_role r \<and> msg_agent_id row = msg_agent_id r \<and> msg_content row = msg_content r
        \<and> msg_status row = msg_status r \<and> emitted w' = emitted v \<and> aborted w' = aborted v)
     (\<lambda>i w'. i \<noteq> Returned) v" for r k v
    by (rule wp_mono [OF wp_pending_attempts [OF refl refl]]) auto
  then show ?thesis
    unfolding createPendingMessageRow_def wp_bnd wp_fresh_id wp_now_iso by (rule wp_mono) auto
qed

lemma wp_start_turn:
  assumes q: "env_obeys preserves_messages env"
    and r: "message_by_id (db w) (msg_id row) = Some row" "msg_content row = []" "msg_status row = Pending"
  shows "wp (bnd (emit env (start_event chat row name)) (\<lambda>_. begin_turn env))
     (\<lambda>_. turn_inv (emitted w @ [start_event chat row name]) (msg_id row) (row_of row) [])
     (\<lambda>e w'. e = Returned \<and> turn_left (emitted w @ [start_event chat row name]) (msg_id row) (row_of row) w') w"
  unfolding wp_bnd
  by (rule wp_mono [OF wp_emit_final [OF q r(1)]])
    (use r in \<open>auto simp: begin_turn_def set_gen_def wp_simps turn_inv_def turn_left_def since_def row_of_def\<close>)

definition turn_outcome :: "chat_row \<Rightarrow> sse_event list \<Rightarrow> (sse_event list \<Rightarrow> string \<Rightarrow> row_key \<Rightarrow> world \<Rightarrow> bool) \<Rightarrow> world \<Rightarrow> bool" where
  "turn_outcome chat pre P w \<longleftrightarrow>
     (\<exists>row name. reply_row chat row \<and> P (pre @ [start_event chat row name]) (msg_id row) (row_of row) w)"

lemma wp_streamAgentChat:
  assumes q: "env_obeys preserves_messages env"
  shows "wp (streamAgentChat env chat dto)
     (\<lambda>_. turn_outcome chat (emitted w) turn_final)
     (\<lambda>e. case e of Returned \<Rightarrow> turn_outcome chat (emitted w) turn_left | Raised _ \<Rightarrow> \<lambda>_. True) w"
proof -
  let ?Q = "\<lambda>_::unit. turn_outcome chat (emitted w) turn_final"
  let ?E = "\<lambda>e. case e of Returned \<Rightarrow> turn_outcome chat (emitted w) turn_left | Raised _ \<Rightarrow> \<lambda>_. True"
  have body: "wp (catch_exn (stream_body env (msg_id row) y a req) (stream_catch env (msg_id row) y)) ?Q ?E v"
    if a: "adapter_obeys preserves_messages a" and row: "reply_row chat row"
      and inv: "turn_inv (emitted w @ [start_event chat row name]) (msg_id row) (row_of row) [] v"
    for a req row y name v
  proof -
    have fin: "turn_final (emitted w @ [start_event chat row name]) (msg_id row) (row_of row) u \<Longrightarrow>
        turn_outcome chat (emitted w) turn_final u" for u
      using row unfolding turn_outcome_def by blast
    have left: "turn_left (emitted w @ [start_event chat row name]) (msg_id row) (row_of row) u \<Longrightarrow>
        turn_outcome chat (emitted w) turn_left u" for u
      using row unfolding turn_outcome_def by blast
    have handler: "wp (stream_catch env (msg_id row) y e) ?Q ?E u"
      if "turn_failed (emitted w @ [start_event chat row name]) (msg_id row) (row_of row) u" for e u
      by (rule wp_mono [OF wp_stream_catch [OF q that]])
        (auto simp: turn_interrupted_def split: interrupt.splits intro: fin left)
    show ?thesis
      unfolding wp_catch_exn
      by (rule wp_mono [OF wp_stream_body [OF q a inv]])
        (auto simp: turn_interrupted_def split: interrupt.splits intro: fin left handler)
  qed
  have start: "wp (bnd (emit env (MessageStart (msg_id row) (ch_id chat) (msg_sequence row) (Some agentId) name)) (\<lambda>_.
      bnd (begin_turn env) (\<lambda>_.
      catch_exn (stream_body env (msg_id row) y a req) (stream_catch env (msg_id row) y)))) ?Q ?E v"
    if a: "adapter_obeys preserves_messages a"
      and r: "message_by_id (db v) (msg_id row) = Some row" "msg_chat_id row = ch_id chat" "msg_role row = ''assistant''"
        "msg_agent_id row = Some agentId" "msg_content row = []" "msg_status row = Pending" "emitted v = emitted w"
    for a agentId name row y req v
  proof -
    have ev: "MessageStart (msg_id row) (ch_id chat) (msg_sequence row) (Some agentId) name = start_event chat row name"
      using r by (simp add: start_event_def)
    have rr: "reply_row chat row" using r by (simp add: reply_row_def)
    let ?K = "catch_exn (stream_body env (msg_id row) y a req) (stream_catch env (msg_id row) y)"
    have "wp (bnd (emit env (start_event chat row name)) (\<lambda>_. begin_turn env)) (\<lambda>_. wp ?K ?Q ?E) ?E v"
      by (rule wp_mono [OF wp_start_turn [OF q r(1,5,6), unfolded r(7)]])
        (auto intro!: body [OF a rr] simp: turn_outcome_def rr intro: exI [of _ row])
    then show ?thesis by (simp add: ev wp_bnd_fun)
  qed
  have pending: "wp (createPendingMessageRow env (ch_id chat) agentId) (\<lambda>row.
      wp (bnd (emit env (MessageStart (msg_id row) (ch_id chat) (msg_sequence row) (Some agentId) name)) (\<lambda>_.
      bnd (begin_turn env) (\<lambda>_.
      catch_exn (stream_body env (msg_id row) y a req) (stream_catch env (msg_id row) y)))) ?Q ?E) ?E w"
    if "adapter_obeys preserves_messages a" for a agentId name y req
    by (rule wp_mono [OF wp_createPendingMessageRow]) (auto intro!: start that split: interrupt.split)
  show ?thesis
    unfolding streamAgentChat_def
    using pending quiet.step_relation_axioms q
    by (auto simp: wp_bnd wp_query wp_is_aborted wp_of_sum wp_raise_exn create_adapter_def env_obeys_def
        split: sum.split)
qed

end
