(* ===== verification/CompletionFacts.thy ===== *)
theory CompletionFacts
  imports TeamChat Chats StreamFacts
begin

text \<open>
  What the non-streaming operations do: a request that fails leaves the database as it
  was, a completion that succeeds has stored its reply, a team exchange stays within its
  bounds, and the allocation of a message row succeeds on a well-numbered chat.
\<close>

section \<open>A failed request writes nothing\<close>

text \<open>A computation that starts and, when it is interrupted, ends with the database \<open>d\<close>.\<close>

definition clean :: "database \<Rightarrow> 'a comp \<Rightarrow> bool" where
  "clean d m \<longleftrightarrow> (\<forall>w. db w = d \<longrightarrow> wp m (\<lambda>_ _. True) (\<lambda>_ w'. db w' = d) w)"

text \<open>One that does not write at all.\<close>

definition silent :: "database \<Rightarrow> 'a comp \<Rightarrow> bool" where
  "silent d m \<longleftrightarrow> (\<forall>w. db w = d \<longrightarrow> wp m (\<lambda>_ w'. db w' = d) (\<lambda>_ w'. db w' = d) w)"

lemma clean_bnd: "silent d m \<Longrightarrow> (\<And>x. clean d (f x)) \<Longrightarrow> clean d (bnd m f)"
  unfolding clean_def silent_def wp_bnd by (blast intro: wp_mono)

lemma clean_last: "silent d m \<Longrightarrow> clean d m"
  unfolding clean_def silent_def by (blast intro: wp_mono)

lemma clean_then: "clean d m \<Longrightarrow> (\<And>x. \<exists>y. f x = ret y) \<Longrightarrow> clean d (bnd m f)"
  unfolding clean_def wp_bnd by (metis (no_types, lifting) wp_mono wp_ret)

lemma clean_catch: "clean d m \<Longrightarrow> (\<And>e. clean d (h e)) \<Longrightarrow> clean d (catch_exn m h)"
  unfolding clean_def wp_catch_exn
  by (intro allI impI, rule wp_mono [where Q = "\<lambda>_ _. True" and E = "\<lambda>_ w'. db w' = d"])
    (auto split: interrupt.split)

lemma clean_transaction: "clean d (transaction env m)"
  by (auto simp: clean_def transaction_def wp_def exec_write_def Let_def split: prod.splits sum.splits option.splits)

lemma silent_simps [simp]:
  "silent d (query f)" "silent d (select g)" "silent d (of_sum x)" "silent d (raise_exn e)" "silent d (ret x)"
  "silent d (fresh_id env)" "silent d (now_iso env)" "silent d is_aborted"
  by (auto simp: silent_def wp_simps split: sum.split)

lemma clean_raise [simp]: "clean d (raise_exn e)"
  by (rule clean_last) simp

lemma silent_await: "adapter_obeys (=) a \<Longrightarrow> silent d (await_complete a req)"
  by (auto simp: silent_def wp_simps adapter_obeys_def effect_obeys_def Let_def split: prod.split sum.split)
    (metis snd_conv)+

lemma silent_catch: "silent d m \<Longrightarrow> (\<And>e. silent d (h e)) \<Longrightarrow> silent d (catch_exn m h)"
  unfolding silent_def wp_catch_exn
  by (intro allI impI, rule wp_mono [where Q = "\<lambda>_ w'. db w' = d" and E = "\<lambda>_ w'. db w' = d"])
    (auto split: interrupt.split)

lemma clean_if: "clean d m \<Longrightarrow> clean d m' \<Longrightarrow> clean d (if b then m else m')"
  by simp

lemma clean_bnd_adapter:
  assumes "env_obeys (=) env" "\<And>a. adapter_obeys (=) a \<Longrightarrow> clean d (f a)"
  shows "clean d (bnd (of_sum (create_adapter env model provider key)) f)"
proof (cases "create_adapter env model provider key")
  case (Inl e)
  then show ?thesis by (simp add: clean_def wp_simps)
next
  case (Inr a)
  then have "adapter_obeys (=) a" using assms(1) by (auto simp: env_obeys_def create_adapter_def)
  then show ?thesis using Inr assms(2) by (simp add: clean_def wp_simps)
qed

lemma clean_persist_attempts: "clean d (persist_attempts env chat agent provider model response k)"
  by (induction k) (auto intro!: clean_bnd clean_catch clean_transaction)

lemma clean_persistAssistantReply: "clean d (persistAssistantReply env chat agent provider model response)"
  unfolding persistAssistantReply_def by (rule clean_then [OF clean_persist_attempts]) blast

lemma silent_call_provider:
  "adapter_obeys (=) a \<Longrightarrow> silent d (call_provider env a req model provider key)"
  unfolding call_provider_def by (intro silent_catch silent_await) simp_all

lemma clean_completeAgentChat: "env_obeys (=) env \<Longrightarrow> clean d (completeAgentChat env chat dto)"
  unfolding completeAgentChat_def
  by (intro clean_bnd clean_bnd_adapter silent_call_provider clean_persistAssistantReply silent_simps)

lemma clean_create_message_attempts: "clean d (create_message_attempts env c role a content k)"
  by (induction k) (auto intro!: clean_bnd clean_catch clean_transaction)

lemma clean_createMessage: "clean d (createMessage env c dto)"
  unfolding createMessage_def by (intro clean_bnd clean_create_message_attempts silent_simps)

section \<open>A completion that succeeds is stored\<close>

text \<open>The stored form of a reply, its usage event, and the time of the chat.\<close>

definition reply_stored :: "chat_row \<Rightarrow> completion_dto \<Rightarrow> database \<Rightarrow> bool" where
  "reply_stored chat reply d \<longleftrightarrow>
     (\<exists>row. message_by_id d (cd_id reply) = Some row \<and> msg_chat_id row = ch_id chat \<and> msg_role row = ''assistant''
        \<and> msg_status row = Complete \<and> msg_content row = cd_content reply \<and> msg_sequence row = cd_sequence reply
        \<and> msg_agent_id row = cd_agentId reply \<and> msg_created_at row = cd_createdAt reply)
   \<and> (\<exists>u\<in>set (usage_events d). us_chat_id u = Some (ch_id chat) \<and> us_event_type u = ''chat_completion''
        \<and> us_output_tokens u = map_option outputTokens (cd_usage reply)
        \<and> us_input_tokens u = map_option inputTokens (cd_usage reply) \<and> us_occurred_at u = cd_createdAt reply)
   \<and> (\<forall>c\<in>set (chats d). ch_id c = ch_id chat \<longrightarrow> ch_updated_at c = cd_createdAt reply)"

lemma insert_usageD:
  "insert_usage u d = Inr d' \<Longrightarrow> d' = d\<lparr>usage_events := usage_events d @ [u]\<rparr>"
  by (simp add: insert_usage_def split: if_splits)

lemma touch_chatD:
  "touch_chat i now d = Inr d' \<Longrightarrow> \<forall>c\<in>set (chats d'). ch_id c = i \<longrightarrow> ch_updated_at c = now"
proof -
  assume "touch_chat i now d = Inr d'"
  then have "chats d' = map (\<lambda>c. if ch_id c = i then c\<lparr>ch_updated_at := now\<rparr> else c) (chats d)"
    by (auto simp: touch_chat_def)
  then show ?thesis by (simp add: ball_Un)
qed

lemma reply_storedI:
  assumes "append_message r d0 = Inr d1" "touch_chat (ch_id chat) (msg_created_at r) d1 = Inr d2" "insert_usage u d2 = Inr d3"
    and "msg_chat_id r = ch_id chat" "msg_role r = ''assistant''" "msg_status r = Complete"
    and "us_chat_id u = Some (ch_id chat)" "us_event_type u = ''chat_completion''"
      "us_occurred_at u = msg_created_at r" "us_input_tokens u = map_option inputTokens (cs_usage response)"
      "us_output_tokens u = map_option outputTokens (cs_usage response)"
    and row: "row = r\<lparr>msg_sequence := next_sequence d0 (msg_chat_id r)\<rparr>"
  shows "reply_stored chat (reply_dto row response) d3"
proof -
  have "message_by_id d3 (msg_id r) = Some row"
    unfolding row using message_by_id_append [OF assms(1)] statement_messages(1) [OF assms(2)] statement_messages(3) [OF assms(3)]
    by (simp add: message_by_id_def)
  then show ?thesis
    using assms(4-) insert_usageD [OF assms(3)] touch_chatD [OF assms(2)]
    by (simp add: reply_stored_def reply_dto_def)
qed

lemma wp_persist_attempts:
  "wp (persist_attempts env chat agent provider model response k)
     (\<lambda>row w'. reply_stored chat (reply_dto row response) (db w') \<and> msg_content row = cs_content response
        \<and> msg_agent_id row = Some (ag_id agent))
     (\<lambda>_ _. True) w"
proof (induction k arbitrary: w)
  case 0
  show ?case by (simp add: wp_simps)
next
  case (Suc k)
  show ?case
    by (auto simp: wp_simps wp_transaction insert_returning_def wp_trivial
        split: option.split sum.split interrupt.split if_split intro!: Suc.IH reply_storedI,
      simp_all add: usage_row_of_def)
qed

section \<open>The pending row is allocated\<close>

text \<open>
  On a well-numbered chat the first attempt succeeds: the insertion meets no constraint,
  so the row gets the next number and is stored.
\<close>

lemma append_message_succeeds:
  assumes "dense_sequences d" "chat_by_id d (msg_chat_id r) \<noteq> None" "references (agent_by_id d) (msg_agent_id r)"
    and "message_by_id d (msg_id r) = None" "msg_role r \<in> set message_roles"
  shows "append_message r d = Inr (d\<lparr>messages := messages d @
     [r\<lparr>msg_sequence := int (length (chat_messages d (msg_chat_id r))) + 1\<rparr>]\<rparr>)"
  using append_message_no_collision [OF assms(1), of r] assms(2-) next_sequence_dense [OF assms(1)]
  by (auto simp: append_message_def insert_message_def sqlite_error_def foreign_key_error_def split: if_splits)

lemma wp_createPending_succeeds:
  assumes "dense_sequences (db w)" "chat_by_id (db w) c \<noteq> None" "agent_by_id (db w) a \<noteq> None"
    and "\<And>n. fault env n = None"
    and "message_by_id (db w) (newId (clock env (ticks w)) (rand env (draws w))) = None"
  shows "wp (createPendingMessageRow env c a)
    (\<lambda>row w'. msg_sequence row = int (length (chat_messages (db w) c)) + 1 \<and> msg_status row = Pending
       \<and> msg_content row = [] \<and> msg_agent_id row = Some a
       \<and> chat_messages (db w') c = chat_messages (db w) c @ [row])
    (\<lambda>_ _. False) w"
  using assms
  by (simp add: createPendingMessageRow_def maxRetries_def numeral_3_eq_3 wp_simps wp_transaction insert_returning_def
      append_message_succeeds references_def message_roles_def touch_chat_def next_sequence_dense chat_messages_def)

end
