(* ===== verification/TeamFacts.thy ===== *)
theory TeamFacts
  imports CompletionFacts
begin

text \<open>
  The shape of a non-streaming team exchange: how many replies it has, who wrote them and
  where it stops, for each of the four strategies.
\<close>

section \<open>The author of a reply\<close>

lemma reply_dto_simps [simp]:
  "cd_content (reply_dto row response) = msg_content row" "cd_agentId (reply_dto row response) = msg_agent_id row"
  by (simp_all add: reply_dto_def)

lemma wp_persistAssistantReply:
  "wp (persistAssistantReply env chat agent provider model response)
     (\<lambda>r w'. reply_stored chat r (db w') \<and> cd_content r = cs_content response \<and> cd_agentId r = Some (ag_id agent))
     (\<lambda>_ _. True) w"
  unfolding persistAssistantReply_def wp_bnd
  by (rule wp_mono [OF wp_persist_attempts]) (auto simp: wp_simps)

lemma wp_any: "(\<And>x w. Q x w) \<Longrightarrow> wp m Q (\<lambda>_ _. True) w"
  by (simp add: wp_def split: prod.split sum.split)

lemma agent_by_idD: "agent_by_id d i = Some a \<Longrightarrow> ag_id a = i"
  by (auto simp: agent_by_id_def find_Some_iff)

text \<open>The reply of an agent's chat: what the provider answered to the request of that chat.\<close>

lemma wp_completeAgentChat:
  "wp (completeAgentChat env chat dto)
     (\<lambda>r w'. reply_stored chat r (db w') \<and> (\<exists>x req a response f.
        resolveExecutionChain env (db w) (ch_id chat) (cc_modelId dto) = Inr x
      \<and> request_setup env (db w) dto chat (ex_agent x) (ex_agent x) (ex_model x) None = Inr req
      \<and> create_adapter env (ex_model x) (ex_provider x) (ex_apiKey x) = Inr a
      \<and> ad_complete a (calls w) req = (Inr response, f)
      \<and> cd_content r = cs_content response \<and> cd_agentId r = Some (ag_id (ex_agent x))))
     (\<lambda>_ _. True) w"
  unfolding completeAgentChat_def call_provider_def
  by (auto simp: wp_simps Let_def split: sum.split prod.split intro!: wp_mono [OF wp_persistAssistantReply])

lemma member_setupD:
  "member_setup env d chat m dto opts extra = Inr (x, req) \<Longrightarrow> ag_id (ex_agent x) = me_agent_id m \<and> ex_chat x = chat"
  by (auto simp: member_setup_def dest: agent_by_idD split: option.splits sum.splits prod.splits)

lemma wp_executeMemberTurn:
  "wp (executeMemberTurn env chat m dto opts extra)
     (\<lambda>r w'. reply_stored chat r (db w') \<and> cd_agentId r = Some (me_agent_id m)) (\<lambda>_ _. True) w"
proof -
  have last: "wp (bnd (call_provider env a req (ex_model x) (ex_provider x) (ex_apiKey x)) (\<lambda>response.
       persistAssistantReply env chat (ex_agent x) (ex_provider x) (ex_model x) response))
     (\<lambda>r w'. reply_stored chat r (db w') \<and> cd_agentId r = Some (me_agent_id m)) (\<lambda>_ _. True) w"
    if "ag_id (ex_agent x) = me_agent_id m" for a req x w
    unfolding wp_bnd
    by (rule wp_any) (rule wp_mono [OF wp_persistAssistantReply], simp_all add: that)
  show ?thesis
    unfolding executeMemberTurn_def
    by (auto simp: wp_simps split: sum.split prod.split dest!: member_setupD intro!: last [unfolded wp_bnd])
qed

lemma wp_then_raise: "wp (bnd m (\<lambda>_. raise_exn e)) Q (\<lambda>_ _. True) w"
  by (simp add: wp_def bnd_def raise_exn_def throw_def split: prod.split sum.split)

lemma wp_guarded_turn:
  "wp (guarded_turn env chat m dto opts extra later)
     (\<lambda>r w'. reply_stored chat r (db w') \<and> cd_agentId r = Some (me_agent_id m)) (\<lambda>_ _. True) w"
  unfolding guarded_turn_def wp_catch_exn
  by (rule wp_mono [OF wp_executeMemberTurn])
    (auto simp: wp_then_raise split: interrupt.split)

section \<open>The loops\<close>

text \<open>
  What a loop adds to the replies it was given: at most \<open>n\<close>, at least one when there was
  none, and none but the last satisfies the condition that ends the exchange.
\<close>

definition extends :: "completion_dto list \<Rightarrow> nat \<Rightarrow> (string \<Rightarrow> bool) \<Rightarrow> (completion_dto list \<Rightarrow> bool)
    \<Rightarrow> completion_dto list \<Rightarrow> bool" where
  "extends acc n stop shape replies \<longleftrightarrow> (\<exists>new. replies = acc @ new \<and> length new \<le> n
     \<and> (acc = [] \<and> 0 < n \<longrightarrow> new \<noteq> []) \<and> (\<forall>r\<in>set (butlast new). \<not> stop (cd_content r)) \<and> shape new)"

definition authors :: "team_member list \<Rightarrow> completion_dto list \<Rightarrow> bool" where
  "authors ms new \<longleftrightarrow> map cd_agentId new = map (\<lambda>m. Some (me_agent_id m)) (take (length new) ms)"

definition relay :: "team_member \<Rightarrow> completion_dto list \<Rightarrow> bool" where
  "relay current new \<longleftrightarrow> (new \<noteq> [] \<longrightarrow> cd_agentId (hd new) = Some (me_agent_id current))
     \<and> successively (\<noteq>) (map cd_agentId new)"

lemma extends_none: "(acc \<noteq> [] \<or> n = 0) \<Longrightarrow> shape [] \<Longrightarrow> extends acc n stop shape acc"
  by (auto simp: extends_def)

lemma extends_one: "shape [r] \<Longrightarrow> 0 < n \<Longrightarrow> extends acc n stop shape (acc @ [r])"
  by (auto simp: extends_def)

lemma extends_more:
  assumes "extends (acc @ [r]) n stop shape' replies" "\<not> stop (cd_content r)"
    "\<And>new. shape' new \<Longrightarrow> shape (r # new)"
  shows "extends acc (Suc n) stop shape replies"
proof -
  from assms(1) obtain new where n: "replies = acc @ r # new" "length new \<le> n" "shape' new"
    "\<forall>x\<in>set (butlast new). \<not> stop (cd_content x)" by (auto simp: extends_def)
  then show ?thesis unfolding extends_def
    by (intro exI [of _ "r # new"]) (use assms(2,3) in auto)
qed

lemma wp_sequential_turns:
  "wp (sequential_turns env chat dto ms acc)
     (\<lambda>r _. extends acc (length ms) (\<lambda>c. js_includes c finish_marker) (authors ms) r) (\<lambda>_ _. True) w"
proof (induction ms arbitrary: acc w)
  case Nil
  show ?case by (simp add: wp_simps extends_none authors_def)
next
  case (Cons m ms acc w)
  have more: "wp (sequential_turns env chat dto ms (acc @ [r]))
     (\<lambda>r' _. extends acc (Suc (length ms)) (\<lambda>c. js_includes c finish_marker) (authors (m # ms)) r') (\<lambda>_ _. True) w'"
    if "cd_agentId r = Some (me_agent_id m)" "\<not> js_includes (cd_content r) finish_marker" for r w'
    by (rule wp_mono [OF Cons.IH]) (auto simp: that authors_def intro: extends_more)
  show ?case
  proof (cases "aborted w")
    case True
    then show ?thesis by (auto simp: wp_simps extends_none authors_def)
  next
    case False
    then show ?thesis
      by (simp add: wp_simps, intro wp_mono [OF wp_guarded_turn])
        (auto intro!: more extends_one simp: wp_simps authors_def)
  qed
qed

lemma wp_broadcast_turns:
  "wp (broadcast_turns env chat dto opts ms acc)
     (\<lambda>r _. extends acc (length ms) (\<lambda>_. False) (authors ms) r) (\<lambda>_ _. True) w"
proof (induction ms arbitrary: acc w)
  case Nil
  show ?case by (simp add: wp_simps extends_none authors_def)
next
  case (Cons m ms acc w)
  have more: "wp (broadcast_turns env chat dto opts ms (acc @ [r]))
     (\<lambda>r' _. extends acc (Suc (length ms)) (\<lambda>_. False) (authors (m # ms)) r') (\<lambda>_ _. True) w'"
    if "cd_agentId r = Some (me_agent_id m)" for r w'
    by (rule wp_mono [OF Cons.IH]) (auto simp: that authors_def intro: extends_more)
  show ?case
  proof (cases "aborted w")
    case True
    then show ?thesis by (auto simp: wp_simps extends_none authors_def)
  next
    case False
    then show ?thesis by (simp add: wp_simps, intro wp_mono [OF wp_guarded_turn]) (auto intro!: more)
  qed
qed

text \<open>What ends an autonomous exchange.\<close>

definition autonomous_stop :: "string \<Rightarrow> bool" where
  "autonomous_stop c \<longleftrightarrow> js_includes c ''[DONE]'' \<or> js_includes c finish_marker"

lemma coalesce_Some_iff: "coalesce x y = Some z \<longleftrightarrow> x = Some z \<or> x = None \<and> y = Some z"
  by (cases x) auto

lemma find_targetD: "find_target ms q = Some m \<Longrightarrow> m \<in> set ms"
  by (auto simp: find_target_def coalesce_Some_iff find_Some_iff)

lemma next_speakerD:
  "next_speaker members current c = Some m \<Longrightarrow>
     \<not> autonomous_stop c \<and> m \<in> set members \<and> me_agent_id m \<noteq> me_agent_id current"
  by (auto simp: next_speaker_def autonomous_stop_def others_def dest!: find_targetD
      split: if_splits Option.bind_splits)

lemma wp_autonomous_turns:
  "wp (autonomous_turns env chat team members dto k current acc)
     (\<lambda>r _. extends acc k autonomous_stop (relay current) r) (\<lambda>_ _. True) w"
proof (induction k arbitrary: current acc w)
  case 0
  show ?case by (simp add: wp_simps extends_none relay_def)
next
  case (Suc k current acc w)
  have more: "wp (autonomous_turns env chat team members dto k m (acc @ [r]))
     (\<lambda>r' _. extends acc (Suc k) autonomous_stop (relay current) r') (\<lambda>_ _. True) w'"
    if "cd_agentId r = Some (me_agent_id current)" "next_speaker members current (cd_content r) = Some m" for r m w'
    by (rule wp_mono [OF Suc.IH])
      (use next_speakerD [OF that(2)] that(1) in
        \<open>auto simp: relay_def successively_Cons neq_Nil_conv intro!: extends_more\<close>)
  show ?case
  proof (cases "aborted w")
    case True
    then show ?thesis by (auto simp: wp_simps extends_none relay_def)
  next
    case False
    then show ?thesis
      by (simp add: wp_simps, intro wp_mono [OF wp_guarded_turn])
        (auto intro!: more extends_one simp: wp_simps relay_def split: option.split)
  qed
qed

section \<open>The exchange\<close>

text \<open>
  A completed exchange has at least one reply and at most the bounded number of turns. In
  a sequential or broadcast exchange the members speak in their order; in a coordinator or
  autonomous exchange the coordinator opens and nobody speaks twice in a row; a sequential
  or autonomous exchange goes on only as long as no reply asks to stop.
\<close>

definition team_exchange :: "string \<Rightarrow> int \<Rightarrow> team_member list \<Rightarrow> completion_dto list \<Rightarrow> bool" where
  "team_exchange strategy turns members replies \<longleftrightarrow>
     replies \<noteq> [] \<and> int (length replies) \<le> turns
   \<and> (if strategy = ''coordinator'' then relay (pick_coordinator members) replies \<and> length replies \<le> 2
      else if strategy = ''broadcast'' then authors members replies
      else if strategy = ''autonomous'' then relay (pick_coordinator members) replies
             \<and> (\<forall>r\<in>set (butlast replies). \<not> autonomous_stop (cd_content r))
      else authors members replies
             \<and> (\<forall>r\<in>set (butlast replies). \<not> js_includes (cd_content r) finish_marker))"

lemma bounded_max_turns: "1 \<le> bounded_max_turns dto team \<and> bounded_max_turns dto team \<le> 10"
  by (simp add: bounded_max_turns_def)

lemma authors_take: "authors (take n ms) new \<Longrightarrow> length new \<le> n \<Longrightarrow> authors ms new"
  by (simp add: authors_def min_def)

lemma extends_takeD:
  assumes "extends [] (length (take (nat (min (int (length ms)) n)) ms)) stop (authors (take (nat (min (int (length ms)) n)) ms)) r"
    "1 \<le> n" "ms \<noteq> []"
  shows "r \<noteq> [] \<and> int (length r) \<le> n \<and> authors ms r \<and> (\<forall>x\<in>set (butlast r). \<not> stop (cd_content x))"
  using assms by (auto simp: extends_def intro: authors_take)

lemma wp_completeSequential:
  assumes "1 \<le> n" "ms \<noteq> []"
  shows "wp (completeSequentialTeamChat env chat ms n dto)
     (\<lambda>r _. r \<noteq> [] \<and> int (length r) \<le> n \<and> authors ms r
        \<and> (\<forall>x\<in>set (butlast r). \<not> js_includes (cd_content x) finish_marker)) (\<lambda>_ _. True) w"
  unfolding completeSequentialTeamChat_def
  by (rule wp_mono [OF wp_sequential_turns]) (use extends_takeD assms in blast)+

lemma wp_completeBroadcast:
  assumes "1 \<le> n" "ms \<noteq> []"
  shows "wp (completeBroadcastTeamChat env chat ms n dto)
     (\<lambda>r _. r \<noteq> [] \<and> int (length r) \<le> n \<and> authors ms r) (\<lambda>_ _. True) w"
  unfolding completeBroadcastTeamChat_def wp_bnd wp_select
  by (rule wp_mono [OF wp_broadcast_turns]) (use extends_takeD assms in blast)+

lemma wp_completeAutonomous:
  assumes "1 \<le> n"
  shows "wp (completeAutonomousTeamChat env chat team ms n dto)
     (\<lambda>r _. r \<noteq> [] \<and> int (length r) \<le> n \<and> relay (pick_coordinator ms) r
        \<and> (\<forall>x\<in>set (butlast r). \<not> autonomous_stop (cd_content x))) (\<lambda>_ _. True) w"
  unfolding completeAutonomousTeamChat_def
  by (rule wp_mono [OF wp_autonomous_turns]) (use assms in \<open>auto simp: extends_def\<close>)

lemma delegate_ofD:
  "delegate_of n (others c ms) content = Some s \<Longrightarrow> 2 \<le> n \<and> s \<in> set ms \<and> me_agent_id s \<noteq> me_agent_id c"
  by (auto simp: delegate_of_def others_def dest!: find_targetD split: if_splits Option.bind_splits)

lemma wp_completeCoordinator:
  assumes "1 \<le> n"
  shows "wp (completeCoordinatorTeamChat env chat team ms n dto)
     (\<lambda>r _. r \<noteq> [] \<and> int (length r) \<le> n \<and> relay (pick_coordinator ms) r \<and> length r \<le> 2) (\<lambda>_ _. True) w"
proof -
  let ?c = "pick_coordinator ms"
  have rest: "wp (case delegate_of n (others ?c ms) (cd_content r) of None \<Rightarrow> ret [r]
       | Some s \<Rightarrow> bnd (guarded_turn env chat s dto None None True) (\<lambda>r'. ret [r, r']))
     (\<lambda>r _. r \<noteq> [] \<and> int (length r) \<le> n \<and> relay ?c r \<and> length r \<le> 2) (\<lambda>_ _. True) w'"
    if r: "cd_agentId r = Some (me_agent_id ?c)" for r w'
  proof (cases "delegate_of n (others ?c ms) (cd_content r)")
    case None
    then show ?thesis using assms r by (simp add: wp_simps relay_def)
  next
    case (Some s)
    from delegate_ofD [OF Some] have "2 \<le> n" "me_agent_id s \<noteq> me_agent_id ?c" by simp_all
    then show ?thesis
      unfolding Some option.case wp_bnd
      by (intro wp_mono [OF wp_guarded_turn]) (auto simp: wp_simps relay_def r)
  qed
  show ?thesis
    unfolding completeCoordinatorTeamChat_def Let_def wp_bnd
    by (rule wp_mono [OF wp_executeMemberTurn]) (auto intro!: rest)
qed

lemma wp_completeTeamChat:
  "wp (completeTeamChat env chat teamId dto)
     (\<lambda>r _. let team = team_by_id (db w) teamId in
        team_exchange (team_strategy dto team) (bounded_max_turns dto team) (getActiveTeamMembers (db w) teamId) r)
     (\<lambda>_ _. True) w"
proof -
  let ?t = "team_by_id (db w) teamId" and ?ms = "getActiveTeamMembers (db w) teamId"
  let ?n = "bounded_max_turns dto ?t"
  let ?E = "\<lambda>s r _. team_exchange s ?n ?ms r"
  have n: "1 \<le> ?n" using bounded_max_turns by blast
  have c: "wp (completeCoordinatorTeamChat env chat ?t ?ms ?n dto) (?E ''coordinator'') (\<lambda>_ _. True) w"
    by (rule wp_mono [OF wp_completeCoordinator [OF n]]) (auto simp: team_exchange_def)
  have b: "?ms \<noteq> [] \<Longrightarrow> wp (completeBroadcastTeamChat env chat ?ms ?n dto) (?E ''broadcast'') (\<lambda>_ _. True) w"
    by (rule wp_mono [OF wp_completeBroadcast [OF n]]) (auto simp: team_exchange_def)
  have a: "wp (completeAutonomousTeamChat env chat ?t ?ms ?n dto) (?E ''autonomous'') (\<lambda>_ _. True) w"
    by (rule wp_mono [OF wp_completeAutonomous [OF n]]) (auto simp: team_exchange_def)
  have s: "?ms \<noteq> [] \<Longrightarrow> s \<notin> {''coordinator'', ''broadcast'', ''autonomous''} \<Longrightarrow>
      wp (completeSequentialTeamChat env chat ?ms ?n dto) (?E s) (\<lambda>_ _. True) w" for s
    by (rule wp_mono [OF wp_completeSequential [OF n]]) (auto simp: team_exchange_def)
  show ?thesis
    unfolding completeTeamChat_def Let_def wp_bnd wp_select
    by (auto simp: wp_simps a b c s split: sum.split)
qed

section \<open>Broadcast\<close>

text \<open>
  In a broadcast every member answers the conversation as it was when the exchange began:
  no reply of a colleague reaches the prompt of another.
\<close>

lemma dense_nth:
  assumes "dense_sequences d" "k < length (chat_messages d c)"
  shows "msg_sequence (chat_messages d c ! k) = int k + 1"
proof -
  have "map msg_sequence (chat_messages d c) ! k = count_up (length (chat_messages d c)) ! k"
    using assms(1) by (simp add: dense_sequences_def)
  then show ?thesis using assms(2) by (simp add: count_up_def)
qed

lemma append_only_chat:
  assumes "append_only d0 d"
  shows "prefix (map message_identity (chat_messages d0 c)) (map message_identity (chat_messages d c))"
proof -
  have "map message_identity (chat_messages d c) = filter (\<lambda>t. fst (snd t) = c) (map message_identity (messages d))" for d
    by (simp add: chat_messages_def filter_map o_def message_identity_def)
  then show ?thesis using assms by (auto simp: append_only_def prefix_def)
qed

lemma earlier_messages:
  assumes "dense_sequences d" "append_only d0 d"
    and "m \<in> set (chat_messages d c)" "msg_sequence m \<le> int (length (chat_messages d0 c))"
  shows "msg_id m \<in> msg_id ` set (chat_messages d0 c)"
proof -
  let ?now = "chat_messages d c" and ?old = "chat_messages d0 c"
  obtain k where k: "k < length ?now" "m = ?now ! k" using assms(3) by (auto simp: in_set_conv_nth)
  with dense_nth [OF assms(1) k(1)] assms(4) have k0: "k < length ?old" by simp
  obtain rest where "map message_identity ?now = map message_identity ?old @ rest"
    using append_only_chat [OF assms(2)] by (auto simp: prefix_def)
  then have "map message_identity ?now ! k = map message_identity ?old ! k"
    using k0 by (simp add: nth_append)
  then have "msg_id (?now ! k) = msg_id (?old ! k)" using k(1) k0 by (simp add: message_identity_def)
  then show ?thesis using k(2) k0 by (metis image_eqI nth_mem)
qed

lemma broadcast_boundary:
  "dense_sequences d \<Longrightarrow> co_maxSequence (broadcast_options d c) = Some (int (length (chat_messages d c)))"
  by (simp add: broadcast_options_def dense_sequences_def sql_max_dense)

lemma broadcast_context:
  assumes "dense_sequences d0" "dense_sequences d" "append_only d0 d"
    and "buildForChat d chat agent model (Some (broadcast_options d0 (ch_id chat))) = Inr ctx"
    and "detail \<in> set (ctx_messageDetails ctx)"
  shows "md_id detail \<in> (\<lambda>m. Some (msg_id m)) ` set (chat_messages d0 (ch_id chat))"
proof -
  let ?opts = "Some (broadcast_options d0 (ch_id chat))"
  let ?inp = "context_input d chat agent model ?opts"
  obtain ds ks es where
    p: "map (candidate_of ?inp) (filter (eligible ?inp) (sort_key cm_sequence (bi_messages ?inp))) = ds @ ks"
    and k: "ctx_messageDetails ctx = map detail_of ks"
    using buildContextPure_cases [OF assms(4) [unfolded buildForChat_def]] by metis
  from assms(5) k obtain x where "x \<in> set ks" "detail = detail_of x" by auto
  then have "x \<in> set (map (candidate_of ?inp) (filter (eligible ?inp) (sort_key cm_sequence (bi_messages ?inp))))"
    by (simp only: p set_append UnI2)
  then obtain m where m: "m \<in> set (bi_messages ?inp)" "eligible ?inp m" "x = candidate_of ?inp m" by auto
  from m(1) obtain r where r: "r \<in> set (chat_messages d (ch_id chat))" "m = input_message d chat r"
    by (auto simp: context_input_def transcript_def)
  have "msg_sequence r \<le> int (length (chat_messages d0 (ch_id chat)))"
    using m(2) r(2) broadcast_boundary [OF assms(1)] by (simp add: eligible_def context_input_def input_message_def)
  from earlier_messages [OF assms(2,3) r(1) this] show ?thesis
    by (auto simp: \<open>detail = detail_of x\<close> m(3) r(2) detail_of_def candidate_of_def input_message_def Let_def)
qed

end
