(* ===== verification/RoutingFacts.thy ===== *)
theory RoutingFacts
  imports TeamFacts
begin

text \<open>
  The directives by which members of a team hand over: what the patterns match, and that
  a directive which names a colleague reaches that colleague.
\<close>

section \<open>Matching a directive\<close>

lemma code_unit_eq: "code_unit c = code_unit d \<longleftrightarrow> c = d"
  by (simp add: code_unit_def)

lemma js_lower_char_bracket: "js_lower_char c = CHR ''['' \<longleftrightarrow> c = CHR ''[''"
proof -
  have b: "code_unit (CHR ''['') = 91" by (simp add: code_unit_def)
  have "code_unit (js_lower_char c) = 91 \<longleftrightarrow> code_unit c = 91"
  proof (cases "(65 \<le> code_unit c \<and> code_unit c \<le> 90) \<or> (192 \<le> code_unit c \<and> code_unit c \<le> 222 \<and> code_unit c \<noteq> 215)")
    case True
    then have "code_unit (js_lower_char c) = (code_unit c + 32) mod 256"
      by (simp add: js_lower_char_def Let_def) (simp add: code_unit_def)
    moreover have "code_unit c + 32 < 256" using True by auto
    ultimately show ?thesis using True by auto
  next
    case False
    then have "js_lower_char c = c" by (auto simp: js_lower_char_def Let_def)
    then show ?thesis by simp
  qed
  then show ?thesis using code_unit_eq [of _ "CHR ''[''"] b by metis
qed

lemma js_ws_space: "js_ws (CHR 0x20)"
  by code_simp

lemma rx_find_skip:
  "ends r (b, x # xs, None) = [] \<Longrightarrow> map_option group1 (rx_find r b (x # xs)) = map_option group1 (rx_find r (x # b) xs)"
  by (subst rx_find.simps) (auto simp: option.map_comp o_def)

lemma rx_find_here_group:
  "ends r (b, s, None) = (b', s', c) # sts \<Longrightarrow> map_option group1 (rx_find r b s) = Some c"
  by (subst rx_find.simps) simp

lemma ends_lit_i: "t \<noteq> [] \<Longrightarrow> ends (lit_i t) (b, t @ s, c) = [(rev t @ b, s, c)]"
proof (induction t arbitrary: b)
  case (Cons x t)
  show ?case
  proof (cases t)
    case (Cons y u)
    with Cons.IH [of "x # b"] show ?thesis by (simp add: lit_i_def)
  qed (simp add: lit_i_def)
qed simp

lemma ends_lit_i_fail: "js_lower_char x \<noteq> js_lower_char y \<Longrightarrow> ends (lit_i (y # t)) (b, x # s, c) = []"
  by (cases t) (simp_all add: lit_i_def)

text \<open>A pattern that opens with a bracket is looked for behind any text without one.\<close>

lemma rx_find_bracket:
  assumes "\<forall>x\<in>set pre. x \<noteq> CHR ''[''"
  shows "map_option group1 (rx_find (Seq (lit_i (CHR ''['' # t)) r) b (pre @ s))
     = map_option group1 (rx_find (Seq (lit_i (CHR ''['' # t)) r) (rev pre @ b) s)"
  using assms
proof (induction pre arbitrary: b)
  case (Cons x pre)
  have "ends (Seq (lit_i (CHR ''['' # t)) r) (b, x # pre @ s, None) = []"
    using Cons.prems js_lower_char_bracket [of x] js_lower_char_bracket [of "CHR ''[''"]
    by (simp add: ends_lit_i_fail)
  from rx_find_skip [OF this] Cons show ?case by simp
qed simp

text \<open>A name as a directive gives it: not empty, without a bracket and without outer blanks.\<close>

definition plain_name :: "string \<Rightarrow> bool" where
  "plain_name n \<longleftrightarrow> n \<noteq> [] \<and> CHR '']'' \<notin> set n \<and> js_trim n = n \<and> \<not> js_ws (hd n)"

lemma takeWhile_plain: "plain_name n \<Longrightarrow> takeWhile not_bracket (n @ CHR '']'' # s) = n"
  unfolding plain_name_def by (subst takeWhile_append2) (auto simp: not_bracket_def)

lemma takeWhile_blank: "plain_name n \<Longrightarrow> takeWhile js_ws (CHR 0x20 # n @ s) = [CHR 0x20]"
  by (cases n) (auto simp: plain_name_def js_ws_space)

lemma ends_Rep_Cons:
  "n \<le> length (takeWhile P s) \<Longrightarrow> \<exists>sts. ends (Rep n P) (b, s, c) = advance (length (takeWhile P s)) (b, s, c) # sts"
  by simp

lemma ends_Seq_Cons:
  "ends r st = st1 # sts \<Longrightarrow> ends q st1 = st2 # sts' \<Longrightarrow> \<exists>sts''. ends (Seq r q) st = st2 # sts''"
  by simp

lemma ends_name:
  assumes "plain_name n"
  shows "\<exists>b' sts. ends (Seq (Cap (Rep 1 not_bracket)) (lit '']'')) (b, n @ CHR '']'' # post, c)
     = (b', post, Some n) # sts"
proof -
  have "1 \<le> length n" using assms by (cases n) (auto simp: plain_name_def)
  then show ?thesis
    by (simp add: takeWhile_plain [OF assms] lit_def advance_def del: upt_Suc) (simp add: advance_def)
qed

lemma ends_blank_name:
  assumes "plain_name n"
  shows "\<exists>b' sts. ends (Seq (Rep 0 js_ws) (Seq (Cap (Rep 1 not_bracket)) (lit '']'')))
     (b, CHR 0x20 # n @ CHR '']'' # post, None) = (b', post, Some n) # sts"
proof -
  let ?s = "CHR 0x20 # n @ CHR '']'' # post"
  obtain sts where 1: "ends (Rep 0 js_ws) (b, ?s, None) = (CHR 0x20 # b, n @ CHR '']'' # post, None) # sts"
    using ends_Rep_Cons [of 0 js_ws ?s b None] takeWhile_blank [OF assms, of "CHR '']'' # post"]
    by (auto simp: advance_def)
  from ends_name [OF assms, of "CHR 0x20 # b" post None] obtain b' sts' where
    2: "ends (Seq (Cap (Rep 1 not_bracket)) (lit '']'')) (CHR 0x20 # b, n @ CHR '']'' # post, None) = (b', post, Some n) # sts'"
    by blast
  from ends_Seq_Cons [OF 1 2] show ?thesis by blast
qed

lemma ends_handle:
  assumes "plain_name n"
  shows "\<exists>b' sts. ends (Seq (Rep 0 js_ws) (Seq (opt (lit ''@'')) (Seq (Cap (Rep 1 not_bracket)) (lit '']''))))
     (b, CHR 0x20 # CHR ''@'' # n @ CHR '']'' # post, None) = (b', post, Some n) # sts"
proof -
  let ?s = "CHR 0x20 # CHR ''@'' # n @ CHR '']'' # post"
  have "\<not> js_ws (CHR ''@'')" by code_simp
  then obtain sts where 1: "ends (Rep 0 js_ws) (b, ?s, None) = (CHR 0x20 # b, CHR ''@'' # n @ CHR '']'' # post, None) # sts"
    using ends_Rep_Cons [of 0 js_ws ?s b None] by (auto simp: advance_def js_ws_space)
  have at: "\<exists>sts. ends (opt (lit ''@'')) (CHR 0x20 # b, CHR ''@'' # n @ CHR '']'' # post, None)
      = (CHR ''@'' # CHR 0x20 # b, n @ CHR '']'' # post, None) # sts"
    by (simp add: opt_def lit_def)
  then obtain sts1 where 2: "ends (opt (lit ''@'')) (CHR 0x20 # b, CHR ''@'' # n @ CHR '']'' # post, None)
      = (CHR ''@'' # CHR 0x20 # b, n @ CHR '']'' # post, None) # sts1" by blast
  from ends_name [OF assms, of "CHR ''@'' # CHR 0x20 # b" post None] obtain b' sts' where
    3: "ends (Seq (Cap (Rep 1 not_bracket)) (lit '']'')) (CHR ''@'' # CHR 0x20 # b, n @ CHR '']'' # post, None)
      = (b', post, Some n) # sts'" by blast
  from ends_Seq_Cons [OF 2 3] obtain sts2 where
    "ends (Seq (opt (lit ''@'')) (Seq (Cap (Rep 1 not_bracket)) (lit '']''))) (CHR 0x20 # b, CHR ''@'' # n @ CHR '']'' # post, None)
      = (b', post, Some n) # sts2" by blast
  from ends_Seq_Cons [OF 1 this] show ?thesis by blast
qed

lemma match_bracket:
  assumes pre: "\<forall>x\<in>set pre. x \<noteq> CHR ''[''"
    and e: "\<And>b. \<exists>b' sts. ends r (b, s, None) = (b', s', Some n) # sts" and n: "js_trim n = n"
  shows "match_target (Seq (lit_i (CHR ''['' # t)) r) (pre @ CHR ''['' # t @ s) = Some (js_lower n)"
proof -
  let ?r = "Seq (lit_i (CHR ''['' # t)) r"
  from e [of "rev (CHR ''['' # t) @ rev pre @ []"] obtain b' sts where
    r: "ends r (rev (CHR ''['' # t) @ rev pre, s, None) = (b', s', Some n) # sts" by auto
  have "ends (lit_i (CHR ''['' # t)) (rev pre, (CHR ''['' # t) @ s, None) = [(rev (CHR ''['' # t) @ rev pre, s, None)]"
    by (rule ends_lit_i) simp
  from ends_Seq_Cons [OF this r] obtain sts' where
    "ends ?r (rev pre, (CHR ''['' # t) @ s, None) = (b', s', Some n) # sts'" by blast
  from rx_find_here_group [OF this] rx_find_bracket [OF pre, of t r "[]" "(CHR ''['' # t) @ s"]
  have "map_option group1 (rx_match ?r (pre @ CHR ''['' # t @ s)) = Some (Some n)"
    by (simp add: rx_match_def)
  then show ?thesis by (auto simp: match_target_def n)
qed

lemma match_delegate:
  assumes "\<forall>x\<in>set pre. x \<noteq> CHR ''[''" "plain_name n"
  shows "match_target delegate_rx (pre @ ''[DELEGATE: '' @ n @ '']'' @ post) = Some (js_lower n)"
proof -
  have "delegate_rx = Seq (lit_i (CHR ''['' # ''DELEGATE:'')) (Seq (Rep 0 js_ws) (Seq (Cap (Rep 1 not_bracket)) (lit '']'')))"
    by (simp add: delegate_rx_def)
  moreover have "pre @ ''[DELEGATE: '' @ n @ '']'' @ post = pre @ CHR ''['' # ''DELEGATE:'' @ (CHR 0x20 # n @ CHR '']'' # post)"
    by simp
  ultimately show ?thesis
    using match_bracket [OF assms(1) ends_blank_name [OF assms(2)]] assms(2) unfolding plain_name_def by metis
qed

lemma match_next:
  assumes "\<forall>x\<in>set pre. x \<noteq> CHR ''[''" "plain_name n"
  shows "match_target next_rx (pre @ ''[NEXT: @'' @ n @ '']'' @ post) = Some (js_lower n)"
proof -
  have "next_rx = Seq (lit_i (CHR ''['' # ''NEXT:''))
      (Seq (Rep 0 js_ws) (Seq (opt (lit ''@'')) (Seq (Cap (Rep 1 not_bracket)) (lit '']''))))"
    by (simp add: next_rx_def)
  moreover have "pre @ ''[NEXT: @'' @ n @ '']'' @ post
      = pre @ CHR ''['' # ''NEXT:'' @ (CHR 0x20 # CHR ''@'' # n @ CHR '']'' # post)"
    by simp
  ultimately show ?thesis
    using match_bracket [OF assms(1) ends_handle [OF assms(2)]] assms(2) unfolding plain_name_def by metis
qed

section \<open>Finding the colleague\<close>

text \<open>The name belongs to exactly one of the colleagues and is nobody's identifier.\<close>

definition names_one :: "team_member list \<Rightarrow> team_member \<Rightarrow> bool" where
  "names_one ms m \<longleftrightarrow> m \<in> set ms
     \<and> (\<forall>x\<in>set ms. js_lower (me_agent_name x) = js_lower (me_agent_name m) \<longrightarrow> x = m)
     \<and> (\<forall>x\<in>set ms. js_lower (me_agent_id x) \<noteq> js_lower (me_agent_name m))"

lemma find_unique:
  assumes "m \<in> set ms" "P m" "\<And>x. x \<in> set ms \<Longrightarrow> P x \<Longrightarrow> x = m"
  shows "find P ms = Some m"
proof (cases "find P ms")
  case None
  with assms(1,2) show ?thesis by (simp add: find_None_iff)
next
  case (Some y)
  then obtain i where "i < length ms" "P (ms ! i)" "y = ms ! i" unfolding find_Some_iff by blast
  then have "y \<in> set ms" "P y" by simp_all
  from assms(3) [OF this] Some show ?thesis by simp
qed

lemma find_target_named:
  assumes "names_one ms m"
  shows "find_target ms (js_lower (me_agent_name m)) = Some m"
proof -
  have "find (\<lambda>x. js_lower (me_agent_id x) = js_lower (me_agent_name m)) ms = None"
    using assms unfolding names_one_def find_None_iff by blast
  moreover have "find (\<lambda>x. js_lower (me_agent_name x) = js_lower (me_agent_name m)) ms = Some m"
    by (rule find_unique) (use assms in \<open>unfold names_one_def, blast+\<close>)
  ultimately show ?thesis by (simp add: find_target_def)
qed

end
