(* ===== verification/CompactionFacts.thy ===== *)
theory CompactionFacts
  imports Compaction ContextConstruction
begin

text \<open>
  What \<open>compactChat\<close> leaves behind when it succeeds, and what the boundary it writes
  means for the messages behind it.
\<close>

section \<open>The stored summary\<close>

text \<open>The chats after a compaction: one of them has a new summary and boundary.\<close>

definition summarised :: "string \<Rightarrow> string \<Rightarrow> int \<Rightarrow> string \<Rightarrow> chat_row list \<Rightarrow> chat_row list" where
  "summarised i summary boundary now cs = map (\<lambda>c. if ch_id c = i
     then c\<lparr>ch_context_summary := Some summary, ch_compacted_before_sequence := Some boundary,
            ch_updated_at := now\<rparr> else c) cs"

lemma update_chat_summaryD:
  "update_chat_summary i text b now d = Inr d' \<Longrightarrow> chats d' = summarised i text b now (chats d) \<and> messages d' = messages d"
  by (auto simp: update_chat_summary_def summarised_def)

lemma insert_usage_frame:
  "insert_usage u d = Inr d' \<Longrightarrow> chats d' = chats d \<and> messages d' = messages d"
  by (auto simp: insert_usage_def split: if_splits)

lemma wp_save_compaction:
  "wp (save_compaction env x plan response now)
     (\<lambda>_ w'. chats (db w') = summarised (ch_id (ex_chat x)) (js_trim (cs_content response)) (plan_boundary plan) now
          (chats (db w)) \<and> messages (db w') = messages (db w))
     (\<lambda>_ _. True) w"
  by (auto simp: save_compaction_def wp_transaction wp_simps split: option.split sum.split
      dest!: update_chat_summaryD insert_usage_frame)

lemma wp_compactChat:
  "wp (compactChat env chatId dto)
     (\<lambda>r w'. \<exists>x plan a response f now.
        resolveExecutionChain env (db w) chatId (cp_modelId dto) = Inr x
      \<and> plan_compaction (ex_chat x) (transcript (db w) (ch_id (ex_chat x)))
          (from_option 2 (cp_preserveRecentCount dto)) = Inr plan
      \<and> create_adapter env (ex_model x) (ex_provider x) (ex_apiKey x) = Inr a
      \<and> ad_complete a (calls w) (compaction_request (ex_model x) (ex_chat x) plan) = (Inr response, f)
      \<and> chats (db w') = summarised (ch_id (ex_chat x)) (js_trim (cs_content response)) (plan_boundary plan) now
          (chats (eff_db f (db w)))
      \<and> messages (db w') = messages (eff_db f (db w)))
     (\<lambda>_ _. True) w"
proof -
  have save: "wp (save_compaction env x plan response now)
      (\<lambda>_ w'. case compact_result (db w') (ch_id (ex_chat x)) (plan_boundary plan) of
         Inl e \<Rightarrow> True | Inr r \<Rightarrow> \<exists>now.
           chats (db w') = summarised (ch_id (ex_chat x)) (js_trim (cs_content response)) (plan_boundary plan) now
              (chats (db v)) \<and> messages (db w') = messages (db v)) (\<lambda>_ _. True) v" for x plan response now v
    by (rule wp_mono [OF wp_save_compaction]) (auto split: sum.split)
  show ?thesis
    unfolding compactChat_def Let_def call_provider_def
    by (auto simp: wp_simps Let_def split: sum.split prod.split intro!: wp_mono [OF save])
qed

section \<open>Behind the boundary\<close>

text \<open>
  A message behind the boundary never reaches a prompt again, whatever becomes of it: its
  sequence number is all that the construction of the context looks at.
\<close>

lemma behind_boundary:
  "bi_compactedBeforeSequence inp = Some b \<Longrightarrow> cm_sequence m < b \<Longrightarrow> \<not> eligible inp m"
  by (auto simp: eligible_def)

lemma plan_compact_before:
  assumes "plan_compaction chat ms k = Inr plan" "0 \<le> k" "sorted_wrt (<) (map msg_sequence ms)"
    and "m \<in> set (plan_compact plan)"
  shows "msg_sequence m < plan_boundary plan"
  using assms(4) unfolding plan_compaction_split [OF assms(1-3)] by simp

lemma transcript_sorted_strict:
  assumes "dense_sequences d"
  shows "sorted_wrt (<) (map msg_sequence (transcript d c))"
proof -
  have "sorted_wrt (<) (count_up n)" for n
    by (induction n) (auto simp: sorted_wrt_append set_count_up)
  then show ?thesis using assms by (simp add: dense_sorted dense_sequences_def)
qed

end
