(* ===== verification/Examples.thy ===== *)
theory Examples
  imports TeamChat StreamFacts Chats
begin

text \<open>
  A small installation on which the properties are applied: one chat of one agent with two
  messages, a local model whose adapter answers with a fixed text, and an environment in
  which nothing runs beside the request.
\<close>

definition sample_time :: string where
  "sample_time = ''1970-01-01T00:00:00.000Z''"

definition sample_agent :: agent_row where
  "sample_agent = \<lparr>ag_id = ''a1'', ag_name = ''Ada'', ag_personality = None, ag_instructions = None,
     ag_system_prompt_id = None, ag_model_id = Some ''mo1'', ag_temperature = None, ag_max_tokens = None,
     ag_model_params = None, ag_picture_path = None, ag_created_at = sample_time, ag_updated_at = sample_time\<rparr>"

definition sample_chat :: chat_row where
  "sample_chat = \<lparr>ch_id = ''c1'', ch_title = None, ch_project_id = None, ch_agent_id = Some ''a1'',
     ch_team_id = None, ch_context_summary = None, ch_compacted_before_sequence = None,
     ch_created_at = sample_time, ch_updated_at = sample_time\<rparr>"

definition sample_message :: "string \<Rightarrow> int \<Rightarrow> string \<Rightarrow> string \<Rightarrow> message_row" where
  "sample_message i s role content = \<lparr>msg_id = i, msg_chat_id = ''c1'', msg_sequence = s, msg_role = role,
     msg_agent_id = None, msg_content = content, msg_status = Complete, msg_token_count = None,
     msg_created_at = sample_time\<rparr>"

definition sample_model :: model_row where
  "sample_model = \<lparr>mo_id = ''mo1'', mo_provider_id = ''p1'', mo_model_identifier = ''llama'',
     mo_display_name = ''Llama'', mo_source = ''manual'', mo_context_window = None,
     mo_default_temperature = None, mo_default_max_tokens = None, mo_enabled = 1,
     mo_created_at = sample_time, mo_updated_at = sample_time\<rparr>"

definition sample_provider :: provider_row where
  "sample_provider = \<lparr>pr_id = ''p1'', pr_name = ''Local'', pr_kind = ''ollama'', pr_is_local = 1,
     pr_base_url = None, pr_enabled = 1, pr_created_at = sample_time, pr_updated_at = sample_time\<rparr>"

definition sample_db :: database where
  "sample_db = \<lparr>chats = [sample_chat],
     messages = [sample_message ''m1'' 1 ''user'' ''hi'', sample_message ''m2'' 2 ''assistant'' ''hello''],
     agents = [sample_agent], teams = [], team_members = [], models = [sample_model],
     providers = [sample_provider], credentials = [], system_prompts = [], projects = [],
     usage_events = [], agent_memories = [], shared_memories = [], artifacts = [], user_profile = [],
     spend_budget = []\<rparr>"

definition no_effect :: effect where
  "no_effect = \<lparr>eff_db = (\<lambda>d. d), eff_abort = False\<rparr>"

definition sample_response :: "string \<Rightarrow> completion_response" where
  "sample_response text = \<lparr>cs_content = text, cs_reasoningContent = None, cs_finishReason = FinishStop,
     cs_usage = Some \<lparr>inputTokens = 3, outputTokens = 1, totalTokens = 4, reasoningTokens = None\<rparr>,
     cs_model = ''llama''\<rparr>"

definition sample_adapter :: "exn + completion_response \<Rightarrow> stream_run \<Rightarrow> adapter" where
  "sample_adapter answer run = \<lparr>ad_supportsStreaming = True,
     ad_complete = (\<lambda>_ _. (answer, no_effect)), ad_stream = (\<lambda>_ _. run)\<rparr>"

definition sample_run :: stream_run where
  "sample_run = Yields no_effect (TextDelta ''Hel'') (Yields no_effect (TextDelta ''lo'') (Ends no_effect))"

definition sample_env :: "adapter \<Rightarrow> env" where
  "sample_env a = \<lparr>clock = (\<lambda>n. n), rand = (\<lambda>_. replicate 10 0), fault = (\<lambda>_. None),
     decrypt = (\<lambda>_ _ _. Inr ''key''), json_parse = (\<lambda>_. None), adapters = [(''ollama'', \<lambda>_. Inr a)],
     on_yield = (\<lambda>_. no_effect), stops = (\<lambda>_. False)\<rparr>"

definition sample_gen :: stream_state where
  "sample_gen = \<lparr>accumulatedContent = [], lastFlushedContent = [], lastFlushTime = 0,
     currentStatus = Pending, reportedUsage = None\<rparr>"

definition sample_world :: world where
  "sample_world = \<lparr>db = sample_db, gen = sample_gen, aborted = False, emitted = [], ticks = 0, draws = 0,
     writes = 0, calls = 0\<rparr>"

definition sample_dto :: create_completion where
  "sample_dto = \<lparr>cc_modelId = None, cc_temperature = None, cc_maxTokens = None, cc_strategy = None,
     cc_maxTurns = None\<rparr>"

definition answering_env :: env where
  "answering_env = sample_env (sample_adapter (Inr (sample_response ''Sure'')) sample_run)"

lemma sample_simps [simp]:
  "fault (sample_env a) n = None" "rand (sample_env a) n = replicate 10 0" "on_yield (sample_env a) n = no_effect"
  "stops (sample_env a) n = False" "adapters (sample_env a) = [(''ollama'', \<lambda>_. Inr a)]"
  "clock (sample_env a) n = n" "json_parse (sample_env a) s = None"
  "eff_db no_effect d = d" "eff_abort no_effect = False"
  "ad_supportsStreaming (sample_adapter answer run)"
  "ad_complete (sample_adapter answer run) n req = (answer, no_effect)"
  "ad_stream (sample_adapter answer run) n req = run"
  "cs_content (sample_response text) = text"
  by (simp_all add: sample_env_def no_effect_def sample_adapter_def sample_response_def)

lemma sample_world_simps [simp]:
  "db sample_world = sample_db" "\<not> aborted sample_world" "emitted sample_world = []" "ticks sample_world = 0"
  "draws sample_world = 0" "writes sample_world = 0" "calls sample_world = 0" "gen sample_world = sample_gen"
  by (simp_all add: sample_world_def)

lemma sample_dto_simps [simp]: "cc_modelId sample_dto = None" "ch_id sample_chat = ''c1''" "ch_team_id sample_chat = None"
  by (simp_all add: sample_dto_def sample_chat_def)

lemma sample_env_obeys:
  "(\<And>d. R d d) \<Longrightarrow> run_obeys R run \<Longrightarrow> env_obeys R (sample_env (sample_adapter answer run))"
  by (auto simp: env_obeys_def adapter_obeys_def effect_obeys_def adapter_create_def split: if_splits)

lemma sample_run_obeys: "(\<And>d. R d d) \<Longrightarrow> run_obeys R sample_run"
  by (simp add: sample_run_def effect_obeys_def)

lemma answering_env_obeys: "(\<And>d. R d d) \<Longrightarrow> env_obeys R answering_env"
  unfolding answering_env_def by (rule sample_env_obeys) (simp_all add: sample_run_obeys)

lemmas sample_defs = sample_world_def sample_db_def sample_chat_def sample_agent_def sample_message_def
  sample_model_def sample_provider_def sample_dto_def sample_env_def sample_adapter_def sample_run_def
  sample_response_def no_effect_def answering_env_def

end
