(* ===== verification/SampleRuns.thy ===== *)
theory SampleRuns
  imports Examples
begin

text \<open>
  Runs of the operations on the small installation of \<open>Examples\<close>, evaluated by the rules
  of the weakest precondition: a completion, a streamed turn, a streamed turn whose
  consumer leaves, a compaction and a failing provider.
\<close>

lemma newId_ne [simp]:
  assumes "length rnd = 10" "length s \<noteq> 36"
  shows "newId t rnd \<noteq> s" "s \<noteq> newId t rnd"
  using uuid_v7_newId [OF assms(1), of t] assms(2) by (auto simp: is_uuid_v7_def dest: list_all2_lengthD)

lemmas query_defs = chat_by_id_def message_by_id_def agent_by_id_def model_by_id_def provider_by_id_def
  credential_by_provider_def chat_messages_def

lemmas resolve_defs = resolveExecutionChain_def resolve_for_agent_def resolveAgentExecution_def
  resolve_key_def getDecryptedCredential_def is_local_provider_def is_not_found_def http_defs Let_def query_defs

lemma sample_resolve:
  "resolveExecutionChain env sample_db ''c1'' None = Inr \<lparr>ex_chat = sample_chat, ex_agent = sample_agent,
     ex_model = sample_model, ex_provider = sample_provider, ex_apiKey = None\<rparr>"
  by (simp add: sample_defs resolve_defs)

lemma sample_request:
  "\<exists>req. request_setup env sample_db sample_dto sample_chat sample_agent sample_agent sample_model None = Inr req"
  by (simp add: request_setup_def buildForChat_def buildContextPure_def fit_candidates_def context_input_def
      window_of_def sample_model_def Let_def split: prod.split)

lemma sample_create:
  "adapters env = [(''ollama'', \<lambda>_. Inr a)] \<Longrightarrow> create_adapter env sample_model sample_provider None = Inr a"
  by (simp add: create_adapter_def adapter_create_def sample_provider_def)

lemmas statement_defs = append_message_def insert_message_def message_roles_def touch_chat_def insert_usage_def
  usage_row_of_def references_def next_sequence_def sql_max_def

lemmas sample_rows = sample_db_def sample_chat_def sample_agent_def sample_message_def sample_model_def
  sample_provider_def

lemma sample_complete:
  "\<exists>r w'. completeAgentChat answering_env sample_chat sample_dto sample_world = (Inr r, w') \<and> cd_content r = ''Sure''"
proof -
  obtain q where q: "request_setup (sample_env (sample_adapter (Inr (sample_response ''Sure'')) sample_run)) sample_db
      sample_dto sample_chat sample_agent sample_agent sample_model None = Inr q"
    using sample_request by blast
  have "wp (completeAgentChat answering_env sample_chat sample_dto) (\<lambda>r w'. cd_content r = ''Sure'') (\<lambda>_ _. False) sample_world"
    apply (simp add: completeAgentChat_def answering_env_def wp_simps sample_resolve q sample_create call_provider_def
        Let_def persistAssistantReply_def maxRetries_def numeral_3_eq_3 wp_transaction insert_returning_def)
    apply (simp add: statement_defs query_defs sample_rows reply_dto_def wp_simps)
    done
  then show ?thesis by (rule wp_total)
qed

lemma failing_complete:
  "\<exists>i w'. completeAgentChat (sample_env (sample_adapter (Inl (ThrownString ''down'')) sample_run)) sample_chat sample_dto
     sample_world = (Inl i, w')"
proof -
  let ?env = "sample_env (sample_adapter (Inl (ThrownString ''down'')) sample_run)"
  obtain q where q: "request_setup ?env sample_db sample_dto sample_chat sample_agent sample_agent sample_model None = Inr q"
    using sample_request by blast
  have "wp (completeAgentChat ?env sample_chat sample_dto) (\<lambda>_ _. False) (\<lambda>_ _. True) sample_world"
    by (simp add: completeAgentChat_def wp_simps sample_resolve q sample_create call_provider_def Let_def)
  then show ?thesis by (auto simp: wp_def split: prod.splits sum.splits)
qed

text \<open>The consumer that leaves at the first token.\<close>

definition leaving_env :: env where
  "leaving_env = answering_env\<lparr>stops := (\<lambda>n. n = 1)\<rparr>"

lemma wp_open_stream: "wp (open_stream a req) Q E w = Q (ad_stream a (calls w) req) (w\<lparr>calls := Suc (calls w)\<rparr>)"
  by (simp add: open_stream_def wp_def)

lemmas turn_defs = streamAgentChat_def createPendingMessageRow_def maxRetries_def numeral_3_eq_3 wp_transaction
  insert_returning_def Let_def begin_turn_def set_gen_def

lemmas stream_defs = set_gen_def stream_body_def run_stream_def wp_open_stream sample_run_def handle_event_def handle_text_def
  flushPartial_def update_message_def finish_complete_def emit_message_complete_def reported_output_def

lemma sample_stream:
  "\<exists>w'. streamAgentChat answering_env sample_chat sample_dto sample_world = (Inr (), w')"
proof -
  obtain q where q: "request_setup (sample_env (sample_adapter (Inr (sample_response ''Sure'')) sample_run)) sample_db
      sample_dto sample_chat sample_agent sample_agent sample_model None = Inr q"
    using sample_request by blast
  have "wp (streamAgentChat answering_env sample_chat sample_dto) (\<lambda>_ _. True) (\<lambda>_ _. False) sample_world"
    apply (simp add: turn_defs answering_env_def wp_simps sample_resolve q sample_create)
    apply (simp add: statement_defs query_defs sample_rows wp_simps)
    apply (simp add: stream_defs wp_simps Let_def statement_defs query_defs)
    done
  then show ?thesis using wp_total by fastforce
qed

lemma sample_leave:
  "\<exists>w' r. streamAgentChat leaving_env sample_chat sample_dto sample_world = (Inl Returned, w')
     \<and> r \<in> set (messages (db w')) \<and> msg_status r = Streaming"
proof -
  obtain q where q: "request_setup leaving_env sample_db
      sample_dto sample_chat sample_agent sample_agent sample_model None = Inr q"
    using sample_request by blast
  have "wp (streamAgentChat leaving_env sample_chat sample_dto) (\<lambda>_ _. False)
     (\<lambda>i w'. i = Returned \<and> (\<exists>r\<in>set (messages (db w')). msg_status r = Streaming)) sample_world"
    using q
    apply (simp add: turn_defs leaving_env_def answering_env_def wp_simps sample_resolve sample_create)
    apply (simp add: statement_defs query_defs sample_rows wp_simps)
    apply (simp add: stream_defs wp_simps Let_def statement_defs query_defs)
    done
  then show ?thesis by (auto simp: wp_def split: prod.splits sum.splits)
qed

section \<open>A compaction\<close>

lemma transcript_sample: "transcript sample_db ''c1''
   = [sample_message ''m1'' 1 ''user'' ''hi'', sample_message ''m2'' 2 ''assistant'' ''hello'']"
  by (simp add: transcript_def sample_rows chat_messages_def)

definition sample_compaction :: compact_chat_dto where
  "sample_compaction = \<lparr>cp_modelId = None, cp_preserveRecentCount = Some 1\<rparr>"

lemma sample_plan:
  "plan_compaction sample_chat (transcript sample_db ''c1'') 1 = Inr \<lparr>plan_compact = [sample_message ''m1'' 1 ''user'' ''hi''],
     plan_prompted = [sample_message ''m1'' 1 ''user'' ''hi''], plan_boundary = 2\<rparr>"
proof -
  have "has_prompt_content (sample_message ''m1'' 1 ''user'' ''hi'')" by code_simp
  then show ?thesis
    unfolding transcript_sample
    by (simp add: plan_compaction_def uncompacted_messages_def sample_chat_def sample_message_def Let_def)
qed

lemma sample_compact:
  "\<exists>r w'. compactChat answering_env ''c1'' sample_compaction sample_world = (Inr r, w')"
proof -
  have "wp (compactChat answering_env ''c1'' sample_compaction) (\<lambda>_ _. True) (\<lambda>_ _. False) sample_world"
    apply (simp add: compactChat_def sample_compaction_def answering_env_def wp_simps sample_resolve sample_create sample_plan
        call_provider_def Let_def save_compaction_def wp_transaction)
    apply (simp add: update_chat_summary_def compact_result_def query_defs sample_rows sample_response_def wp_simps
        statement_defs)
    done
  then show ?thesis using wp_total by fastforce
qed

section \<open>A team\<close>

text \<open>A second agent, and a chat of the team of the two.\<close>

definition second_agent :: agent_row where
  "second_agent = sample_agent\<lparr>ag_id := ''a2'', ag_name := ''Bob''\<rparr>"

definition team_chat :: chat_row where
  "team_chat = sample_chat\<lparr>ch_id := ''c2'', ch_agent_id := None, ch_team_id := Some ''t1''\<rparr>"

definition member_row :: "string \<Rightarrow> int \<Rightarrow> team_member_row" where
  "member_row a n = \<lparr>tm_team_id = ''t1'', tm_agent_id = a, tm_role = None, tm_position = Some n, tm_is_coordinator = 0,
     tm_created_at = sample_time\<rparr>"

definition team_db :: database where
  "team_db = sample_db\<lparr>chats := [sample_chat, team_chat], agents := [sample_agent, second_agent],
     teams := [\<lparr>te_id = ''t1'', te_name = ''Duo'', te_description = None, te_strategy = ''sequential'',
       te_max_turns_per_interaction = None, te_created_at = sample_time, te_updated_at = sample_time\<rparr>],
     team_members := [member_row ''a1'' 1, member_row ''a2'' 2]\<rparr>"

definition team_world :: world where
  "team_world = sample_world\<lparr>db := team_db\<rparr>"

definition member_of_team :: "string \<Rightarrow> string \<Rightarrow> int \<Rightarrow> team_member" where
  "member_of_team a name n = \<lparr>me_agent_id = a, me_role = None, me_position = Some n, me_agent_name = name,
     me_is_coordinator = 0\<rparr>"

lemma team_members_sample:
  "getActiveTeamMembers team_db ''t1'' = [member_of_team ''a1'' ''Ada'' 1, member_of_team ''a2'' ''Bob'' 2]"
  by (simp add: getActiveTeamMembers_def team_db_def member_row_def member_key_def join_agent_def agent_by_id_def
      sample_rows second_agent_def member_of_team_def somes_def)

lemma member_simps [simp]: "me_agent_id (member_of_team a name n) = a" "me_agent_name (member_of_team a name n) = name"
  by (simp_all add: member_of_team_def)

lemma team_request:
  "\<exists>req. request_setup env d dto chat agent eff sample_model None = Inr req"
  by (simp add: request_setup_def buildForChat_def buildContextPure_def fit_candidates_def context_input_def
      window_of_def sample_model_def Let_def split: prod.split)

lemma team_agents:
  "agent_by_id team_db ''a1'' = Some sample_agent" "agent_by_id team_db ''a2'' = Some second_agent"
  "team_by_id team_db ''t1'' = Some (hd (teams team_db))"
  by (simp_all add: agent_by_id_def team_by_id_def team_db_def sample_rows second_agent_def)

lemma team_resolve:
  assumes "models d = [sample_model]" "providers d = [sample_provider]" "credentials d = []" "ag_model_id agent = Some ''mo1''"
  shows "resolveAgentExecution env d agent None = Inr (sample_model, sample_provider, None)"
  using assms by (simp add: resolve_defs) (simp add: sample_rows)

lemma team_db_simps [simp]:
  "models team_db = [sample_model]" "providers team_db = [sample_provider]" "credentials team_db = []"
  "ag_model_id sample_agent = Some ''mo1''" "ag_model_id second_agent = Some ''mo1''"
  "agents team_db = [sample_agent, second_agent]" "chats team_db = [sample_chat, team_chat]"
  "ag_id sample_agent = ''a1''" "ag_id second_agent = ''a2''" "ch_id team_chat = ''c2''" "usage_events team_db = []"
  "mo_id sample_model = ''mo1''" "pr_id sample_provider = ''p1''" "chat_messages team_db ''c2'' = []"
  "message_by_id team_db (newId t (replicate 10 0)) = None" "db team_world = team_db"
  "\<not> aborted team_world" "ticks team_world = 0" "draws team_world = 0" "writes team_world = 0" "calls team_world = 0"
  by (simp_all add: team_db_def sample_rows second_agent_def team_chat_def chat_messages_def message_by_id_def team_world_def)

lemma team_settings:
  "team_strategy (sample_dto\<lparr>cc_maxTurns := Some 1\<rparr>) (Some (hd (teams team_db))) = ''sequential''"
  "bounded_max_turns (sample_dto\<lparr>cc_maxTurns := Some 1\<rparr>) (Some (hd (teams team_db))) = 1"
  by (simp_all add: team_strategy_def bounded_max_turns_def team_db_def sample_dto_def)

lemma sample_team:
  "\<exists>r w'. completeTeamChat answering_env team_chat ''t1'' (sample_dto\<lparr>cc_maxTurns := Some 1\<rparr>) team_world = (Inr r, w')"
proof -
  obtain q where q: "\<And>env d dto chat agent eff. request_setup env d dto chat agent eff sample_model None
      = Inr (q env d dto chat agent eff)"
    using team_request by metis
  have "wp (completeTeamChat answering_env team_chat ''t1'' (sample_dto\<lparr>cc_maxTurns := Some 1\<rparr>)) (\<lambda>_ _. True) (\<lambda>_ _. False) team_world"
    apply (simp add: completeTeamChat_def answering_env_def wp_simps team_members_sample team_agents team_resolve
        Let_def completeSequentialTeamChat_def team_settings guarded_turn_def executeMemberTurn_def member_setup_def q
        sample_create call_provider_def persistAssistantReply_def maxRetries_def numeral_3_eq_3 wp_transaction
        insert_returning_def)
    apply (simp add: statement_defs chat_by_id_def agent_by_id_def provider_by_id_def model_by_id_def wp_simps)
    done
  then show ?thesis using wp_total by fastforce
qed

end
