(* ===== verification/ContextFacts.thy ===== *)
theory ContextFacts
  imports InferenceCore
begin

text \<open>
  The construction of the context as a whole: which messages reach the prompt and in
  which order, what is dropped to fit the window, when the request is refused; and the
  execution chain as a whole.
\<close>

section \<open>Candidates\<close>

definition context_candidates :: "build_context_input \<Rightarrow> candidate list" where
  "context_candidates inp =
     map (candidate_of inp) (filter (eligible inp) (sort_key cm_sequence (bi_messages inp)))"

definition prompt_tokens :: "build_context_input \<Rightarrow> int" where
  "prompt_tokens inp =
     system_tokens (fst (assembleSystemPrompt (bi_sources inp) (memory_seam_content (bi_memorySeam inp))))"

definition strategy_of :: "build_context_input \<Rightarrow> fitting_strategy" where
  "strategy_of inp = from_option Refuse (bi_fittingStrategy inp)"

lemma buildContextPure_fit:
  "buildContextPure inp = Inr ctx \<Longrightarrow>
     \<exists>es ks. fit_candidates (strategy_of inp) (window_of (bi_contextWindow inp)) (prompt_tokens inp)
         (context_candidates inp) = Inr (es, ks)
       \<and> ctx_messages ctx = map cand_adapterMessage ks \<and> ctx_messageDetails ctx = map detail_of ks
       \<and> te_totalTokens (ctx_tokenEstimate ctx) = prompt_tokens inp + candidate_tokens ks"
  by (auto simp: buildContextPure_def Let_def case_prod_beta partition_candidates context_candidates_def
      prompt_tokens_def strategy_of_def split: sum.splits prod.splits)

lemma buildContextPure_Inl:
  "buildContextPure inp = Inl e \<longleftrightarrow>
     fit_candidates (strategy_of inp) (window_of (bi_contextWindow inp)) (prompt_tokens inp)
         (context_candidates inp) = Inl e"
  by (auto simp: buildContextPure_def Let_def case_prod_beta partition_candidates context_candidates_def
      prompt_tokens_def strategy_of_def split: sum.splits prod.splits)

section \<open>Fitting\<close>

lemma truncate_drop:
  assumes "truncate_oldest w s cs = (es, ks)"
  shows "\<exists>k\<le>length cs. ks = drop k cs \<and> (0 < k \<longrightarrow> w < s + candidate_tokens (drop (k - 1) cs))"
proof -
  from truncate_split [OF assms] obtain ds where ds: "cs = ds @ ks" by blast
  show ?thesis
  proof (cases ds rule: rev_cases)
    case (snoc ds' d)
    with truncate_minimal [OF assms, of ds' d] ds have "w < s + candidate_tokens (d # ks)" by simp
    moreover have "drop (length ds) cs = ks" "drop (length ds - 1) cs = d # ks" by (simp_all add: ds snoc)
    ultimately show ?thesis by (intro exI [of _ "length ds"]) (simp add: ds)
  qed (use ds in \<open>auto intro: exI [of _ 0]\<close>)
qed

lemma fit_candidates_drop:
  assumes "fit_candidates strategy window s cs = Inr (es, ks)"
  shows "\<exists>k\<le>length cs. ks = drop k cs \<and> (\<forall>w. window = Some w \<longrightarrow> s + candidate_tokens ks \<le> w)
     \<and> (0 < k \<longrightarrow> strategy = TruncateOldest
          \<and> (\<exists>w. window = Some w \<and> w < s + candidate_tokens (drop (k - 1) cs)))"
proof (cases "es = [] \<and> ks = cs")
  case True
  with fit_candidates_cases [OF assms] show ?thesis by (intro exI [of _ 0]) auto
next
  case False
  with assms obtain w where w: "window = Some w" "strategy = TruncateOldest" "truncate_oldest w s cs = (es, ks)"
    "s + candidate_tokens ks \<le> w"
    by (auto simp: fit_candidates_def Let_def split: option.splits if_splits fitting_strategy.splits prod.splits)
  from truncate_drop [OF w(3)] w show ?thesis by blast
qed

lemma truncate_end:
  "truncate_oldest w s cs = (es, ks) \<Longrightarrow> w < s + candidate_tokens ks \<Longrightarrow> ks = drop (length cs - 1) cs"
proof (induction w s cs arbitrary: es rule: truncate_oldest.induct)
  case (1 w s c c' cs)
  show ?case
  proof (cases "s + candidate_tokens (c # c' # cs) > w")
    case True
    with 1(2) obtain es' where t: "truncate_oldest w s (c' # cs) = (es', ks)"
      by (auto simp: Let_def split: prod.splits)
    from "1.IH" [OF refl True t 1(3)] show ?thesis by simp
  next
    case False
    with 1(2) have "ks = c # c' # cs" by (simp add: Let_def)
    with 1(3) False show ?thesis by simp
  qed
qed auto

lemma estimateTokens_nonneg: "0 \<le> estimateTokens t"
proof (cases t)
  case (Some s)
  then show ?thesis
    using estimateTokens_ceiling [of s] by (cases "s = []") (auto simp: estimateTokens_def)
qed (simp add: estimateTokens_def)

lemma estimateMessageTokens_pos: "0 < estimateMessageTokens m"
  using estimateTokens_nonneg [of "Some (am_content m)"] estimateTokens_nonneg [of "am_name m"]
  by (simp add: estimateMessageTokens_def)

lemma candidate_tokens_drop:
  assumes "\<forall>c\<in>set cs. 0 \<le> cand_estimatedTokens c"
  shows "candidate_tokens (drop k cs) \<le> candidate_tokens cs"
proof -
  have "candidate_tokens cs = candidate_tokens (take k cs) + candidate_tokens (drop k cs)"
    by (simp add: candidate_tokens_def flip: sum_list_append map_append)
  moreover have "0 \<le> candidate_tokens (take k cs)"
    unfolding candidate_tokens_def using assms by (intro sum_list_nonneg) (auto dest: in_set_takeD)
  ultimately show ?thesis by simp
qed

text \<open>What has to fit: all candidates, or just the last of them.\<close>

definition must_fit :: "fitting_strategy \<Rightarrow> candidate list \<Rightarrow> candidate list" where
  "must_fit strategy cs = (case strategy of Refuse \<Rightarrow> cs | TruncateOldest \<Rightarrow> drop (length cs - 1) cs)"

lemma fit_candidates_refused_iff:
  assumes nonneg: "\<forall>c\<in>set cs. 0 \<le> cand_estimatedTokens c"
  shows "(\<exists>e. fit_candidates strategy window s cs = Inl e) \<longleftrightarrow>
     (\<exists>w. window = Some w \<and> w < s + candidate_tokens (must_fit strategy cs))"
proof (cases window)
  case None
  then show ?thesis by (simp add: fit_candidates_def)
next
  case (Some w)
  let ?l = "drop (length cs - 1) cs"
  have le: "candidate_tokens ?l \<le> candidate_tokens cs" by (rule candidate_tokens_drop [OF nonneg])
  show ?thesis
  proof (cases strategy)
    case Refuse
    then show ?thesis by (simp add: fit_candidates_def Some Let_def must_fit_def)
  next
    case TruncateOldest
    obtain es ks where t: "truncate_oldest w s cs = (es, ks)" by fastforce
    have "w < s + candidate_tokens ks \<longleftrightarrow> w < s + candidate_tokens ?l" if "s + candidate_tokens cs > w"
    proof
      assume "w < s + candidate_tokens ?l"
      show "w < s + candidate_tokens ks"
      proof -
        from truncate_split [OF t] obtain ds where ds: "cs = ds @ ks" "cs \<noteq> [] \<longrightarrow> ks \<noteq> []" by blast
        have "?l = drop (length ks - 1) ks"
          using ds by (cases ks) auto
        moreover have "candidate_tokens (drop (length ks - 1) ks) \<le> candidate_tokens ks"
          by (rule candidate_tokens_drop) (use nonneg ds in auto)
        ultimately show ?thesis using \<open>w < s + candidate_tokens ?l\<close> by simp
      qed
    qed (use truncate_end [OF t] in simp)
    with le t show ?thesis by (auto simp: fit_candidates_def Some Let_def must_fit_def TruncateOldest)
  qed
qed

lemma fit_candidates_error:
  "fit_candidates strategy window s cs = Inl e \<Longrightarrow> consistent_error e \<and> adapter_code_of e = Some CONTEXT_LENGTH_EXCEEDED"
  by (auto simp: fit_candidates_def context_exceeded_def Let_def adapter_error_defs adapter_code_of_def
      consistent_error_def retryable_code_def split: option.splits if_splits fitting_strategy.splits prod.splits)

lemma context_candidates_nonneg: "\<forall>c\<in>set (context_candidates inp). 0 \<le> cand_estimatedTokens c"
  using estimateMessageTokens_pos
  by (auto simp: context_candidates_def candidate_of_def Let_def intro: less_imp_le)

section \<open>Partition\<close>

definition message_key :: "context_message \<Rightarrow> string option \<times> int" where
  "message_key m = (cm_id m, cm_sequence m)"

lemma context_partition_keys:
  assumes "buildContextPure inp = Inr ctx"
  shows "mset (map (\<lambda>d. (md_id d, md_sequence d)) (ctx_messageDetails ctx))
       + mset (map (\<lambda>e. (ex_id e, ex_sequence e)) (ctx_excludedMessages ctx))
     = mset (map message_key (bi_messages inp))"
proof (rule buildContextPure_cases [OF assms], goal_cases)
  case (1 ds ks es)
  let ?raw = "sort_key cm_sequence (bi_messages inp)"
  let ?key = "\<lambda>c. message_key (cand_msg c)"
  note p = 1(1) and d = 1(3) and x = 1(4) and e = 1(5)
  have "?key \<circ> candidate_of inp = message_key"
    by (simp add: fun_eq_iff candidate_of_def Let_def)
  then have k: "map message_key (filter (eligible inp) ?raw) = map ?key ds @ map ?key ks"
    using arg_cong [OF p, of "map ?key"] by simp
  have det: "map (\<lambda>d. (md_id d, md_sequence d)) (map detail_of ks) = map ?key ks"
    by (simp add: detail_of_def message_key_def)
  have "mset ?raw = mset (filter (eligible inp) ?raw) + mset (filter (\<lambda>m. \<not> eligible inp m) ?raw)"
    by (simp only: mset_filter multiset_partition [symmetric])
  then have "mset (map message_key (bi_messages inp))
      = mset (map message_key (filter (eligible inp) ?raw)) + mset (map message_key (filter (\<lambda>m. \<not> eligible inp m) ?raw))"
    by (metis image_mset_union mset_map mset_sort)
  then show ?case
    using partition_excluded [of inp ?raw] e unfolding d x det k by (simp add: message_key_def [abs_def])
qed

section \<open>The execution chain\<close>

text \<open>What it takes to run an agent: an enabled model of an enabled provider, and a key unless it is local.\<close>

definition runnable ::
  "env \<Rightarrow> database \<Rightarrow> agent_row \<Rightarrow> string option \<Rightarrow> model_row \<Rightarrow> provider_row \<Rightarrow> string option \<Rightarrow> bool" where
  "runnable env d agent override model provider key \<longleftrightarrow>
     (\<exists>i. coalesce override (ag_model_id agent) = Some i \<and> i \<noteq> [] \<and> model_by_id d i = Some model)
     \<and> mo_enabled model \<noteq> 0 \<and> provider_by_id d (mo_provider_id model) = Some provider \<and> pr_enabled provider \<noteq> 0
     \<and> (case getDecryptedCredential env d (pr_id provider) of
          Inr k \<Rightarrow> key = Some k \<and> (is_local_provider provider \<or> js_trim k \<noteq> [])
        | Inl e \<Rightarrow> is_not_found e \<and> key = None \<and> is_local_provider provider)"

lemma resolve_key_iff:
  "resolve_key env d provider = Inr key \<longleftrightarrow>
     (case getDecryptedCredential env d (pr_id provider) of
        Inr k \<Rightarrow> key = Some k \<and> (is_local_provider provider \<or> js_trim k \<noteq> [])
      | Inl e \<Rightarrow> is_not_found e \<and> key = None \<and> is_local_provider provider)"
  by (auto simp: resolve_key_def Let_def truthy_def split: sum.split)

lemma resolveAgentExecution_runnable:
  "resolveAgentExecution env d agent override = Inr (model, provider, key) \<longleftrightarrow>
   runnable env d agent override model provider key"
  unfolding runnable_def resolve_key_iff [symmetric]
  by (cases "coalesce override (ag_model_id agent)")
    (auto simp: resolveAgentExecution_def Let_def truthy_def split: option.split sum.split)

end
