(* ===== verification/ChatFacts.thy ===== *)
theory ChatFacts
  imports Chats
begin

text \<open>
  What the requests on chats and messages preserve and do: the interface \<open>chat_relation\<close>
  of the statements on chats, the owner of a chat, partial updates, and the pages of the
  list endpoints.
\<close>

section \<open>What the statements on chats may do\<close>

locale chat_relation = transcript_relation +
  assumes insert_chat_law: "insert_chat r d = Inr d' \<Longrightarrow> R d d'"
    and columns_law: "update_chat_columns i t p now d = Inr d' \<Longrightarrow> R d d'"
    and delete_law: "R d (delete_chats P d)"
begin

lemma obeys_insert_chat [obeys_intros]: "obeys (on_db R) (exec_write env (insert_chat r))"
  by (rule obeys_exec_write) (rule insert_chat_law)

lemma obeys_columns [obeys_intros]: "obeys (on_db R) (exec_write env (update_chat_columns i t p now))"
  by (rule obeys_exec_write) (rule columns_law)

lemma obeys_delete [obeys_intros]: "obeys (on_db R) (exec_write env (\<lambda>d. Inr (delete_chats P d)))"
  by (rule obeys_exec_write) (use delete_law in auto)

lemma obeys_createChat [obeys_intros]: "obeys (on_db R) (createChat env dto)"
  unfolding createChat_def Let_def by (intro obeys_intros)

lemma obeys_updateChat [obeys_intros]: "obeys (on_db R) (updateChat env chatId dto)"
  unfolding updateChat_def Let_def by (intro obeys_intros)

lemma obeys_deleteChat [obeys_intros]: "obeys (on_db R) (deleteChat env chatId)"
  unfolding deleteChat_def by (intro obeys_intros)

lemma obeys_removeAllChats [obeys_intros]: "obeys (on_db R) (removeAllChats env)"
  unfolding removeAllChats_def by (intro obeys_intros)

end

interpretation numbered: chat_relation "keeps dense_sequences"
  by unfold_locales (auto simp: dense_insert_chat dense_update_chat_columns dense_delete_chats)

text \<open>Every chat belongs to an agent or to a team, and never to both.\<close>

definition owners_ok :: "database \<Rightarrow> bool" where
  "owners_ok d \<longleftrightarrow> (\<forall>c\<in>set (chats d). chat_owner_ok c)"

lemma owners_same: "map chat_identity (chats d') = map chat_identity (chats d) \<Longrightarrow> owners_ok d' \<longleftrightarrow> owners_ok d"
proof -
  have o: "owners_ok d \<longleftrightarrow> (\<forall>k\<in>set (map chat_identity (chats d)).
      case k of (_, _, _, a, t, _) \<Rightarrow> (a \<noteq> None \<and> t = None) \<or> (a = None \<and> t \<noteq> None))" for d
    by (auto simp: owners_ok_def chat_owner_ok_def chat_identity_def)
  show "map chat_identity (chats d') = map chat_identity (chats d) \<Longrightarrow> ?thesis" by (simp add: o)
qed

lemma owners_configuration: "same_configuration d d' \<Longrightarrow> keeps owners_ok d d'"
  using owners_same [of d' d] by (simp add: same_configuration_def keeps_def)

lemma owner_update [simp]:
  "chat_owner_ok (c\<lparr>ch_title := t, ch_project_id := p, ch_updated_at := u\<rparr>) \<longleftrightarrow> chat_owner_ok c"
  by (simp add: chat_owner_ok_def)

lemma owners_insert: "insert_chat r d = Inr d' \<Longrightarrow> keeps owners_ok d d'"
  by (drule insert_chatD) (simp add: keeps_def owners_ok_def)

lemma owners_columns:
  assumes "update_chat_columns i t p now d = Inr d'"
  shows "keeps owners_ok d d'"
proof -
  have "chats d' = map (\<lambda>c. if ch_id c = i then c\<lparr>ch_title := from_option (ch_title c) t,
      ch_project_id := from_option (ch_project_id c) p, ch_updated_at := now\<rparr> else c) (chats d)"
    using assms by (auto simp: update_chat_columns_def split: if_splits)
  then show ?thesis by (simp add: keeps_def owners_ok_def ball_Un)
qed

lemma owners_delete: "keeps owners_ok d (delete_chats P d)"
  by (simp add: keeps_def owners_ok_def delete_chats_def Let_def)

interpretation owned: chat_relation "keeps owners_ok"
proof unfold_locales
  show "keeps owners_ok d d" for d by (simp add: keeps_def)
  show "keeps owners_ok d1 d2 \<Longrightarrow> keeps owners_ok d2 d3 \<Longrightarrow> keeps owners_ok d1 d3" for d1 d2 d3
    by (simp add: keeps_def)
qed (rule owners_delete | erule owners_insert owners_columns
      | rule owners_configuration, erule frame.append_law frame.update_law frame.touch_law
          frame.summary_law frame.usage_law)+

section \<open>Updates\<close>

text \<open>What an update changes in the row of the chat it names.\<close>

definition updated_chats :: "string \<Rightarrow> update_chat_dto \<Rightarrow> string \<Rightarrow> database \<Rightarrow> chat_row list" where
  "updated_chats i dto now d = map (\<lambda>c. if ch_id c = i
     then c\<lparr>ch_title := from_option (ch_title c) (uc_title dto),
            ch_project_id := from_option (ch_project_id c) (uc_projectId dto), ch_updated_at := now\<rparr> else c) (chats d)"

lemma changed_value: "from_option x (changed v x) = from_option x v"
  by (simp add: changed_def split: option.split)

text \<open>
  An update that changes nothing does not write; one that changes something writes the
  fields the request names, and only those, into the row of that chat.
\<close>

lemma applyChatUpdates_values:
  "ur_title (applyChatUpdates row dto now) = changed (uc_title dto) (ch_title row)"
  "ur_projectId (applyChatUpdates row dto now) = changed (uc_projectId dto) (ch_project_id row)"
  "ur_hasChanges (applyChatUpdates row dto now)
     \<longleftrightarrow> changed (uc_title dto) (ch_title row) \<noteq> None \<or> changed (uc_projectId dto) (ch_project_id row) \<noteq> None"
  by (simp_all add: applyChatUpdates_def Let_def)

definition no_change :: "chat_row \<Rightarrow> update_chat_dto \<Rightarrow> bool" where
  "no_change row dto \<longleftrightarrow> from_option (ch_title row) (uc_title dto) = ch_title row
     \<and> from_option (ch_project_id row) (uc_projectId dto) = ch_project_id row"

lemma no_change_iff: "ur_hasChanges (applyChatUpdates row dto now) \<longleftrightarrow> \<not> no_change row dto"
  by (auto simp: applyChatUpdates_values no_change_def changed_def split: option.splits)

lemma wp_updateChat:
  "wp (updateChat env i dto)
     (\<lambda>r w'. \<exists>row. chat_by_id (db w) i = Some row
        \<and> (if no_change row dto then db w' = db w \<and> r = mapChatRowToResponse row
           else \<exists>now. r = mapChatRowToResponse (row\<lparr>ch_title := from_option (ch_title row) (uc_title dto),
                      ch_project_id := from_option (ch_project_id row) (uc_projectId dto), ch_updated_at := now\<rparr>)
                 \<and> update_chat_columns i (changed (uc_title dto) (ch_title row))
                      (changed (uc_projectId dto) (ch_project_id row)) now (db w) = Inr (db w')))
     (\<lambda>_ w'. db w' = db w) w"
  by (auto simp: updateChat_def assertExists_def Let_def wp_simps wp_transaction no_change_iff
      split: option.split sum.split if_split)
    (auto simp: applyChatUpdates_values applyChatUpdates_def changed_value Let_def no_change_def changed_def split: option.splits if_splits)?

section \<open>Lists\<close>

lemma page_of_facts:
  "set (page_of p xs) \<subseteq> set xs" "length (page_of p xs) \<le> nat (fst p)"
  "sorted_wrt P xs \<Longrightarrow> sorted_wrt P (page_of p xs)"
  unfolding page_of_def by (meson order_trans set_drop_subset set_take_subset, simp, simp add: sorted_wrt_take sorted_wrt_drop)

lemma clamp_limit_bounds: "1 \<le> clamp_limit l \<and> clamp_limit l \<le> 100" "0 \<le> clamp_offset o'"
  by (simp_all add: clamp_limit_def clamp_offset_def)

text \<open>Two pages in a row are one longer page: paging neither skips a row nor repeats one.\<close>

lemma page_of_append:
  assumes "0 \<le> l" "0 \<le> o'" "0 \<le> m"
  shows "page_of (l, o') xs @ page_of (m, o' + l) xs = page_of (l + m, o') xs"
proof -
  have "drop (nat (o' + l)) xs = drop (nat l) (drop (nat o') xs)"
    using assms by (simp add: nat_add_distrib add.commute)
  then show ?thesis using assms by (simp add: page_of_def nat_add_distrib take_add)
qed

definition ordered_by :: "bool \<Rightarrow> message_row list \<Rightarrow> bool" where
  "ordered_by asc rows \<longleftrightarrow> sorted_wrt (\<lambda>a b. if asc then msg_sequence a \<le> msg_sequence b
     else msg_sequence b \<le> msg_sequence a) rows"

lemma ordered_by_sort:
  "ordered_by asc (if asc then sort_key msg_sequence rows else rev (sort_key msg_sequence rows))"
proof -
  have "sorted_wrt (\<lambda>a b. msg_sequence a \<le> msg_sequence b) (sort_key msg_sequence rows)"
    using sorted_sort_key [of msg_sequence rows] by (simp add: sorted_wrt_map)
  then show ?thesis by (simp add: ordered_by_def sorted_wrt_rev)
qed

lemma findAllMessages_page:
  assumes "findAllMessages d c q = Inr page"
  shows "\<exists>rows. page_items page = map mapMessageRowToResponse rows
     \<and> set rows \<subseteq> {m \<in> set (chat_messages d c). message_filter c q m \<and> message_cursor q m}
     \<and> length rows \<le> 100 \<and> ordered_by (sort_ascending (message_pagination q)) rows
     \<and> page_total page = length (filter (message_filter c q) (messages d))"
proof -
  let ?asc = "sort_ascending (message_pagination q)"
  let ?all = "filter (message_cursor q) (filter (message_filter c q) (messages d))"
  let ?ord = "if ?asc then sort_key msg_sequence ?all else rev (sort_key msg_sequence ?all)"
  obtain f where f: "buildPaginationSqlFragment (message_pagination q) = Inr f"
    and p: "page = createPaginatedResponse (map mapMessageRowToResponse (page_of (sr_params f) ?ord))
      (length (filter (message_filter c q) (messages d))) (pq_limit (lm_page q)) (pq_offset (lm_page q))"
    using assms by (auto simp: findAllMessages_def Let_def split: sum.splits)
  have "fst (sr_params f) \<le> 100"
    using f clamp_limit_bounds(1) by (auto simp: buildPaginationSqlFragment_def Let_def split: sum.splits)
  then have "length (page_of (sr_params f) ?ord) \<le> 100"
    using page_of_facts(2) [of "sr_params f" ?ord] by linarith
  moreover have "set (page_of (sr_params f) ?ord) \<subseteq> {m \<in> set (chat_messages d c). message_filter c q m \<and> message_cursor q m}"
    using page_of_facts(1) [of "sr_params f" ?ord] by (auto simp: chat_messages_def message_filter_def)
  moreover have "ordered_by ?asc (page_of (sr_params f) ?ord)"
    using ordered_by_sort [of ?asc ?all] unfolding ordered_by_def by (rule page_of_facts(3))
  ultimately show ?thesis using p by (intro exI [of _ "page_of (sr_params f) ?ord"]) (simp add: createPaginatedResponse_def)
qed

text \<open>A search finds the titles that contain the term, up to the case of ASCII letters.\<close>

lemma search_literal:
  "sql_like (search_pattern t) x \<longleftrightarrow> js_includes (map ascii_lower x) (map ascii_lower t)"
proof -
  have tail: "sql_like [percent] v" for v
    unfolding sql_like_percent by (intro exI [of _ v] exI [of _ "[]"]) simp
  have "sql_like (search_pattern t) x \<longleftrightarrow> (\<exists>u v w. x = u @ v @ w \<and> map ascii_lower v = map ascii_lower t)"
    unfolding search_pattern_def append_Cons append_Nil sql_like_percent sql_like_escaped by (simp add: tail) metis
  also have "\<dots> \<longleftrightarrow> (\<exists>u w. map ascii_lower x = u @ map ascii_lower t @ w)"
  proof
    assume "\<exists>u v w. x = u @ v @ w \<and> map ascii_lower v = map ascii_lower t"
    then obtain u v w where "x = u @ v @ w" "map ascii_lower v = map ascii_lower t" by blast
    then have "map ascii_lower x = map ascii_lower u @ map ascii_lower t @ map ascii_lower w" by simp
    then show "\<exists>u w. map ascii_lower x = u @ map ascii_lower t @ w" by blast
  next
    assume "\<exists>u w. map ascii_lower x = u @ map ascii_lower t @ w"
    then obtain u w where e: "map ascii_lower x = u @ map ascii_lower t @ w" by blast
    let ?r = "drop (length u) x"
    have r: "map ascii_lower ?r = map ascii_lower t @ w" using e by (simp flip: drop_map)
    have "map ascii_lower (take (length t) ?r) = map ascii_lower t" using r by (simp flip: take_map)
    moreover have "x = take (length u) x @ take (length t) ?r @ drop (length t) ?r" by (simp only: append_take_drop_id)
    ultimately show "\<exists>u v w. x = u @ v @ w \<and> map ascii_lower v = map ascii_lower t" by metis
  qed
  finally show ?thesis by (simp add: js_includes_iff)
qed

end
