(* ===== verification/Transport.thy ===== *)
theory Transport
  imports Adapters "HOL-Library.AList"
begin

text \<open>
  What the provider adapters share: the HTTP exchange, the objects they build, and the
  loop that reads a streamed body line by line. The exchange itself is a parameter: what
  \<open>fetch\<close> answers, when the timers and the abort signal fire, how the text of the body is
  cut into reads. So is \<open>JSON.parse\<close> with the cast to the wire types of a provider: a
  function from texts to the typed value, or the exception it throws.
\<close>

section \<open>Exchanges\<close>

text \<open>
  The body of a streamed response, as the reader meets it: a piece of text, a failed read,
  or the end. The flag is \<open>options.signal.aborted\<close> at the head of the loop, the effect
  what the rest of the process did during the read.
\<close>

datatype body =
    Chunk bool effect string body
  | Broken bool effect exn
  | Closed bool effect

record http_request =
  hq_url :: string
  hq_method :: string
  hq_headers :: "(string \<times> string) list"
  hq_body :: "json option"

record http_response =
  hr_status :: nat
  hr_text :: "exn + string"
  hr_body :: "body option"

text \<open>
  One call of an adapter's \<open>executeFetch\<close>: whether the signal was aborted before, what
  \<open>fetch\<close> gave, and, when it was rejected, whether the timer had fired and whether the
  signal was aborted by then.
\<close>

record exchange =
  fx_abortedBefore :: bool
  fx_result :: "exn + http_response"
  fx_timedOut :: bool
  fx_abortedAfter :: bool

definition response_ok :: "http_response \<Rightarrow> bool" where
  "response_ok r = (200 \<le> hr_status r \<and> hr_status r \<le> 299)"

text \<open>\<open>err instanceof Error ? err.message : String(err)\<close>.\<close>

definition raw_message :: "exn \<Rightarrow> string" where
  "raw_message e = (case e of Err _ _ m _ _ \<Rightarrow> m | ThrownString s \<Rightarrow> s)"

definition is_abort_named :: "exn \<Rightarrow> bool" where
  "is_abort_named e = (case e of Err _ name _ _ _ \<Rightarrow> name = ''AbortError'' | ThrownString _ \<Rightarrow> False)"

definition no_effect_at_all :: effect where
  "no_effect_at_all = \<lparr>eff_db = (\<lambda>d. d), eff_abort = False\<rparr>"

definition then_effect :: "effect \<Rightarrow> effect \<Rightarrow> effect" where
  "then_effect f g = \<lparr>eff_db = eff_db g \<circ> eff_db f, eff_abort = (eff_abort f \<or> eff_abort g)\<rparr>"

section \<open>Objects and texts\<close>

text \<open>The own enumerable properties of a value, in order, as a spread copies them.\<close>

definition spread_entries :: "json option \<Rightarrow> (string \<times> json) list" where
  "spread_entries v = (case v of
     Some (JObj ps) \<Rightarrow> ps
   | Some (JArr xs) \<Rightarrow> zip (map show_nat [0..<length xs]) xs
   | Some (JStr s) \<Rightarrow> zip (map show_nat [0..<length s]) (map (\<lambda>c. JStr [c]) s)
   | _ \<Rightarrow> [])"

text \<open>The same of a value that must be an object.\<close>

definition object_entries :: "json option \<Rightarrow> (string \<times> json) list" where
  "object_entries v = (case v of Some (JStr _) \<Rightarrow> [] | _ \<Rightarrow> spread_entries v)"

text \<open>Properties set one after the other: a new one comes last, a known one keeps its place.\<close>

definition set_all :: "(string \<times> 'v) list \<Rightarrow> (string \<times> 'v) list \<Rightarrow> (string \<times> 'v) list" where
  "set_all ps obj = foldl (\<lambda>o1 (k, v). AList.update k v o1) obj ps"

definition js_trim_start :: "string \<Rightarrow> string" where
  "js_trim_start s = dropWhile js_ws s"

text \<open>\<open>s.replace(/\/+$/, '')\<close>.\<close>

definition strip_slashes :: "string \<Rightarrow> string" where
  "strip_slashes s = rev (dropWhile (\<lambda>c. c = CHR ''/'') (rev s))"

definition ends_with :: "string \<Rightarrow> string \<Rightarrow> bool" where
  "ends_with s p = suffix p s"

text \<open>\<open>a?.trim() || b\<close>.\<close>

definition trim_or :: "string option \<Rightarrow> string \<Rightarrow> string" where
  "trim_or a b = from_option b (trim_or_null a)"

text \<open>The key of a configuration is replaced wherever an error message repeats it.\<close>

definition sanitize_key :: "string option \<Rightarrow> string \<Rightarrow> string" where
  "sanitize_key key message = (case key of
     None \<Rightarrow> message
   | Some k \<Rightarrow> if k = [] then message else replace_text k ''[REDACTED_API_KEY]'' message)"

section \<open>Lines\<close>

text \<open>\<open>s.split(/\r?\n/)\<close>.\<close>

definition LF :: char where
  "LF = CHR 0x0A"

definition CR :: char where
  "CR = CHR 0x0D"

fun push_char :: "char \<Rightarrow> string list \<Rightarrow> string list" where
  "push_char c [] = [[c]]"
| "push_char c (l # ls) = (c # l) # ls"

fun split_lines :: "string \<Rightarrow> string list" where
  "split_lines [] = [[]]"
| "split_lines [c] = (if c = LF then [[], []] else [[c]])"
| "split_lines (c # d # s) =
     (if c = LF then [] # split_lines (d # s)
      else if c = CR \<and> d = LF then [] # split_lines s
      else push_char c (split_lines (d # s)))"

lemma push_char_neq [simp]: "push_char c ls \<noteq> []"
  by (cases ls) simp_all

lemma split_lines_neq [simp]: "split_lines s \<noteq> []"
  by (induction s rule: split_lines.induct) simp_all

lemma butlast_push_char: "ls \<noteq> [] \<Longrightarrow> butlast (push_char c ls) = (if tl ls = [] then [] else push_char c (butlast ls))"
  by (cases ls) auto

lemma last_push_char: "ls \<noteq> [] \<Longrightarrow> last (push_char c ls) = (if tl ls = [] then c # last ls else last ls)"
  by (cases ls) auto

lemma push_char_append: "ls \<noteq> [] \<Longrightarrow> push_char c (ls @ ms) = push_char c ls @ ms"
  by (cases ls) auto

text \<open>
  Text read in two pieces: all but the last line of the first piece are complete, and the
  last one is continued by the second piece.
\<close>

lemma CR_LF [simp]: "CR \<noteq> LF" "LF \<noteq> CR"
  by (simp_all add: CR_def LF_def)

lemma split_lines_step:
  "c \<noteq> LF \<Longrightarrow> \<not> (c = CR \<and> (\<exists>s'. s = LF # s')) \<Longrightarrow> split_lines (c # s) = push_char c (split_lines s)"
  by (cases s) auto

lemma push_char_single: "ls \<noteq> [] \<Longrightarrow> push_char c ls = [l] \<Longrightarrow> \<exists>l'. ls = [l'] \<and> l = c # l'"
  by (cases ls) auto

lemma split_lines_single: "split_lines s = [l] \<Longrightarrow> l = s"
proof (induction s arbitrary: l rule: split_lines.induct)
  case (3 c d s)
  then show ?case
    by (auto split: if_splits dest!: push_char_single [rotated])
qed (auto split: if_splits)

lemma split_lines_append:
  "split_lines (a @ b) = butlast (split_lines a) @ split_lines (last (split_lines a) @ b)"
proof (induction a rule: split_lines.induct)
  case (2 c)
  then show ?case by (cases b) auto
next
  case (3 c d s)
  show ?case
  proof (cases "c \<noteq> LF \<and> \<not> (c = CR \<and> d = LF)")
    case True
    let ?ls = "split_lines (d # s)"
    have step: "split_lines ((c # d # s) @ b) = push_char c (split_lines ((d # s) @ b))"
      using True by auto
    have IH: "split_lines ((d # s) @ b) = butlast ?ls @ split_lines (last ?ls @ b)"
      using "3.IH"(3) True by simp
    show ?thesis
    proof (cases "tl ?ls = []")
      case tl: True
      then obtain l where l: "?ls = [l]" by (cases ?ls) simp_all
      then have "split_lines (c # d # s) = [c # d # s]"
        using True split_lines_single [OF l] by simp
      then show ?thesis by simp
    next
      case tl: False
      have e: "split_lines (c # d # s) = push_char c ?ls" using True by auto
      have b: "butlast ?ls \<noteq> []" using tl by (cases ?ls) simp_all
      show ?thesis
        unfolding step IH e using tl b
        by (simp add: butlast_push_char last_push_char push_char_append)
    qed
  next
    case False
    then show ?thesis using "3.IH"(1,2) by auto
  qed
qed simp

text \<open>The part kept for the next read holds no complete line.\<close>

definition unfinished :: "string \<Rightarrow> bool" where
  "unfinished buffer = (split_lines buffer = [buffer])"

lemma unfinished_empty [simp]: "unfinished []"
  by (simp add: unfinished_def)

lemma unfinished_last [simp]: "unfinished (last (split_lines s))"
proof -
  have "split_lines s = butlast (split_lines s) @ split_lines (last (split_lines s))"
    using split_lines_append [of s "[]"] by simp
  then have "length (split_lines (last (split_lines s))) = 1"
    by (metis add_diff_cancel_left' append_butlast_last_id length_append length_append_singleton
        plus_1_eq_Suc add.commute split_lines_neq same_append_eq list.size(3) length_Cons One_nat_def)
  then show ?thesis
    using split_lines_single by (metis One_nat_def length_0_conv length_Suc_conv unfinished_def)
qed

section \<open>Reading a streamed body\<close>

text \<open>
  A reader of lines: what it does with a complete line (the events it yields, and the state
  it goes on with unless it returns), with the buffer left when the body ends, when the
  signal is aborted, and with an exception (told whether the signal was aborted meanwhile).
\<close>

record 's reader =
  rd_line :: "'s \<Rightarrow> string \<Rightarrow> stream_event list \<times> 's option"
  rd_close :: "'s \<Rightarrow> string \<Rightarrow> stream_event list"
  rd_aborted :: exn
  rd_failed :: "bool \<Rightarrow> exn \<Rightarrow> exn"

fun run_lines :: "('s \<Rightarrow> string \<Rightarrow> stream_event list \<times> 's option) \<Rightarrow> 's \<Rightarrow> string list
    \<Rightarrow> stream_event list \<times> 's option" where
  "run_lines f s [] = ([], Some s)"
| "run_lines f s (l # ls) =
     (case f s l of
        (es, None) \<Rightarrow> (es, None)
      | (es, Some t) \<Rightarrow> (case run_lines f t ls of (es', r) \<Rightarrow> (es @ es', r)))"

text \<open>Events as steps of the stream; what ran before is the effect of the first of them.\<close>

fun yields :: "effect \<Rightarrow> stream_event list \<Rightarrow> (effect \<Rightarrow> stream_run) \<Rightarrow> stream_run" where
  "yields f [] k = k f"
| "yields f (e # es) k = Yields f e (yields no_effect_at_all es k)"

fun read_body :: "'s reader \<Rightarrow> 's \<Rightarrow> string \<Rightarrow> effect \<Rightarrow> body \<Rightarrow> stream_run" where
  "read_body r s buffer f (Chunk ab g text rest) =
     (if ab then Throws f (rd_aborted r)
      else let lines = split_lines (buffer @ text) in
           case run_lines (rd_line r) s (butlast lines) of
             (es, None) \<Rightarrow> yields (then_effect f g) es Ends
           | (es, Some t) \<Rightarrow> yields (then_effect f g) es (\<lambda>h. read_body r t (last lines) h rest))"
| "read_body r s buffer f (Broken ab g e) =
     (if ab then Throws f (rd_aborted r) else Throws (then_effect f g) (rd_failed r (eff_abort g) e))"
| "read_body r s buffer f (Closed ab g) =
     (if ab then Throws f (rd_aborted r) else yields (then_effect f g) (rd_close r s buffer) Ends)"

text \<open>
  The events of one piece of data are yielded in turn; after a final one the generator
  returns.
\<close>

fun is_final :: "stream_event \<Rightarrow> bool" where
  "is_final (CompleteReport _ _ _) = True"
| "is_final (ErrorReport _) = True"
| "is_final _ = False"

fun yield_until_final :: "stream_event list \<Rightarrow> 's \<Rightarrow> stream_event list \<times> 's option" where
  "yield_until_final [] s = ([], Some s)"
| "yield_until_final (e # es) s =
     (if is_final e then ([e], None) else (case yield_until_final es s of (es', r) \<Rightarrow> (e # es', r)))"

text \<open>What the discovery of a provider's models reports.\<close>

record discovered_model =
  dm_modelIdentifier :: string
  dm_displayName :: string
  dm_contextWindow :: "int option"
  dm_defaultTemperature :: "rat option"
  dm_defaultMaxTokens :: "int option"

subsection \<open>How the body is cut into reads does not matter\<close>

fun stream_trace :: "stream_run \<Rightarrow> stream_event list \<times> exn option" where
  "stream_trace (Yields f e rest) = (case stream_trace rest of (es, x) \<Rightarrow> (e # es, x))"
| "stream_trace (Throws f e) = ([], Some e)"
| "stream_trace (Ends f) = ([], None)"

fun body_text :: "body \<Rightarrow> string" where
  "body_text (Chunk ab f text rest) = text @ body_text rest"
| "body_text _ = []"

text \<open>A body that is read to its end without an abort or a failure.\<close>

fun undisturbed :: "body \<Rightarrow> bool" where
  "undisturbed (Chunk ab f text rest) = (\<not> ab \<and> undisturbed rest)"
| "undisturbed (Broken ab f e) = False"
| "undisturbed (Closed ab f) = (\<not> ab)"

text \<open>The events of a text that arrives at once.\<close>

definition read_text :: "'s reader \<Rightarrow> 's \<Rightarrow> string \<Rightarrow> stream_event list" where
  "read_text r s text =
     (let lines = split_lines text in
      case run_lines (rd_line r) s (butlast lines) of
        (es, None) \<Rightarrow> es
      | (es, Some t) \<Rightarrow> es @ rd_close r t (last lines))"

lemma trace_yields:
  "stream_trace (yields f es k) = (es @ fst (stream_trace (k (if es = [] then f else no_effect_at_all))),
     snd (stream_trace (k (if es = [] then f else no_effect_at_all))))"
  by (induction f es k rule: yields.induct) (auto split: prod.split)

lemma run_lines_append:
  "run_lines f s (ls @ ms) = (case run_lines f s ls of
     (es, None) \<Rightarrow> (es, None)
   | (es, Some t) \<Rightarrow> (case run_lines f t ms of (es', r) \<Rightarrow> (es @ es', r)))"
  by (induction ls arbitrary: s) (auto split: prod.split option.split)

lemma read_text_append:
  "read_text r s (a @ b) = (case run_lines (rd_line r) s (butlast (split_lines a)) of
     (es, None) \<Rightarrow> es
   | (es, Some t) \<Rightarrow> es @ read_text r t (last (split_lines a) @ b))"
proof -
  have neq: "split_lines x \<noteq> []" for x by simp
  let ?ls = "butlast (split_lines a)" and ?ms = "split_lines (last (split_lines a) @ b)"
  have "butlast (split_lines (a @ b)) = ?ls @ butlast ?ms" "last (split_lines (a @ b)) = last ?ms"
    using split_lines_append [of a b] neq by (simp_all add: butlast_append)
  then show ?thesis
    by (simp add: read_text_def Let_def run_lines_append split: prod.split option.split)
qed

lemma read_body_text:
  assumes "undisturbed b" "unfinished buffer"
  shows "stream_trace (read_body r s buffer f b) = (read_text r s (buffer @ body_text b), None)"
  using assms
proof (induction b arbitrary: s buffer f)
  case (Chunk ab g piece rest s buffer f)
  have "read_text r s (buffer @ body_text (Chunk ab g piece rest))
      = (case run_lines (rd_line r) s (butlast (split_lines (buffer @ piece))) of
          (es, None) \<Rightarrow> es
        | (es, Some t) \<Rightarrow> es @ read_text r t (last (split_lines (buffer @ piece)) @ body_text rest))"
    using read_text_append [of r s "buffer @ piece" "body_text rest"] by simp
  with Chunk show ?case
    by (simp add: Let_def trace_yields split: prod.split option.split)
next
  case (Closed ab g s buffer f)
  then show ?case by (simp add: trace_yields read_text_def unfinished_def)
qed simp

end
