(* ===== verification/Turns.thy ===== *)
theory Turns
  imports Transport
begin

text \<open>
  The conversation as Anthropic and Gemini want it (\<open>translateMessages\<close> of both adapters):
  the system texts are taken out, consecutive messages of one role become one turn, and a
  blank turn of the user comes first when the history starts with the assistant.
\<close>

record wire_turn =
  tu_role :: string
  tu_content :: string

definition hoisted_system :: "completion_request \<Rightarrow> string list" where
  "hoisted_system request =
     map the (filter (\<lambda>x. x \<noteq> None) (trim_or_null (cq_systemPrompt request)
       # map (\<lambda>m. trim_or_null (Some (am_content m)))
           (filter (\<lambda>m. am_role m = ''system'') (cq_messages request))))"

definition conversation :: "completion_request \<Rightarrow> adapter_message list" where
  "conversation request = filter (\<lambda>m. am_role m \<noteq> ''system'') (cq_messages request)"

text \<open>The first argument is the name of the assistant's role.\<close>

definition turn_role :: "string \<Rightarrow> adapter_message \<Rightarrow> string" where
  "turn_role assistant m = (if am_role m = ''assistant'' then assistant else ''user'')"

definition turn_content :: "adapter_message \<Rightarrow> string" where
  "turn_content m = (if truthy (am_name m) then from_option [] (am_name m) @ '': '' @ am_content m else am_content m)"

definition add_turn :: "string \<Rightarrow> wire_turn list \<Rightarrow> adapter_message \<Rightarrow> wire_turn list" where
  "add_turn assistant turns m =
     (if turns \<noteq> [] \<and> tu_role (last turns) = turn_role assistant m
      then butlast turns @ [(last turns)\<lparr>tu_content := tu_content (last turns) @ nl @ nl @ turn_content m\<rparr>]
      else turns @ [\<lparr>tu_role = turn_role assistant m, tu_content = turn_content m\<rparr>])"

definition blank_turn :: wire_turn where
  "blank_turn = \<lparr>tu_role = ''user'', tu_content = '' ''\<rparr>"

definition translate_messages :: "string \<Rightarrow> completion_request \<Rightarrow> wire_turn list" where
  "translate_messages assistant request =
     (if conversation request = [] then [blank_turn]
      else let turns = foldl (add_turn assistant) [] (conversation request) in
           if tu_role (hd turns) = assistant then blank_turn # turns else turns)"

section \<open>The turns alternate and keep every message\<close>

definition alternating :: "wire_turn list \<Rightarrow> bool" where
  "alternating = successively (\<lambda>t u. tu_role t \<noteq> tu_role u)"

text \<open>A run of messages of one role as one turn.\<close>

definition turn_of :: "string \<Rightarrow> adapter_message list \<Rightarrow> wire_turn" where
  "turn_of assistant ms = \<lparr>tu_role = turn_role assistant (hd ms), tu_content = js_join (nl @ nl) (map turn_content ms)\<rparr>"

definition same_role_run :: "string \<Rightarrow> adapter_message list \<Rightarrow> bool" where
  "same_role_run assistant ms = (ms \<noteq> [] \<and> (\<forall>m\<in>set ms. turn_role assistant m = turn_role assistant (hd ms)))"

lemma js_join_snoc: "xs \<noteq> [] \<Longrightarrow> js_join sep (xs @ [x]) = js_join sep xs @ sep @ x"
  by (induction sep xs rule: js_join.induct) auto

lemma alternating_snoc:
  "alternating ts \<Longrightarrow> (ts \<noteq> [] \<Longrightarrow> tu_role (last ts) \<noteq> tu_role t) \<Longrightarrow> alternating (ts @ [t])"
  by (auto simp: alternating_def successively_append_iff)

lemma alternating_role_update:
  "alternating (ts @ [t]) \<Longrightarrow> tu_role t' = tu_role t \<Longrightarrow> alternating (ts @ [t'])"
  by (simp add: alternating_def successively_append_iff)

lemma alternating_Cons:
  "alternating ts \<Longrightarrow> (ts \<noteq> [] \<Longrightarrow> tu_role t \<noteq> tu_role (hd ts)) \<Longrightarrow> alternating (t # ts)"
  by (auto simp: alternating_def successively_Cons)

lemma same_role_run_single [simp]: "same_role_run assistant [m]"
  by (simp add: same_role_run_def)

lemma turns_are_runs:
  "\<exists>gs. concat gs = ms \<and> (\<forall>g\<in>set gs. same_role_run assistant g)
     \<and> foldl (add_turn assistant) [] ms = map (turn_of assistant) gs
     \<and> alternating (map (turn_of assistant) gs)"
proof (induction ms rule: rev_induct)
  case Nil
  show ?case by (intro exI [of _ "[]"]) (simp add: alternating_def)
next
  case (snoc m ms)
  then obtain gs where gs: "concat gs = ms" "\<forall>g\<in>set gs. same_role_run assistant g"
    "foldl (add_turn assistant) [] ms = map (turn_of assistant) gs" "alternating (map (turn_of assistant) gs)"
    by blast
  show ?case
  proof (cases "gs \<noteq> [] \<and> turn_role assistant (hd (last gs)) = turn_role assistant m")
    case True
    then obtain hs g where g: "gs = hs @ [g]" by (cases gs rule: rev_cases) auto
    then have run: "same_role_run assistant g" using gs(2) by simp
    have r: "turn_role assistant (hd g) = turn_role assistant m" using True g by simp
    have g': "same_role_run assistant (g @ [m])" "turn_of assistant (g @ [m])
        = (turn_of assistant g)\<lparr>tu_content := tu_content (turn_of assistant g) @ nl @ nl @ turn_content m\<rparr>"
      using run r by (simp_all add: same_role_run_def turn_of_def js_join_snoc)
    have "foldl (add_turn assistant) [] (ms @ [m]) = map (turn_of assistant) (hs @ [g @ [m]])"
      using gs(3) g g'(2) r by (simp add: add_turn_def turn_of_def)
    moreover have "alternating (map (turn_of assistant) (hs @ [g @ [m]]))"
      using gs(4) alternating_role_update [of "map (turn_of assistant) hs" "turn_of assistant g"] g'(2)
      by (simp add: g)
    moreover have "concat (hs @ [g @ [m]]) = ms @ [m]" using gs(1) g by simp
    moreover have "\<forall>h\<in>set (hs @ [g @ [m]]). same_role_run assistant h" using gs(2) g g'(1) by simp
    ultimately show ?thesis by blast
  next
    case False
    have t: "turn_of assistant [m] = \<lparr>tu_role = turn_role assistant m, tu_content = turn_content m\<rparr>"
      by (simp add: turn_of_def)
    have "alternating (map (turn_of assistant) gs @ [turn_of assistant [m]])"
      by (rule alternating_snoc [OF gs(4)]) (use False in \<open>simp add: t last_map, simp add: turn_of_def\<close>)
    moreover have "foldl (add_turn assistant) [] (ms @ [m]) = map (turn_of assistant) (gs @ [[m]])"
      using gs(3) False by (cases "gs = []") (simp_all add: add_turn_def t last_map, simp_all add: turn_of_def)
    moreover have "concat (gs @ [[m]]) = ms @ [m]" unfolding concat_append gs(1) by simp
    moreover have "\<forall>h\<in>set (gs @ [[m]]). same_role_run assistant h"
      using gs(2) same_role_run_single by simp
    ultimately show ?thesis by (intro exI [of _ "gs @ [[m]]"]) simp
  qed
qed

lemma translate_messages_runs:
  assumes "assistant \<noteq> ''user''"
  shows "\<exists>gs. concat gs = conversation request \<and> (\<forall>g\<in>set gs. same_role_run assistant g)
     \<and> (translate_messages assistant request = map (turn_of assistant) gs
        \<or> translate_messages assistant request = blank_turn # map (turn_of assistant) gs)
     \<and> alternating (translate_messages assistant request)
     \<and> translate_messages assistant request \<noteq> [] \<and> tu_role (hd (translate_messages assistant request)) = ''user''"
proof -
  from turns_are_runs [of "conversation request" assistant] obtain gs where gs:
    "concat gs = conversation request" "\<forall>g\<in>set gs. same_role_run assistant g"
    "foldl (add_turn assistant) [] (conversation request) = map (turn_of assistant) gs"
    "alternating (map (turn_of assistant) gs)" by blast
  show ?thesis
  proof (cases gs)
    case Nil
    with gs show ?thesis
      by (intro exI [of _ "[]"]) (simp add: translate_messages_def blank_turn_def alternating_def)
  next
    case (Cons g hs)
    then have c: "conversation request \<noteq> []" using gs(1,2) by (auto simp: same_role_run_def)
    have h: "tu_role (turn_of assistant g) = assistant \<or> tu_role (turn_of assistant g) = ''user''"
      by (simp add: turn_of_def turn_role_def)
    show ?thesis
    proof (cases "tu_role (turn_of assistant g) = assistant")
      case True
      then have t: "translate_messages assistant request = blank_turn # map (turn_of assistant) gs"
        using c gs(3) Cons by (simp add: translate_messages_def)
      moreover have "alternating (blank_turn # map (turn_of assistant) gs)"
        by (rule alternating_Cons [OF gs(4)]) (use True Cons assms in \<open>auto simp: blank_turn_def\<close>)
      ultimately show ?thesis using gs(1,2) by (intro exI [of _ gs]) (simp add: blank_turn_def)
    next
      case False
      then have "translate_messages assistant request = map (turn_of assistant) gs"
        using c gs(3) Cons by (simp add: translate_messages_def)
      with gs h False Cons show ?thesis by (intro exI [of _ gs]) simp
    qed
  qed
qed

end
