(* ===== verification/OpenAi.thy ===== *)
theory OpenAi
  imports Transport
begin

text \<open>
  \<open>model-adapters/openai/openai.adapter.ts\<close>: the adapter of OpenAI's chat completions,
  also used for compatible servers and LM Studio. The wire types are those of
  \<open>openai.types.ts\<close>, without the members the adapter never reads; an optional or nullable
  member is an option.
\<close>

section \<open>Wire types\<close>

record openai_usage =
  ou_prompt_tokens :: "int option"
  ou_completion_tokens :: "int option"
  ou_total_tokens :: "int option"
  ou_prompt_reasoning_tokens :: "int option"
  ou_completion_reasoning_tokens :: "int option"

record openai_message =
  om_content :: "string option"
  om_reasoning_content :: "string option"

record openai_choice =
  ok_message :: "openai_message option"
  ok_finish_reason :: "string option"

record openai_response =
  or_model :: "string option"
  or_choices :: "openai_choice list"
  or_usage :: "openai_usage option"

record openai_error =
  oe_message :: "string option"
  oe_type :: "string option"
  oe_code :: "(string + int) option"

record openai_error_body =
  ob_error :: "openai_error option"
  ob_message :: "string option"

record openai_chunk =
  oc_model :: "string option"
  oc_choices :: "openai_choice list"
  oc_usage :: "openai_usage option"
  oc_error :: "openai_error option"

record openai_model_item =
  oi_id :: "string option"
  oi_name :: "string option"
  oi_display_name :: "string option"
  oi_context_window :: "int option"
  oi_context_length :: "int option"
  oi_max_context_length :: "int option"
  oi_default_temperature :: "rat option"
  oi_default_max_tokens :: "int option"
  oi_max_tokens :: "int option"

text \<open>\<open>JSON.parse\<close> with the casts of the adapter; the list of models is what \<open>rawList\<close> becomes.\<close>

record openai_wire =
  ow_chunk :: "string \<Rightarrow> exn + openai_chunk"
  ow_response :: "string \<Rightarrow> exn + openai_response"
  ow_error :: "string \<Rightarrow> exn + openai_error_body"
  ow_models :: "string \<Rightarrow> exn + openai_model_item list"

section \<open>The adapter\<close>

definition OPENAI_DEFAULT_BASE_URL :: string where
  "OPENAI_DEFAULT_BASE_URL = ''https://api.openai.com''"

definition OPENAI_DEFAULT_MODEL :: string where
  "OPENAI_DEFAULT_MODEL = ''gpt-4o''"

definition OPENAI_DEFAULT_TIMEOUT_MS :: nat where
  "OPENAI_DEFAULT_TIMEOUT_MS = 30000"

record openai_adapter =
  oa_providerKind :: string
  oa_baseUrl :: string
  oa_apiKey :: "string option"
  oa_defaultModel :: string
  oa_timeoutMs :: nat

definition openai_new :: "adapter_config \<Rightarrow> nat option \<Rightarrow> exn + openai_adapter" where
  "openai_new config timeoutMs =
     (let kind = ac_providerKind config in
      if kind \<noteq> ''openai'' \<and> trim_or_null (ac_baseUrl config) = None
      then Inl (invalid_request_error (''Base URL is required for provider kind '' @ quoted kind @ ''.'')
             (Some kind) None None)
      else Inr \<lparr>oa_providerKind = kind,
        oa_baseUrl = strip_slashes (trim_or (ac_baseUrl config) OPENAI_DEFAULT_BASE_URL),
        oa_apiKey = trim_or_null (ac_apiKey config),
        oa_defaultModel = trim_or (ac_modelIdentifier config)
          (if kind = ''openai'' then OPENAI_DEFAULT_MODEL else ''default''),
        oa_timeoutMs = from_option OPENAI_DEFAULT_TIMEOUT_MS timeoutMs\<rparr>)"

definition openai_sanitize :: "openai_adapter \<Rightarrow> string \<Rightarrow> string" where
  "openai_sanitize a message = sanitize_key (oa_apiKey a) message"

definition openai_finish_reason :: "string option \<Rightarrow> finish_reason" where
  "openai_finish_reason reason =
     (if reason = Some ''stop'' then FinishStop
      else if reason = Some ''length'' then FinishLength
      else if reason = Some ''tool_calls'' \<or> reason = Some ''function_call'' then FinishToolCalls
      else if reason = Some ''content_filter'' then FinishContentFilter
      else FinishOther)"

definition openai_wire_message :: "adapter_message \<Rightarrow> json" where
  "openai_wire_message m = JObj ([(''role'', JStr (am_role m)), (''content'', JStr (am_content m))]
     @ (if truthy (am_name m) then [(''name'', JStr (from_option [] (am_name m)))] else [])
     @ (if am_role m = ''tool'' \<and> truthy (am_toolCallId m)
        then [(''tool_call_id'', JStr (from_option [] (am_toolCallId m)))] else []))"

definition openai_wire_messages :: "completion_request \<Rightarrow> json list" where
  "openai_wire_messages request =
     (case trim_or_null (cq_systemPrompt request) of
        None \<Rightarrow> []
      | Some p \<Rightarrow> [JObj [(''role'', JStr ''system''), (''content'', JStr p)]])
     @ map openai_wire_message (cq_messages request)"

definition openai_model :: "openai_adapter \<Rightarrow> completion_request \<Rightarrow> string" where
  "openai_model a request = trim_or (cq_model request) (oa_defaultModel a)"

definition openai_chat_payload :: "openai_adapter \<Rightarrow> completion_request \<Rightarrow> bool \<Rightarrow> (string \<times> json) list" where
  "openai_chat_payload a request stream =
     (let payload = set_all (spread_entries (cq_modelParams request))
            ([(''model'', JStr (openai_model a request)), (''messages'', JArr (openai_wire_messages request)),
              (''stream'', JBool stream)]
             @ (case cq_temperature request of None \<Rightarrow> [] | Some t \<Rightarrow> [(''temperature'', JNum t)])
             @ (case cq_maxTokens request of None \<Rightarrow> [] | Some n \<Rightarrow> [(''max_tokens'', JNum (of_int n))]))
      in if stream \<and> oa_providerKind a = ''openai''
            \<and> (case map_of payload ''stream_options'' of None \<Rightarrow> True | Some v \<Rightarrow> json_falsy v)
         then AList.update ''stream_options'' (JObj [(''include_usage'', JBool True)]) payload
         else payload)"

definition openai_endpoint_url :: "openai_adapter \<Rightarrow> string \<Rightarrow> string" where
  "openai_endpoint_url a path =
     (let cleanPath = (if prefix ''/'' path then path else ''/'' @ path) in
      if ends_with (oa_baseUrl a) ''/v1'' then oa_baseUrl a @ cleanPath
      else oa_baseUrl a @ ''/v1'' @ cleanPath)"

definition openai_headers :: "openai_adapter \<Rightarrow> (string \<times> string) list \<Rightarrow> (string \<times> string) list" where
  "openai_headers a custom =
     (let headers = set_all custom [(''Content-Type'', ''application/json'')] in
      case oa_apiKey a of
        None \<Rightarrow> headers
      | Some k \<Rightarrow> AList.update ''Authorization'' (''Bearer '' @ k) headers)"

definition openai_chat_request :: "openai_adapter \<Rightarrow> completion_request \<Rightarrow> bool \<Rightarrow> http_request" where
  "openai_chat_request a request stream =
     \<lparr>hq_url = openai_endpoint_url a ''/chat/completions'', hq_method = ''POST'',
      hq_headers = openai_headers a [], hq_body = Some (JObj (openai_chat_payload a request stream))\<rparr>"

section \<open>Failures\<close>

definition openai_map_error :: "openai_adapter \<Rightarrow> string \<Rightarrow> string \<Rightarrow> string \<Rightarrow> nat \<Rightarrow> exn" where
  "openai_map_error a upstreamType upstreamCode upstreamMessage status =
     (let safeMessage = openai_sanitize a upstreamMessage; kind = Some (oa_providerKind a);
          lower = js_lower safeMessage in
      if status = 401 \<or> status = 403 \<or> upstreamCode = ''invalid_api_key'' \<or> upstreamType = ''invalid_auth''
      then authentication_error (''OpenAI authentication failed: '' @ safeMessage) kind None None
      else if status = 404 \<or> upstreamCode = ''model_not_found'' \<or> js_includes safeMessage ''does not exist''
      then model_not_found_error (oa_defaultModel a) kind None None
      else if status = 429 \<or> upstreamCode = ''insufficient_quota'' \<or> upstreamCode = ''rate_limit_exceeded''
           \<or> upstreamType = ''insufficient_quota''
      then rate_limit_error (''OpenAI rate limit exceeded: '' @ safeMessage) kind None None None
      else if status = 400 \<or> upstreamType = ''invalid_request_error''
      then (if upstreamCode = ''context_length_exceeded'' \<or> js_includes lower ''maximum context length''
               \<or> js_includes lower ''context length'' \<or> js_includes lower ''too long''
            then context_length_exceeded_error safeMessage kind None None
            else invalid_request_error (''OpenAI rejected request: '' @ safeMessage) kind None None)
      else if status = 405 \<or> status = 501
      then unsupported_capability_error (''OpenAI endpoint not supported (HTTP '' @ show_nat status @ ''): ''
             @ safeMessage) kind
      else if status = 500 \<or> status = 502 \<or> status = 503 \<or> status = 504
      then provider_unavailable_error (''OpenAI service unavailable (HTTP '' @ show_nat status @ ''): ''
             @ safeMessage) kind None None
      else provider_unavailable_error (''OpenAI error (HTTP '' @ show_nat status @ ''): '' @ safeMessage)
             kind None None)"

definition openai_code_text :: "string + int \<Rightarrow> string" where
  "openai_code_text c = (case c of Inl s \<Rightarrow> s | Inr n \<Rightarrow> show_int n)"

definition openai_error_response :: "openai_wire \<Rightarrow> openai_adapter \<Rightarrow> http_response \<Rightarrow> exn" where
  "openai_error_response w a res =
     (let fallback = ''HTTP '' @ show_nat (hr_status res);
          body = (case hr_text res of Inl _ \<Rightarrow> None
            | Inr t \<Rightarrow> (case ow_error w t of Inl _ \<Rightarrow> None | Inr b \<Rightarrow> Some b));
          err = Option.bind body ob_error;
          message = (if truthy (Option.bind err oe_message) then from_option [] (Option.bind err oe_message)
                     else from_option fallback (Option.bind body ob_message))
      in openai_map_error a (from_option [] (Option.bind err oe_type))
           (from_option [] (map_option openai_code_text (Option.bind err oe_code)))
           message (hr_status res))"

definition openai_aborted :: "openai_adapter \<Rightarrow> string \<Rightarrow> exn" where
  "openai_aborted a message = request_aborted_error message (Some (oa_providerKind a)) None None"

definition openai_execute_fetch :: "openai_wire \<Rightarrow> openai_adapter \<Rightarrow> exchange \<Rightarrow> exn + http_response" where
  "openai_execute_fetch w a x =
     (if fx_abortedBefore x then Inl (openai_aborted a ''Request to OpenAI was aborted'')
      else case fx_result x of
        Inr res \<Rightarrow> if response_ok res then Inr res else Inl (openai_error_response w a res)
      | Inl err \<Rightarrow>
          Inl (if is_adapter_error err then err
               else if fx_timedOut x
               then provider_unavailable_error (''Request to OpenAI timed out after ''
                      @ show_nat (oa_timeoutMs a) @ ''ms'') (Some (oa_providerKind a)) None None
               else if fx_abortedAfter x then openai_aborted a ''Request to OpenAI was aborted''
               else provider_unavailable_error (''Failed to reach OpenAI: ''
                      @ openai_sanitize a (raw_message err)) (Some (oa_providerKind a)) None None))"

section \<open>Completions\<close>

definition openai_token_usage :: "openai_usage option \<Rightarrow> token_usage" where
  "openai_token_usage u =
     (let inTok = from_option 0 (Option.bind u ou_prompt_tokens);
          outTok = from_option 0 (Option.bind u ou_completion_tokens)
      in \<lparr>inputTokens = inTok, outputTokens = outTok,
          totalTokens = from_option (inTok + outTok) (Option.bind u ou_total_tokens),
          reasoningTokens = coalesce (Option.bind u ou_completion_reasoning_tokens)
                              (Option.bind u ou_prompt_reasoning_tokens)\<rparr>)"

definition openai_complete ::
  "openai_wire \<Rightarrow> openai_adapter \<Rightarrow> completion_request \<Rightarrow> exchange \<Rightarrow> exn + completion_response" where
  "openai_complete w a request x =
     (case openai_execute_fetch w a x of
        Inl e \<Rightarrow> Inl e
      | Inr res \<Rightarrow> (case hr_text res of
          Inl e \<Rightarrow> Inl e
        | Inr t \<Rightarrow> (case ow_response w t of
            Inl e \<Rightarrow> Inl e
          | Inr data \<Rightarrow>
              let choice = (case or_choices data of [] \<Rightarrow> None | c # _ \<Rightarrow> Some c);
                  message = Option.bind choice ok_message
              in Inr \<lparr>cs_content = from_option [] (Option.bind message om_content),
                      cs_reasoningContent = Option.bind message om_reasoning_content,
                      cs_finishReason = openai_finish_reason (Option.bind choice ok_finish_reason),
                      cs_usage = Some (openai_token_usage (or_usage data)),
                      cs_model = (if truthy (or_model data) then from_option [] (or_model data)
                                  else case map_of (openai_chat_payload a request False) ''model'' of
                                         Some (JStr m) \<Rightarrow> m | _ \<Rightarrow> openai_model a request)\<rparr>)))"

section \<open>Streams\<close>

record openai_stream_state =
  os_model :: string
  os_finishReason :: finish_reason
  os_currentUsage :: "token_usage option"
  os_completed :: bool
  os_dataLines :: "string list"

definition openai_choice_events :: "openai_choice \<Rightarrow> stream_event list" where
  "openai_choice_events c =
     (case Option.bind (ok_message c) om_content of None \<Rightarrow> [] | Some t \<Rightarrow> if t = [] then [] else [TextDelta t])
     @ (case Option.bind (ok_message c) om_reasoning_content of None \<Rightarrow> []
        | Some t \<Rightarrow> if t = [] then [] else [ThoughtDelta t])"

definition openai_last_reason :: "openai_choice list \<Rightarrow> finish_reason \<Rightarrow> finish_reason" where
  "openai_last_reason cs r = foldl (\<lambda>acc c. if truthy (ok_finish_reason c)
     then openai_finish_reason (ok_finish_reason c) else acc) r cs"

text \<open>The delta of a streamed choice is read through the same members as a message.\<close>

definition openai_parse_sse_data ::
  "openai_wire \<Rightarrow> openai_adapter \<Rightarrow> string \<Rightarrow> openai_stream_state \<Rightarrow> stream_event list \<times> openai_stream_state" where
  "openai_parse_sse_data w a dataStr s =
     (let trimmed = js_trim dataStr in
      if trimmed = [] then ([], s)
      else if trimmed = ''[DONE]''
      then ([CompleteReport (os_finishReason s) (os_currentUsage s) (Some (os_model s))], s\<lparr>os_completed := True\<rparr>)
      else case ow_chunk w trimmed of
        Inl _ \<Rightarrow> ([], s)
      | Inr chunk \<Rightarrow>
         (case oc_error chunk of
            Some e \<Rightarrow>
              ([ErrorReport (openai_map_error a
                  (if truthy (oe_type e) then from_option [] (oe_type e) else ''error'')
                  (case oe_code e of Some c \<Rightarrow> if c = Inl [] \<or> c = Inr 0 then [] else openai_code_text c
                     | None \<Rightarrow> [])
                  (if truthy (oe_message e) then from_option [] (oe_message e) else ''Streaming error'') 500)], s)
          | None \<Rightarrow>
              let usage = map_option (\<lambda>u. openai_token_usage (Some u)) (oc_usage chunk) in
              ((case usage of None \<Rightarrow> [] | Some u \<Rightarrow> [UsageReport u])
                 @ concat (map openai_choice_events (oc_choices chunk)),
               s\<lparr>os_model := (if truthy (oc_model chunk) then from_option [] (oc_model chunk) else os_model s),
                 os_currentUsage := coalesce usage (os_currentUsage s),
                 os_finishReason := openai_last_reason (oc_choices chunk) (os_finishReason s)\<rparr>)))"

definition openai_line ::
  "openai_wire \<Rightarrow> openai_adapter \<Rightarrow> openai_stream_state \<Rightarrow> string \<Rightarrow> stream_event list \<times> openai_stream_state option" where
  "openai_line w a s line =
     (if js_trim line = []
      then (if os_dataLines s \<noteq> []
            then (case openai_parse_sse_data w a (js_trim (js_join nl (os_dataLines s))) (s\<lparr>os_dataLines := []\<rparr>) of
                    (events, t) \<Rightarrow> yield_until_final events t)
            else ([], Some s))
      else if prefix '':'' line then ([], Some s)
      else if prefix ''data:'' line
      then ([], Some (s\<lparr>os_dataLines := os_dataLines s @ [js_trim_start (drop 5 line)]\<rparr>))
      else ([], Some s))"

text \<open>The line left in the buffer joins the pending event.\<close>

definition trailing_data :: "string \<Rightarrow> string list \<Rightarrow> string list" where
  "trailing_data buffer ls =
     (let trailing = js_trim buffer in
      if prefix ''data:'' trailing then ls @ [js_trim_start (drop 5 trailing)]
      else if trailing \<noteq> [] \<and> \<not> prefix '':'' trailing then ls @ [trailing]
      else ls)"

definition openai_close :: "openai_wire \<Rightarrow> openai_adapter \<Rightarrow> openai_stream_state \<Rightarrow> string \<Rightarrow> stream_event list" where
  "openai_close w a s buffer =
     (let dataStr = js_trim (js_join nl (trailing_data buffer (os_dataLines s)));
          closing = (\<lambda>t. if os_completed t then []
             else [CompleteReport (os_finishReason t) (os_currentUsage t) (Some (os_model t))])
      in if dataStr \<noteq> []
         then (case openai_parse_sse_data w a dataStr s of
                 (events, t) \<Rightarrow> (case yield_until_final events t of
                   (es, None) \<Rightarrow> es | (es, Some u) \<Rightarrow> es @ closing u))
         else closing s)"

definition openai_stream_failed :: "openai_adapter \<Rightarrow> bool \<Rightarrow> exn \<Rightarrow> exn" where
  "openai_stream_failed a abortedNow err =
     (if is_adapter_error err then err
      else if abortedNow \<or> is_abort_named err then openai_aborted a ''OpenAI streaming request was aborted''
      else provider_unavailable_error (''OpenAI streaming failed: '' @ openai_sanitize a (raw_message err))
             (Some (oa_providerKind a)) None None)"

definition openai_reader :: "openai_wire \<Rightarrow> openai_adapter \<Rightarrow> openai_stream_state reader" where
  "openai_reader w a = \<lparr>rd_line = openai_line w a, rd_close = openai_close w a,
     rd_aborted = openai_aborted a ''OpenAI streaming request was aborted'',
     rd_failed = openai_stream_failed a\<rparr>"

definition openai_stream_start :: "openai_adapter \<Rightarrow> completion_request \<Rightarrow> openai_stream_state" where
  "openai_stream_start a request = \<lparr>os_model = openai_model a request, os_finishReason = FinishStop,
     os_currentUsage = None, os_completed = False, os_dataLines = []\<rparr>"

definition openai_stream ::
  "openai_wire \<Rightarrow> openai_adapter \<Rightarrow> completion_request \<Rightarrow> exchange \<Rightarrow> effect \<Rightarrow> stream_run" where
  "openai_stream w a request x f =
     (case openai_execute_fetch w a x of
        Inl e \<Rightarrow> Throws f e
      | Inr res \<Rightarrow> (case hr_body res of
          None \<Rightarrow> Throws f (provider_unavailable_error ''OpenAI streaming response body is empty''
                    (Some (oa_providerKind a)) None None)
        | Some b \<Rightarrow> read_body (openai_reader w a) (openai_stream_start a request) [] f b))"

section \<open>Discovery\<close>

definition openai_discovered :: "openai_model_item \<Rightarrow> discovered_model option" where
  "openai_discovered item =
     (if \<not> truthy (oi_id item) then None
      else let i = from_option [] (oi_id item) in
        Some \<lparr>dm_modelIdentifier = i,
          dm_displayName = from_option i (coalesce (trim_or_null (oi_name item)) (trim_or_null (oi_display_name item))),
          dm_contextWindow = coalesce (oi_context_window item)
            (coalesce (oi_context_length item) (oi_max_context_length item)),
          dm_defaultTemperature = oi_default_temperature item,
          dm_defaultMaxTokens = coalesce (oi_default_max_tokens item) (oi_max_tokens item)\<rparr>)"

definition no_discovery :: "exn \<Rightarrow> bool" where
  "no_discovery e = (case e of
     Err (Adapter i) name _ _ _ \<Rightarrow> name = ''ModelNotFoundError'' \<or> name = ''UnsupportedCapabilityError''
       \<or> ai_statusCode i = 404 \<or> ai_statusCode i = 405 \<or> ai_statusCode i = 501
   | _ \<Rightarrow> False)"

definition openai_discover_models :: "openai_wire \<Rightarrow> openai_adapter \<Rightarrow> exchange \<Rightarrow> exn + discovered_model list" where
  "openai_discover_models w a x =
     (case openai_execute_fetch w a x of
        Inl e \<Rightarrow> Inl (if no_discovery e then unsupported_capability_error ''model discovery'' (Some (oa_providerKind a))
                     else e)
      | Inr res \<Rightarrow> Inr (case hr_text res of
          Inl _ \<Rightarrow> []
        | Inr t \<Rightarrow> (case ow_models w t of
            Inl _ \<Rightarrow> []
          | Inr items \<Rightarrow> List.map_filter openai_discovered items)))"

section \<open>As an adapter of the registry\<close>

definition openai_creator ::
  "openai_wire \<Rightarrow> (nat \<Rightarrow> http_request \<Rightarrow> exchange \<times> effect) \<Rightarrow> adapter_creator" where
  "openai_creator w http config =
     (case openai_new config None of
        Inl e \<Rightarrow> Inl e
      | Inr a \<Rightarrow> Inr \<lparr>ad_supportsStreaming = True,
          ad_complete = (\<lambda>n request. case http n (openai_chat_request a request False) of
             (x, f) \<Rightarrow> (openai_complete w a request x, f)),
          ad_stream = (\<lambda>n request. case http n (openai_chat_request a request True) of
             (x, f) \<Rightarrow> openai_stream w a request x f)\<rparr>)"

end
