(* ===== verification/Anthropic.thy ===== *)
theory Anthropic
  imports Turns OpenAi
begin

text \<open>
  \<open>model-adapters/anthropic/anthropic.adapter.ts\<close>: the adapter of Anthropic's Messages
  API. The data of an event is read as the members the adapter looks at, whatever its type.
\<close>

section \<open>Wire types\<close>

datatype anthropic_block = TextBlock string | ThinkingBlock string | OtherBlock string

record anthropic_usage =
  au_input_tokens :: "int option"
  au_output_tokens :: "int option"

record anthropic_response =
  ar_model :: string
  ar_content :: "anthropic_block list"
  ar_stop_reason :: "string option"
  ar_usage :: anthropic_usage

record anthropic_error =
  ae_type :: "string option"
  ae_message :: "string option"

record anthropic_delta =
  ad_type :: "string option"
  ad_text :: "string option"
  ad_thinking :: "string option"
  ad_stop_reason :: "string option"

record anthropic_event =
  av_type :: "string option"
  av_message_model :: "string option"
  av_message_usage :: "anthropic_usage option"
  av_delta :: "anthropic_delta option"
  av_usage :: "anthropic_usage option"
  av_error :: "anthropic_error option"

record anthropic_model_item =
  ai_id :: "string option"
  ai_display_name :: "string option"
  ai_context_window :: "int option"
  ai_default_temperature :: "rat option"
  ai_max_tokens :: "int option"
  ai_default_max_tokens :: "int option"

record anthropic_models =
  am_data :: "anthropic_model_item list"
  am_has_more :: bool
  am_last_id :: "string option"

record anthropic_wire =
  aw_event :: "string \<Rightarrow> exn + anthropic_event"
  aw_response :: "string \<Rightarrow> exn + anthropic_response"
  aw_error :: "string \<Rightarrow> exn + anthropic_error option"
  aw_models :: "string \<Rightarrow> exn + anthropic_models"
  aw_url :: "string \<Rightarrow> (string \<times> string) list \<Rightarrow> exn + string"

section \<open>The adapter\<close>

definition ANTHROPIC_DEFAULT_BASE_URL :: string where
  "ANTHROPIC_DEFAULT_BASE_URL = ''https://api.anthropic.com''"

definition ANTHROPIC_API_VERSION :: string where
  "ANTHROPIC_API_VERSION = ''2023-06-01''"

definition ANTHROPIC_DEFAULT_MAX_TOKENS :: int where
  "ANTHROPIC_DEFAULT_MAX_TOKENS = 4096"

definition ANTHROPIC_DEFAULT_MODEL :: string where
  "ANTHROPIC_DEFAULT_MODEL = ''claude-3-5-sonnet-20241022''"

definition ANTHROPIC_DEFAULT_TIMEOUT_MS :: nat where
  "ANTHROPIC_DEFAULT_TIMEOUT_MS = 30000"

record anthropic_adapter =
  aa_baseUrl :: string
  aa_apiKey :: "string option"
  aa_defaultModel :: string
  aa_timeoutMs :: nat

definition anthropic_new :: "adapter_config \<Rightarrow> nat option \<Rightarrow> anthropic_adapter" where
  "anthropic_new config timeoutMs =
     \<lparr>aa_baseUrl = strip_slashes (trim_or (ac_baseUrl config) ANTHROPIC_DEFAULT_BASE_URL),
      aa_apiKey = ac_apiKey config,
      aa_defaultModel = (if truthy (ac_modelIdentifier config) then from_option [] (ac_modelIdentifier config)
                         else ANTHROPIC_DEFAULT_MODEL),
      aa_timeoutMs = from_option ANTHROPIC_DEFAULT_TIMEOUT_MS timeoutMs\<rparr>"

definition anthropic_sanitize :: "anthropic_adapter \<Rightarrow> string \<Rightarrow> string" where
  "anthropic_sanitize a message = sanitize_key (aa_apiKey a) message"

definition anthropic_finish_reason :: "string option \<Rightarrow> finish_reason" where
  "anthropic_finish_reason reason =
     (if reason = Some ''end_turn'' \<or> reason = Some ''stop_sequence'' then FinishStop
      else if reason = Some ''max_tokens'' then FinishLength
      else if reason = Some ''tool_use'' then FinishToolCalls
      else FinishOther)"

definition anthropic_model :: "anthropic_adapter \<Rightarrow> completion_request \<Rightarrow> string" where
  "anthropic_model a request = trim_or (cq_model request) (aa_defaultModel a)"

definition anthropic_wire_turn :: "wire_turn \<Rightarrow> json" where
  "anthropic_wire_turn t = JObj [(''role'', JStr (tu_role t)), (''content'', JStr (tu_content t))]"

definition anthropic_payload :: "anthropic_adapter \<Rightarrow> completion_request \<Rightarrow> bool \<Rightarrow> (string \<times> json) list" where
  "anthropic_payload a request stream =
     (let payload = set_all (spread_entries (cq_modelParams request))
            ([(''model'', JStr (anthropic_model a request)),
              (''messages'', JArr (map anthropic_wire_turn (translate_messages ''assistant'' request))),
              (''max_tokens'', JNum (of_int (from_option ANTHROPIC_DEFAULT_MAX_TOKENS (cq_maxTokens request)))),
              (''stream'', JBool stream)]
             @ (case cq_temperature request of None \<Rightarrow> [] | Some t \<Rightarrow> [(''temperature'', JNum t)]));
          parts = hoisted_system request
      in if parts = [] then payload else AList.update ''system'' (JStr (js_join (nl @ nl) parts)) payload)"

definition anthropic_endpoint_url :: "anthropic_adapter \<Rightarrow> string \<Rightarrow> string" where
  "anthropic_endpoint_url a path =
     (let cleanPath = (if prefix ''/'' path then path else ''/'' @ path) in
      if ends_with (aa_baseUrl a) ''/v1'' then aa_baseUrl a @ cleanPath
      else aa_baseUrl a @ ''/v1'' @ cleanPath)"

definition anthropic_headers :: "anthropic_adapter \<Rightarrow> (string \<times> string) list \<Rightarrow> (string \<times> string) list" where
  "anthropic_headers a custom =
     (let headers = set_all custom [(''Content-Type'', ''application/json''), (''anthropic-version'', ANTHROPIC_API_VERSION)]
      in if truthy (aa_apiKey a) then AList.update ''x-api-key'' (from_option [] (aa_apiKey a)) headers else headers)"

definition anthropic_request :: "anthropic_adapter \<Rightarrow> completion_request \<Rightarrow> bool \<Rightarrow> http_request" where
  "anthropic_request a request stream =
     \<lparr>hq_url = anthropic_endpoint_url a ''/messages'', hq_method = ''POST'',
      hq_headers = anthropic_headers a [], hq_body = Some (JObj (anthropic_payload a request stream))\<rparr>"

section \<open>Failures\<close>

definition anthropic_map_error :: "anthropic_adapter \<Rightarrow> string \<Rightarrow> string \<Rightarrow> nat \<Rightarrow> exn" where
  "anthropic_map_error a upstreamType upstreamMessage status =
     (let safeMessage = anthropic_sanitize a upstreamMessage; kind = Some ''anthropic'';
          lower = js_lower safeMessage in
      if status = 401 \<or> status = 403 \<or> upstreamType = ''authentication_error''
      then authentication_error (''Anthropic authentication failed: '' @ safeMessage) kind None None
      else if status = 404 \<or> upstreamType = ''not_found_error''
      then model_not_found_error (aa_defaultModel a) kind None None
      else if status = 429 \<or> upstreamType = ''rate_limit_error''
      then rate_limit_error (''Anthropic rate limit exceeded: '' @ safeMessage) kind None None None
      else if status = 400 \<or> upstreamType = ''invalid_request_error''
      then (if js_includes lower ''prompt is too long'' \<or> js_includes lower ''context''
               \<or> js_includes lower ''maximum context length''
            then context_length_exceeded_error safeMessage kind None None
            else invalid_request_error (''Anthropic rejected request: '' @ safeMessage) kind None None)
      else if status = 529 \<or> upstreamType = ''overloaded_error''
      then provider_unavailable_error (''Anthropic is currently overloaded (529): '' @ safeMessage) kind None None
      else if status = 500 \<or> status = 502 \<or> status = 503 \<or> status = 504
      then provider_unavailable_error (''Anthropic service unavailable (HTTP '' @ show_nat status @ ''): ''
             @ safeMessage) kind None None
      else provider_unavailable_error (''Anthropic error (HTTP '' @ show_nat status @ ''): '' @ safeMessage)
             kind None None)"

definition anthropic_error_response :: "anthropic_wire \<Rightarrow> anthropic_adapter \<Rightarrow> http_response \<Rightarrow> exn" where
  "anthropic_error_response w a res =
     (let err = (case hr_text res of Inl _ \<Rightarrow> None
            | Inr t \<Rightarrow> (case aw_error w t of Inl _ \<Rightarrow> None | Inr e \<Rightarrow> e));
          message = (if truthy (Option.bind err ae_message) then from_option [] (Option.bind err ae_message)
                     else ''HTTP '' @ show_nat (hr_status res))
      in anthropic_map_error a (from_option [] (Option.bind err ae_type)) message (hr_status res))"

definition anthropic_aborted :: "string \<Rightarrow> exn" where
  "anthropic_aborted message = request_aborted_error message (Some ''anthropic'') None None"

definition anthropic_execute_fetch :: "anthropic_wire \<Rightarrow> anthropic_adapter \<Rightarrow> exchange \<Rightarrow> exn + http_response" where
  "anthropic_execute_fetch w a x =
     (if fx_abortedBefore x then Inl (anthropic_aborted ''Request to Anthropic was aborted'')
      else case fx_result x of
        Inr res \<Rightarrow> if response_ok res then Inr res else Inl (anthropic_error_response w a res)
      | Inl err \<Rightarrow>
          Inl (if is_adapter_error err then err
               else if fx_timedOut x
               then request_timeout_error (''Request to Anthropic timed out after ''
                      @ show_nat (aa_timeoutMs a) @ ''ms'') (Some ''anthropic'') None None
               else if fx_abortedAfter x \<or> is_abort_named err
               then anthropic_aborted ''Request to Anthropic was aborted''
               else provider_unavailable_error (''Failed to reach Anthropic: ''
                      @ anthropic_sanitize a (raw_message err)) (Some ''anthropic'') None None))"

section \<open>Completions\<close>

definition text_content :: "anthropic_block list \<Rightarrow> string" where
  "text_content bs = concat (List.map_filter (\<lambda>b. case b of TextBlock t \<Rightarrow> Some t | _ \<Rightarrow> None) bs)"

definition reasoning_content :: "anthropic_block list \<Rightarrow> string option" where
  "reasoning_content bs =
     (let ts = List.map_filter (\<lambda>b. case b of ThinkingBlock t \<Rightarrow> Some t | _ \<Rightarrow> None) bs in
      if ts = [] then None else Some (concat ts))"

definition anthropic_token_usage :: "int \<Rightarrow> int \<Rightarrow> token_usage" where
  "anthropic_token_usage inTok outTok = \<lparr>inputTokens = inTok, outputTokens = outTok,
     totalTokens = inTok + outTok, reasoningTokens = None\<rparr>"

definition anthropic_complete ::
  "anthropic_wire \<Rightarrow> anthropic_adapter \<Rightarrow> completion_request \<Rightarrow> exchange \<Rightarrow> exn + completion_response" where
  "anthropic_complete w a request x =
     (case anthropic_execute_fetch w a x of
        Inl e \<Rightarrow> Inl e
      | Inr res \<Rightarrow> (case hr_text res of
          Inl e \<Rightarrow> Inl e
        | Inr t \<Rightarrow> (case aw_response w t of
            Inl e \<Rightarrow> Inl e
          | Inr data \<Rightarrow> Inr
              \<lparr>cs_content = text_content (ar_content data), cs_reasoningContent = reasoning_content (ar_content data),
               cs_finishReason = anthropic_finish_reason (ar_stop_reason data),
               cs_usage = Some (anthropic_token_usage (from_option 0 (au_input_tokens (ar_usage data)))
                            (from_option 0 (au_output_tokens (ar_usage data)))),
               cs_model = (if ar_model data \<noteq> [] then ar_model data
                           else case map_of (anthropic_payload a request False) ''model'' of
                                  Some (JStr m) \<Rightarrow> m | _ \<Rightarrow> anthropic_model a request)\<rparr>)))"

section \<open>Streams\<close>

record anthropic_stream_state =
  as_model :: string
  as_inputTokens :: int
  as_outputTokens :: int
  as_finishReason :: finish_reason
  as_completed :: bool
  as_currentEvent :: string
  as_dataLines :: "string list"

definition anthropic_usage_so_far :: "anthropic_stream_state \<Rightarrow> token_usage" where
  "anthropic_usage_so_far s = anthropic_token_usage (as_inputTokens s) (as_outputTokens s)"

definition anthropic_completion :: "anthropic_stream_state \<Rightarrow> stream_event" where
  "anthropic_completion s = CompleteReport (as_finishReason s) (Some (anthropic_usage_so_far s)) (Some (as_model s))"

definition anthropic_handle_event ::
  "anthropic_adapter \<Rightarrow> string \<Rightarrow> anthropic_event \<Rightarrow> anthropic_stream_state
   \<Rightarrow> stream_event list \<times> anthropic_stream_state" where
  "anthropic_handle_event a type ev s =
     (if type = ''message_start''
      then (let s1 = (if truthy (av_message_model ev) then s\<lparr>as_model := from_option [] (av_message_model ev)\<rparr> else s)
            in case av_message_usage ev of
                 None \<Rightarrow> ([], s1)
               | Some u \<Rightarrow>
                   let s2 = s1\<lparr>as_inputTokens := from_option 0 (au_input_tokens u),
                               as_outputTokens := from_option 0 (au_output_tokens u)\<rparr>
                   in ([UsageReport (anthropic_usage_so_far s2)], s2))
      else if type = ''content_block_delta''
      then (case av_delta ev of
              None \<Rightarrow> ([], s)
            | Some d \<Rightarrow>
               ((if ad_type d = Some ''text_delta'' \<and> ad_text d \<noteq> None then [TextDelta (from_option [] (ad_text d))]
                 else if ad_type d = Some ''thinking_delta'' \<and> ad_thinking d \<noteq> None
                 then [ThoughtDelta (from_option [] (ad_thinking d))]
                 else []), s))
      else if type = ''message_delta''
      then (let reason = Option.bind (av_delta ev) ad_stop_reason;
                s1 = (if truthy reason then s\<lparr>as_finishReason := anthropic_finish_reason reason\<rparr> else s)
            in case Option.bind (av_usage ev) au_output_tokens of
                 None \<Rightarrow> ([], s1)
               | Some n \<Rightarrow> let s2 = s1\<lparr>as_outputTokens := n\<rparr> in ([UsageReport (anthropic_usage_so_far s2)], s2))
      else if type = ''message_stop''
      then ([anthropic_completion s], s\<lparr>as_completed := True\<rparr>)
      else if type = ''error''
      then (let errType = Option.bind (av_error ev) ae_type; errMsg = Option.bind (av_error ev) ae_message
            in ([ErrorReport (anthropic_map_error a (if truthy errType then from_option [] errType else ''error'')
                   (if truthy errMsg then from_option [] errMsg else ''Streaming error'') 500)], s))
      else ([], s))"

definition anthropic_parse_sse_event ::
  "anthropic_wire \<Rightarrow> anthropic_adapter \<Rightarrow> string \<Rightarrow> string \<Rightarrow> anthropic_stream_state
   \<Rightarrow> stream_event list \<times> anthropic_stream_state" where
  "anthropic_parse_sse_event w a dataStr eventName s =
     (let trimmed = js_trim dataStr in
      if trimmed = [] then ([], s)
      else if trimmed = ''[DONE]'' then ([anthropic_completion s], s\<lparr>as_completed := True\<rparr>)
      else case aw_event w trimmed of
        Inl _ \<Rightarrow> ([], s)
      | Inr ev \<Rightarrow> anthropic_handle_event a
          (if eventName \<noteq> [] then eventName else from_option [] (av_type ev)) ev s)"

definition anthropic_line ::
  "anthropic_wire \<Rightarrow> anthropic_adapter \<Rightarrow> anthropic_stream_state \<Rightarrow> string
   \<Rightarrow> stream_event list \<times> anthropic_stream_state option" where
  "anthropic_line w a s line =
     (if js_trim line = []
      then (if as_dataLines s \<noteq> [] \<or> as_currentEvent s \<noteq> []
            then (case anthropic_parse_sse_event w a (js_join nl (as_dataLines s)) (as_currentEvent s) s of
                    (events, t) \<Rightarrow> (events, Some (t\<lparr>as_currentEvent := [], as_dataLines := []\<rparr>)))
            else ([], Some s))
      else if prefix '':'' line then ([], Some s)
      else if prefix ''event:'' line then ([], Some (s\<lparr>as_currentEvent := js_trim (drop 6 line)\<rparr>))
      else if prefix ''data:'' line
      then ([], Some (s\<lparr>as_dataLines := as_dataLines s @ [js_trim_start (drop 5 line)]\<rparr>))
      else ([], Some s))"

definition anthropic_close ::
  "anthropic_wire \<Rightarrow> anthropic_adapter \<Rightarrow> anthropic_stream_state \<Rightarrow> string \<Rightarrow> stream_event list" where
  "anthropic_close w a s buffer =
     (let trailing = js_trim buffer;
          s1 = (if prefix ''event:'' trailing then s\<lparr>as_currentEvent := js_trim (drop 6 trailing)\<rparr>
                else s\<lparr>as_dataLines := trailing_data buffer (as_dataLines s)\<rparr>);
          (events, t) = (if as_dataLines s1 \<noteq> []
            then anthropic_parse_sse_event w a (js_join nl (as_dataLines s1)) (as_currentEvent s1) s1
            else ([], s1))
      in events @ (if as_completed t then [] else [anthropic_completion t]))"

definition anthropic_stream_failed :: "anthropic_adapter \<Rightarrow> bool \<Rightarrow> exn \<Rightarrow> exn" where
  "anthropic_stream_failed a abortedNow err =
     (if is_adapter_error err then err
      else if is_abort_named err then anthropic_aborted ''Anthropic streaming request was aborted''
      else provider_unavailable_error (''Anthropic streaming failed: '' @ anthropic_sanitize a (raw_message err))
             (Some ''anthropic'') None None)"

definition anthropic_reader :: "anthropic_wire \<Rightarrow> anthropic_adapter \<Rightarrow> anthropic_stream_state reader" where
  "anthropic_reader w a = \<lparr>rd_line = anthropic_line w a, rd_close = anthropic_close w a,
     rd_aborted = anthropic_aborted ''Anthropic streaming request was aborted'',
     rd_failed = anthropic_stream_failed a\<rparr>"

definition anthropic_stream_start :: "anthropic_adapter \<Rightarrow> completion_request \<Rightarrow> anthropic_stream_state" where
  "anthropic_stream_start a request = \<lparr>as_model = anthropic_model a request, as_inputTokens = 0,
     as_outputTokens = 0, as_finishReason = FinishStop, as_completed = False, as_currentEvent = [],
     as_dataLines = []\<rparr>"

definition anthropic_stream ::
  "anthropic_wire \<Rightarrow> anthropic_adapter \<Rightarrow> completion_request \<Rightarrow> exchange \<Rightarrow> effect \<Rightarrow> stream_run" where
  "anthropic_stream w a request x f =
     (case anthropic_execute_fetch w a x of
        Inl e \<Rightarrow> Throws f e
      | Inr res \<Rightarrow> (case hr_body res of
          None \<Rightarrow> Throws f (provider_unavailable_error ''Anthropic streaming response body is empty''
                    (Some ''anthropic'') None None)
        | Some b \<Rightarrow> read_body (anthropic_reader w a) (anthropic_stream_start a request) [] f b))"

section \<open>Discovery\<close>

definition anthropic_discovered :: "anthropic_model_item \<Rightarrow> discovered_model option" where
  "anthropic_discovered item =
     (if \<not> truthy (ai_id item) then None
      else let i = from_option [] (ai_id item) in
        Some \<lparr>dm_modelIdentifier = i,
          dm_displayName = (if truthy (ai_display_name item) then from_option [] (ai_display_name item) else i),
          dm_contextWindow = ai_context_window item, dm_defaultTemperature = ai_default_temperature item,
          dm_defaultMaxTokens = coalesce (ai_max_tokens item) (ai_default_max_tokens item)\<rparr>)"

definition anthropic_models_request ::
  "anthropic_wire \<Rightarrow> anthropic_adapter \<Rightarrow> string option \<Rightarrow> exn + http_request" where
  "anthropic_models_request w a afterId =
     (case aw_url w (anthropic_endpoint_url a ''/models'')
        ((''limit'', ''100'') # (if truthy afterId then [(''after_id'', from_option [] afterId)] else [])) of
        Inl e \<Rightarrow> Inl e
      | Inr url \<Rightarrow> Inr \<lparr>hq_url = url, hq_method = ''GET'', hq_headers = anthropic_headers a [], hq_body = None\<rparr>)"

definition anthropic_models_page ::
  "anthropic_wire \<Rightarrow> anthropic_adapter \<Rightarrow> (http_request \<Rightarrow> exchange) \<Rightarrow> string option
   \<Rightarrow> exn + discovered_model list \<times> string option" where
  "anthropic_models_page w a http afterId =
     (case anthropic_models_request w a afterId of
        Inl e \<Rightarrow> Inl e
      | Inr request \<Rightarrow> (case anthropic_execute_fetch w a (http request) of
          Inl e \<Rightarrow> Inl e
        | Inr res \<Rightarrow> (case hr_text res of
            Inl e \<Rightarrow> Inl e
          | Inr t \<Rightarrow> (case aw_models w t of
              Inl e \<Rightarrow> Inl e
            | Inr data \<Rightarrow> Inr (List.map_filter anthropic_discovered (am_data data),
                if am_has_more data \<and> truthy (am_last_id data) then am_last_id data else None)))))"

text \<open>The number counts the further pages allowed (\<open>maxPages - pageCount\<close>).\<close>

fun anthropic_pages ::
  "anthropic_wire \<Rightarrow> anthropic_adapter \<Rightarrow> (http_request \<Rightarrow> exchange) \<Rightarrow> nat \<Rightarrow> string option
   \<Rightarrow> exn + discovered_model list" where
  "anthropic_pages w a http k afterId =
     (case anthropic_models_page w a http afterId of
        Inl e \<Rightarrow> Inl e
      | Inr (items, None) \<Rightarrow> Inr items
      | Inr (items, Some lastId) \<Rightarrow> (case k of
          0 \<Rightarrow> Inr items
        | Suc k' \<Rightarrow> (case anthropic_pages w a http k' (Some lastId) of
            Inl e \<Rightarrow> Inl e | Inr further \<Rightarrow> Inr (items @ further))))"

declare anthropic_pages.simps [simp del]

definition anthropic_discover_models ::
  "anthropic_wire \<Rightarrow> anthropic_adapter \<Rightarrow> (http_request \<Rightarrow> exchange) \<Rightarrow> exn + discovered_model list" where
  "anthropic_discover_models w a http = anthropic_pages w a http 10 None"

section \<open>As an adapter of the registry\<close>

definition anthropic_creator ::
  "anthropic_wire \<Rightarrow> (nat \<Rightarrow> http_request \<Rightarrow> exchange \<times> effect) \<Rightarrow> adapter_creator" where
  "anthropic_creator w http config =
     (let a = anthropic_new config None in
      Inr \<lparr>ad_supportsStreaming = True,
        ad_complete = (\<lambda>n request. case http n (anthropic_request a request False) of
           (x, f) \<Rightarrow> (anthropic_complete w a request x, f)),
        ad_stream = (\<lambda>n request. case http n (anthropic_request a request True) of
           (x, f) \<Rightarrow> anthropic_stream w a request x f)\<rparr>)"

end
