(* ===== verification/Gemini.thy ===== *)
theory Gemini
  imports Turns OpenAi
begin

text \<open>
  \<open>model-adapters/google/google.adapter.ts\<close>: the adapter of Google's Gemini API. Wire types
  as in \<open>google.types.ts\<close>, without the members the adapter never reads.
\<close>

section \<open>Wire types\<close>

record gemini_part =
  gp_text :: "string option"
  gp_thought :: bool

record gemini_rating =
  gr_category :: string
  gr_probability :: string
  gr_blocked :: bool

record gemini_candidate =
  gc_parts :: "gemini_part list option"
  gc_finishReason :: "string option"
  gc_safetyRatings :: "gemini_rating list"

record gemini_feedback =
  gf_blockReason :: "string option"
  gf_safetyRatings :: "gemini_rating list"

record gemini_usage =
  gu_promptTokenCount :: "int option"
  gu_candidatesTokenCount :: "int option"
  gu_totalTokenCount :: "int option"

record gemini_error =
  ge_code :: "nat option"
  ge_message :: "string option"
  ge_status :: "string option"

record gemini_response =
  gs_candidates :: "gemini_candidate list"
  gs_promptFeedback :: "gemini_feedback option"
  gs_usageMetadata :: "gemini_usage option"
  gs_modelVersion :: "string option"
  gs_error :: "gemini_error option"

record gemini_model_item =
  gm_name :: "string option"
  gm_displayName :: "string option"
  gm_inputTokenLimit :: "int option"
  gm_outputTokenLimit :: "int option"
  gm_supportedGenerationMethods :: "string list option"
  gm_temperature :: "rat option"

record gemini_models =
  gl_models :: "gemini_model_item list"
  gl_nextPageToken :: "string option"

text \<open>\<open>JSON.parse\<close> with the casts, and \<open>new URL(...)\<close> with its search parameters set in turn.\<close>

record gemini_wire =
  gw_response :: "string \<Rightarrow> exn + gemini_response"
  gw_error :: "string \<Rightarrow> exn + gemini_error option"
  gw_models :: "string \<Rightarrow> exn + gemini_models"
  gw_url :: "string \<Rightarrow> (string \<times> string) list \<Rightarrow> exn + string"

section \<open>The adapter\<close>

definition GOOGLE_DEFAULT_BASE_URL :: string where
  "GOOGLE_DEFAULT_BASE_URL = ''https://generativelanguage.googleapis.com''"

definition GOOGLE_DEFAULT_MODEL :: string where
  "GOOGLE_DEFAULT_MODEL = ''gemini-1.5-flash''"

definition GOOGLE_DEFAULT_API_VERSION :: string where
  "GOOGLE_DEFAULT_API_VERSION = ''v1beta''"

definition GOOGLE_DEFAULT_TIMEOUT_MS :: nat where
  "GOOGLE_DEFAULT_TIMEOUT_MS = 30000"

datatype auth_method = HeaderAuth | QueryAuth

record gemini_options =
  gop_timeoutMs :: "nat option"
  gop_apiVersion :: "string option"
  gop_authMethod :: "auth_method option"

record gemini_adapter =
  ga_baseUrl :: string
  ga_apiKey :: "string option"
  ga_defaultModel :: string
  ga_apiVersion :: string
  ga_authMethod :: auth_method
  ga_timeoutMs :: nat

definition gemini_new :: "adapter_config \<Rightarrow> gemini_options \<Rightarrow> gemini_adapter" where
  "gemini_new config options =
     \<lparr>ga_baseUrl = strip_slashes (trim_or (ac_baseUrl config) GOOGLE_DEFAULT_BASE_URL),
      ga_apiKey = trim_or_null (ac_apiKey config),
      ga_defaultModel = trim_or (ac_modelIdentifier config) GOOGLE_DEFAULT_MODEL,
      ga_apiVersion = trim_or (gop_apiVersion options) GOOGLE_DEFAULT_API_VERSION,
      ga_authMethod = from_option HeaderAuth (gop_authMethod options),
      ga_timeoutMs = from_option GOOGLE_DEFAULT_TIMEOUT_MS (gop_timeoutMs options)\<rparr>"

definition gemini_sanitize :: "gemini_adapter \<Rightarrow> string \<Rightarrow> string" where
  "gemini_sanitize a message = sanitize_key (ga_apiKey a) message"

text \<open>\<open>/([?&]key=)[^&]+/g\<close>.\<close>

definition key_parameter :: rx where
  "key_parameter = Seq (Cap (Seq (Cls (\<lambda>c. c = CHR ''?'' \<or> c = CHR ''&'')) (lit ''key=''))) (Rep 1 (\<lambda>c. c \<noteq> CHR ''&''))"

definition gemini_sanitize_url :: "gemini_adapter \<Rightarrow> string \<Rightarrow> string" where
  "gemini_sanitize_url a url =
     sanitize_key (ga_apiKey a)
       (rx_replace_all key_parameter (\<lambda>m. from_option [] (group1 m) @ ''[REDACTED_API_KEY]'') url)"

definition gemini_finish_reason :: "string option \<Rightarrow> finish_reason" where
  "gemini_finish_reason reason =
     (if reason = Some ''STOP'' then FinishStop
      else if reason = Some ''MAX_TOKENS'' then FinishLength
      else if reason = Some ''SAFETY'' \<or> reason = Some ''RECITATION'' \<or> reason = Some ''BLOCKLIST''
           \<or> reason = Some ''PROHIBITED_CONTENT'' \<or> reason = Some ''SPII'' then FinishContentFilter
      else FinishOther)"

definition gemini_model :: "gemini_adapter \<Rightarrow> completion_request \<Rightarrow> string" where
  "gemini_model a request = trim_or (cq_model request) (ga_defaultModel a)"

definition gemini_parts :: "string \<Rightarrow> json" where
  "gemini_parts t = JArr [JObj [(''text'', JStr t)]]"

definition gemini_content :: "wire_turn \<Rightarrow> json" where
  "gemini_content t = JObj [(''role'', JStr (tu_role t)), (''parts'', gemini_parts (tu_content t))]"

definition gemini_generation_config :: "completion_request \<Rightarrow> (string \<times> json) list" where
  "gemini_generation_config request =
     set_all (filter (\<lambda>e. fst e \<noteq> ''safetySettings'') (object_entries (cq_modelParams request)))
       ((case cq_temperature request of None \<Rightarrow> [] | Some t \<Rightarrow> [(''temperature'', JNum t)])
        @ (case cq_maxTokens request of None \<Rightarrow> [] | Some n \<Rightarrow> [(''maxOutputTokens'', JNum (of_int n))]))"

definition gemini_payload :: "completion_request \<Rightarrow> (string \<times> json) list" where
  "gemini_payload request =
     (let parts = hoisted_system request; config = gemini_generation_config request in
      [(''contents'', JArr (map gemini_content (translate_messages ''model'' request)))]
      @ (if parts = [] then [] else [(''systemInstruction'', JObj [(''parts'', gemini_parts (js_join (nl @ nl) parts))])])
      @ (case map_of (object_entries (cq_modelParams request)) ''safetySettings'' of
           None \<Rightarrow> [] | Some s \<Rightarrow> [(''safetySettings'', s)])
      @ (if config = [] then [] else [(''generationConfig'', JObj config)]))"

text \<open>\<open>/\/v\d+(alpha|beta)?$/i\<close>.\<close>

definition versioned_base :: "string \<Rightarrow> bool" where
  "versioned_base base =
     (let l = rev (js_lower base);
          rest = (if prefix (rev ''alpha'') l then drop 5 l else if prefix (rev ''beta'') l then drop 4 l else l)
      in takeWhile is_digit rest \<noteq> [] \<and> prefix (rev ''/v'') (dropWhile is_digit rest))"

definition strip_models :: "string \<Rightarrow> string" where
  "strip_models m = (if prefix ''models/'' m then drop 7 m else m)"

definition gemini_endpoint_url ::
  "gemini_wire \<Rightarrow> gemini_adapter \<Rightarrow> string \<Rightarrow> string option \<Rightarrow> (string \<times> string) list \<Rightarrow> exn + string" where
  "gemini_endpoint_url w a actionOrPath model extraQueryParams =
     (let cleanModel = (if truthy model then strip_models (from_option [] model) else []);
          relativePath = (if actionOrPath = ''/models'' then ''models''
            else if prefix '':'' actionOrPath then ''models/'' @ cleanModel @ actionOrPath
            else dropWhile (\<lambda>c. c = CHR ''/'') actionOrPath);
          full = (if ends_with (ga_baseUrl a) ''/v1beta'' \<or> ends_with (ga_baseUrl a) ''/v1'' \<or> versioned_base (ga_baseUrl a)
            then ga_baseUrl a @ ''/'' @ relativePath
            else ga_baseUrl a @ ''/'' @ ga_apiVersion a @ ''/'' @ relativePath)
      in gw_url w full (extraQueryParams
           @ (case ga_apiKey a of None \<Rightarrow> [] | Some k \<Rightarrow> if ga_authMethod a = QueryAuth then [(''key'', k)] else [])))"

definition gemini_headers :: "gemini_adapter \<Rightarrow> (string \<times> string) list \<Rightarrow> (string \<times> string) list" where
  "gemini_headers a custom =
     (let headers = set_all custom [(''Content-Type'', ''application/json'')] in
      case ga_apiKey a of
        None \<Rightarrow> headers
      | Some k \<Rightarrow> if ga_authMethod a = HeaderAuth then AList.update ''x-goog-api-key'' k headers else headers)"

definition gemini_request ::
  "gemini_wire \<Rightarrow> gemini_adapter \<Rightarrow> completion_request \<Rightarrow> bool \<Rightarrow> exn + http_request" where
  "gemini_request w a request stream =
     (case gemini_endpoint_url w a (if stream then '':streamGenerateContent'' else '':generateContent'')
        (Some (gemini_model a request)) (if stream then [(''alt'', ''sse'')] else []) of
        Inl e \<Rightarrow> Inl e
      | Inr url \<Rightarrow> Inr \<lparr>hq_url = url, hq_method = ''POST'', hq_headers = gemini_headers a [],
          hq_body = Some (JObj (gemini_payload request))\<rparr>)"

section \<open>Failures\<close>

definition gemini_map_error :: "gemini_adapter \<Rightarrow> nat \<Rightarrow> string \<Rightarrow> string \<Rightarrow> exn" where
  "gemini_map_error a status upstreamMessage upstreamStatus =
     (let safeMessage = gemini_sanitize a upstreamMessage; kind = Some ''google'';
          lower = js_lower safeMessage in
      if status = 401 \<or> status = 403 \<or> upstreamStatus = ''UNAUTHENTICATED'' \<or> upstreamStatus = ''PERMISSION_DENIED''
         \<or> js_includes lower ''api key not valid'' \<or> js_includes lower ''api_key_invalid''
      then authentication_error (''Google Gemini authentication failed: '' @ safeMessage) kind None None
      else if status = 404 \<or> upstreamStatus = ''NOT_FOUND''
      then model_not_found_error (ga_defaultModel a) kind None None
      else if status = 429 \<or> upstreamStatus = ''RESOURCE_EXHAUSTED''
      then rate_limit_error (''Google Gemini rate limit exceeded: '' @ safeMessage) kind None None None
      else if status = 400 \<or> upstreamStatus = ''INVALID_ARGUMENT''
      then (if js_includes lower ''context'' \<or> js_includes lower ''token count''
               \<or> js_includes lower ''maximum token'' \<or> js_includes lower ''input token limit''
            then context_length_exceeded_error safeMessage kind None None
            else invalid_request_error (''Google Gemini rejected request: '' @ safeMessage) kind None None)
      else if status = 500 \<or> status = 502 \<or> status = 503 \<or> status = 504 \<or> upstreamStatus = ''UNAVAILABLE''
           \<or> upstreamStatus = ''INTERNAL'' \<or> upstreamStatus = ''DEADLINE_EXCEEDED''
      then provider_unavailable_error (''Google Gemini service unavailable (HTTP '' @ show_nat status @ ''): ''
             @ safeMessage) kind None None
      else provider_unavailable_error (''Google Gemini error (HTTP '' @ show_nat status @ ''): '' @ safeMessage)
             kind None None)"

definition gemini_error_response :: "gemini_wire \<Rightarrow> gemini_adapter \<Rightarrow> http_response \<Rightarrow> exn" where
  "gemini_error_response w a res =
     (let err = (case hr_text res of Inl _ \<Rightarrow> None
            | Inr t \<Rightarrow> (case gw_error w t of Inl _ \<Rightarrow> None | Inr e \<Rightarrow> e));
          message = (if truthy (Option.bind err ge_message) then from_option [] (Option.bind err ge_message)
                     else ''HTTP '' @ show_nat (hr_status res))
      in gemini_map_error a (hr_status res) message (from_option [] (Option.bind err ge_status)))"

definition gemini_aborted :: "string \<Rightarrow> exn" where
  "gemini_aborted message = request_aborted_error message (Some ''google'') None None"

text \<open>Called with an aborted signal \<open>fetch\<close> rejects, so both flags are looked at in one place.\<close>

definition gemini_execute_fetch :: "gemini_wire \<Rightarrow> gemini_adapter \<Rightarrow> exchange \<Rightarrow> exn + http_response" where
  "gemini_execute_fetch w a x =
     (case fx_result x of
        Inr res \<Rightarrow> if response_ok res then Inr res else Inl (gemini_error_response w a res)
      | Inl err \<Rightarrow>
          Inl (if is_adapter_error err then err
               else if fx_abortedBefore x \<or> fx_abortedAfter x \<or> is_abort_named err
               then gemini_aborted ''Request to Google Gemini was aborted''
               else provider_unavailable_error (''Failed to reach Google Gemini: ''
                      @ gemini_sanitize a (raw_message err)) (Some ''google'') None None))"

definition blocked_rating :: "gemini_rating \<Rightarrow> bool" where
  "blocked_rating r = (gr_blocked r \<or> gr_probability r = ''HIGH'' \<or> gr_probability r = ''MEDIUM'')"

definition gemini_safety_error :: "string \<Rightarrow> gemini_rating list \<Rightarrow> exn" where
  "gemini_safety_error reason ratings =
     (let cats = js_join '', '' (map (\<lambda>r. gr_category r @ '' ('' @ gr_probability r @ '')'')
            (filter blocked_rating ratings));
          detail = (if cats \<noteq> [] then '': '' @ cats else [])
      in invalid_request_error (''Gemini generation was blocked by safety filters ('' @ reason @ '')'' @ detail @ ''.'')
           (Some ''google'') None None)"

definition safety_reason :: "string option \<Rightarrow> bool" where
  "safety_reason reason = (reason = Some ''SAFETY'' \<or> reason = Some ''BLOCKLIST''
     \<or> reason = Some ''PROHIBITED_CONTENT'' \<or> reason = Some ''SPII'')"

section \<open>Completions\<close>

definition gemini_texts :: "bool \<Rightarrow> gemini_part list \<Rightarrow> string list" where
  "gemini_texts thought ps = List.map_filter gp_text (filter (\<lambda>p. gp_thought p = thought) ps)"

definition gemini_text_content :: "gemini_part list option \<Rightarrow> string" where
  "gemini_text_content parts = (case parts of None \<Rightarrow> [] | Some ps \<Rightarrow> concat (gemini_texts False ps))"

definition gemini_reasoning_content :: "gemini_part list option \<Rightarrow> string option" where
  "gemini_reasoning_content parts = (case parts of
     None \<Rightarrow> None
   | Some ps \<Rightarrow> if gemini_texts True ps = [] then None else Some (concat (gemini_texts True ps)))"

text \<open>The reason for which a response was blocked before its candidates are looked at.\<close>

definition prompt_block :: "gemini_response \<Rightarrow> exn option" where
  "prompt_block data = (case gs_promptFeedback data of
     None \<Rightarrow> None
   | Some f \<Rightarrow> if truthy (gf_blockReason f)
       then Some (gemini_safety_error (from_option [] (gf_blockReason f)) (gf_safetyRatings f)) else None)"

definition gemini_token_usage :: "int \<Rightarrow> int \<Rightarrow> int option \<Rightarrow> token_usage" where
  "gemini_token_usage inTok outTok reported = \<lparr>inputTokens = inTok, outputTokens = outTok,
     totalTokens = from_option (inTok + outTok) reported, reasoningTokens = None\<rparr>"

definition gemini_candidate_response ::
  "gemini_adapter \<Rightarrow> completion_request \<Rightarrow> gemini_response \<Rightarrow> gemini_candidate \<Rightarrow> exn + completion_response" where
  "gemini_candidate_response a request data candidate =
     (let reason = gc_finishReason candidate; content = gemini_text_content (gc_parts candidate);
          usage = gs_usageMetadata data in
      if safety_reason reason
      then Inl (gemini_safety_error (from_option [] reason) (gc_safetyRatings candidate))
      else if content = [] \<and> reason \<noteq> Some ''STOP''
      then Inl (invalid_request_error (''Gemini returned empty content with finish reason: ''
             @ (if truthy reason then from_option [] reason else ''UNKNOWN'')) (Some ''google'') None None)
      else Inr \<lparr>cs_content = content, cs_reasoningContent = gemini_reasoning_content (gc_parts candidate),
        cs_finishReason = gemini_finish_reason reason,
        cs_usage = Some (gemini_token_usage (from_option 0 (Option.bind usage gu_promptTokenCount))
          (from_option 0 (Option.bind usage gu_candidatesTokenCount)) (Option.bind usage gu_totalTokenCount)),
        cs_model = (if truthy (gs_modelVersion data) then from_option [] (gs_modelVersion data)
                    else gemini_model a request)\<rparr>)"

definition gemini_complete ::
  "gemini_wire \<Rightarrow> gemini_adapter \<Rightarrow> completion_request \<Rightarrow> exchange \<Rightarrow> exn + completion_response" where
  "gemini_complete w a request x =
     (case gemini_execute_fetch w a x of
        Inl e \<Rightarrow> Inl e
      | Inr res \<Rightarrow> (case hr_text res of
          Inl e \<Rightarrow> Inl e
        | Inr t \<Rightarrow> (case gw_response w t of
            Inl e \<Rightarrow> Inl e
          | Inr data \<Rightarrow> (case prompt_block data of
              Some e \<Rightarrow> Inl e
            | None \<Rightarrow> (case gs_candidates data of
                [] \<Rightarrow> Inl (invalid_request_error ''Gemini returned an empty candidate list with no usable content.''
                        (Some ''google'') None None)
              | candidate # _ \<Rightarrow> gemini_candidate_response a request data candidate)))))"

section \<open>Streams\<close>

record gemini_stream_state =
  gt_model :: string
  gt_finishReason :: finish_reason
  gt_inputTokens :: int
  gt_outputTokens :: int
  gt_completed :: bool
  gt_dataLines :: "string list"

definition gemini_completion :: "gemini_stream_state \<Rightarrow> stream_event" where
  "gemini_completion s = CompleteReport (gt_finishReason s)
     (Some (gemini_token_usage (gt_inputTokens s) (gt_outputTokens s) None)) (Some (gt_model s))"

definition gemini_part_events :: "gemini_part \<Rightarrow> stream_event list" where
  "gemini_part_events p =
     (if truthy (gp_text p)
      then [(if gp_thought p then ThoughtDelta else TextDelta) (from_option [] (gp_text p))] else [])"

definition gemini_candidate_events ::
  "gemini_candidate option \<Rightarrow> gemini_usage option \<Rightarrow> gemini_stream_state
   \<Rightarrow> stream_event list \<times> gemini_stream_state" where
  "gemini_candidate_events candidate usage s =
     (let deltas = concat (map gemini_part_events (from_option [] (Option.bind candidate gc_parts)));
          reason = Option.bind candidate gc_finishReason;
          s1 = (if truthy reason then s\<lparr>gt_finishReason := gemini_finish_reason reason\<rparr> else s)
      in case usage of
           None \<Rightarrow> (deltas, s1)
         | Some u \<Rightarrow>
             let s2 = s1\<lparr>gt_inputTokens := from_option (gt_inputTokens s1) (gu_promptTokenCount u),
                         gt_outputTokens := from_option (gt_outputTokens s1) (gu_candidatesTokenCount u)\<rparr>
             in (deltas @ [UsageReport (gemini_token_usage (gt_inputTokens s2) (gt_outputTokens s2) None)], s2))"

definition gemini_parse_sse_chunk ::
  "gemini_wire \<Rightarrow> gemini_adapter \<Rightarrow> string \<Rightarrow> gemini_stream_state \<Rightarrow> stream_event list \<times> gemini_stream_state" where
  "gemini_parse_sse_chunk w a dataStr s =
     (let trimmed = js_trim dataStr in
      if trimmed = [] then ([], s)
      else if trimmed = ''[DONE]'' then ([gemini_completion s], s\<lparr>gt_completed := True\<rparr>)
      else case gw_response w trimmed of
        Inl _ \<Rightarrow> ([], s)
      | Inr parsed \<Rightarrow>
         (case gs_error parsed of
            Some e \<Rightarrow> ([ErrorReport (gemini_map_error a (from_option 500 (ge_code e))
                (if truthy (ge_message e) then from_option [] (ge_message e) else ''Gemini streaming error'')
                (from_option [] (ge_status e)))], s)
          | None \<Rightarrow>
              let s1 = (if truthy (gs_modelVersion parsed)
                        then s\<lparr>gt_model := from_option [] (gs_modelVersion parsed)\<rparr> else s);
                  candidate = (case gs_candidates parsed of [] \<Rightarrow> None | c # _ \<Rightarrow> Some c);
                  reason = Option.bind candidate gc_finishReason
              in case prompt_block parsed of
                   Some e \<Rightarrow> ([ErrorReport e], s1)
                 | None \<Rightarrow>
                     if safety_reason reason
                     then ([ErrorReport (gemini_safety_error (from_option [] reason)
                             (from_option [] (map_option gc_safetyRatings candidate)))], s1)
                     else gemini_candidate_events candidate (gs_usageMetadata parsed) s1))"

definition gemini_line ::
  "gemini_wire \<Rightarrow> gemini_adapter \<Rightarrow> gemini_stream_state \<Rightarrow> string \<Rightarrow> stream_event list \<times> gemini_stream_state option" where
  "gemini_line w a s line =
     (if js_trim line = []
      then (if gt_dataLines s \<noteq> []
            then (case gemini_parse_sse_chunk w a (js_trim (js_join nl (gt_dataLines s))) (s\<lparr>gt_dataLines := []\<rparr>) of
                    (events, t) \<Rightarrow> yield_until_final events t)
            else ([], Some s))
      else if prefix '':'' line then ([], Some s)
      else if prefix ''data:'' line
      then ([], Some (s\<lparr>gt_dataLines := gt_dataLines s @ [js_trim_start (drop 5 line)]\<rparr>))
      else ([], Some s))"

definition gemini_close :: "gemini_wire \<Rightarrow> gemini_adapter \<Rightarrow> gemini_stream_state \<Rightarrow> string \<Rightarrow> stream_event list" where
  "gemini_close w a s buffer =
     (let dataStr = js_trim (js_join nl (trailing_data buffer (gt_dataLines s)));
          closing = (\<lambda>t. if gt_completed t then [] else [gemini_completion t])
      in if dataStr \<noteq> []
         then (case gemini_parse_sse_chunk w a dataStr s of
                 (events, t) \<Rightarrow> (case yield_until_final events t of
                   (es, None) \<Rightarrow> es | (es, Some u) \<Rightarrow> es @ closing u))
         else closing s)"

definition gemini_stream_failed :: "gemini_adapter \<Rightarrow> bool \<Rightarrow> exn \<Rightarrow> exn" where
  "gemini_stream_failed a abortedNow err =
     (if is_adapter_error err then err
      else if abortedNow \<or> is_abort_named err then gemini_aborted ''Gemini streaming request was aborted''
      else provider_unavailable_error (''Gemini streaming failed: '' @ gemini_sanitize a (raw_message err))
             (Some ''google'') None None)"

definition gemini_reader :: "gemini_wire \<Rightarrow> gemini_adapter \<Rightarrow> gemini_stream_state reader" where
  "gemini_reader w a = \<lparr>rd_line = gemini_line w a, rd_close = gemini_close w a,
     rd_aborted = gemini_aborted ''Gemini streaming request was aborted'',
     rd_failed = gemini_stream_failed a\<rparr>"

definition gemini_stream_start :: "gemini_adapter \<Rightarrow> completion_request \<Rightarrow> gemini_stream_state" where
  "gemini_stream_start a request = \<lparr>gt_model = gemini_model a request, gt_finishReason = FinishStop,
     gt_inputTokens = 0, gt_outputTokens = 0, gt_completed = False, gt_dataLines = []\<rparr>"

definition gemini_stream ::
  "gemini_wire \<Rightarrow> gemini_adapter \<Rightarrow> completion_request \<Rightarrow> exchange \<Rightarrow> effect \<Rightarrow> stream_run" where
  "gemini_stream w a request x f =
     (case gemini_execute_fetch w a x of
        Inl e \<Rightarrow> Throws f e
      | Inr res \<Rightarrow> (case hr_body res of
          None \<Rightarrow> Throws f (provider_unavailable_error ''Gemini streaming response body is empty''
                    (Some ''google'') None None)
        | Some b \<Rightarrow> read_body (gemini_reader w a) (gemini_stream_start a request) [] f b))"

section \<open>Discovery\<close>

definition gemini_discovered :: "gemini_model_item \<Rightarrow> discovered_model option" where
  "gemini_discovered item =
     (if \<not> truthy (gm_name item)
         \<or> (case gm_supportedGenerationMethods item of None \<Rightarrow> False | Some ms \<Rightarrow> ''generateContent'' \<notin> set ms)
      then None
      else let i = strip_models (from_option [] (gm_name item)) in
        Some \<lparr>dm_modelIdentifier = i,
          dm_displayName = (if truthy (gm_displayName item) then from_option [] (gm_displayName item) else i),
          dm_contextWindow = gm_inputTokenLimit item, dm_defaultTemperature = gm_temperature item,
          dm_defaultMaxTokens = gm_outputTokenLimit item\<rparr>)"

definition gemini_models_request :: "gemini_wire \<Rightarrow> gemini_adapter \<Rightarrow> string option \<Rightarrow> exn + http_request" where
  "gemini_models_request w a pageToken =
     (case gemini_endpoint_url w a ''/models'' None
        ((''pageSize'', ''100'') # (if truthy pageToken then [(''pageToken'', from_option [] pageToken)] else [])) of
        Inl e \<Rightarrow> Inl e
      | Inr url \<Rightarrow> Inr \<lparr>hq_url = url, hq_method = ''GET'', hq_headers = gemini_headers a [], hq_body = None\<rparr>)"

definition gemini_no_discovery :: "exn \<Rightarrow> bool" where
  "gemini_no_discovery e = (case e of
     Err (Adapter i) name _ _ _ \<Rightarrow> name = ''ModelNotFoundError'' \<or> ai_statusCode i = 404
   | _ \<Rightarrow> False)"

text \<open>One page: its models and the token of the next; a page that cannot be read has neither.\<close>

definition gemini_models_page ::
  "gemini_wire \<Rightarrow> gemini_adapter \<Rightarrow> (http_request \<Rightarrow> exchange) \<Rightarrow> string option
   \<Rightarrow> exn + discovered_model list \<times> string option" where
  "gemini_models_page w a http pageToken =
     (case gemini_models_request w a pageToken of
        Inl e \<Rightarrow> Inl e
      | Inr request \<Rightarrow> (case gemini_execute_fetch w a (http request) of
          Inl e \<Rightarrow> Inl (if gemini_no_discovery e
            then unsupported_capability_error ''model discovery'' (Some ''google'') else e)
        | Inr res \<Rightarrow> (case hr_text res of
            Inl _ \<Rightarrow> Inr ([], None)
          | Inr t \<Rightarrow> (case gw_models w t of
              Inl _ \<Rightarrow> Inr ([], None)
            | Inr data \<Rightarrow> Inr (List.map_filter gemini_discovered (gl_models data),
                if truthy (gl_nextPageToken data) then gl_nextPageToken data else None)))))"

text \<open>The number counts the further pages allowed (\<open>maxPages - pageCount\<close>).\<close>

fun gemini_pages ::
  "gemini_wire \<Rightarrow> gemini_adapter \<Rightarrow> (http_request \<Rightarrow> exchange) \<Rightarrow> nat \<Rightarrow> string option
   \<Rightarrow> exn + discovered_model list" where
  "gemini_pages w a http k pageToken =
     (case gemini_models_page w a http pageToken of
        Inl e \<Rightarrow> Inl e
      | Inr (items, None) \<Rightarrow> Inr items
      | Inr (items, Some token) \<Rightarrow> (case k of
          0 \<Rightarrow> Inr items
        | Suc k' \<Rightarrow> (case gemini_pages w a http k' (Some token) of
            Inl e \<Rightarrow> Inl e | Inr further \<Rightarrow> Inr (items @ further))))"

declare gemini_pages.simps [simp del]

definition gemini_discover_models ::
  "gemini_wire \<Rightarrow> gemini_adapter \<Rightarrow> (http_request \<Rightarrow> exchange) \<Rightarrow> exn + discovered_model list" where
  "gemini_discover_models w a http = gemini_pages w a http 10 None"

section \<open>As an adapter of the registry\<close>

definition gemini_creator ::
  "gemini_wire \<Rightarrow> (nat \<Rightarrow> http_request \<Rightarrow> exchange \<times> effect) \<Rightarrow> adapter_creator" where
  "gemini_creator w http config =
     (let a = gemini_new config \<lparr>gop_timeoutMs = None, gop_apiVersion = None, gop_authMethod = None\<rparr> in
      Inr \<lparr>ad_supportsStreaming = True,
        ad_complete = (\<lambda>n request. case gemini_request w a request False of
             Inl e \<Rightarrow> (Inl e, no_effect_at_all)
           | Inr hq \<Rightarrow> (case http n hq of (x, f) \<Rightarrow> (gemini_complete w a request x, f))),
        ad_stream = (\<lambda>n request. case gemini_request w a request True of
             Inl e \<Rightarrow> Throws no_effect_at_all e
           | Inr hq \<Rightarrow> (case http n hq of (x, f) \<Rightarrow> gemini_stream w a request x f))\<rparr>)"

end
