(* ===== verification/Ollama.thy ===== *)
theory Ollama
  imports Transport
begin

text \<open>
  \<open>model-adapters/ollama/ollama.adapter.ts\<close>: the adapter of a local Ollama server, whose
  streamed answer is one JSON object on each line. Wire types as in \<open>ollama.types.ts\<close>,
  without the members the adapter never reads.
\<close>

section \<open>Wire types\<close>

record ollama_message =
  lm_content :: "string option"
  lm_thinking :: "string option"
  lm_reasoning_content :: "string option"

record ollama_response =
  lr_model :: "string option"
  lr_message :: "ollama_message option"
  lr_done_reason :: "string option"
  lr_done :: bool
  lr_prompt_eval_count :: "int option"
  lr_eval_count :: "int option"
  lr_error :: "string option"

record ollama_model_item =
  li_name :: "string option"
  li_model :: "string option"
  li_context_window :: "int option"

record ollama_wire =
  lw_response :: "string \<Rightarrow> exn + ollama_response"
  lw_error :: "string \<Rightarrow> exn + string option"
  lw_models :: "string \<Rightarrow> exn + ollama_model_item list"

section \<open>The adapter\<close>

definition OLLAMA_DEFAULT_BASE_URL :: string where
  "OLLAMA_DEFAULT_BASE_URL = ''http://localhost:11434''"

definition OLLAMA_DEFAULT_MODEL :: string where
  "OLLAMA_DEFAULT_MODEL = ''llama3.2''"

definition OLLAMA_DEFAULT_CONNECT_TIMEOUT_MS :: nat where
  "OLLAMA_DEFAULT_CONNECT_TIMEOUT_MS = 5000"

definition OLLAMA_DEFAULT_GENERATION_TIMEOUT_MS :: nat where
  "OLLAMA_DEFAULT_GENERATION_TIMEOUT_MS = 300000"

record ollama_adapter =
  la_baseUrl :: string
  la_apiKey :: "string option"
  la_defaultModel :: string
  la_connectTimeoutMs :: nat
  la_generationTimeoutMs :: nat

definition ollama_new :: "adapter_config \<Rightarrow> nat option \<Rightarrow> nat option \<Rightarrow> ollama_adapter" where
  "ollama_new config connectTimeoutMs generationTimeoutMs =
     \<lparr>la_baseUrl = strip_slashes (trim_or (ac_baseUrl config) OLLAMA_DEFAULT_BASE_URL),
      la_apiKey = trim_or_null (ac_apiKey config),
      la_defaultModel = trim_or (ac_modelIdentifier config) OLLAMA_DEFAULT_MODEL,
      la_connectTimeoutMs = from_option OLLAMA_DEFAULT_CONNECT_TIMEOUT_MS connectTimeoutMs,
      la_generationTimeoutMs = from_option OLLAMA_DEFAULT_GENERATION_TIMEOUT_MS generationTimeoutMs\<rparr>"

definition ollama_sanitize :: "ollama_adapter \<Rightarrow> string \<Rightarrow> string" where
  "ollama_sanitize a message = sanitize_key (la_apiKey a) message"

definition ollama_done_reason :: "string option \<Rightarrow> finish_reason" where
  "ollama_done_reason reason = (if reason = Some ''length'' then FinishLength else FinishStop)"

definition ollama_model :: "ollama_adapter \<Rightarrow> completion_request \<Rightarrow> string" where
  "ollama_model a request = trim_or (cq_model request) (la_defaultModel a)"

definition ollama_wire_message :: "string \<Rightarrow> string \<Rightarrow> json" where
  "ollama_wire_message role content = JObj [(''role'', JStr role), (''content'', JStr content)]"

definition ollama_wire_messages :: "completion_request \<Rightarrow> json list" where
  "ollama_wire_messages request =
     (let ms = (case trim_or_null (cq_systemPrompt request) of
                  None \<Rightarrow> [] | Some p \<Rightarrow> [ollama_wire_message ''system'' p])
               @ map (\<lambda>m. ollama_wire_message (am_role m) (am_content m)) (cq_messages request)
      in if ms = [] then [ollama_wire_message ''user'' '' ''] else ms)"

definition ollama_options :: "completion_request \<Rightarrow> (string \<times> json) list" where
  "ollama_options request =
     set_all (object_entries (cq_modelParams request))
       ((case cq_temperature request of None \<Rightarrow> [] | Some t \<Rightarrow> [(''temperature'', JNum t)])
        @ (case cq_maxTokens request of None \<Rightarrow> [] | Some n \<Rightarrow> [(''num_predict'', JNum (of_int n))]))"

definition ollama_payload :: "ollama_adapter \<Rightarrow> completion_request \<Rightarrow> bool \<Rightarrow> (string \<times> json) list" where
  "ollama_payload a request stream =
     [(''model'', JStr (ollama_model a request)), (''messages'', JArr (ollama_wire_messages request)),
      (''stream'', JBool stream)]
     @ (if ollama_options request = [] then [] else [(''options'', JObj (ollama_options request))])"

definition ollama_headers :: "ollama_adapter \<Rightarrow> (string \<times> string) list \<Rightarrow> (string \<times> string) list" where
  "ollama_headers a custom =
     (let headers = set_all custom [(''Content-Type'', ''application/json'')] in
      case la_apiKey a of
        None \<Rightarrow> headers
      | Some k \<Rightarrow> AList.update ''Authorization'' (''Bearer '' @ k) headers)"

definition ollama_request :: "ollama_adapter \<Rightarrow> completion_request \<Rightarrow> bool \<Rightarrow> http_request" where
  "ollama_request a request stream =
     \<lparr>hq_url = la_baseUrl a @ ''/api/chat'', hq_method = ''POST'', hq_headers = ollama_headers a [],
      hq_body = Some (JObj (ollama_payload a request stream))\<rparr>"

section \<open>Failures\<close>

text \<open>\<open>/model ['"]([^'"]+)['"] not found/i\<close>.\<close>

definition is_quote :: "char \<Rightarrow> bool" where
  "is_quote c = (code_unit c = 34 \<or> code_unit c = 39)"

definition missing_model :: rx where
  "missing_model = seqs [lit_i ''model '', Cls is_quote, Cap (Rep 1 (\<lambda>c. \<not> is_quote c)), Cls is_quote,
     lit_i '' not found'']"

definition ollama_named_model :: "ollama_adapter \<Rightarrow> string option \<Rightarrow> string" where
  "ollama_named_model a requestedModel =
     (if truthy requestedModel then from_option [] requestedModel else la_defaultModel a)"

definition ollama_map_error :: "ollama_adapter \<Rightarrow> nat \<Rightarrow> string \<Rightarrow> string option \<Rightarrow> exn" where
  "ollama_map_error a status message requestedModel =
     (let safeMessage = ollama_sanitize a message; kind = Some ''ollama'';
          lower = js_lower safeMessage in
      if status = 404 \<or> js_includes lower ''not found'' \<or> js_includes lower ''try pulling''
      then model_not_found_error (case rx_match missing_model safeMessage of
               Some m \<Rightarrow> from_option [] (group1 m)
             | None \<Rightarrow> ollama_named_model a requestedModel) kind None None
      else if js_includes lower ''loading'' \<or> js_includes lower ''busy''
      then provider_unavailable_error (''Model '' @ quoted (ollama_named_model a requestedModel)
             @ '' is still loading into memory. Please wait a moment and try again.'') kind None None
      else if js_includes lower ''context length'' \<or> js_includes lower ''token limit''
           \<or> js_includes lower ''too many tokens''
      then context_length_exceeded_error safeMessage kind None None
      else if status = 429
      then rate_limit_error (''Ollama rate limit exceeded: '' @ safeMessage) kind None None None
      else if status = 400
      then invalid_request_error (''Ollama rejected request: '' @ safeMessage) kind None None
      else provider_unavailable_error (''Ollama error (HTTP '' @ show_nat status @ ''): '' @ safeMessage)
             kind None None)"

definition ollama_error_response :: "ollama_wire \<Rightarrow> ollama_adapter \<Rightarrow> http_response \<Rightarrow> string option \<Rightarrow> exn" where
  "ollama_error_response w a res requestedModel =
     (let err = (case hr_text res of Inl _ \<Rightarrow> None
            | Inr t \<Rightarrow> (case lw_error w t of Inl _ \<Rightarrow> None | Inr e \<Rightarrow> e))
      in ollama_map_error a (hr_status res)
           (if truthy err then from_option [] err else ''HTTP '' @ show_nat (hr_status res)) requestedModel)"

definition ollama_aborted :: "string \<Rightarrow> exn" where
  "ollama_aborted message = request_aborted_error message (Some ''ollama'') None None"

definition ollama_advice :: string where
  "ollama_advice = '' Ensure Ollama is started with '' @ [char_of (39::nat)] @ ''ollama serve'' @ [char_of (39::nat)]
     @ '' or by opening the Ollama application.''"

text \<open>The timer of the exchange is the connect timer.\<close>

definition ollama_execute_fetch ::
  "ollama_wire \<Rightarrow> ollama_adapter \<Rightarrow> string option \<Rightarrow> exchange \<Rightarrow> exn + http_response" where
  "ollama_execute_fetch w a requestedModel x =
     (case fx_result x of
        Inr res \<Rightarrow> if response_ok res then Inr res else Inl (ollama_error_response w a res requestedModel)
      | Inl err \<Rightarrow>
         (let lower = js_lower (raw_message err); kind = Some ''ollama'' in
          Inl (if is_adapter_error err then err
               else if fx_abortedBefore x \<or> fx_abortedAfter x then ollama_aborted ''Request to Ollama was aborted''
               else if fx_timedOut x
               then provider_unavailable_error (''Ollama is not running at '' @ la_baseUrl a
                      @ '' (connection timed out after '' @ show_nat (la_connectTimeoutMs a) @ ''ms).''
                      @ ollama_advice) kind None None
               else if js_includes lower ''econnrefused'' \<or> js_includes lower ''fetch failed''
                    \<or> js_includes lower ''connect error''
               then provider_unavailable_error (''Ollama is not running at '' @ la_baseUrl a @ ''.''
                      @ ollama_advice) kind None None
               else provider_unavailable_error (''Failed to reach Ollama at '' @ la_baseUrl a @ '': ''
                      @ ollama_sanitize a (raw_message err)) kind None None)))"

section \<open>Completions\<close>

definition ollama_thinking :: "ollama_message option \<Rightarrow> string option" where
  "ollama_thinking m =
     (if truthy (Option.bind m lm_thinking) then Option.bind m lm_thinking
      else if truthy (Option.bind m lm_reasoning_content) then Option.bind m lm_reasoning_content
      else None)"

definition ollama_usage :: "ollama_response \<Rightarrow> token_usage" where
  "ollama_usage r =
     (let inTok = from_option 0 (lr_prompt_eval_count r); outTok = from_option 0 (lr_eval_count r)
      in \<lparr>inputTokens = inTok, outputTokens = outTok, totalTokens = inTok + outTok, reasoningTokens = None\<rparr>)"

definition ollama_complete ::
  "ollama_wire \<Rightarrow> ollama_adapter \<Rightarrow> completion_request \<Rightarrow> exchange \<Rightarrow> exn + completion_response" where
  "ollama_complete w a request x =
     (let targetModel = ollama_model a request in
      case ollama_execute_fetch w a (Some targetModel) x of
        Inl e \<Rightarrow> Inl e
      | Inr res \<Rightarrow> (case hr_text res of
          Inl e \<Rightarrow> Inl e
        | Inr t \<Rightarrow> (case lw_response w t of
            Inl e \<Rightarrow> Inl e
          | Inr data \<Rightarrow>
              if truthy (lr_error data)
              then Inl (ollama_map_error a (hr_status res) (from_option [] (lr_error data)) (Some targetModel))
              else Inr \<lparr>cs_content = from_option [] (Option.bind (lr_message data) lm_content),
                cs_reasoningContent = ollama_thinking (lr_message data),
                cs_finishReason = ollama_done_reason (lr_done_reason data),
                cs_usage = Some (ollama_usage data),
                cs_model = (if truthy (lr_model data) then from_option [] (lr_model data) else targetModel)\<rparr>)))"

section \<open>Streams\<close>

record ollama_stream_state =
  ls_model :: string
  ls_finishReason :: finish_reason
  ls_currentUsage :: "token_usage option"

definition ollama_text_events :: "ollama_response \<Rightarrow> stream_event list" where
  "ollama_text_events chunk =
     (let c = Option.bind (lr_message chunk) lm_content in
      if truthy c then [TextDelta (from_option [] c)] else [])"

definition ollama_thought_events :: "ollama_response \<Rightarrow> stream_event list" where
  "ollama_thought_events chunk = (case ollama_thinking (lr_message chunk) of
     None \<Rightarrow> [] | Some t \<Rightarrow> [ThoughtDelta t])"

definition ollama_counts :: "ollama_response \<Rightarrow> token_usage option" where
  "ollama_counts chunk =
     (if lr_prompt_eval_count chunk \<noteq> None \<or> lr_eval_count chunk \<noteq> None then Some (ollama_usage chunk) else None)"

definition ollama_usage_events :: "ollama_response \<Rightarrow> stream_event list" where
  "ollama_usage_events chunk = (case ollama_counts chunk of None \<Rightarrow> [] | Some u \<Rightarrow> [UsageReport u])"

definition ollama_completion :: "ollama_stream_state \<Rightarrow> stream_event" where
  "ollama_completion s = CompleteReport (ls_finishReason s) (ls_currentUsage s) (Some (ls_model s))"

definition ollama_line ::
  "ollama_wire \<Rightarrow> ollama_adapter \<Rightarrow> string \<Rightarrow> nat \<Rightarrow> ollama_stream_state \<Rightarrow> string
   \<Rightarrow> stream_event list \<times> ollama_stream_state option" where
  "ollama_line w a targetModel status s line =
     (let trimmed = js_trim line in
      if trimmed = [] then ([], Some s)
      else case lw_response w trimmed of
        Inl _ \<Rightarrow> ([], Some s)
      | Inr chunk \<Rightarrow>
          if truthy (lr_error chunk)
          then ([ErrorReport (ollama_map_error a status (from_option [] (lr_error chunk)) (Some targetModel))], None)
          else let s1 = s\<lparr>ls_model := (if truthy (lr_model chunk) then from_option [] (lr_model chunk) else ls_model s),
                  ls_finishReason := (if truthy (lr_done_reason chunk) then ollama_done_reason (lr_done_reason chunk)
                                      else ls_finishReason s),
                  ls_currentUsage := coalesce (ollama_counts chunk) (ls_currentUsage s)\<rparr>;
                events = ollama_thought_events chunk @ ollama_text_events chunk @ ollama_usage_events chunk
            in if lr_done chunk then (events @ [ollama_completion s1], None) else (events, Some s1))"

definition ollama_close ::
  "ollama_wire \<Rightarrow> ollama_stream_state \<Rightarrow> string \<Rightarrow> stream_event list" where
  "ollama_close w s buffer =
     (let trimmed = js_trim buffer in
      case (if trimmed = [] then None else case lw_response w trimmed of Inl _ \<Rightarrow> None | Inr c \<Rightarrow> Some c) of
        None \<Rightarrow> [ollama_completion s]
      | Some chunk \<Rightarrow>
          let usage = coalesce (ollama_counts chunk) (ls_currentUsage s) in
          ollama_text_events chunk @ ollama_usage_events chunk
          @ (if lr_done chunk
             then [CompleteReport (ollama_done_reason (lr_done_reason chunk)) usage
                    (Some (if truthy (lr_model chunk) then from_option [] (lr_model chunk) else ls_model s))]
             else [ollama_completion (s\<lparr>ls_currentUsage := usage\<rparr>)]))"

definition ollama_stream_failed :: "ollama_adapter \<Rightarrow> bool \<Rightarrow> exn \<Rightarrow> exn" where
  "ollama_stream_failed a abortedNow err =
     (if is_adapter_error err then err
      else if abortedNow \<or> is_abort_named err then ollama_aborted ''Ollama streaming request was aborted''
      else provider_unavailable_error (''Ollama streaming failed: '' @ ollama_sanitize a (raw_message err))
             (Some ''ollama'') None None)"

definition ollama_reader :: "ollama_wire \<Rightarrow> ollama_adapter \<Rightarrow> string \<Rightarrow> nat \<Rightarrow> ollama_stream_state reader" where
  "ollama_reader w a targetModel status = \<lparr>rd_line = ollama_line w a targetModel status, rd_close = ollama_close w,
     rd_aborted = ollama_aborted ''Ollama streaming request was aborted'',
     rd_failed = ollama_stream_failed a\<rparr>"

definition ollama_stream_start :: "ollama_adapter \<Rightarrow> completion_request \<Rightarrow> ollama_stream_state" where
  "ollama_stream_start a request = \<lparr>ls_model = ollama_model a request, ls_finishReason = FinishStop,
     ls_currentUsage = None\<rparr>"

definition ollama_stream ::
  "ollama_wire \<Rightarrow> ollama_adapter \<Rightarrow> completion_request \<Rightarrow> exchange \<Rightarrow> effect \<Rightarrow> stream_run" where
  "ollama_stream w a request x f =
     (case ollama_execute_fetch w a (Some (ollama_model a request)) x of
        Inl e \<Rightarrow> Throws f e
      | Inr res \<Rightarrow> (case hr_body res of
          None \<Rightarrow> Throws f (provider_unavailable_error (''Ollama streaming response body is empty from ''
                    @ la_baseUrl a) (Some ''ollama'') None None)
        | Some b \<Rightarrow> read_body (ollama_reader w a (ollama_model a request) (hr_status res))
                      (ollama_stream_start a request) [] f b))"

section \<open>Discovery\<close>

definition ollama_discovered :: "ollama_model_item \<Rightarrow> discovered_model option" where
  "ollama_discovered item =
     (if \<not> truthy (li_name item) \<and> \<not> truthy (li_model item) then None
      else let i = (if truthy (li_name item) then from_option [] (li_name item) else from_option [] (li_model item)) in
        Some \<lparr>dm_modelIdentifier = i, dm_displayName = i, dm_contextWindow = li_context_window item,
          dm_defaultTemperature = None, dm_defaultMaxTokens = None\<rparr>)"

definition ollama_discover_models :: "ollama_wire \<Rightarrow> ollama_adapter \<Rightarrow> exchange \<Rightarrow> exn + discovered_model list" where
  "ollama_discover_models w a x =
     (case ollama_execute_fetch w a None x of
        Inl e \<Rightarrow> Inl e
      | Inr res \<Rightarrow> Inr (case hr_text res of
          Inl _ \<Rightarrow> []
        | Inr t \<Rightarrow> (case lw_models w t of
            Inl _ \<Rightarrow> []
          | Inr items \<Rightarrow> List.map_filter ollama_discovered items)))"

section \<open>As an adapter of the registry\<close>

definition ollama_creator ::
  "ollama_wire \<Rightarrow> (nat \<Rightarrow> http_request \<Rightarrow> exchange \<times> effect) \<Rightarrow> adapter_creator" where
  "ollama_creator w http config =
     (let a = ollama_new config None None in
      Inr \<lparr>ad_supportsStreaming = True,
        ad_complete = (\<lambda>n request. case http n (ollama_request a request False) of
           (x, f) \<Rightarrow> (ollama_complete w a request x, f)),
        ad_stream = (\<lambda>n request. case http n (ollama_request a request True) of
           (x, f) \<Rightarrow> ollama_stream w a request x f)\<rparr>)"

end
