(* ===== verification/AdapterFacts.thy ===== *)
theory AdapterFacts
  imports Anthropic Gemini Ollama
begin

text \<open>
  Facts about the four provider adapters: a stream ends with exactly one final event or
  throws, every exception of a stream is an adapter error, the events depend on the text of
  the body and not on its reads, and the key of a provider does not survive sanitizing. The
  registration of the adapters (\<open>model-adapters.module.ts\<close>) is here as well.
\<close>

section \<open>One final event\<close>

definition no_final :: "stream_event list \<Rightarrow> bool" where
  "no_final es = list_all (\<lambda>e. \<not> is_final e) es"

text \<open>The last event is final, and no other one.\<close>

definition ends_final :: "stream_event list \<Rightarrow> bool" where
  "ends_final es = (es \<noteq> [] \<and> is_final (last es) \<and> no_final (butlast es))"

lemma no_final_simps [simp]:
  "no_final []" "no_final (e # es) = (\<not> is_final e \<and> no_final es)" "no_final (es @ es') = (no_final es \<and> no_final es')"
  by (simp_all add: no_final_def)

lemma ends_final_simps [simp]:
  "\<not> ends_final []" "ends_final [e] = is_final e"
  "es \<noteq> [] \<Longrightarrow> ends_final (es' @ es) = (no_final es' \<and> ends_final es)"
  by (auto simp: ends_final_def butlast_append)

lemma ends_final_append [simp]: "ends_final es \<Longrightarrow> ends_final (es' @ es) = no_final es'"
  by (cases "es = []") simp_all

lemma yield_until_final_stops: "yield_until_final es s = (es', None) \<Longrightarrow> ends_final es'"
proof (induction es s arbitrary: es' rule: yield_until_final.induct)
  case (2 e es s)
  show ?case
  proof (cases "is_final e")
    case False
    then obtain es'' where "yield_until_final es s = (es'', None)" "es' = e # es''"
      using "2.prems" by (auto split: prod.splits)
    with "2.IH" False show ?thesis using ends_final_append [of es'' "[e]"] by simp
  qed (use "2.prems" in auto)
qed simp

lemma yield_until_final_goes:
  "yield_until_final es s = (es', Some t) \<Longrightarrow> t = s \<and> es' = es \<and> no_final es"
  by (induction es s arbitrary: es' rule: yield_until_final.induct) (auto split: if_splits prod.splits)

text \<open>
  Whatever else a reader yields, a body read to its end has been answered by a final event.
  Its state is open as long as there was none.
\<close>

locale answering_reader =
  fixes r :: "'s reader" and open_state :: "'s \<Rightarrow> bool"
  assumes stop_answers: "open_state s \<Longrightarrow> rd_line r s l = (es, None) \<Longrightarrow> list_ex is_final es"
    and go_answers: "open_state s \<Longrightarrow> rd_line r s l = (es, Some t) \<Longrightarrow> open_state t \<or> list_ex is_final es"
    and close_answers: "open_state s \<Longrightarrow> list_ex is_final (rd_close r s buffer)"
begin

lemma run_lines_answers:
  "open_state s \<Longrightarrow> run_lines (rd_line r) s ls = (es, x) \<Longrightarrow>
     (\<exists>t. x = Some t \<and> open_state t) \<or> list_ex is_final es"
proof (induction ls arbitrary: s es x)
  case (Cons l ls)
  then show ?case
    by (auto split: prod.splits option.splits dest: stop_answers) (metis go_answers)
qed simp

lemma read_body_answers:
  "open_state s \<Longrightarrow> stream_trace (read_body r s buffer f b) = (es, None) \<Longrightarrow> list_ex is_final es"
proof (induction b arbitrary: s buffer f es)
  case (Chunk ab g piece rest s buffer f es)
  obtain es1 y where l: "run_lines (rd_line r) s (butlast (split_lines (buffer @ piece))) = (es1, y)"
    by (cases "run_lines (rd_line r) s (butlast (split_lines (buffer @ piece)))")
  show ?case
  proof (cases "list_ex is_final es1")
    case True
    with Chunk.prems(2) l show ?thesis by (auto simp: trace_yields Let_def split: if_splits option.splits)
  next
    case False
    then obtain t where t: "y = Some t" "open_state t" using run_lines_answers [OF Chunk.prems(1) l] by blast
    define h where "h = (if es1 = [] then then_effect f g else no_effect_at_all)"
    obtain es2 z where m: "stream_trace (read_body r t (last (split_lines (buffer @ piece))) h rest) = (es2, z)"
      by (cases "stream_trace (read_body r t (last (split_lines (buffer @ piece))) h rest)")
    have "es = es1 @ es2" "z = None"
      using Chunk.prems(2) l t(1) m by (simp_all add: trace_yields Let_def h_def [symmetric] split: if_splits)
    with Chunk.IH [OF t(2), of "last (split_lines (buffer @ piece))" h] m show ?thesis by simp
  qed
next
  case (Closed ab g s buffer f es)
  then show ?case using close_answers [of s buffer] by (auto simp: trace_yields split: if_splits)
qed (auto split: if_splits)

end

text \<open>
  What a reader owes its callers: as long as it goes on it has yielded no final event, and
  when it returns, on a line or at the end of the body, the last event is the final one. Its
  state is one of those reached without having completed.
\<close>

locale closing_reader =
  fixes r :: "'s reader" and open_state :: "'s \<Rightarrow> bool"
  assumes line_stops: "open_state s \<Longrightarrow> rd_line r s l = (es, None) \<Longrightarrow> ends_final es"
    and line_goes: "open_state s \<Longrightarrow> rd_line r s l = (es, Some t) \<Longrightarrow> open_state t \<and> no_final es"
    and closes: "open_state s \<Longrightarrow> ends_final (rd_close r s buffer)"
begin

lemma run_lines_ends:
  "open_state s \<Longrightarrow> run_lines (rd_line r) s ls = (es, x) \<Longrightarrow>
     (case x of None \<Rightarrow> ends_final es | Some t \<Rightarrow> open_state t \<and> no_final es)"
proof (induction ls arbitrary: s es x)
  case (Cons l ls)
  obtain es1 y where l: "rd_line r s l = (es1, y)" by (cases "rd_line r s l")
  show ?case
  proof (cases y)
    case None
    with Cons.prems l line_stops [of s l es1] show ?thesis by simp
  next
    case (Some t)
    obtain es2 z where m: "run_lines (rd_line r) t ls = (es2, z)" by (cases "run_lines (rd_line r) t ls")
    have t: "open_state t" "no_final es1" using line_goes [of s l es1 t] Cons.prems(1) l Some by simp_all
    from Cons.IH [OF t(1) m] Cons.prems(2) l Some m t(2) show ?thesis by (auto split: option.splits)
  qed
qed simp

text \<open>A body either ends with its one final event, or it fails before any.\<close>

lemma read_body_ends:
  "open_state s \<Longrightarrow> stream_trace (read_body r s buffer f b) = (es, x) \<Longrightarrow>
     (case x of None \<Rightarrow> ends_final es | Some e \<Rightarrow> no_final es)"
proof (induction b arbitrary: s buffer f es x)
  case (Chunk ab g piece rest s buffer f)
  show ?case
  proof (cases ab)
    case False
    obtain es1 y where l: "run_lines (rd_line r) s (butlast (split_lines (buffer @ piece))) = (es1, y)"
      by (cases "run_lines (rd_line r) s (butlast (split_lines (buffer @ piece)))")
    note ends = run_lines_ends [OF Chunk.prems(1) l]
    show ?thesis
    proof (cases y)
      case None
      with ends l False Chunk.prems(2) show ?thesis by (simp add: trace_yields Let_def split: option.splits)
    next
      case (Some t)
      define h where "h = (if es1 = [] then then_effect f g else no_effect_at_all)"
      obtain es2 z where m: "stream_trace (read_body r t (last (split_lines (buffer @ piece))) h rest) = (es2, z)"
        by (cases "stream_trace (read_body r t (last (split_lines (buffer @ piece))) h rest)")
      from ends Some have t: "open_state t" "no_final es1" by simp_all
      have "es = es1 @ es2" "x = z"
        using Chunk.prems(2) False l Some m by (simp_all add: trace_yields Let_def h_def [symmetric])
      with Chunk.IH [OF t(1) m] t(2) show ?thesis by (auto split: option.splits)
    qed
  qed (use Chunk.prems in auto)
next
  case (Closed ab g s buffer f)
  then show ?case using closes [of s buffer] by (auto simp: trace_yields split: if_splits)
qed (auto split: if_splits)

end

lemma ends_final_ex: "ends_final es \<Longrightarrow> list_ex is_final es"
  by (cases es rule: rev_cases) (simp_all add: ends_final_def)

sublocale closing_reader \<subseteq> answering: answering_reader r open_state
  by unfold_locales (auto dest: line_stops line_goes closes intro: ends_final_ex)

lemma final_choice_events [simp]: "no_final (openai_choice_events c)"
  by (simp add: openai_choice_events_def split: option.split)

lemma no_final_concat: "no_final (concat (map f xs)) = list_all (\<lambda>x. no_final (f x)) xs"
  by (induction xs) simp_all

lemma openai_parse_completes:
  "openai_parse_sse_data w a str s = (es, t) \<Longrightarrow> \<not> os_completed s \<Longrightarrow> no_final es \<Longrightarrow> \<not> os_completed t"
  by (auto simp: openai_parse_sse_data_def Let_def split: if_splits sum.splits option.splits)

lemma openai_piece:
  assumes "\<not> os_completed s" "openai_parse_sse_data w a str s = (es, t)" "yield_until_final es t = (es', Some u)"
  shows "\<not> os_completed u \<and> no_final es'"
  using yield_until_final_goes [OF assms(3)] openai_parse_completes [OF assms(2,1)] by simp

interpretation openai_closes: closing_reader "openai_reader w a" "\<lambda>s. \<not> os_completed s"
  for w :: openai_wire and a :: openai_adapter
proof (unfold_locales, goal_cases)
  case (1 s l es)
  then show ?case
    by (auto simp: openai_reader_def openai_line_def split: if_splits prod.splits dest: yield_until_final_stops)
next
  case (2 s l es t)
  then show ?case
    by (auto simp: openai_reader_def openai_line_def split: if_splits prod.splits
        dest: openai_piece [where s = "s\<lparr>os_dataLines := []\<rparr>", rotated])
next
  case (3 s buffer)
  then show ?case
    by (auto simp: openai_reader_def openai_close_def Let_def split: prod.splits option.splits
        dest: yield_until_final_stops openai_piece [rotated])
qed

lemma final_part_events [simp]: "no_final (gemini_part_events p)"
  by (simp add: gemini_part_events_def)

lemma gemini_candidate_open:
  "gemini_candidate_events c u s = (es, t) \<Longrightarrow> gt_completed t = gt_completed s"
  by (auto simp: gemini_candidate_events_def Let_def split: option.splits if_splits)

lemma gemini_parse_completes:
  "gemini_parse_sse_chunk w a str s = (es, t) \<Longrightarrow> \<not> gt_completed s \<Longrightarrow> no_final es \<Longrightarrow> \<not> gt_completed t"
  by (auto simp: gemini_parse_sse_chunk_def gemini_completion_def Let_def dest!: gemini_candidate_open
      split: if_splits sum.splits option.splits)

lemma gemini_piece:
  assumes "\<not> gt_completed s" "gemini_parse_sse_chunk w a str s = (es, t)" "yield_until_final es t = (es', Some u)"
  shows "\<not> gt_completed u \<and> no_final es'"
  using yield_until_final_goes [OF assms(3)] gemini_parse_completes [OF assms(2,1)] by simp

interpretation gemini_closes: closing_reader "gemini_reader w a" "\<lambda>s. \<not> gt_completed s"
  for w :: gemini_wire and a :: gemini_adapter
proof (unfold_locales, goal_cases)
  case (1 s l es)
  then show ?case
    by (auto simp: gemini_reader_def gemini_line_def split: if_splits prod.splits dest: yield_until_final_stops)
next
  case (2 s l es t)
  then show ?case
    by (auto simp: gemini_reader_def gemini_line_def split: if_splits prod.splits
        dest: gemini_piece [where s = "s\<lparr>gt_dataLines := []\<rparr>", rotated])
next
  case (3 s buffer)
  then show ?case
    by (auto simp: gemini_reader_def gemini_close_def gemini_completion_def Let_def split: prod.splits option.splits
        dest: yield_until_final_stops gemini_piece [rotated])
qed

lemma ollama_deltas [simp]:
  "no_final (ollama_thought_events c)" "no_final (ollama_text_events c)" "no_final (ollama_usage_events c)"
  by (simp_all add: ollama_thought_events_def ollama_text_events_def ollama_usage_events_def Let_def
      split: option.split)

lemma ollama_completion_final [simp]: "is_final (ollama_completion s)"
  by (simp add: ollama_completion_def)

interpretation ollama_closes: closing_reader "ollama_reader w a m status" "\<lambda>s. True"
  for w :: ollama_wire and a :: ollama_adapter and m :: string and status :: nat
proof (unfold_locales, goal_cases)
  case (1 s l es)
  then show ?case by (auto simp: ollama_reader_def ollama_line_def Let_def split: if_splits sum.splits)
next
  case (2 s l es t)
  then show ?case by (auto simp: ollama_reader_def ollama_line_def Let_def split: if_splits sum.splits)
next
  case (3 s buffer)
  then show ?case by (auto simp: ollama_reader_def ollama_close_def Let_def split: sum.splits option.splits)
qed

text \<open>Anthropic's reader goes on after an event of its own that ends the answer.\<close>

lemma anthropic_handle_answers:
  "anthropic_handle_event a type ev s = (es, t) \<Longrightarrow> \<not> as_completed s \<Longrightarrow> \<not> as_completed t \<or> list_ex is_final es"
  by (auto simp: anthropic_handle_event_def anthropic_completion_def Let_def split: if_splits option.splits)

lemma anthropic_parse_answers:
  "anthropic_parse_sse_event w a str name s = (es, t) \<Longrightarrow> \<not> as_completed s
   \<Longrightarrow> \<not> as_completed t \<or> list_ex is_final es"
  using anthropic_handle_answers [of a _ _ s es t]
  by (auto simp: anthropic_parse_sse_event_def anthropic_completion_def Let_def split: if_splits sum.splits)

interpretation anthropic_answers: answering_reader "anthropic_reader w a" "\<lambda>s. \<not> as_completed s"
  for w :: anthropic_wire and a :: anthropic_adapter
proof (unfold_locales, goal_cases)
  case (1 s l es)
  then show ?case by (auto simp: anthropic_reader_def anthropic_line_def split: if_splits prod.splits)
next
  case (2 s l es t)
  then show ?case
    by (auto simp: anthropic_reader_def anthropic_line_def split: if_splits prod.splits
        dest: anthropic_parse_answers)
next
  case (3 s buffer)
  define s1 where "s1 = (if prefix ''event:'' (js_trim buffer)
     then s\<lparr>as_currentEvent := js_trim (drop 6 (js_trim buffer))\<rparr>
     else s\<lparr>as_dataLines := trailing_data buffer (as_dataLines s)\<rparr>)"
  obtain es t where p: "anthropic_parse_sse_event w a (js_join nl (as_dataLines s1)) (as_currentEvent s1) s1 = (es, t)"
    by (cases "anthropic_parse_sse_event w a (js_join nl (as_dataLines s1)) (as_currentEvent s1) s1")
  have s1: "\<not> as_completed s1" using 3 by (simp add: s1_def)
  have "rd_close (anthropic_reader w a) s buffer = (if as_dataLines s1 \<noteq> []
      then es @ (if as_completed t then [] else [anthropic_completion t]) else [anthropic_completion s1])"
    using s1 by (simp add: anthropic_reader_def anthropic_close_def Let_def p s1_def [symmetric])
  with anthropic_parse_answers [OF p s1] show ?case by (auto simp: anthropic_completion_def)
qed

section \<open>Only adapter errors\<close>

lemma adapter_errors [simp]:
  "is_adapter_error (authentication_error m k c i)" "is_adapter_error (rate_limit_error m k r c i)"
  "is_adapter_error (invalid_request_error m k c i)" "is_adapter_error (model_not_found_error n k m' c)"
  "is_adapter_error (context_length_exceeded_error m k c i)" "is_adapter_error (provider_unavailable_error m k c i)"
  "is_adapter_error (request_aborted_error m k c i)" "is_adapter_error (request_timeout_error m k c i)"
  "is_adapter_error (unsupported_capability_error m k)"
  by (simp_all add: is_adapter_error_def model_adapter_error_def authentication_error_def rate_limit_error_def
      invalid_request_error_def model_not_found_error_def context_length_exceeded_error_def
      provider_unavailable_error_def request_aborted_error_def request_timeout_error_def
      unsupported_capability_error_def)

lemma mapped_errors [simp]:
  "is_adapter_error (openai_map_error oa t c m q)" "is_adapter_error (anthropic_map_error aa t m q)"
  "is_adapter_error (gemini_map_error ga q m t)" "is_adapter_error (ollama_map_error la q m p)"
  by (simp_all add: openai_map_error_def anthropic_map_error_def gemini_map_error_def ollama_map_error_def Let_def)

lemma openai_fetch_errors: "openai_execute_fetch w a x = Inl e \<Longrightarrow> is_adapter_error e"
  by (auto simp: openai_execute_fetch_def openai_error_response_def openai_aborted_def Let_def
      split: if_splits sum.splits)

lemma anthropic_fetch_errors: "anthropic_execute_fetch w a x = Inl e \<Longrightarrow> is_adapter_error e"
  by (auto simp: anthropic_execute_fetch_def anthropic_error_response_def anthropic_aborted_def Let_def
      split: if_splits sum.splits)

lemma gemini_fetch_errors: "gemini_execute_fetch w a x = Inl e \<Longrightarrow> is_adapter_error e"
  by (auto simp: gemini_execute_fetch_def gemini_error_response_def gemini_aborted_def Let_def
      split: if_splits sum.splits)

lemma ollama_fetch_errors: "ollama_execute_fetch w a q x = Inl e \<Longrightarrow> is_adapter_error e"
  by (auto simp: ollama_execute_fetch_def ollama_error_response_def ollama_aborted_def Let_def
      split: if_splits sum.splits)

text \<open>A reader whose own exceptions are adapter errors throws nothing else.\<close>

locale typed_reader =
  fixes r :: "'s reader"
  assumes aborted_typed: "is_adapter_error (rd_aborted r)"
    and failed_typed: "is_adapter_error (rd_failed r ab e)"
begin

lemma read_body_errors: "snd (stream_trace (read_body r s buffer f b)) = Some e \<Longrightarrow> is_adapter_error e"
  by (induction b arbitrary: s buffer f)
    (auto simp: aborted_typed failed_typed trace_yields Let_def split: if_splits prod.splits option.splits)

end

interpretation openai_typed: typed_reader "openai_reader w a" for w :: openai_wire and a :: openai_adapter
  by unfold_locales (simp_all add: openai_reader_def openai_aborted_def openai_stream_failed_def)

interpretation anthropic_typed: typed_reader "anthropic_reader w a" for w :: anthropic_wire and a :: anthropic_adapter
  by unfold_locales (simp_all add: anthropic_reader_def anthropic_aborted_def anthropic_stream_failed_def)

interpretation gemini_typed: typed_reader "gemini_reader w a" for w :: gemini_wire and a :: gemini_adapter
  by unfold_locales (simp_all add: gemini_reader_def gemini_aborted_def gemini_stream_failed_def)

interpretation ollama_typed: typed_reader "ollama_reader w a m status"
  for w :: ollama_wire and a :: ollama_adapter and m :: string and status :: nat
  by unfold_locales (simp_all add: ollama_reader_def ollama_aborted_def ollama_stream_failed_def)

section \<open>The key does not survive\<close>

text \<open>An occurrence of a text without the character \<open>c\<close> lies on one side of it.\<close>

lemma prefix_across: "c \<notin> set k \<Longrightarrow> prefix k (a @ c # b) \<longleftrightarrow> prefix k a"
proof (induction k arbitrary: a)
  case (Cons x k)
  then show ?case by (cases a) auto
qed simp

lemma js_includes_across:
  "c \<notin> set k \<Longrightarrow> k \<noteq> [] \<Longrightarrow> js_includes (a @ c # b) k \<longleftrightarrow> js_includes a k \<or> js_includes b k"
proof (induction a)
  case Nil
  then show ?case by (cases k) auto
next
  case (Cons x a)
  then show ?case using prefix_across [of c k "x # a" b] by auto
qed

lemma replace_text_prefix:
  "c \<notin> set p \<Longrightarrow> prefix p (replace_text k (c # q) s) \<Longrightarrow> prefix p s"
proof (induction p arbitrary: s)
  case (Cons x p)
  show ?case
  proof (cases s)
    case Nil
    with Cons.prems show ?thesis by (subst (asm) replace_text.simps) (auto split: if_splits)
  next
    case (Cons y ys)
    with Cons.prems Cons.IH [of ys] show ?thesis
      by (subst (asm) replace_text.simps) (auto split: if_splits)
  qed
qed simp

definition redaction_mark :: string where
  "redaction_mark = ''[REDACTED_API_KEY]''"

lemma replace_text_gone:
  assumes k: "k \<noteq> []" "CHR ''['' \<notin> set k" "CHR '']'' \<notin> set k" and "\<not> js_includes redaction_mark k"
  shows "\<not> js_includes (replace_text k redaction_mark s) k"
proof -
  let ?m = "''REDACTED_API_KEY''"
  have m: "redaction_mark = CHR ''['' # ?m @ [CHR '']'']" by (simp add: redaction_mark_def)
  have "js_includes (redaction_mark @ t) k = js_includes t k" for t
  proof -
    have "\<not> js_includes ?m k"
      using assms(4) js_includes_across [OF k(3,1), of ?m "[]"] js_includes_across [OF k(2,1), of "[]"] k(1)
      by (auto simp: m)
    moreover have "redaction_mark @ t = [] @ CHR ''['' # (?m @ CHR '']'' # t)" by (simp add: m)
    ultimately show ?thesis using k js_includes_across [OF k(2,1)] js_includes_across [OF k(3,1)]
      by (metis js_includes.simps(1))
  qed
  note mark = this
  show ?thesis
  proof (induction s rule: length_induct)
    case (1 s)
    show ?case
    proof (cases "prefix k s")
      case True
      then have "length (drop (length k) s) < length s" using k(1) by (auto simp: prefix_def)
      with 1 True k(1) show ?thesis by (subst replace_text.simps) (simp add: mark)
    next
      case False
      show ?thesis
      proof (cases s)
        case Nil
        with False k(1) show ?thesis by (subst replace_text.simps) simp
      next
        case (Cons x xs)
        have "\<not> prefix k (x # replace_text k redaction_mark xs)"
        proof
          assume p: "prefix k (x # replace_text k redaction_mark xs)"
          then obtain p' where "k = x # p'" "prefix p' (replace_text k redaction_mark xs)"
            using k(1) by (cases k) auto
          with replace_text_prefix [of "CHR ''[''" p' k "?m @ [CHR '']'']" xs] k(2) False Cons show False
            by (simp add: m)
        qed
        with 1 False k(1) Cons show ?thesis by (subst replace_text.simps) simp
      qed
    qed
  qed
qed

lemma sanitize_key_gone:
  "k \<noteq> [] \<Longrightarrow> CHR ''['' \<notin> set k \<Longrightarrow> CHR '']'' \<notin> set k \<Longrightarrow> \<not> js_includes redaction_mark k
   \<Longrightarrow> \<not> js_includes (sanitize_key (Some k) message) k"
  using replace_text_gone [of k message] by (simp add: sanitize_key_def redaction_mark_def)

section \<open>Registration\<close>

definition register_adapters ::
  "openai_wire \<Rightarrow> anthropic_wire \<Rightarrow> gemini_wire \<Rightarrow> ollama_wire
   \<Rightarrow> (nat \<Rightarrow> http_request \<Rightarrow> exchange \<times> effect) \<Rightarrow> registry \<Rightarrow> registry" where
  "register_adapters ow aw gw lw http r =
     registry_register [''ollama''] (ollama_creator lw http)
       (registry_register [''google''] (gemini_creator gw http)
         (registry_register [''openai'', ''openai_compatible'', ''lmstudio''] (openai_creator ow http)
           (registry_register [''anthropic''] (anthropic_creator aw http) r)))"

lemma register_adapters_kinds:
  "getSupportedKinds (register_adapters ow aw gw lw http [])
     = [''anthropic'', ''openai'', ''openai_compatible'', ''lmstudio'', ''google'', ''ollama'']"
  by (simp add: register_adapters_def registry_register_def getSupportedKinds_def)

lemma map_of_register_adapters:
  "map_of (register_adapters ow aw gw lw http r) kind =
     (if kind = ''ollama'' then Some (ollama_creator lw http)
      else if kind = ''google'' then Some (gemini_creator gw http)
      else if kind \<in> {''openai'', ''openai_compatible'', ''lmstudio''} then Some (openai_creator ow http)
      else if kind = ''anthropic'' then Some (anthropic_creator aw http)
      else map_of r kind)"
  by (simp add: register_adapters_def map_of_registry_register)

section \<open>Lines of the local server\<close>

lemma split_lines_plain: "LF \<notin> set s \<Longrightarrow> split_lines s = [s]"
  by (induction s rule: split_lines.induct) auto

lemma split_lines_closed: "LF \<notin> set s \<Longrightarrow> CR \<notin> set s \<Longrightarrow> split_lines (s @ [LF]) = [s, []]"
  by (induction s rule: split_lines.induct) auto

section \<open>Streams and completions as a whole\<close>

text \<open>How a stream ends: answered by the last event alone, or with an adapter error before.\<close>

definition answered_once :: "stream_event list \<Rightarrow> exn option \<Rightarrow> bool" where
  "answered_once es x = (case x of None \<Rightarrow> ends_final es | Some e \<Rightarrow> no_final es \<and> is_adapter_error e)"

locale provider_reader = closing_reader r open_state + typed_reader r
  for r :: "'s reader" and open_state :: "'s \<Rightarrow> bool"
begin

lemma body_answers: "open_state s \<Longrightarrow> stream_trace (read_body r s buffer f b) = (es, y) \<Longrightarrow> answered_once es y"
  using read_body_ends [of s buffer f b es y] read_body_errors [of s buffer f b]
  by (cases y) (simp_all add: answered_once_def)

end

interpretation openai_reads: provider_reader "openai_reader w a" "\<lambda>s. \<not> os_completed s"
  for w :: openai_wire and a :: openai_adapter
  by unfold_locales

interpretation gemini_reads: provider_reader "gemini_reader w a" "\<lambda>s. \<not> gt_completed s"
  for w :: gemini_wire and a :: gemini_adapter
  by unfold_locales

interpretation ollama_reads: provider_reader "ollama_reader w a m status" "\<lambda>s. True"
  for w :: ollama_wire and a :: ollama_adapter and m :: string and status :: nat
  by unfold_locales

lemma answered_once_throw [simp]: "is_adapter_error e \<Longrightarrow> answered_once [] (Some e)"
  by (simp add: answered_once_def)

lemma openai_stream_answers:
  assumes "stream_trace (openai_stream w a rq x f) = (es, y)"
  shows "answered_once es y"
proof (cases "openai_execute_fetch w a x")
  case (Inl e)
  with assms openai_fetch_errors [OF Inl] show ?thesis by (auto simp: openai_stream_def)
next
  case (Inr res)
  with assms openai_reads.body_answers [of "openai_stream_start a rq"] show ?thesis
    by (cases "hr_body res") (auto simp: openai_stream_def openai_stream_start_def)
qed

lemma gemini_stream_answers:
  assumes "stream_trace (gemini_stream w a rq x f) = (es, y)"
  shows "answered_once es y"
proof (cases "gemini_execute_fetch w a x")
  case (Inl e)
  with assms gemini_fetch_errors [OF Inl] show ?thesis by (auto simp: gemini_stream_def)
next
  case (Inr res)
  with assms gemini_reads.body_answers [of "gemini_stream_start a rq"] show ?thesis
    by (cases "hr_body res") (auto simp: gemini_stream_def gemini_stream_start_def)
qed

lemma ollama_stream_answers:
  assumes "stream_trace (ollama_stream w a rq x f) = (es, y)"
  shows "answered_once es y"
proof (cases "ollama_execute_fetch w a (Some (ollama_model a rq)) x")
  case (Inl e)
  with assms ollama_fetch_errors [OF Inl] show ?thesis by (auto simp: ollama_stream_def)
next
  case (Inr res)
  with assms ollama_reads.body_answers [of w a "ollama_model a rq" "hr_status res"] show ?thesis
    by (cases "hr_body res") (auto simp: ollama_stream_def)
qed

lemma anthropic_stream_answers:
  assumes "stream_trace (anthropic_stream w a rq x f) = (es, y)"
  shows "case y of None \<Rightarrow> list_ex is_final es | Some e \<Rightarrow> is_adapter_error e"
proof (cases "anthropic_execute_fetch w a x")
  case (Inl e)
  with assms anthropic_fetch_errors [OF Inl] show ?thesis by (auto simp: anthropic_stream_def)
next
  case (Inr res)
  show ?thesis
  proof (cases "hr_body res")
    case (Some b)
    then have t: "stream_trace (read_body (anthropic_reader w a) (anthropic_stream_start a rq) [] f b) = (es, y)"
      using assms Inr by (simp add: anthropic_stream_def)
    then show ?thesis
      using anthropic_answers.read_body_answers [of "anthropic_stream_start a rq" w a "[]" f b es]
        anthropic_typed.read_body_errors [of w a "anthropic_stream_start a rq" "[]" f b]
      by (cases y) (simp_all add: anthropic_stream_start_def)
  qed (use assms Inr in \<open>auto simp: anthropic_stream_def\<close>)
qed

text \<open>The body of a successful response could not be read: the exception is that of the read.\<close>

definition unreadable :: "(string \<Rightarrow> exn + 'a) \<Rightarrow> exchange \<Rightarrow> exn \<Rightarrow> bool" where
  "unreadable parse x e = (case fx_result x of
     Inl _ \<Rightarrow> False
   | Inr res \<Rightarrow> response_ok res
       \<and> (case hr_text res of Inl e' \<Rightarrow> e' = e | Inr t \<Rightarrow> (case parse t of Inl e' \<Rightarrow> e' = e | Inr _ \<Rightarrow> False)))"

text \<open>A response that \<open>executeFetch\<close> gives back is the successful one of \<open>fetch\<close>.\<close>

lemma fetched:
  "openai_execute_fetch ow oa x = Inr res \<Longrightarrow> fx_result x = Inr res \<and> response_ok res"
  "anthropic_execute_fetch aw aa x = Inr res \<Longrightarrow> fx_result x = Inr res \<and> response_ok res"
  "gemini_execute_fetch gw ga x = Inr res \<Longrightarrow> fx_result x = Inr res \<and> response_ok res"
  "ollama_execute_fetch lw la q x = Inr res \<Longrightarrow> fx_result x = Inr res \<and> response_ok res"
  by (auto simp: openai_execute_fetch_def anthropic_execute_fetch_def gemini_execute_fetch_def
      ollama_execute_fetch_def Let_def split: sum.splits if_splits)

lemma openai_complete_errors:
  assumes "openai_complete w a rq x = Inl e"
  shows "is_adapter_error e \<or> unreadable (ow_response w) x e"
proof (cases "openai_execute_fetch w a x")
  case (Inl e')
  with assms openai_fetch_errors [OF Inl] show ?thesis by (simp add: openai_complete_def)
next
  case (Inr res)
  with assms fetched(1) [OF Inr] show ?thesis
    by (auto simp: openai_complete_def unreadable_def Let_def split: sum.splits)
qed

lemma anthropic_complete_errors:
  assumes "anthropic_complete w a rq x = Inl e"
  shows "is_adapter_error e \<or> unreadable (aw_response w) x e"
proof (cases "anthropic_execute_fetch w a x")
  case (Inl e')
  with assms anthropic_fetch_errors [OF Inl] show ?thesis by (simp add: anthropic_complete_def)
next
  case (Inr res)
  with assms fetched(2) [OF Inr] show ?thesis
    by (auto simp: anthropic_complete_def unreadable_def Let_def split: sum.splits)
qed

lemma prompt_block_typed: "prompt_block data = Some e \<Longrightarrow> is_adapter_error e"
  by (auto simp: prompt_block_def gemini_safety_error_def Let_def split: option.splits if_splits)

lemma candidate_errors: "gemini_candidate_response a rq data c = Inl e \<Longrightarrow> is_adapter_error e"
  by (auto simp: gemini_candidate_response_def gemini_safety_error_def Let_def split: if_splits)

lemma gemini_complete_errors:
  assumes "gemini_complete w a rq x = Inl e"
  shows "is_adapter_error e \<or> unreadable (gw_response w) x e"
proof (cases "gemini_execute_fetch w a x")
  case (Inl e')
  with assms gemini_fetch_errors [OF Inl] show ?thesis by (simp add: gemini_complete_def)
next
  case (Inr res)
  with assms fetched(3) [OF Inr] show ?thesis
    by (auto simp: gemini_complete_def unreadable_def split: sum.splits option.splits list.splits
        dest: prompt_block_typed candidate_errors)
qed

lemma ollama_complete_errors:
  assumes "ollama_complete w a rq x = Inl e"
  shows "is_adapter_error e \<or> unreadable (lw_response w) x e"
proof (cases "ollama_execute_fetch w a (Some (ollama_model a rq)) x")
  case (Inl e')
  with assms ollama_fetch_errors [OF Inl] show ?thesis by (simp add: ollama_complete_def)
next
  case (Inr res)
  with assms fetched(4) [OF Inr] show ?thesis
    by (auto simp: ollama_complete_def unreadable_def Let_def split: sum.splits if_splits)
qed

end
