(* ===== verification/Teams.thy ===== *)
theory Teams
  imports Chats
begin

text \<open>
  \<open>modules/teams/\<close>: teams, and their rosters. A roster is the rows of \<open>team_members\<close> of one
  team; \<open>position\<close> is the turn of the member in a chat of the team.
\<close>

section \<open>Statements\<close>

text \<open>The insertion names neither strategy nor turns: the columns take their defaults.\<close>

definition insert_team :: "team_row \<Rightarrow> database \<Rightarrow> exn + database" where
  "insert_team r d =
     (if team_by_id d (te_id r) \<noteq> None
      then Inl (sqlite_error ''SQLITE_CONSTRAINT_PRIMARYKEY'' ''UNIQUE constraint failed: teams.id'')
      else Inr (d\<lparr>teams := teams d
        @ [r\<lparr>te_strategy := ''sequential'', te_max_turns_per_interaction := Some 5\<rparr>]\<rparr>))"

definition update_team_columns ::
  "string \<Rightarrow> string option \<Rightarrow> string option option \<Rightarrow> string option \<Rightarrow> int option option \<Rightarrow> string
   \<Rightarrow> database \<Rightarrow> exn + database" where
  "update_team_columns i name description strategy maxTurns now d =
     Inr (d\<lparr>teams := map (\<lambda>t. if te_id t = i
        then t\<lparr>te_name := from_option (te_name t) name, te_description := from_option (te_description t) description,
               te_strategy := from_option (te_strategy t) strategy,
               te_max_turns_per_interaction := from_option (te_max_turns_per_interaction t) maxTurns,
               te_updated_at := now\<rparr> else t) (teams d)\<rparr>)"

text \<open>
  Deleting a team deletes its roster. A chat it owns would be left without an owner
  (\<open>ON DELETE SET NULL\<close>), which the constraint of the chats forbids.
\<close>

definition delete_team :: "string \<Rightarrow> database \<Rightarrow> exn + database" where
  "delete_team i d =
     (if list_ex (\<lambda>t. te_id t = i) (teams d) \<and> list_ex (\<lambda>c. ch_team_id c = Some i) (chats d)
      then Inl (sqlite_error ''SQLITE_CONSTRAINT_CHECK'' ''CHECK constraint failed: chats'')
      else Inr (d\<lparr>teams := filter (\<lambda>t. te_id t \<noteq> i) (teams d),
                  team_members := filter (\<lambda>m. tm_team_id m \<noteq> i) (team_members d)\<rparr>))"

definition touch_team :: "string \<Rightarrow> string \<Rightarrow> database \<Rightarrow> exn + database" where
  "touch_team i now d =
     Inr (d\<lparr>teams := map (\<lambda>t. if te_id t = i then t\<lparr>te_updated_at := now\<rparr> else t) (teams d)\<rparr>)"

definition members_of :: "database \<Rightarrow> string \<Rightarrow> team_member_row list" where
  "members_of d t = filter (\<lambda>m. tm_team_id m = t) (team_members d)"

definition member_by_key :: "database \<Rightarrow> string \<Rightarrow> string \<Rightarrow> team_member_row option" where
  "member_by_key d t a = find (\<lambda>m. tm_agent_id m = a) (members_of d t)"

text \<open>\<open>is_coordinator\<close> is left to its default.\<close>

definition insert_member :: "team_member_row \<Rightarrow> database \<Rightarrow> exn + database" where
  "insert_member r d =
     (if member_by_key d (tm_team_id r) (tm_agent_id r) \<noteq> None
      then Inl (sqlite_error ''SQLITE_CONSTRAINT_PRIMARYKEY''
             ''UNIQUE constraint failed: team_members.team_id, team_members.agent_id'')
      else if team_by_id d (tm_team_id r) = None \<or> agent_by_id d (tm_agent_id r) = None
      then Inl foreign_key_error
      else Inr (d\<lparr>team_members := team_members d @ [r\<lparr>tm_is_coordinator := 0\<rparr>]\<rparr>))"

definition change_member ::
  "string \<Rightarrow> string \<Rightarrow> (team_member_row \<Rightarrow> team_member_row) \<Rightarrow> database \<Rightarrow> exn + database" where
  "change_member t a f d =
     Inr (d\<lparr>team_members := map (\<lambda>m. if tm_team_id m = t \<and> tm_agent_id m = a then f m else m) (team_members d)\<rparr>)"

definition set_role :: "string \<Rightarrow> string \<Rightarrow> string option \<Rightarrow> database \<Rightarrow> exn + database" where
  "set_role t a role = change_member t a (\<lambda>m. m\<lparr>tm_role := role\<rparr>)"

definition set_position :: "nat \<Rightarrow> string \<Rightarrow> string \<Rightarrow> database \<Rightarrow> exn + database" where
  "set_position index t a = change_member t a (\<lambda>m. m\<lparr>tm_position := Some (int index)\<rparr>)"

definition delete_member :: "string \<Rightarrow> string \<Rightarrow> database \<Rightarrow> exn + database" where
  "delete_member t a d =
     Inr (d\<lparr>team_members := filter (\<lambda>m. \<not> (tm_team_id m = t \<and> tm_agent_id m = a)) (team_members d)\<rparr>)"

text \<open>\<open>COALESCE(MAX(position) + 1, 0)\<close>; \<open>MAX\<close> ignores \<open>NULL\<close>.\<close>

definition next_position :: "database \<Rightarrow> string \<Rightarrow> int" where
  "next_position d t =
     (case sql_max (List.map_filter tm_position (members_of d t)) of None \<Rightarrow> 0 | Some p \<Rightarrow> p + 1)"

text \<open>\<open>ORDER BY position ASC, agent_id ASC\<close>: \<open>NULL\<close> comes first.\<close>

definition position_key :: "team_member_row \<Rightarrow> (nat \<times> int) \<times> string" where
  "position_key m = (case tm_position m of None \<Rightarrow> (0, 0) | Some p \<Rightarrow> (1, p), tm_agent_id m)"

definition by_position :: "database \<Rightarrow> string \<Rightarrow> team_member_row list" where
  "by_position d t = sort_key position_key (members_of d t)"

section \<open>The team mapper\<close>

record create_team_dto =
  nt_name :: string
  nt_description :: "string option"

record update_team_dto =
  ut_name :: "string option"
  ut_description :: "string option option"
  ut_strategy :: "string option"
  ut_maxTurnsPerInteraction :: "int option option"

record team_response =
  tr_id :: string
  tr_name :: string
  tr_description :: "string option"
  tr_memberCount :: nat
  tr_strategy :: string
  tr_maxTurnsPerInteraction :: "int option"
  tr_createdAt :: string
  tr_updatedAt :: string

definition mapTeamRowToResponse :: "team_row \<Rightarrow> nat \<Rightarrow> team_response" where
  "mapTeamRowToResponse r members =
     \<lparr>tr_id = te_id r, tr_name = te_name r, tr_description = te_description r, tr_memberCount = members,
      tr_strategy = te_strategy r, tr_maxTurnsPerInteraction = te_max_turns_per_interaction r,
      tr_createdAt = te_created_at r, tr_updatedAt = te_updated_at r\<rparr>"

definition mapCreateTeamDtoToRow :: "create_team_dto \<Rightarrow> string \<Rightarrow> string \<Rightarrow> team_row" where
  "mapCreateTeamDtoToRow dto now i =
     \<lparr>te_id = i, te_name = nt_name dto, te_description = nt_description dto, te_strategy = ''sequential'',
      te_max_turns_per_interaction = Some 5, te_created_at = now, te_updated_at = now\<rparr>"

record team_update_result =
  tu_updatedRow :: team_row
  tu_hasChanges :: bool
  tu_name :: "string option"
  tu_description :: "string option option"
  tu_strategy :: "string option"
  tu_maxTurns :: "int option option"

definition applyTeamUpdates :: "team_row \<Rightarrow> update_team_dto \<Rightarrow> string \<Rightarrow> team_update_result" where
  "applyTeamUpdates row dto now =
     (let n = changed (ut_name dto) (te_name row); ds = changed (ut_description dto) (te_description row);
          st = changed (ut_strategy dto) (te_strategy row);
          mt = changed (ut_maxTurnsPerInteraction dto) (te_max_turns_per_interaction row);
          hasChanges = (n \<noteq> None \<or> ds \<noteq> None \<or> st \<noteq> None \<or> mt \<noteq> None)
      in \<lparr>tu_updatedRow = row\<lparr>te_name := from_option (te_name row) n,
            te_description := from_option (te_description row) ds,
            te_strategy := from_option (te_strategy row) st,
            te_max_turns_per_interaction := from_option (te_max_turns_per_interaction row) mt,
            te_updated_at := (if hasChanges then now else te_updated_at row)\<rparr>,
          tu_hasChanges = hasChanges, tu_name = n, tu_description = ds, tu_strategy = st, tu_maxTurns = mt\<rparr>)"

section \<open>TeamsService\<close>

definition team_not_found :: "string \<Rightarrow> exn" where
  "team_not_found teamId = not_found ''TEAM_NOT_FOUND'' (''Team with ID '' @ quoted teamId @ '' not found'')"

definition assertTeamExists :: "database \<Rightarrow> string \<Rightarrow> exn + team_row" where
  "assertTeamExists d teamId = (case team_by_id d teamId of None \<Rightarrow> Inl (team_not_found teamId) | Some r \<Rightarrow> Inr r)"

definition readRowWithCount :: "database \<Rightarrow> string \<Rightarrow> exn + team_row \<times> nat" where
  "readRowWithCount d teamId = (case assertTeamExists d teamId of
     Inl e \<Rightarrow> Inl e | Inr r \<Rightarrow> Inr (r, length (members_of d teamId)))"

definition findOneTeam :: "database \<Rightarrow> string \<Rightarrow> exn + team_response" where
  "findOneTeam d teamId = (case readRowWithCount d teamId of
     Inl e \<Rightarrow> Inl e | Inr (r, n) \<Rightarrow> Inr (mapTeamRowToResponse r n))"

definition createTeam :: "env \<Rightarrow> create_team_dto \<Rightarrow> team_response comp" where
  "createTeam env dto =
     bnd (now_iso env) (\<lambda>now. bnd (fresh_id env) (\<lambda>i.
       let row = mapCreateTeamDtoToRow dto now i in
       bnd (exec_write env (insert_team row)) (\<lambda>_. ret (mapTeamRowToResponse row 0))))"

definition updateTeam :: "env \<Rightarrow> string \<Rightarrow> update_team_dto \<Rightarrow> team_response comp" where
  "updateTeam env teamId dto =
     bnd (query (\<lambda>d. readRowWithCount d teamId)) (\<lambda>(existing, members).
       if \<not> tu_hasChanges (applyTeamUpdates existing dto []) then ret (mapTeamRowToResponse existing members)
       else bnd (now_iso env) (\<lambda>now.
         let result = applyTeamUpdates existing dto now in
         bnd (exec_write env (update_team_columns teamId (tu_name result) (tu_description result)
                (tu_strategy result) (tu_maxTurns result) now)) (\<lambda>_.
         ret (mapTeamRowToResponse (tu_updatedRow result) members))))"

definition deleteTeam :: "env \<Rightarrow> string \<Rightarrow> unit comp" where
  "deleteTeam env teamId =
     bnd (query (\<lambda>d. assertTeamExists d teamId)) (\<lambda>_. exec_write env (delete_team teamId))"

definition touchTeam :: "env \<Rightarrow> string \<Rightarrow> unit comp" where
  "touchTeam env teamId = bnd (now_iso env) (\<lambda>now. exec_write env (touch_team teamId now))"

record list_teams_query =
  lt_page :: pagination_query
  lt_name :: "string option"
  lt_search :: "string option"

definition ALLOWED_TEAM_SORT_COLUMNS :: "(string \<times> string) list" where
  "ALLOWED_TEAM_SORT_COLUMNS = [(''createdAt'', ''t.created_at''), (''updatedAt'', ''t.updated_at''),
     (''name'', ''t.name''), (''id'', ''t.id'')]"

definition team_pagination :: "list_teams_query \<Rightarrow> sql_pagination_options" where
  "team_pagination q = \<lparr>po_query = lt_page q, po_allowedSortColumns = ALLOWED_TEAM_SORT_COLUMNS,
     po_defaultSortKey = ''createdAt'', po_defaultOrder = ''desc'', po_tiebreakerColumn = Some ''t.id''\<rparr>"

definition team_column :: "string \<Rightarrow> team_row \<Rightarrow> string" where
  "team_column col t =
     (if col = ''t.created_at'' then te_created_at t
      else if col = ''t.updated_at'' then te_updated_at t
      else if col = ''t.name'' then te_name t
      else te_id t)"

definition findAllTeams :: "database \<Rightarrow> list_teams_query \<Rightarrow> exn + team_response page" where
  "findAllTeams d q =
     (let opts = team_pagination q;
          rows = filter (\<lambda>t. matches_search (coalesce (lt_name q) (lt_search q)) (Some (te_name t))) (teams d) in
      case buildPaginationSqlFragment opts of
        Inl e \<Rightarrow> Inl e
      | Inr fragment \<Rightarrow>
         (case resolve_sort_column opts of
            Inl e \<Rightarrow> Inl e
          | Inr col \<Rightarrow>
              let asc = sort_key (\<lambda>t. (team_column col t, te_id t)) rows;
                  ordered = (if sort_ascending opts then asc else rev asc)
              in Inr (createPaginatedResponse
                   (map (\<lambda>t. mapTeamRowToResponse t (length (members_of d (te_id t))))
                     (page_of (sr_params fragment) ordered))
                   (length rows) (pq_limit (lt_page q)) (pq_offset (lt_page q)))))"

section \<open>TeamMembersService\<close>

record team_member_response =
  xr_teamId :: string
  xr_agentId :: string
  xr_role :: "string option"
  xr_position :: int
  xr_createdAt :: string

definition mapTeamMemberRowToResponse :: "team_member_row \<Rightarrow> team_member_response" where
  "mapTeamMemberRowToResponse r =
     \<lparr>xr_teamId = tm_team_id r, xr_agentId = tm_agent_id r, xr_role = tm_role r,
      xr_position = from_option 0 (tm_position r), xr_createdAt = tm_created_at r\<rparr>"

definition ALLOWED_TEAM_MEMBER_SORT_COLUMNS :: "(string \<times> string) list" where
  "ALLOWED_TEAM_MEMBER_SORT_COLUMNS = [(''position'', ''position'')]"

definition member_pagination :: "pagination_query \<Rightarrow> sql_pagination_options" where
  "member_pagination q = \<lparr>po_query = q, po_allowedSortColumns = ALLOWED_TEAM_MEMBER_SORT_COLUMNS,
     po_defaultSortKey = ''position'', po_defaultOrder = ''asc'', po_tiebreakerColumn = Some ''agent_id''\<rparr>"

definition findAllMembers :: "database \<Rightarrow> string \<Rightarrow> pagination_query \<Rightarrow> exn + team_member_response page" where
  "findAllMembers d teamId q =
     (case assertTeamExists d teamId of
        Inl e \<Rightarrow> Inl e
      | Inr _ \<Rightarrow>
         (case buildPaginationSqlFragment (member_pagination q) of
            Inl e \<Rightarrow> Inl e
          | Inr fragment \<Rightarrow>
              let ordered = (if sort_ascending (member_pagination q) then by_position d teamId
                             else rev (by_position d teamId))
              in Inr (createPaginatedResponse (map mapTeamMemberRowToResponse (page_of (sr_params fragment) ordered))
                   (length (members_of d teamId)) (pq_limit q) (pq_offset q))))"

definition readMember :: "database \<Rightarrow> string \<Rightarrow> string \<Rightarrow> exn + team_member_row" where
  "readMember d teamId agentId =
     (case assertTeamExists d teamId of
        Inl e \<Rightarrow> Inl e
      | Inr _ \<Rightarrow> (case member_by_key d teamId agentId of
          None \<Rightarrow> Inl (not_found ''MEMBER_NOT_FOUND''
                    (''Agent '' @ quoted agentId @ '' is not on team '' @ quoted teamId))
        | Some r \<Rightarrow> Inr r))"

definition findOneMember :: "database \<Rightarrow> string \<Rightarrow> string \<Rightarrow> exn + team_member_response" where
  "findOneMember d teamId agentId = (case readMember d teamId agentId of
     Inl e \<Rightarrow> Inl e | Inr r \<Rightarrow> Inr (mapTeamMemberRowToResponse r))"

definition check_addition :: "database \<Rightarrow> string \<Rightarrow> string \<Rightarrow> exn + unit" where
  "check_addition d teamId agentId =
     (case assertTeamExists d teamId of
        Inl e \<Rightarrow> Inl e
      | Inr _ \<Rightarrow>
         if agent_by_id d agentId = None
         then Inl (unprocessable ''AGENT_NOT_FOUND'' (''Agent with ID '' @ quoted agentId @ '' not found''))
         else if member_by_key d teamId agentId \<noteq> None
         then Inl (conflict ''AGENT_ALREADY_ON_TEAM'' (''Agent '' @ quoted agentId @ '' is already on this team''))
         else Inr ())"

definition addMember :: "env \<Rightarrow> string \<Rightarrow> string \<Rightarrow> string option \<Rightarrow> team_member_response comp" where
  "addMember env teamId agentId role =
     bnd (query (\<lambda>d. check_addition d teamId agentId)) (\<lambda>_.
     bnd (transaction env
       (bnd (select (\<lambda>d. next_position d teamId)) (\<lambda>next. bnd (now_iso env) (\<lambda>now.
        let row = \<lparr>tm_team_id = teamId, tm_agent_id = agentId, tm_role = role, tm_position = Some next,
                   tm_is_coordinator = 0, tm_created_at = now\<rparr> in
        bnd (exec_write env (insert_member row)) (\<lambda>_. ret row))))) (\<lambda>row.
     bnd (touchTeam env teamId) (\<lambda>_. ret (mapTeamMemberRowToResponse row))))"

definition updateMember :: "env \<Rightarrow> string \<Rightarrow> string \<Rightarrow> string option option \<Rightarrow> team_member_response comp" where
  "updateMember env teamId agentId role =
     bnd (query (\<lambda>d. readMember d teamId agentId)) (\<lambda>existing.
       case changed role (tm_role existing) of
         None \<Rightarrow> ret (mapTeamMemberRowToResponse existing)
       | Some r \<Rightarrow>
           bnd (exec_write env (set_role teamId agentId r)) (\<lambda>_.
           bnd (touchTeam env teamId) (\<lambda>_. ret (mapTeamMemberRowToResponse (existing\<lparr>tm_role := r\<rparr>)))))"

fun write_positions :: "env \<Rightarrow> string \<Rightarrow> nat \<Rightarrow> string list \<Rightarrow> unit comp" where
  "write_positions env teamId index [] = ret ()"
| "write_positions env teamId index (a # as) =
     bnd (exec_write env (set_position index teamId a)) (\<lambda>_. write_positions env teamId (Suc index) as)"

definition renumber :: "env \<Rightarrow> string \<Rightarrow> unit comp" where
  "renumber env teamId =
     bnd (select (\<lambda>d. map tm_agent_id (by_position d teamId))) (\<lambda>as. write_positions env teamId 0 as)"

definition removeMember :: "env \<Rightarrow> string \<Rightarrow> string \<Rightarrow> unit comp" where
  "removeMember env teamId agentId =
     bnd (query (\<lambda>d. readMember d teamId agentId)) (\<lambda>_.
     bnd (transaction env
       (bnd (exec_write env (delete_member teamId agentId)) (\<lambda>_. renumber env teamId))) (\<lambda>_.
     touchTeam env teamId))"

definition roster_mismatch :: "string \<Rightarrow> exn" where
  "roster_mismatch msg = conflict ''ROSTER_MISMATCH'' msg"

definition check_reorder :: "database \<Rightarrow> string \<Rightarrow> string list \<Rightarrow> exn + unit" where
  "check_reorder d teamId requested =
     (case assertTeamExists d teamId of
        Inl e \<Rightarrow> Inl e
      | Inr _ \<Rightarrow>
          let current = map tm_agent_id (members_of d teamId);
              sortedCurrent = sort current; sortedRequested = sort requested in
          if length (remdups requested) \<noteq> length requested
          then Inl (roster_mismatch ''agentIds must not repeat an agent'')
          else if length sortedCurrent = length sortedRequested
               \<and> list_all (\<lambda>(a, b). a = b) (zip sortedCurrent sortedRequested)
          then Inr ()
          else Inl (roster_mismatch ''agentIds must name exactly the agents currently on this team. Re-read the roster and try again.''))"

definition reorderMembers :: "env \<Rightarrow> string \<Rightarrow> string list \<Rightarrow> team_member_response page comp" where
  "reorderMembers env teamId requested =
     bnd (query (\<lambda>d. check_reorder d teamId requested)) (\<lambda>_.
     bnd (transaction env (write_positions env teamId 0 requested)) (\<lambda>_.
     bnd (touchTeam env teamId) (\<lambda>_.
     query (\<lambda>d. findAllMembers d teamId \<lparr>pq_limit = Some 100, pq_offset = Some 0, pq_sort = None, pq_order = None\<rparr>))))"

end
