(* ===== verification/RosterFacts.thy ===== *)
theory RosterFacts
  imports Teams
begin

text \<open>
  A roster is a list of agents: the rows of a team hold it as the positions \<open>0, 1, \<dots>\<close>. The
  operations of \<open>TeamMembersService\<close> append to that list, remove from it and replace it, and
  none leaves a gap.
\<close>

section \<open>The roster of a team\<close>

definition entries :: "database \<Rightarrow> string \<Rightarrow> (string \<times> int option) multiset" where
  "entries d t = mset (map (\<lambda>m. (tm_agent_id m, tm_position m)) (members_of d t))"

definition numbered :: "string list \<Rightarrow> (string \<times> int option) list" where
  "numbered as = map (\<lambda>i. (as ! i, Some (int i))) [0..<length as]"

definition holds_roster :: "database \<Rightarrow> string \<Rightarrow> string list \<Rightarrow> bool" where
  "holds_roster d t as \<longleftrightarrow> distinct as \<and> entries d t = mset (numbered as)"

definition rosters_ok :: "database \<Rightarrow> bool" where
  "rosters_ok d \<longleftrightarrow> (\<forall>t. \<exists>as. holds_roster d t as)"

text \<open>The agents of a team in turn order, as the list endpoint gives them.\<close>

definition roster :: "database \<Rightarrow> string \<Rightarrow> string list" where
  "roster d t = map tm_agent_id (by_position d t)"

lemma numbered_snoc: "numbered (as @ [a]) = numbered as @ [(a, Some (int (length as)))]"
  by (simp add: numbered_def nth_append)

lemma length_numbered [simp]: "length (numbered as) = length as"
  by (simp add: numbered_def)

lemma fst_numbered [simp]: "map fst (numbered as) = as"
  by (simp add: numbered_def o_def map_nth)

lemma snd_numbered: "map snd (numbered as) = map (\<lambda>i. Some (int i)) [0..<length as]"
  by (simp add: numbered_def o_def)

definition key_of :: "string \<times> int option \<Rightarrow> (nat \<times> int) \<times> string" where
  "key_of p = (case snd p of None \<Rightarrow> (0, 0) | Some i \<Rightarrow> (1, i), fst p)"

lemma position_key_entry: "position_key = key_of \<circ> (\<lambda>m. (tm_agent_id m, tm_position m))"
  by (rule ext) (simp add: position_key_def key_of_def)

lemma sorted_numbered: "sorted (map key_of (numbered as))"
  by (auto simp: numbered_def sorted_iff_nth_mono key_of_def le_less)

lemma inj_key_of: "inj key_of"
  by (auto simp: inj_on_def key_of_def split: option.splits)

lemma map_insort_key: "map f (insort_key (g \<circ> f) x xs) = insort_key g (f x) (map f xs)"
  by (induction xs) simp_all

lemma map_sort_key: "map f (sort_key (g \<circ> f) xs) = sort_key g (map f xs)"
  by (induction xs) (simp_all add: map_insort_key [unfolded o_def])

lemma sort_key_mset:
  assumes "inj f" "mset xs = mset ys"
  shows "sort_key f xs = sort_key f ys"
proof -
  have "map f (sort_key f xs) = sort (map f xs)" for xs
    using map_sort_key [of f "\<lambda>x. x" xs] by (simp add: o_def)
  moreover have "sort (map f xs) = sort (map f ys)"
    by (rule properties_for_sort) (simp_all add: assms(2))
  ultimately show ?thesis using inj_map_eq_map [OF assms(1)] by metis
qed

lemma roster_eq:
  assumes "holds_roster d t as"
  shows "roster d t = as"
proof -
  let ?e = "\<lambda>m. (tm_agent_id m, tm_position m)"
  have "map ?e (by_position d t) = sort_key key_of (map ?e (members_of d t))"
    unfolding by_position_def position_key_entry by (rule map_sort_key)
  also have "\<dots> = sort_key key_of (numbered as)"
    using assms by (intro sort_key_mset inj_key_of) (simp add: holds_roster_def entries_def)
  also have "\<dots> = numbered as"
    using sorted_numbered by (rule sort_key_id_if_sorted)
  finally have "map fst (map ?e (by_position d t)) = as" by simp
  then show ?thesis by (simp add: roster_def o_def)
qed

lemma agents_of_team: "holds_roster d t as \<Longrightarrow> mset (map tm_agent_id (members_of d t)) = mset as"
proof -
  assume "holds_roster d t as"
  then have "image_mset fst (entries d t) = image_mset fst (mset (numbered as))"
    by (simp add: holds_roster_def)
  then show ?thesis by (simp add: entries_def mset_map [symmetric] o_def del: mset_map)
qed

lemma rosters_okD: "rosters_ok d \<Longrightarrow> holds_roster d t (roster d t)"
  using roster_eq by (metis rosters_ok_def)

lemma member_by_key_iff: "member_by_key d t a \<noteq> None \<longleftrightarrow> a \<in> tm_agent_id ` set (members_of d t)"
  by (auto simp: member_by_key_def find_None_iff)

section \<open>What the statements do to a roster\<close>

lemma set_map_filter: "set (List.map_filter f xs) = {y. Some y \<in> set (map f xs)}"
  by (induction xs) (auto simp: List.map_filter_simps split: option.splits)

lemma next_position_roster:
  assumes "holds_roster d t as"
  shows "next_position d t = int (length as)"
proof -
  have "mset (map tm_position (members_of d t)) = image_mset snd (entries d t)"
    by (simp add: entries_def image_mset.compositionality o_def)
  also have "\<dots> = mset (map (\<lambda>i. Some (int i)) [0..<length as])"
    using assms by (simp only: holds_roster_def mset_map [symmetric] snd_numbered)
  finally have "set (map tm_position (members_of d t)) = (\<lambda>i. Some (int i)) ` {0..<length as}"
    by (metis mset_eq_setD list.set_map set_upt)
  then have s: "set (List.map_filter tm_position (members_of d t)) = int ` {0..<length as}"
    unfolding set_map_filter by auto
  show ?thesis
  proof (cases as rule: rev_cases)
    case Nil
    with s show ?thesis by (simp add: next_position_def sql_max_def)
  next
    case (snoc bs b)
    then have "Max (int ` {0..<length as}) = int (length bs)" by (intro Max_eqI) auto
    moreover from s snoc have "List.map_filter tm_position (members_of d t) \<noteq> []" by auto
    ultimately show ?thesis using s snoc by (simp add: next_position_def sql_max_def)
  qed
qed

lemma holds_same: "team_members d' = team_members d \<Longrightarrow> holds_roster d' t as = holds_roster d t as"
  by (simp add: holds_roster_def entries_def members_of_def)

lemma insert_member_roster:
  assumes "insert_member r d = Inr d'" "holds_roster d t as" "tm_team_id r = t"
    and "tm_position r = Some (next_position d t)"
  shows "holds_roster d' t (as @ [tm_agent_id r])"
proof -
  have d': "d' = d\<lparr>team_members := team_members d @ [r\<lparr>tm_is_coordinator := 0\<rparr>]\<rparr>"
    and new: "member_by_key d t (tm_agent_id r) = None"
    using assms(1,3) by (auto simp: insert_member_def split: if_splits)
  have "tm_agent_id r \<notin> set as"
    using new member_by_key_iff [of d t "tm_agent_id r"] mset_eq_setD [OF agents_of_team [OF assms(2)]] by auto
  then show ?thesis
    using assms(2-4) next_position_roster [OF assms(2)]
    by (simp add: holds_roster_def entries_def members_of_def d' numbered_snoc)
qed

lemma insert_member_others:
  "insert_member r d = Inr d' \<Longrightarrow> t \<noteq> tm_team_id r \<Longrightarrow> entries d' t = entries d t"
  by (auto simp: insert_member_def entries_def members_of_def split: if_splits)

lemma members_of_change:
  assumes "change_member t a f d = Inr d'" "\<And>m. tm_team_id (f m) = tm_team_id m"
  shows "members_of d' t' = (if t' = t then map (\<lambda>m. if tm_agent_id m = a then f m else m) (members_of d t)
    else members_of d t')"
proof -
  let ?g = "\<lambda>m. if tm_team_id m = t \<and> tm_agent_id m = a then f m else m"
  have "filter (\<lambda>m. tm_team_id m = t') (map ?g ms)
      = map ?g (filter (\<lambda>m. tm_team_id m = t') ms)" for ms
    by (induction ms) (simp_all add: assms(2))
  moreover have "map ?g (filter (\<lambda>m. tm_team_id m = t') ms) = (if t' = t
      then map (\<lambda>m. if tm_agent_id m = a then f m else m) (filter (\<lambda>m. tm_team_id m = t) ms)
      else filter (\<lambda>m. tm_team_id m = t') ms)" for ms
    by (induction ms) auto
  ultimately show ?thesis using assms(1) by (auto simp: change_member_def members_of_def)
qed

lemma change_member_others: "change_member t a f d = Inr d' \<Longrightarrow> t' \<noteq> t \<Longrightarrow> (\<And>m. tm_team_id (f m) = tm_team_id m)
    \<Longrightarrow> entries d' t' = entries d t'"
  using members_of_change [of t a f d d' t'] by (simp add: entries_def)

lemma entries_change:
  assumes "change_member t a f d = Inr d'" "\<And>m. tm_team_id (f m) = tm_team_id m"
    and "\<And>m. tm_agent_id m = a \<Longrightarrow> (tm_agent_id (f m), tm_position (f m)) = g (tm_agent_id m, tm_position m)"
  shows "entries d' t = image_mset (\<lambda>p. if fst p = a then g p else p) (entries d t)"
proof -
  have "map (\<lambda>m. (tm_agent_id m, tm_position m)) (map (\<lambda>m. if tm_agent_id m = a then f m else m) ms)
      = map (\<lambda>p. if fst p = a then g p else p) (map (\<lambda>m. (tm_agent_id m, tm_position m)) ms)" for ms
    by (induction ms) (simp_all add: assms(3))
  then have "mset (map (\<lambda>m. (tm_agent_id m, tm_position m)) (map (\<lambda>m. if tm_agent_id m = a then f m else m) ms))
      = image_mset (\<lambda>p. if fst p = a then g p else p) (mset (map (\<lambda>m. (tm_agent_id m, tm_position m)) ms))" for ms
    by (metis mset_map)
  then show ?thesis
    using members_of_change [OF assms(1,2), of t] by (simp add: entries_def)
qed

lemma set_role_entries: "set_role t a role d = Inr d' \<Longrightarrow> entries d' t' = entries d t'"
proof (cases "t' = t")
  case True
  assume r: "set_role t a role d = Inr d'"
  show ?thesis unfolding True
    by (subst entries_change [of t a "\<lambda>m. m\<lparr>tm_role := role\<rparr>" d d' "\<lambda>p. p"]) (use r in \<open>simp_all add: set_role_def\<close>)
qed (simp add: set_role_def change_member_others)

lemma delete_member_members:
  "delete_member t a d = Inr d' \<Longrightarrow> members_of d' t' = (if t' = t then filter (\<lambda>m. tm_agent_id m \<noteq> a) (members_of d t)
    else members_of d t')"
  by (auto simp: delete_member_def members_of_def intro: filter_cong)

text \<open>
  The positions written in turn, as one function of the database: whatever they were, the
  agents named get the places they are named at.
\<close>

fun placed :: "string \<Rightarrow> nat \<Rightarrow> string list \<Rightarrow> database \<Rightarrow> database" where
  "placed t i [] d = d"
| "placed t i (a # as) d = (case set_position i t a d of Inl _ \<Rightarrow> d | Inr d' \<Rightarrow> placed t (Suc i) as d')"

fun numbered_from :: "nat \<Rightarrow> string list \<Rightarrow> (string \<times> int option) list" where
  "numbered_from i [] = []"
| "numbered_from i (a # as) = (a, Some (int i)) # numbered_from (Suc i) as"

lemma numbered_from_nth: "numbered_from i as = map (\<lambda>j. (as ! j, Some (int (i + j)))) [0..<length as]"
  by (induction as arbitrary: i) (simp_all add: upt_conv_Cons map_Suc_upt [symmetric] del: upt_Suc)

lemma numbered_from_0: "numbered_from 0 as = numbered as"
  by (simp add: numbered_from_nth numbered_def)

lemma set_position_entries:
  assumes "set_position i t a d = Inr d'"
  shows "entries d' t = image_mset (\<lambda>p. if fst p = a then (a, Some (int i)) else p) (entries d t)"
    and "t' \<noteq> t \<Longrightarrow> entries d' t' = entries d t'"
  using assms entries_change [of t a "\<lambda>m. m\<lparr>tm_position := Some (int i)\<rparr>" d d' "\<lambda>_. (a, Some (int i))"]
  by (simp_all add: set_position_def change_member_others)

lemma placed_others: "t' \<noteq> t \<Longrightarrow> entries (placed t i as d) t' = entries d t'"
  by (induction t i as d rule: placed.induct) (auto simp: set_position_entries split: sum.split)

lemma set_position_Inr: "\<exists>d'. set_position i t a d = Inr d'"
  by (simp add: set_position_def change_member_def)

lemma placed_entries:
  assumes "distinct as" "length qs = length as" "entries d t = mset (zip as qs) + E" "fst ` set_mset E \<inter> set as = {}"
  shows "entries (placed t i as d) t = mset (numbered_from i as) + E"
  using assms
proof (induction as arbitrary: i qs d E)
  case (Cons a as)
  then obtain q qs' where qs: "qs = q # qs'" by (cases qs) simp_all
  obtain d' where d': "set_position i t a d = Inr d'" using set_position_Inr by blast
  let ?g = "\<lambda>p. if fst p = a then (a, Some (int i)) else p"
  have "image_mset ?g (mset (zip as qs')) = mset (zip as qs')"
    using Cons.prems(1) by (intro image_mset_cong [of _ ?g "\<lambda>p. p", simplified]) (auto dest: set_zip_leftD)
  moreover have "image_mset ?g E = E"
    using Cons.prems(4) by (intro image_mset_cong [of _ ?g "\<lambda>p. p", simplified]) auto
  ultimately have "entries d' t = mset (zip as qs') + add_mset (a, Some (int i)) E"
    using set_position_entries(1) [OF d'] Cons.prems(3) qs by simp
  with Cons.IH [of qs' d' "add_mset (a, Some (int i)) E" "Suc i"] Cons.prems qs d' show ?case by simp
qed simp

lemma zip_positions: "mset (map fst ps) = mset as \<Longrightarrow> \<exists>qs. length qs = length as \<and> mset ps = mset (zip as qs)"
proof (induction as arbitrary: ps)
  case (Cons a as)
  then have "a \<in> fst ` set ps" by (metis list.set_intros(1) list.set_map mset_eq_setD)
  then obtain q where q: "(a, q) \<in> set ps" by force
  then have p: "mset ps = add_mset (a, q) (mset (remove1 (a, q) ps))" by simp
  then have "image_mset fst (mset ps) = add_mset a (image_mset fst (mset (remove1 (a, q) ps)))"
    by (metis fst_conv image_mset_add_mset)
  then have "mset (map fst (remove1 (a, q) ps)) = mset as" using Cons.prems by simp
  from Cons.IH [OF this] obtain qs where "length qs = length as" "mset (remove1 (a, q) ps) = mset (zip as qs)" by blast
  then have "length (q # qs) = length (a # as)" "mset ps = mset (zip (a # as) (q # qs))"
    unfolding p by simp_all
  then show ?case by blast
qed simp

lemma placed_roster:
  assumes "distinct as" "mset (map tm_agent_id (members_of d t)) = mset as"
  shows "holds_roster (placed t 0 as d) t as"
proof -
  let ?ps = "map (\<lambda>m. (tm_agent_id m, tm_position m)) (members_of d t)"
  have "mset (map fst ?ps) = mset as" using assms(2) by (simp add: o_def image_mset.compositionality)
  from zip_positions [OF this] obtain qs where "length qs = length as" "entries d t = mset (zip as qs)"
    by (auto simp: entries_def)
  from placed_entries [OF assms(1) this(1), of d t "{#}"] this(2) assms(1) show ?thesis
    by (simp add: holds_roster_def numbered_from_0)
qed

section \<open>The operations\<close>

text \<open>What the requests on teams and members may do to the database.\<close>

locale roster_relation = store_relation +
  assumes same_members_law: "insert_team r d = Inr d' \<or> update_team_columns i n ds st mt now d = Inr d'
      \<or> touch_team i now d = Inr d' \<Longrightarrow> R d d'"
    and delete_team_law: "delete_team i d = Inr d' \<Longrightarrow> R d d'"
    and role_law: "set_role t a role d = Inr d' \<Longrightarrow> R d d'"
    and addition_law: "insert_member m d = Inr d' \<Longrightarrow> tm_position m = Some (next_position d (tm_team_id m)) \<Longrightarrow> R d d'"
    and removal_law: "delete_member t a d = Inr d' \<Longrightarrow> R d (placed t 0 (roster d' t) d')"
    and reorder_law: "check_reorder d t as = Inr () \<Longrightarrow> R d (placed t 0 as d)"

lemma wp_write_positions:
  "wp (write_positions env t i as) (\<lambda>_ w'. db w' = placed t i as (db w)) (\<lambda>_ _. True) w"
proof (induction as arbitrary: i w)
  case (Cons a as)
  obtain d' where d': "set_position i t a (db w) = Inr d'" using set_position_Inr by blast
  show ?case
    using Cons.IH [of "Suc i" "w\<lparr>writes := Suc (writes w), db := d'\<rparr>"] d'
    by (simp add: wp_simps split: option.split)
qed (simp add: wp_simps)

lemma wp_renumber:
  "wp (renumber env t) (\<lambda>_ w'. db w' = placed t 0 (roster (db w) t) (db w)) (\<lambda>_ _. True) w"
  unfolding renumber_def roster_def by (simp add: wp_simps wp_write_positions)

context roster_relation
begin

lemma step_transaction:
  assumes "wp m (\<lambda>_ w'. R (db w) (db w')) (\<lambda>_ _. True) w"
  shows "on_db R w (snd (transaction env m w))"
proof -
  have "wp (transaction env m) (\<lambda>_. on_db R w) (\<lambda>_. on_db R w) w"
    unfolding wp_transaction
    by (rule wp_mono [OF assms]) (auto simp: wp_simps on_db_def store_refl split: option.split)
  then show ?thesis by (simp add: wp_snd)
qed

lemma step_bnd: "on_db R w (snd (m w)) \<Longrightarrow> (\<And>x. obeys (on_db R) (f x)) \<Longrightarrow> on_db R w (snd (bnd m f w))"
  unfolding bnd_def obeys_def by (auto split: prod.split sum.split) (metis R_trans snd_conv)+

lemma obeys_checked:
  "(\<And>w x. f (db w) = Inr x \<Longrightarrow> on_db R w (snd (g x w))) \<Longrightarrow> obeys (on_db R) (bnd (query f) g)"
  by (auto simp: obeys_def bnd_def comp_defs gets_def throw_def ret_def R_refl split: sum.split)

lemma obeys_touchTeam [obeys_intros]: "obeys (on_db R) (touchTeam env t)"
  unfolding touchTeam_def by (intro obeys_intros obeys_exec_write) (use same_members_law in blast)

lemma obeys_createTeam [obeys_intros]: "obeys (on_db R) (createTeam env dto)"
  unfolding createTeam_def Let_def by (intro obeys_intros obeys_exec_write) (use same_members_law in blast)

lemma obeys_updateTeam [obeys_intros]: "obeys (on_db R) (updateTeam env t dto)"
  unfolding updateTeam_def Let_def by (intro obeys_intros obeys_exec_write) (use same_members_law in blast)

lemma obeys_deleteTeam [obeys_intros]: "obeys (on_db R) (deleteTeam env t)"
  unfolding deleteTeam_def by (intro obeys_intros obeys_exec_write) (rule delete_team_law)

lemma obeys_updateMember [obeys_intros]: "obeys (on_db R) (updateMember env t a role)"
  unfolding updateMember_def by (intro obeys_intros obeys_exec_write) (rule role_law)

lemma obeys_addMember [obeys_intros]: "obeys (on_db R) (addMember env t a role)"
  unfolding addMember_def
proof (rule obeys_bnd [OF obeys_query], rule obeys_bnd)
  fix x
  show "obeys (on_db R) (transaction env
       (bnd (select (\<lambda>d. next_position d t)) (\<lambda>next. bnd (now_iso env) (\<lambda>now.
        let row = \<lparr>tm_team_id = t, tm_agent_id = a, tm_role = role, tm_position = Some next,
                   tm_is_coordinator = 0, tm_created_at = now\<rparr> in
        bnd (exec_write env (insert_member row)) (\<lambda>_. ret row)))))"
    unfolding obeys_def
    by (intro allI step_transaction) (auto simp: wp_simps Let_def intro!: addition_law split: option.split sum.split)
qed (intro obeys_intros)

lemma obeys_removeMember [obeys_intros]: "obeys (on_db R) (removeMember env t a)"
  unfolding removeMember_def
proof (rule obeys_bnd [OF obeys_query], rule obeys_bnd)
  fix x
  show "obeys (on_db R) (transaction env (bnd (exec_write env (delete_member t a)) (\<lambda>_. renumber env t)))"
    unfolding obeys_def
  proof (intro allI step_transaction)
    fix w
    have "wp (renumber env t) (\<lambda>_ w'. R (db w) (db w')) (\<lambda>_ _. True) (w\<lparr>writes := Suc (writes w), db := d'\<rparr>)"
      if "delete_member t a (db w) = Inr d'" for d'
      by (rule wp_mono [OF wp_renumber]) (use removal_law [OF that] in simp_all)
    then show "wp (bnd (exec_write env (delete_member t a)) (\<lambda>_. renumber env t))
        (\<lambda>_ w'. R (db w) (db w')) (\<lambda>_ _. True) w"
      by (simp add: wp_simps split: option.split sum.split)
  qed
qed (intro obeys_intros)

lemma obeys_reorderMembers [obeys_intros]: "obeys (on_db R) (reorderMembers env t as)"
  unfolding reorderMembers_def
proof (rule obeys_checked, rule step_bnd)
  fix w :: world and x
  assume "check_reorder (db w) t as = Inr x"
  then have "R (db w) (placed t 0 as (db w))" using reorder_law by simp
  then show "on_db R w (snd (transaction env (write_positions env t 0 as) w))"
    by (intro step_transaction wp_mono [OF wp_write_positions]) simp_all
qed (intro obeys_intros)

end

section \<open>Every roster stays numbered from zero\<close>

lemma rosters_ok_entries: "(\<And>t. entries d' t = entries d t) \<Longrightarrow> rosters_ok d \<Longrightarrow> rosters_ok d'"
  by (simp add: rosters_ok_def holds_roster_def)

lemma rosters_ok_one:
  "rosters_ok d \<Longrightarrow> holds_roster d' t as \<Longrightarrow> (\<And>t'. t' \<noteq> t \<Longrightarrow> entries d' t' = entries d t') \<Longrightarrow> rosters_ok d'"
  unfolding rosters_ok_def holds_roster_def by metis

lemma mset_roster: "mset (roster d t) = mset (map tm_agent_id (members_of d t))"
  by (simp add: roster_def by_position_def)

lemma check_reorder_iff:
  "check_reorder d t as = Inr () \<longleftrightarrow> team_by_id d t \<noteq> None \<and> distinct as \<and> mset as = mset (roster d t)"
proof -
  have eq: "length xs = length ys \<and> list_all (\<lambda>(a, b). a = b) (zip xs ys) \<longleftrightarrow> xs = ys" for xs ys :: "string list"
    by (auto simp: list_all_length list_eq_iff_nth_eq)
  have "sort xs = sort as \<longleftrightarrow> mset as = mset xs" for xs :: "string list"
    by (metis mset_sort properties_for_sort sorted_sort)
  moreover have "length (remdups as) = length as \<longleftrightarrow> distinct as" 
    using card_distinct distinct_card by (auto simp: length_remdups_card_conv)
  ultimately show ?thesis
    unfolding check_reorder_def assertTeamExists_def Let_def eq mset_roster
    by (auto split: option.split)
qed

lemma roster_delete:
  assumes "delete_member t a d = Inr d'"
  shows "roster d' t = filter (\<lambda>x. x \<noteq> a) (roster d t)"
  using delete_member_members [OF assms, of t]
  by (simp add: roster_def by_position_def filter_map o_def flip: filter_sort)

lemma entries_other_delete: "delete_member t a d = Inr d' \<Longrightarrow> t' \<noteq> t \<Longrightarrow> entries d' t' = entries d t'"
  by (simp add: entries_def delete_member_members)

lemma delete_team_entries:
  "delete_team i d = Inr d' \<Longrightarrow> entries d' t = (if t = i then {#} else entries d t)"
proof -
  assume "delete_team i d = Inr d'"
  then have "team_members d' = filter (\<lambda>m. tm_team_id m \<noteq> i) (team_members d)"
    by (auto simp: delete_team_def split: if_splits)
  moreover have "filter (\<lambda>m. tm_team_id m = t) (filter (\<lambda>m. tm_team_id m \<noteq> i) ms)
      = (if t = i then [] else filter (\<lambda>m. tm_team_id m = t) ms)" for ms
    by (induction ms) auto
  ultimately have "members_of d' t = (if t = i then [] else members_of d t)" by (simp only: members_of_def)
  then show ?thesis by (simp add: entries_def)
qed

lemma holds_empty: "entries d t = {#} \<Longrightarrow> holds_roster d t []"
  by (simp add: holds_roster_def numbered_def)

lemma rosters_removal:
  assumes "rosters_ok d" "delete_member t a d = Inr d'"
  shows "rosters_ok (placed t 0 (roster d' t) d')" "holds_roster (placed t 0 (roster d' t) d') t (roster d' t)"
proof -
  have "distinct (roster d t)" using rosters_okD [OF assms(1)] by (simp add: holds_roster_def)
  then have "distinct (roster d' t)" by (simp add: roster_delete [OF assms(2)])
  then show h: "holds_roster (placed t 0 (roster d' t) d') t (roster d' t)"
    by (rule placed_roster) (simp only: mset_roster)
  show "rosters_ok (placed t 0 (roster d' t) d')"
    using assms h by (intro rosters_ok_one [OF assms(1) h]) (simp add: placed_others entries_other_delete)
qed

lemma rosters_reorder:
  assumes "rosters_ok d" "check_reorder d t as = Inr ()"
  shows "rosters_ok (placed t 0 as d)" "holds_roster (placed t 0 as d) t as"
proof -
  show h: "holds_roster (placed t 0 as d) t as"
    using assms(2) by (intro placed_roster) (simp_all only: check_reorder_iff mset_roster)
  show "rosters_ok (placed t 0 as d)"
    by (rule rosters_ok_one [OF assms(1) h]) (rule placed_others)
qed

interpretation seats: roster_relation "keeps rosters_ok"
proof unfold_locales
  fix d d' :: database
  show "keeps rosters_ok d d'" if "insert_team r d = Inr d' \<or> update_team_columns i n ds st mt now d = Inr d'
      \<or> touch_team i now d = Inr d'" for r i n ds st mt now
  proof -
    have "team_members d' = team_members d"
      using that by (auto simp: insert_team_def update_team_columns_def touch_team_def split: if_splits)
    from holds_same [OF this] show ?thesis by (simp add: keeps_def rosters_ok_def)
  qed
  show "keeps rosters_ok d d'" if "delete_team i d = Inr d'" for i
  proof (unfold keeps_def, rule impI)
    assume "rosters_ok d"
    then show "rosters_ok d'"
      by (rule rosters_ok_one [of d d' i "[]"]) (simp_all add: delete_team_entries [OF that] holds_empty)
  qed
  show "keeps rosters_ok d d'" if "set_role t a role d = Inr d'" for t a role
    unfolding keeps_def using rosters_ok_entries [OF set_role_entries [OF that]] by blast
  show "keeps rosters_ok d d'" if "insert_member m d = Inr d'" "tm_position m = Some (next_position d (tm_team_id m))" for m
  proof (unfold keeps_def, rule impI)
    assume ok: "rosters_ok d"
    show "rosters_ok d'"
      by (rule rosters_ok_one [OF ok insert_member_roster [OF that(1) rosters_okD [OF ok] refl that(2)]])
        (rule insert_member_others [OF that(1)])
  qed
  show "keeps rosters_ok d (placed t 0 (roster d' t) d')" if "delete_member t a d = Inr d'" for t a
    using rosters_removal(1) [OF _ that] by (simp add: keeps_def)
  show "keeps rosters_ok d (placed t 0 as d)" if "check_reorder d t as = Inr ()" for t as
    using rosters_reorder(1) [OF _ that] by (simp add: keeps_def)
qed (simp_all add: keeps_def)

section \<open>Requests as operations on the list of agents\<close>

lemma roster_same: "team_members d' = team_members d \<Longrightarrow> roster d' t = roster d t"
  by (simp add: roster_def by_position_def members_of_def)

lemma wp_touchTeam: "wp (touchTeam env t) (\<lambda>_ w'. roster (db w') t = roster (db w) t) (\<lambda>_ _. True) w"
  using roster_same [of "(db w)\<lparr>teams := ts\<rparr>" "db w" for ts]
  by (simp add: touchTeam_def touch_team_def wp_simps split: option.split)

text \<open>A statement on the roster, followed by the touch of the team.\<close>

lemma wp_then_touch:
  assumes "wp m (\<lambda>x w'. roster (db w') t = as \<and> Q x) (\<lambda>_ _. True) w"
  shows "wp (bnd (transaction env m) (\<lambda>x. bnd (touchTeam env t) (\<lambda>_. ret (f x))))
    (\<lambda>y w'. roster (db w') t = as \<and> (\<exists>x. y = f x \<and> Q x)) (\<lambda>_ _. True) w"
  unfolding wp_bnd
proof (rule wp_mono [OF wp_transaction_any [where Q = "\<lambda>x d. roster d t = as \<and> Q x", OF assms]])
  fix x and w' :: world
  assume "roster (db w') t = as \<and> Q x"
  then show "wp (touchTeam env t) (\<lambda>_. wp (ret (f x)) (\<lambda>y w'. roster (db w') t = as \<and> (\<exists>x. y = f x \<and> Q x)) (\<lambda>_ _. True))
      (\<lambda>_ _. True) w'"
    by (intro wp_mono [OF wp_touchTeam]) (auto simp: wp_ret)
qed simp

lemma wp_addMember:
  assumes "rosters_ok (db w)"
  shows "wp (addMember env t a role) (\<lambda>r w'. roster (db w') t = roster (db w) t @ [a]
     \<and> xr_position r = int (length (roster (db w) t))) (\<lambda>_ _. True) w"
proof -
  note h = rosters_okD [OF assms, of t]
  note np = next_position_roster [OF h]
  let ?row = "\<lambda>now. \<lparr>tm_team_id = t, tm_agent_id = a, tm_role = role, tm_position = Some (next_position (db w) t),
    tm_is_coordinator = 0, tm_created_at = now\<rparr>"
  have ins: "roster d' t = roster (db w) t @ [a]" if "insert_member (?row now) (db w) = Inr d'" for d' now
    using roster_eq [OF insert_member_roster [OF that h]] by simp
  have "wp (bnd (select (\<lambda>d. next_position d t)) (\<lambda>next. bnd (now_iso env) (\<lambda>now.
        let row = \<lparr>tm_team_id = t, tm_agent_id = a, tm_role = role, tm_position = Some next,
                   tm_is_coordinator = 0, tm_created_at = now\<rparr> in
        bnd (exec_write env (insert_member row)) (\<lambda>_. ret row))))
      (\<lambda>r w'. roster (db w') t = roster (db w) t @ [a] \<and> tm_position r = Some (next_position (db w) t)) (\<lambda>_ _. True) w"
    by (simp add: wp_simps Let_def ins split: sum.split option.split)
  note add = wp_then_touch [OF this, where f = mapTeamMemberRowToResponse]
  show ?thesis
    unfolding addMember_def wp_bnd [of "query f" for f] wp_query
  proof (cases "check_addition (db w) t a")
    case (Inr x)
    show "case check_addition (db w) t a of Inl e \<Rightarrow> True | Inr y \<Rightarrow> wp (bnd (transaction env
       (bnd (select (\<lambda>d. next_position d t)) (\<lambda>next. bnd (now_iso env) (\<lambda>now.
        let row = \<lparr>tm_team_id = t, tm_agent_id = a, tm_role = role, tm_position = Some next,
                   tm_is_coordinator = 0, tm_created_at = now\<rparr> in
        bnd (exec_write env (insert_member row)) (\<lambda>_. ret row)))))
        (\<lambda>row. bnd (touchTeam env t) (\<lambda>_. ret (mapTeamMemberRowToResponse row))))
        (\<lambda>r w'. roster (db w') t = roster (db w) t @ [a] \<and> xr_position r = int (length (roster (db w) t)))
        (\<lambda>_ _. True) w"
      unfolding Inr sum.case
      by (rule wp_mono [OF add]) (auto simp: mapTeamMemberRowToResponse_def np)
  qed simp
qed

lemma wp_removeMember:
  assumes "rosters_ok (db w)"
  shows "wp (removeMember env t a) (\<lambda>_ w'. roster (db w') t = filter (\<lambda>x. x \<noteq> a) (roster (db w) t)) (\<lambda>_ _. True) w"
proof -
  let ?as = "filter (\<lambda>x. x \<noteq> a) (roster (db w) t)"
  have ren: "wp (renumber env t) (\<lambda>_ w'. roster (db w') t = ?as \<and> True) (\<lambda>_ _. True) v"
    if "delete_member t a (db w) = Inr (db v)" for v
    by (rule wp_mono [OF wp_renumber])
      (use roster_eq [OF rosters_removal(2) [OF assms that]] roster_delete [OF that] in simp_all)
  have "wp (bnd (exec_write env (delete_member t a)) (\<lambda>_. renumber env t))
      (\<lambda>_ w'. roster (db w') t = ?as \<and> True) (\<lambda>_ _. True) w"
    using ren by (auto simp: wp_bnd wp_exec_write split: sum.split option.split)
  note rm = wp_then_touch [OF this, where f = "\<lambda>x. x"]
  have t: "bnd (touchTeam env t) ret = touchTeam env t"
    by (rule ext) (simp add: bnd_def ret_def split: prod.split sum.split)
  show ?thesis
    unfolding removeMember_def wp_bnd [of "query f" for f] wp_query
    using rm [of env] by (cases "readMember (db w) t a") (simp_all add: t)
qed

lemma wp_reorderMembers:
  assumes "rosters_ok (db w)"
  shows "wp (reorderMembers env t as) (\<lambda>_ w'. roster (db w') t = as \<and> mset as = mset (roster (db w) t)) (\<lambda>_ _. True) w"
proof (cases "check_reorder (db w) t as")
  case (Inr x)
  then have ok: "check_reorder (db w) t as = Inr ()" by simp
  have "wp (write_positions env t 0 as) (\<lambda>_ w'. roster (db w') t = as \<and> True) (\<lambda>_ _. True) w"
    by (rule wp_mono [OF wp_write_positions]) (use roster_eq [OF rosters_reorder(2) [OF assms ok]] in simp_all)
  note tx = wp_transaction_any [where Q = "\<lambda>x d. roster d t = as \<and> True", OF this]
  have m: "mset as = mset (roster (db w) t)" using ok check_reorder_iff [of "db w" t as] by blast
  let ?Q = "\<lambda>_ w'. roster (db w') t = as \<and> mset as = mset (roster (db w) t)"
  have "wp (transaction env (write_positions env t 0 as))
     (\<lambda>_. wp (touchTeam env t) (\<lambda>_. wp (query (\<lambda>d. findAllMembers d t q)) ?Q (\<lambda>_ _. True)) (\<lambda>_ _. True))
     (\<lambda>_ _. True) w" for q
  proof (rule wp_mono [OF tx])
    fix x :: unit and v :: world
    assume "roster (db v) t = as \<and> True"
    then have "wp (query (\<lambda>d. findAllMembers d t q)) ?Q (\<lambda>_ _. True) v'" if "roster (db v') t = roster (db v) t" for v'
      using that m by (simp add: wp_query split: sum.split)
    then show "wp (touchTeam env t) (\<lambda>_. wp (query (\<lambda>d. findAllMembers d t q)) ?Q (\<lambda>_ _. True)) (\<lambda>_ _. True) v"
      by (intro wp_mono [OF wp_touchTeam])
  qed simp
  with ok show ?thesis unfolding reorderMembers_def wp_bnd wp_query by simp
qed (simp add: reorderMembers_def wp_simps)

end
