(* ===== verification/Models.thy ===== *)
theory Models
  imports Chats Transport
begin

text \<open>
  \<open>modules/providers/models/\<close>: the models of the providers, registered by hand or discovered,
  and the reconciliation of a discovery with what is stored. What the adapter of a provider
  answers, what the other requests do to the database meanwhile and whether the deadline of the
  call fires are parameters.
\<close>

section \<open>Statements\<close>

definition models_of :: "database \<Rightarrow> string \<Rightarrow> model_row list" where
  "models_of d p = filter (\<lambda>m. mo_provider_id m = p) (models d)"

definition model_by_key :: "database \<Rightarrow> string \<Rightarrow> string \<Rightarrow> model_row option" where
  "model_by_key d p k = find (\<lambda>m. mo_provider_id m = p \<and> mo_model_identifier m = k) (models d)"

definition insert_model :: "model_row \<Rightarrow> database \<Rightarrow> exn + database" where
  "insert_model r d =
     (if mo_source r \<notin> {''discovered'', ''manual''}
      then Inl (sqlite_error ''SQLITE_CONSTRAINT_CHECK'' ''CHECK constraint failed: models'')
      else if model_by_id d (mo_id r) \<noteq> None
      then Inl (sqlite_error ''SQLITE_CONSTRAINT_PRIMARYKEY'' ''UNIQUE constraint failed: models.id'')
      else if model_by_key d (mo_provider_id r) (mo_model_identifier r) \<noteq> None
      then Inl (sqlite_error ''SQLITE_CONSTRAINT_UNIQUE''
             ''UNIQUE constraint failed: models.provider_id, models.model_identifier'')
      else if provider_by_id d (mo_provider_id r) = None then Inl foreign_key_error
      else Inr (d\<lparr>models := models d @ [r]\<rparr>))"

definition change_model :: "string \<Rightarrow> (model_row \<Rightarrow> model_row) \<Rightarrow> database \<Rightarrow> exn + database" where
  "change_model i f d = Inr (d\<lparr>models := map (\<lambda>m. if mo_id m = i then f m else m) (models d)\<rparr>)"

definition refresh_model ::
  "string \<Rightarrow> string \<Rightarrow> int option \<Rightarrow> rat option \<Rightarrow> int option \<Rightarrow> int \<Rightarrow> string \<Rightarrow> database \<Rightarrow> exn + database" where
  "refresh_model i name window temperature tokens enabled now = change_model i (\<lambda>m. m\<lparr>mo_display_name := name,
     mo_context_window := window, mo_default_temperature := temperature, mo_default_max_tokens := tokens,
     mo_enabled := enabled, mo_updated_at := now\<rparr>)"

definition disable_model :: "string \<Rightarrow> string \<Rightarrow> database \<Rightarrow> exn + database" where
  "disable_model i now = change_model i (\<lambda>m. m\<lparr>mo_enabled := 0, mo_updated_at := now\<rparr>)"

text \<open>\<open>DELETE FROM models\<close>: the agents and the usage events that name the model lose the reference.\<close>

definition delete_model :: "string \<Rightarrow> database \<Rightarrow> exn + database" where
  "delete_model i d = Inr (d\<lparr>models := filter (\<lambda>m. mo_id m \<noteq> i) (models d),
     agents := map (\<lambda>a. if ag_model_id a = Some i then a\<lparr>ag_model_id := None\<rparr> else a) (agents d),
     usage_events := map (\<lambda>u. if us_model_id u = Some i then u\<lparr>us_model_id := None\<rparr> else u) (usage_events d)\<rparr>)"

definition toDbBoolean :: "bool \<Rightarrow> int" where
  "toDbBoolean b = (if b then 1 else 0)"

definition fromDbBoolean :: "int \<Rightarrow> bool" where
  "fromDbBoolean n = (n \<noteq> 0)"

section \<open>Requests and responses\<close>

record model_dto =
  mx_id :: string
  mx_providerId :: string
  mx_modelIdentifier :: string
  mx_displayName :: string
  mx_source :: string
  mx_contextWindow :: "int option"
  mx_defaultTemperature :: "rat option"
  mx_defaultMaxTokens :: "int option"
  mx_enabled :: bool
  mx_createdAt :: string
  mx_updatedAt :: string
  mx_provider :: "(string \<times> string \<times> string) option"

text \<open>The row, with the name and the kind of its provider when the query joins them.\<close>

definition mapModelRow :: "provider_row option \<Rightarrow> model_row \<Rightarrow> model_dto" where
  "mapModelRow provider r =
     \<lparr>mx_id = mo_id r, mx_providerId = mo_provider_id r, mx_modelIdentifier = mo_model_identifier r,
      mx_displayName = mo_display_name r, mx_source = mo_source r, mx_contextWindow = mo_context_window r,
      mx_defaultTemperature = mo_default_temperature r, mx_defaultMaxTokens = mo_default_max_tokens r,
      mx_enabled = fromDbBoolean (mo_enabled r), mx_createdAt = mo_created_at r, mx_updatedAt = mo_updated_at r,
      mx_provider = (case provider of None \<Rightarrow> None
        | Some p \<Rightarrow> if pr_name p \<noteq> [] \<and> pr_kind p \<noteq> [] then Some (mo_provider_id r, pr_name p, pr_kind p) else None)\<rparr>"

record register_model_dto =
  rm_modelIdentifier :: string
  rm_displayName :: string
  rm_contextWindow :: "int option"
  rm_defaultTemperature :: "rat option"
  rm_defaultMaxTokens :: "int option"
  rm_enabled :: "bool option"

text \<open>\<open>um_keys\<close> are the keys of the object beyond the ones that can be updated.\<close>

record update_model_dto =
  um_displayName :: "string option"
  um_contextWindow :: "int option option"
  um_defaultTemperature :: "rat option option"
  um_defaultMaxTokens :: "int option option"
  um_enabled :: "bool option"
  um_keys :: "string list"

record discovery_summary =
  sm_added :: nat
  sm_updated :: nat
  sm_unchanged :: nat
  sm_disabled :: nat
  sm_models :: "model_dto list"

section \<open>Registering, reading and changing models\<close>

definition provider_missing :: "string \<Rightarrow> exn" where
  "provider_missing p = not_found [] (''Provider '' @ sql_quote p @ '' not found'')"

definition model_missing :: "string \<Rightarrow> exn" where
  "model_missing i = not_found [] (''Model '' @ sql_quote i @ '' not found'')"

definition assertProviderExists :: "database \<Rightarrow> string \<Rightarrow> exn + unit" where
  "assertProviderExists d p = (if provider_by_id d p = None then Inl (provider_missing p) else Inr ())"

definition findOneOrFail :: "database \<Rightarrow> string \<Rightarrow> exn + model_dto" where
  "findOneOrFail d i = (case model_by_id d i of None \<Rightarrow> Inl (model_missing i) | Some r \<Rightarrow> Inr (mapModelRow None r))"

definition findOneModel :: "database \<Rightarrow> string \<Rightarrow> exn + model_dto" where
  "findOneModel d i = (case model_by_id d i of None \<Rightarrow> Inl (model_missing i)
     | Some r \<Rightarrow> Inr (mapModelRow (provider_by_id d (mo_provider_id r)) r))"

definition already_registered :: "string \<Rightarrow> string \<Rightarrow> exn" where
  "already_registered p k = conflict [] (''A model with identifier '' @ sql_quote k
     @ '' already exists for provider '' @ sql_quote p)"

definition is_duplicate_model :: "exn \<Rightarrow> bool" where
  "is_duplicate_model e = (cause_code (Some e) \<in> {Some ''SQLITE_CONSTRAINT_UNIQUE'', Some ''SQLITE_CONSTRAINT''}
     \<or> js_includes (cause_msg (Some e)) ''UNIQUE constraint failed'')"

definition registered_row :: "string \<Rightarrow> register_model_dto \<Rightarrow> string \<Rightarrow> string \<Rightarrow> model_row" where
  "registered_row p dto i now =
     \<lparr>mo_id = i, mo_provider_id = p, mo_model_identifier = rm_modelIdentifier dto, mo_display_name = rm_displayName dto,
      mo_source = ''manual'', mo_context_window = rm_contextWindow dto,
      mo_default_temperature = rm_defaultTemperature dto, mo_default_max_tokens = rm_defaultMaxTokens dto,
      mo_enabled = toDbBoolean (from_option True (rm_enabled dto)), mo_created_at = now, mo_updated_at = now\<rparr>"

definition createManual :: "env \<Rightarrow> string \<Rightarrow> register_model_dto \<Rightarrow> model_dto comp" where
  "createManual env p dto =
     bnd (query (\<lambda>d. assertProviderExists d p)) (\<lambda>_.
     bnd (query (\<lambda>d. if model_by_key d p (rm_modelIdentifier dto) \<noteq> None
       then Inl (already_registered p (rm_modelIdentifier dto)) else Inr ())) (\<lambda>_.
     bnd (fresh_id env) (\<lambda>i. bnd (now_iso env) (\<lambda>now.
     bnd (catch_exn (exec_write env (insert_model (registered_row p dto i now)))
       (\<lambda>e. if is_duplicate_model e then raise_exn (already_registered p (rm_modelIdentifier dto)) else raise_exn e)) (\<lambda>_.
     query (\<lambda>d. findOneOrFail d i))))))"

definition immutable_model_keys :: "string list" where
  "immutable_model_keys = [''providerId'', ''provider_id'', ''modelIdentifier'', ''model_identifier'', ''source'']"

definition updates_nothing :: "update_model_dto \<Rightarrow> bool" where
  "updates_nothing dto = (um_displayName dto = None \<and> um_contextWindow dto = None \<and> um_defaultTemperature dto = None
     \<and> um_defaultMaxTokens dto = None \<and> um_enabled dto = None)"

definition apply_model_update :: "update_model_dto \<Rightarrow> string \<Rightarrow> model_row \<Rightarrow> model_row" where
  "apply_model_update dto now m = m\<lparr>mo_display_name := from_option (mo_display_name m) (um_displayName dto),
     mo_context_window := from_option (mo_context_window m) (um_contextWindow dto),
     mo_default_temperature := from_option (mo_default_temperature m) (um_defaultTemperature dto),
     mo_default_max_tokens := from_option (mo_default_max_tokens m) (um_defaultMaxTokens dto),
     mo_enabled := from_option (mo_enabled m) (map_option toDbBoolean (um_enabled dto)), mo_updated_at := now\<rparr>"

text \<open>The number of rows the statement changes is \<open>0\<close> when the model is gone.\<close>

definition updateModel :: "env \<Rightarrow> string \<Rightarrow> update_model_dto \<Rightarrow> model_dto comp" where
  "updateModel env i dto =
     (if list_ex (\<lambda>k. k \<in> set (um_keys dto)) immutable_model_keys
      then raise_exn (bad_request [] ''providerId, modelIdentifier, and source are immutable and cannot be updated'')
      else bnd (query (\<lambda>d. if model_by_id d i = None then Inl (model_missing i) else Inr ())) (\<lambda>_.
        bnd (if updates_nothing dto then ret ()
             else bnd (now_iso env) (\<lambda>now.
               bnd (select (\<lambda>d. model_by_id d i)) (\<lambda>hit.
               bnd (exec_write env (change_model i (apply_model_update dto now))) (\<lambda>_.
               if hit = None then raise_exn (model_missing i) else ret ())))) (\<lambda>_.
        query (\<lambda>d. findOneModel d i))))"

definition deleteModel :: "env \<Rightarrow> string \<Rightarrow> unit comp" where
  "deleteModel env i =
     bnd (query (\<lambda>d. if model_by_id d i = None then Inl (model_missing i) else Inr ())) (\<lambda>_.
     bnd (select (\<lambda>d. model_by_id d i)) (\<lambda>hit.
     bnd (exec_write env (delete_model i)) (\<lambda>_.
     if hit = None then raise_exn (model_missing i) else ret ())))"

section \<open>Listing models\<close>

record list_models_query =
  lq_page :: pagination_query
  lq_providerId :: "string option"
  lq_enabled :: "bool option"
  lq_source :: "string option"

definition model_sort_keys :: "string list" where
  "model_sort_keys = [''id'', ''providerId'', ''modelIdentifier'', ''displayName'', ''source'', ''contextWindow'',
     ''defaultTemperature'', ''defaultMaxTokens'', ''enabled'', ''createdAt'', ''updatedAt'']"

definition model_columns :: "string list" where
  "model_columns = [''id'', ''provider_id'', ''model_identifier'', ''display_name'', ''source'', ''context_window'',
     ''default_temperature'', ''default_max_tokens'', ''enabled'', ''created_at'', ''updated_at'']"

definition ALLOWED_MODEL_SORT_COLUMNS :: "(string \<times> string) list" where
  "ALLOWED_MODEL_SORT_COLUMNS = zip model_sort_keys model_columns"

definition ALLOWED_GLOBAL_MODEL_SORT_COLUMNS :: "(string \<times> string) list" where
  "ALLOWED_GLOBAL_MODEL_SORT_COLUMNS = zip model_sort_keys (map (\<lambda>c. ''models.'' @ c) model_columns)"

text \<open>\<open>NULL\<close>, then numbers by their value, then texts.\<close>

definition number_key :: "rat option \<Rightarrow> nat \<times> rat \<times> string" where
  "number_key n = (case n of None \<Rightarrow> (0, 0, []) | Some x \<Rightarrow> (1, x, []))"

definition model_column :: "string \<Rightarrow> model_row \<Rightarrow> nat \<times> rat \<times> string" where
  "model_column col m =
     (let text_key = (\<lambda>s. (2, 0, s)) in
      if col = ''provider_id'' then text_key (mo_provider_id m)
      else if col = ''model_identifier'' then text_key (mo_model_identifier m)
      else if col = ''display_name'' then text_key (mo_display_name m)
      else if col = ''source'' then text_key (mo_source m)
      else if col = ''context_window'' then number_key (map_option of_int (mo_context_window m))
      else if col = ''default_temperature'' then number_key (mo_default_temperature m)
      else if col = ''default_max_tokens'' then number_key (map_option of_int (mo_default_max_tokens m))
      else if col = ''enabled'' then number_key (Some (of_int (mo_enabled m)))
      else if col = ''created_at'' then text_key (mo_created_at m)
      else if col = ''updated_at'' then text_key (mo_updated_at m)
      else text_key (mo_id m))"

definition model_filter :: "list_models_query \<Rightarrow> model_row \<Rightarrow> bool" where
  "model_filter q m = ((case lq_providerId q of None \<Rightarrow> True | Some p \<Rightarrow> mo_provider_id m = p)
     \<and> (case lq_enabled q of None \<Rightarrow> True | Some b \<Rightarrow> mo_enabled m = toDbBoolean b)
     \<and> (case lq_source q of None \<Rightarrow> True | Some s \<Rightarrow> mo_source m = s))"

definition models_page ::
  "sql_pagination_options \<Rightarrow> (string \<Rightarrow> model_row \<Rightarrow> nat \<times> rat \<times> string) \<Rightarrow> (model_row \<Rightarrow> provider_row option)
   \<Rightarrow> model_row list \<Rightarrow> exn + model_dto page" where
  "models_page opts column provider rows =
     (case (buildPaginationSqlFragment opts, resolve_sort_column opts) of
        (Inr fragment, Inr col) \<Rightarrow>
          let asc = sort_key (\<lambda>m. (column col m, mo_id m)) rows;
              ordered = (if sort_ascending opts then asc else rev asc)
          in Inr (createPaginatedResponse (map (\<lambda>m. mapModelRow (provider m) m) (page_of (sr_params fragment) ordered))
               (length rows) (Some (clamp_limit (pq_limit (po_query opts)))) (Some (clamp_offset (pq_offset (po_query opts)))))
      | (Inl e, _) \<Rightarrow> Inl e
      | (_, Inl e) \<Rightarrow> Inl e)"

definition listByProvider :: "database \<Rightarrow> string \<Rightarrow> list_models_query \<Rightarrow> exn + model_dto page" where
  "listByProvider d p q =
     (case assertProviderExists d p of
        Inl e \<Rightarrow> Inl e
      | Inr _ \<Rightarrow> models_page \<lparr>po_query = lq_page q, po_allowedSortColumns = ALLOWED_MODEL_SORT_COLUMNS,
            po_defaultSortKey = ''createdAt'', po_defaultOrder = ''desc'', po_tiebreakerColumn = Some ''id''\<rparr>
          model_column (\<lambda>_. None) (filter (model_filter (q\<lparr>lq_providerId := None\<rparr>)) (models_of d p)))"

definition listAllModels :: "database \<Rightarrow> list_models_query \<Rightarrow> exn + model_dto page" where
  "listAllModels d q =
     models_page \<lparr>po_query = lq_page q, po_allowedSortColumns = ALLOWED_GLOBAL_MODEL_SORT_COLUMNS,
         po_defaultSortKey = ''createdAt'', po_defaultOrder = ''desc'', po_tiebreakerColumn = Some ''models.id''\<rparr>
       (\<lambda>col. model_column (drop 7 col)) (\<lambda>m. provider_by_id d (mo_provider_id m)) (filter (model_filter q) (models d))"

end
