(* ===== verification/Discovery.thy ===== *)
theory Discovery
  imports Models InferenceCore
begin

text \<open>
  \<open>ModelsService.discover\<close>: the checks before the call of the adapter, the failures of the
  call, the validation of the answer, and the reconciliation in one transaction.
\<close>

section \<open>Before and during the call\<close>

definition LOCAL_OR_CUSTOM_KINDS :: "string list" where
  "LOCAL_OR_CUSTOM_KINDS = [''ollama'', ''lmstudio'', ''openai_compatible'']"

definition not_configured :: "string \<Rightarrow> string \<Rightarrow> exn" where
  "not_configured p why = bad_request [] (''Provider '' @ sql_quote p @ '' is not configured for discovery: '' @ why)"

definition discovery_key :: "env \<Rightarrow> database \<Rightarrow> provider_row \<Rightarrow> exn + string option" where
  "discovery_key env d provider = (case getDecryptedCredential env d (pr_id provider) of
     Inr k \<Rightarrow> Inr (Some k)
   | Inl e \<Rightarrow> if \<not> is_not_found e then Inl e
       else if pr_kind provider \<in> set LOCAL_OR_CUSTOM_KINDS then Inr None
       else Inl (not_configured (pr_id provider)
              (''credentials are required for hosted provider kind '' @ sql_quote (pr_kind provider))))"

definition check_discoverable :: "env \<Rightarrow> database \<Rightarrow> string \<Rightarrow> exn + provider_row \<times> string option" where
  "check_discoverable env d p = (case provider_by_id d p of
     None \<Rightarrow> Inl (provider_missing p)
   | Some provider \<Rightarrow>
       if pr_kind provider \<in> set LOCAL_OR_CUSTOM_KINDS
          \<and> (case pr_base_url provider of None \<Rightarrow> True | Some u \<Rightarrow> js_trim u = [])
       then Inl (not_configured p (''base_url is required for kind '' @ sql_quote (pr_kind provider)))
       else (case discovery_key env d provider of Inl e \<Rightarrow> Inl e | Inr k \<Rightarrow> Inr (provider, k)))"

definition discovery_not_supported :: "string \<Rightarrow> exn" where
  "discovery_not_supported kind = http_error 501 ''NotImplementedException'' ''DISCOVERY_NOT_SUPPORTED''
     (''Provider kind '' @ sql_quote kind @ '' does not support model discovery'')"

definition discovery_adapter :: "env \<Rightarrow> provider_row \<Rightarrow> string option \<Rightarrow> exn + adapter_config" where
  "discovery_adapter env provider key =
     (let config = \<lparr>ac_providerId = pr_id provider, ac_providerKind = pr_kind provider,
                    ac_baseUrl = pr_base_url provider, ac_apiKey = key, ac_modelIdentifier = None\<rparr> in
      if \<not> isSupported (adapters env) (pr_kind provider) then Inl (discovery_not_supported (pr_kind provider))
      else (case adapter_create (adapters env) config of
          Inr _ \<Rightarrow> Inr config
        | Inl e \<Rightarrow> Inl (if adapter_code_of e \<in> {Some UNSUPPORTED_PROVIDER_KIND, Some UNSUPPORTED_CAPABILITY}
                       then discovery_not_supported (pr_kind provider) else e)))"

text \<open>
  One call of \<open>discoverModels\<close>. The answer is what the adapter throws, something that is no
  array (\<open>Inr None\<close>), or its items, of which one is \<^const>\<open>None\<close> when it is no object with the
  two texts.
\<close>

record discovery_call =
  dc_result :: "exn + discovered_model option list option"
  dc_others :: "database \<Rightarrow> database"
  dc_deadline :: bool

definition is_http_error :: "exn \<Rightarrow> bool" where
  "is_http_error e = (case e of Err (Http _ _) _ _ _ _ \<Rightarrow> True | _ \<Rightarrow> False)"

definition discovery_failure ::
  "(string \<Rightarrow> json option) \<Rightarrow> provider_row \<Rightarrow> string option \<Rightarrow> nat \<Rightarrow> bool \<Rightarrow> exn \<Rightarrow> exn" where
  "discovery_failure parse provider key timeoutMs deadline e =
     (if deadline \<or> adapter_code_of e = Some REQUEST_ABORTED
         \<or> (case e of Err _ name _ _ _ \<Rightarrow> name = ''AbortError'' | _ \<Rightarrow> False)
      then http_error 504 ''GatewayTimeoutException'' ''GATEWAY_TIMEOUT'' (''Model discovery timed out after ''
             @ show_nat timeoutMs @ ''ms for provider '' @ sql_quote (pr_id provider))
      else if adapter_code_of e = Some UNSUPPORTED_CAPABILITY then discovery_not_supported (pr_kind provider)
      else if is_http_error e then e
      else if is_adapter_error e then (if truthy key then redact_adapter_error (from_option [] key) e else e)
      else normalizeProviderError parse
             \<lparr>ni_providerKind = pr_kind provider, ni_status = None, ni_errorBody = None, ni_rawMessage = None,
              ni_model = None, ni_cause = Some e, ni_retryAfterHeader = None,
              ni_knownSecrets = (if truthy key then Some [from_option [] key] else None)\<rparr>)"

definition valid_item :: "discovered_model option \<Rightarrow> bool" where
  "valid_item x = (case x of None \<Rightarrow> False
     | Some it \<Rightarrow> js_trim (dm_modelIdentifier it) \<noteq> [] \<and> js_trim (dm_displayName it) \<noteq> [])"

definition malformed :: "string \<Rightarrow> string \<Rightarrow> exn" where
  "malformed p what = http_error 502 ''BadGatewayException'' ''BAD_GATEWAY''
     (''Provider '' @ sql_quote p @ '' returned malformed model discovery '' @ what)"

definition validated_items :: "string \<Rightarrow> discovered_model option list option \<Rightarrow> exn + discovered_model list" where
  "validated_items p raw = (case raw of
     None \<Rightarrow> Inl (malformed p ''data'')
   | Some xs \<Rightarrow> if list_all valid_item xs then Inr (map the xs) else Inl (malformed p ''item''))"

text \<open>The loop with \<open>seenIdentifiers\<close>: the first of the items with one identifier is kept.\<close>

fun dedup_items :: "string list \<Rightarrow> discovered_model list \<Rightarrow> discovered_model list" where
  "dedup_items seen [] = []"
| "dedup_items seen (it # its) =
     (if dm_modelIdentifier it \<in> set seen then dedup_items seen its
      else it # dedup_items (dm_modelIdentifier it # seen) its)"

section \<open>Reconciliation\<close>

text \<open>The \<open>Map\<close> from identifiers to rows, in the order of its insertions.\<close>

definition existing_map :: "model_row list \<Rightarrow> (string \<times> model_row) list" where
  "existing_map rows = foldl (\<lambda>m r. AList.update (mo_model_identifier r) r m) [] rows"

record counts =
  ct_added :: nat
  ct_updated :: nat
  ct_unchanged :: nat
  ct_disabled :: nat

definition no_counts :: counts where
  "no_counts = \<lparr>ct_added = 0, ct_updated = 0, ct_unchanged = 0, ct_disabled = 0\<rparr>"

definition discovered_row :: "string \<Rightarrow> discovered_model \<Rightarrow> string \<Rightarrow> string \<Rightarrow> model_row" where
  "discovered_row p it i now =
     \<lparr>mo_id = i, mo_provider_id = p, mo_model_identifier = dm_modelIdentifier it, mo_display_name = dm_displayName it,
      mo_source = ''discovered'', mo_context_window = dm_contextWindow it,
      mo_default_temperature = dm_defaultTemperature it, mo_default_max_tokens = dm_defaultMaxTokens it,
      mo_enabled = 1, mo_created_at = now, mo_updated_at = now\<rparr>"

definition has_changed :: "model_row \<Rightarrow> discovered_model \<Rightarrow> bool" where
  "has_changed existing it = (mo_display_name existing \<noteq> dm_displayName it
     \<or> mo_context_window existing \<noteq> dm_contextWindow it
     \<or> mo_default_temperature existing \<noteq> dm_defaultTemperature it
     \<or> mo_default_max_tokens existing \<noteq> dm_defaultMaxTokens it \<or> mo_enabled existing \<noteq> 1)"

definition reconcile_item ::
  "env \<Rightarrow> string \<Rightarrow> (string \<times> model_row) list \<Rightarrow> discovered_model \<Rightarrow> counts \<Rightarrow> counts comp" where
  "reconcile_item env p existingMap it c =
     (case map_of existingMap (dm_modelIdentifier it) of
        None \<Rightarrow>
          bnd (fresh_id env) (\<lambda>i. bnd (now_iso env) (\<lambda>now.
          bnd (exec_write env (insert_model (discovered_row p it i now))) (\<lambda>_.
          ret (c\<lparr>ct_added := Suc (ct_added c)\<rparr>))))
      | Some existing \<Rightarrow>
          if mo_source existing = ''manual'' then ret (c\<lparr>ct_unchanged := Suc (ct_unchanged c)\<rparr>)
          else if has_changed existing it
          then bnd (now_iso env) (\<lambda>now.
               bnd (exec_write env (refresh_model (mo_id existing) (dm_displayName it) (dm_contextWindow it)
                 (dm_defaultTemperature it) (dm_defaultMaxTokens it) 1 now)) (\<lambda>_.
               ret (c\<lparr>ct_updated := Suc (ct_updated c)\<rparr>)))
          else ret (c\<lparr>ct_unchanged := Suc (ct_unchanged c)\<rparr>))"

fun reconcile_items ::
  "env \<Rightarrow> string \<Rightarrow> (string \<times> model_row) list \<Rightarrow> discovered_model list \<Rightarrow> counts \<Rightarrow> counts comp" where
  "reconcile_items env p existingMap [] c = ret c"
| "reconcile_items env p existingMap (it # its) c =
     bnd (reconcile_item env p existingMap it c) (reconcile_items env p existingMap its)"

definition reconcile_missing :: "env \<Rightarrow> string list \<Rightarrow> string \<times> model_row \<Rightarrow> counts \<Rightarrow> counts comp" where
  "reconcile_missing env seen entry c =
     (let existing = snd entry in
      if fst entry \<in> set seen then ret c
      else if mo_source existing = ''manual'' then ret (c\<lparr>ct_unchanged := Suc (ct_unchanged c)\<rparr>)
      else if mo_enabled existing = 1
      then bnd (now_iso env) (\<lambda>now.
           bnd (exec_write env (disable_model (mo_id existing) now)) (\<lambda>_.
           ret (c\<lparr>ct_disabled := Suc (ct_disabled c)\<rparr>)))
      else ret (c\<lparr>ct_unchanged := Suc (ct_unchanged c)\<rparr>))"

fun disable_missing :: "env \<Rightarrow> string list \<Rightarrow> (string \<times> model_row) list \<Rightarrow> counts \<Rightarrow> counts comp" where
  "disable_missing env seen [] c = ret c"
| "disable_missing env seen (e # es) c = bnd (reconcile_missing env seen e c) (disable_missing env seen es)"

definition reconcile :: "env \<Rightarrow> string \<Rightarrow> discovered_model list \<Rightarrow> discovery_summary comp" where
  "reconcile env p items =
     bnd (select (\<lambda>d. existing_map (models_of d p))) (\<lambda>existingMap.
     bnd (reconcile_items env p existingMap items no_counts) (\<lambda>c.
     bnd (disable_missing env (map dm_modelIdentifier items) existingMap c) (\<lambda>c.
     bnd (select (\<lambda>d. sort_key (\<lambda>m. (mo_created_at m, mo_id m)) (models_of d p))) (\<lambda>rows.
     ret \<lparr>sm_added = ct_added c, sm_updated = ct_updated c, sm_unchanged = ct_unchanged c,
          sm_disabled = ct_disabled c, sm_models = map (mapModelRow None) rows\<rparr>))))"

text \<open>\<open>None\<close> for \<open>discoveries\<close> is an adapter without discovery.\<close>

definition discover ::
  "env \<Rightarrow> (adapter_config \<Rightarrow> discovery_call option) \<Rightarrow> string \<Rightarrow> nat option \<Rightarrow> discovery_summary comp" where
  "discover env discoveries p timeout =
     bnd (query (\<lambda>d. check_discoverable env d p)) (\<lambda>(provider, key).
     bnd (of_sum (discovery_adapter env provider key)) (\<lambda>config.
     case discoveries config of
       None \<Rightarrow> raise_exn (discovery_not_supported (pr_kind provider))
     | Some call \<Rightarrow>
         bnd (modify (\<lambda>w. w\<lparr>db := dc_others call (db w)\<rparr>)) (\<lambda>_.
         bnd (of_sum (case dc_result call of
           Inl e \<Rightarrow> Inl (discovery_failure (json_parse env) provider key (from_option 10000 timeout) (dc_deadline call) e)
         | Inr raw \<Rightarrow> validated_items p raw)) (\<lambda>items.
         transaction env (reconcile env p (dedup_items [] items))))))"

end
