(* ===== verification/DiscoveryFacts.thy ===== *)
theory DiscoveryFacts
  imports Discovery
begin

text \<open>
  What a discovery does to the models of a provider, as one function of what was stored
  (\<open>target\<close>), and what it leaves alone. The stored models are seen as a map from identifiers,
  the \<open>catalogue\<close> of the provider.
\<close>

section \<open>The catalogue of a provider\<close>

type_synonym model_view = "string \<times> string \<times> int option \<times> rat option \<times> int option \<times> int"

definition view :: "model_row \<Rightarrow> model_view" where
  "view m = (mo_source m, mo_display_name m, mo_context_window m, mo_default_temperature m,
     mo_default_max_tokens m, mo_enabled m)"

definition catalogue :: "database \<Rightarrow> string \<Rightarrow> string \<Rightarrow> model_view option" where
  "catalogue d p k = map_option view (model_by_key d p k)"

definition offered :: "string \<Rightarrow> discovered_model \<Rightarrow> model_view" where
  "offered source it = (source, dm_displayName it, dm_contextWindow it, dm_defaultTemperature it,
     dm_defaultMaxTokens it, 1)"

definition withdrawn :: "model_view \<Rightarrow> model_view" where
  "withdrawn v = (case v of (s, n, w, t, m, e) \<Rightarrow> (s, n, w, t, m, if e = 1 then 0 else e))"

text \<open>What is stored under an identifier after a discovery that offered \<open>items\<close>.\<close>

definition target :: "discovered_model list \<Rightarrow> (string \<Rightarrow> model_view option) \<Rightarrow> string \<Rightarrow> model_view option" where
  "target items c k = (case (c k, find (\<lambda>it. dm_modelIdentifier it = k) items) of
     (None, it) \<Rightarrow> map_option (offered ''discovered'') it
   | (Some v, it) \<Rightarrow>
       if fst v = ''manual'' then Some v
       else (case it of Some it \<Rightarrow> Some (offered (fst v) it) | None \<Rightarrow> Some (withdrawn v)))"

definition model_key :: "model_row \<Rightarrow> string \<times> string" where
  "model_key m = (mo_provider_id m, mo_model_identifier m)"

definition models_ok :: "database \<Rightarrow> bool" where
  "models_ok d \<longleftrightarrow> distinct (map mo_id (models d)) \<and> distinct (map model_key (models d))"

text \<open>The models a discovery for \<open>p\<close> must not touch.\<close>

definition guarded :: "string \<Rightarrow> database \<Rightarrow> model_row list" where
  "guarded p d = filter (\<lambda>m. mo_provider_id m \<noteq> p \<or> mo_source m = ''manual'') (models d)"

definition identities :: "database \<Rightarrow> (string \<times> string \<times> string) list" where
  "identities d = map (\<lambda>m. (mo_id m, mo_provider_id m, mo_model_identifier m)) (models d)"

definition tidy :: "string \<Rightarrow> database \<Rightarrow> database \<Rightarrow> bool" where
  "tidy p d d' \<longleftrightarrow> guarded p d' = guarded p d \<and> prefix (identities d) (identities d')
     \<and> d' = d\<lparr>models := models d'\<rparr> \<and> models_ok d'"

lemma tidy_refl: "models_ok d \<Longrightarrow> tidy p d d"
  by (simp add: tidy_def)

lemma tidy_trans: "tidy p d1 d2 \<Longrightarrow> tidy p d2 d3 \<Longrightarrow> tidy p d1 d3"
proof -
  assume a: "tidy p d1 d2" "tidy p d2 d3"
  have "d3 = d2\<lparr>models := models d3\<rparr>" "d2 = d1\<lparr>models := models d2\<rparr>" using a by (simp_all add: tidy_def)
  then have "d3 = (d1\<lparr>models := models d2\<rparr>)\<lparr>models := models d3\<rparr>" by metis
  then have "d3 = d1\<lparr>models := models d3\<rparr>" by simp
  moreover have "prefix (identities d1) (identities d3)"
    using a prefix_order.trans [of "identities d1" "identities d2" "identities d3"] by (simp add: tidy_def)
  ultimately show ?thesis using a by (simp add: tidy_def)
qed

section \<open>The statements\<close>

lemma model_by_keyD: "model_by_key d p k = Some m \<Longrightarrow> m \<in> set (models d) \<and> model_key m = (p, k)"
  by (auto simp: model_by_key_def model_key_def find_Some_iff)

lemma model_by_key_iff:
  "models_ok d \<Longrightarrow> model_by_key d p k = Some m \<longleftrightarrow> m \<in> set (models d) \<and> model_key m = (p, k)"
proof
  assume ok: "models_ok d" and m: "m \<in> set (models d) \<and> model_key m = (p, k)"
  then obtain m' where m': "model_by_key d p k = Some m'"
    by (cases "model_by_key d p k") (auto simp: model_by_key_def model_key_def find_None_iff)
  have "inj_on model_key (set (models d))" using ok by (simp add: models_ok_def distinct_map)
  then show "model_by_key d p k = Some m"
    using m m' model_by_keyD [OF m'] inj_onD [of model_key "set (models d)" m m'] by simp
qed (rule model_by_keyD)

lemma same_id: "models_ok d \<Longrightarrow> m \<in> set (models d) \<Longrightarrow> m' \<in> set (models d) \<Longrightarrow> mo_id m = mo_id m' \<Longrightarrow> m = m'"
  by (auto simp: models_ok_def distinct_map dest: inj_onD)

lemma insert_model_facts:
  assumes "insert_model r d = Inr d'" "models_ok d" "mo_source r = ''discovered''" "mo_provider_id r = p"
  shows "tidy p d d'" "model_by_key d' p = (model_by_key d p)(mo_model_identifier r \<mapsto> r)"
proof -
  have d': "d' = d\<lparr>models := models d @ [r]\<rparr>" and i: "model_by_id d (mo_id r) = None"
    and k: "model_by_key d p (mo_model_identifier r) = None"
    using assms(1,4) by (auto simp: insert_model_def split: if_splits)
  have "mo_id r \<notin> mo_id ` set (models d)" "model_key r \<notin> model_key ` set (models d)"
    using i k assms(4) by (auto simp: model_by_id_def model_by_key_def model_key_def find_None_iff)
  with assms(2-4) show "tidy p d d'"
    by (simp add: tidy_def d' guarded_def identities_def models_ok_def)
  show "model_by_key d' p = (model_by_key d p)(mo_model_identifier r \<mapsto> r)"
  proof
    fix k'
    show "model_by_key d' p k' = ((model_by_key d p)(mo_model_identifier r \<mapsto> r)) k'"
    proof (cases "k' = mo_model_identifier r")
      case True
      have app: "find Q (xs @ [x]) = (case find Q xs of None \<Rightarrow> if Q x then Some x else None | Some y \<Rightarrow> Some y)"
        for Q and xs :: "model_row list" and x by (induction xs) simp_all
      from True k assms(4) show ?thesis by (simp add: model_by_key_def d' app)
    next
      case False
      have app: "\<not> Q x \<Longrightarrow> find Q (xs @ [x]) = find Q xs" for Q and xs :: "model_row list" and x
        by (induction xs) simp_all
      from False show ?thesis by (simp add: model_by_key_def d' app)
    qed
  qed
qed

lemma filter_map_same:
  "(\<And>x. x \<in> set xs \<Longrightarrow> P (g x) = P x) \<Longrightarrow> (\<And>x. x \<in> set xs \<Longrightarrow> P x \<Longrightarrow> g x = x) \<Longrightarrow> filter P (map g xs) = filter P xs"
  by (induction xs) simp_all

lemma change_model_facts:
  assumes c: "change_model i f d = Inr d'" and ok: "models_ok d"
    and f: "\<And>m. mo_id (f m) = mo_id m \<and> model_key (f m) = model_key m \<and> mo_source (f m) = mo_source m"
    and m: "model_by_key d p k = Some m" "mo_id m = i" "mo_source m \<noteq> ''manual''"
  shows "tidy p d d'" "model_by_key d' p = (model_by_key d p)(k \<mapsto> f m)"
proof -
  let ?g = "\<lambda>m. if mo_id m = i then f m else m"
  have d': "d' = d\<lparr>models := map ?g (models d)\<rparr>" using c by (simp add: change_model_def)
  have keys: "model_key (?g x) = model_key x" "mo_id (?g x) = mo_id x" for x using f by simp_all
  have src: "mo_source (?g x) = mo_source x" "mo_provider_id (?g x) = mo_provider_id x"
    "mo_model_identifier (?g x) = mo_model_identifier x" for x
    using f [of x] keys [of x] by (simp_all add: model_key_def)
  note md = model_by_keyD [OF m(1)]
  have one: "x = m" if "x \<in> set (models d)" "mo_id x = i" for x
    using same_id [OF ok that(1)] md m(2) that(2) by simp
  have "filter (\<lambda>m. mo_provider_id m \<noteq> p \<or> mo_source m = ''manual'') (map ?g (models d))
      = filter (\<lambda>m. mo_provider_id m \<noteq> p \<or> mo_source m = ''manual'') (models d)"
    by (rule filter_map_same) (use src one md m(3) in \<open>auto simp: model_key_def\<close>)
  then have "guarded p d' = guarded p d" by (simp add: guarded_def d')
  moreover have "identities d' = identities d"
    by (simp add: identities_def d' o_def src keys)
  moreover have ok': "models_ok d'" using ok by (simp add: models_ok_def d' o_def keys)
  ultimately show "tidy p d d'" by (simp add: tidy_def d')
  show "model_by_key d' p = (model_by_key d p)(k \<mapsto> f m)"
  proof
    fix k'
    have fm: "find Q (map ?g xs) = map_option ?g (find Q xs)" if "\<And>x. Q (?g x) = Q x" for Q xs
      by (induction xs) (simp_all add: that)
    have "model_by_key d' p k' = map_option ?g (model_by_key d p k')"
      using fm [of "\<lambda>m. mo_provider_id m = p \<and> mo_model_identifier m = k'" "models d"]
      by (simp add: model_by_key_def d' src)
    also have "\<dots> = ((model_by_key d p)(k \<mapsto> f m)) k'"
    proof (cases "k' = k")
      case False
      have "?g x = x" if "model_by_key d p k' = Some x" for x
        using model_by_keyD [OF that] one [of x] md False by (auto simp: model_key_def)
      with False show ?thesis by (cases "model_by_key d p k'") simp_all
    qed (use m in simp)
    finally show "model_by_key d' p k' = ((model_by_key d p)(k \<mapsto> f m)) k'" .
  qed
qed

section \<open>The map of the stored rows\<close>

lemma update_new: "k \<notin> fst ` set al \<Longrightarrow> AList.update k v al = al @ [(k, v)]"
  by (induction al) auto

lemma existing_map_rows:
  assumes "distinct (map mo_model_identifier rows)"
  shows "existing_map rows = map (\<lambda>r. (mo_model_identifier r, r)) rows"
  using assms
proof (induction rows rule: rev_induct)
  case (snoc r rows)
  then have "mo_model_identifier r \<notin> fst ` set (map (\<lambda>r. (mo_model_identifier r, r)) rows)" by auto
  from update_new [OF this, of r] snoc show ?case by (simp add: existing_map_def)
qed (simp add: existing_map_def)

lemma existing_map_facts:
  assumes "models_ok d"
  shows "map_of (existing_map (models_of d p)) k = model_by_key d p k"
    and "distinct (map fst (existing_map (models_of d p)))"
proof -
  have "distinct (map model_key (models_of d p))"
    using assms by (simp add: models_ok_def models_of_def distinct_map_filter)
  moreover have "map model_key (models_of d p) = map (\<lambda>k. (p, k)) (map mo_model_identifier (models_of d p))"
    by (simp add: model_key_def models_of_def)
  ultimately have "distinct (map (\<lambda>k. (p, k)) (map mo_model_identifier (models_of d p)))" by (simp only:)
  then have dist: "distinct (map mo_model_identifier (models_of d p))" by (simp only: distinct_map)
  note em = existing_map_rows [OF this]
  have "map_of (map (\<lambda>r. (mo_model_identifier r, r)) (filter (\<lambda>m. mo_provider_id m = p) rows)) k
      = find (\<lambda>m. mo_provider_id m = p \<and> mo_model_identifier m = k) rows" for rows
    by (induction rows) auto
  then show "map_of (existing_map (models_of d p)) k = model_by_key d p k"
    unfolding em by (simp add: models_of_def model_by_key_def)
  show "distinct (map fst (existing_map (models_of d p)))" using dist by (simp add: em o_def)
qed

text \<open>The map still tells the truth about the identifiers that have not been handled.\<close>

definition fresh_for :: "string \<Rightarrow> (string \<times> model_row) list \<Rightarrow> database \<Rightarrow> string \<Rightarrow> bool" where
  "fresh_for p em d k \<longleftrightarrow> model_by_key d p k = map_of em k"

definition after_item :: "discovered_model \<Rightarrow> (string \<Rightarrow> model_view option) \<Rightarrow> string \<Rightarrow> model_view option" where
  "after_item it c = (case c (dm_modelIdentifier it) of
     None \<Rightarrow> c(dm_modelIdentifier it \<mapsto> offered ''discovered'' it)
   | Some v \<Rightarrow> if fst v = ''manual'' then c else c(dm_modelIdentifier it \<mapsto> offered (fst v) it))"

definition after_missing :: "string \<Rightarrow> (string \<Rightarrow> model_view option) \<Rightarrow> string \<Rightarrow> model_view option" where
  "after_missing k c = (case c k of None \<Rightarrow> c
   | Some v \<Rightarrow> if fst v = ''manual'' then c else c(k \<mapsto> withdrawn v))"

lemma catalogue_update:
  "model_by_key d' p = (model_by_key d p)(k \<mapsto> m) \<Longrightarrow> catalogue d' p = (catalogue d p)(k \<mapsto> view m)"
  by (rule ext) (simp add: catalogue_def)

lemma fresh_update:
  "model_by_key d' p = (model_by_key d p)(k \<mapsto> m) \<Longrightarrow> k' \<noteq> k \<Longrightarrow> fresh_for p em d' k' = fresh_for p em d k'"
  by (simp add: fresh_for_def)

definition step_ok ::
  "string \<Rightarrow> (string \<times> model_row) list \<Rightarrow> string \<Rightarrow> ((string \<Rightarrow> model_view option) \<Rightarrow> string \<Rightarrow> model_view option)
   \<Rightarrow> database \<Rightarrow> database \<Rightarrow> bool" where
  "step_ok p em k f d d' \<longleftrightarrow> tidy p d d' \<and> catalogue d' p = f (catalogue d p)
     \<and> (\<forall>k'. k' \<noteq> k \<longrightarrow> fresh_for p em d' k' = fresh_for p em d k')"

lemma step_same: "models_ok d \<Longrightarrow> f (catalogue d p) = catalogue d p \<Longrightarrow> step_ok p em k f d d"
  by (simp add: step_ok_def tidy_refl)

lemma step_update:
  "tidy p d d' \<Longrightarrow> model_by_key d' p = (model_by_key d p)(k \<mapsto> m) \<Longrightarrow> f (catalogue d p) = (catalogue d p)(k \<mapsto> view m)
   \<Longrightarrow> step_ok p em k f d d'"
  unfolding step_ok_def by (metis catalogue_update fresh_update)

lemma wp_reconcile_item:
  assumes ok: "models_ok (db w)" and fr: "fresh_for p em (db w) (dm_modelIdentifier it)"
  shows "wp (reconcile_item env p em it c) (\<lambda>_ w'. step_ok p em (dm_modelIdentifier it) (after_item it) (db w) (db w'))
    (\<lambda>_ _. True) w"
proof (cases "map_of em (dm_modelIdentifier it)")
  case None
  with fr have cat: "catalogue (db w) p (dm_modelIdentifier it) = None"
    by (simp add: fresh_for_def catalogue_def)
  have "step_ok p em (dm_modelIdentifier it) (after_item it) (db w) d'"
    if "insert_model (discovered_row p it i now) (db w) = Inr d'" for i now d'
  proof -
    note f = insert_model_facts [OF that ok, of p]
    show ?thesis
      by (rule step_update [OF f(1), where m = "discovered_row p it i now"])
        (use f(2) cat in \<open>simp_all add: discovered_row_def after_item_def offered_def view_def\<close>)
  qed
  then show ?thesis using None by (simp add: reconcile_item_def wp_simps split: option.split sum.split)
next
  case (Some ex)
  then have row: "model_by_key (db w) p (dm_modelIdentifier it) = Some ex" using fr by (simp add: fresh_for_def)
  then have cat: "catalogue (db w) p (dm_modelIdentifier it) = Some (view ex)" by (simp add: catalogue_def)
  show ?thesis
  proof (cases "mo_source ex = ''manual'' \<or> \<not> has_changed ex it")
    case True
    have "after_item it (catalogue (db w) p) = catalogue (db w) p"
      using True cat by (auto simp: after_item_def view_def offered_def has_changed_def fun_eq_iff)
    from step_same [where f = "after_item it", OF ok this] True Some show ?thesis
      by (auto simp: reconcile_item_def wp_simps)
  next
    case False
    let ?f = "\<lambda>now m. m\<lparr>mo_display_name := dm_displayName it, mo_context_window := dm_contextWindow it,
      mo_default_temperature := dm_defaultTemperature it, mo_default_max_tokens := dm_defaultMaxTokens it,
      mo_enabled := 1, mo_updated_at := now\<rparr>"
    have "step_ok p em (dm_modelIdentifier it) (after_item it) (db w) d'"
      if "refresh_model (mo_id ex) (dm_displayName it) (dm_contextWindow it) (dm_defaultTemperature it)
            (dm_defaultMaxTokens it) 1 now (db w) = Inr d'" for now d'
    proof -
      note f = change_model_facts [OF that [unfolded refresh_model_def] ok _ row refl]
      show ?thesis
        by (rule step_update [OF f(1), where m = "?f now ex"])
          (use f(2) cat False in \<open>simp_all add: model_key_def after_item_def offered_def view_def\<close>)
    qed
    then show ?thesis using False Some by (simp add: reconcile_item_def wp_simps split: option.split sum.split)
  qed
qed

lemma wp_reconcile_missing:
  assumes ok: "models_ok (db w)" and fr: "map_of em k = Some ex" "fresh_for p em (db w) k" and k: "k \<notin> set seen"
  shows "wp (reconcile_missing env seen (k, ex) c) (\<lambda>_ w'. step_ok p em k (after_missing k) (db w) (db w')) (\<lambda>_ _. True) w"
proof -
  have row: "model_by_key (db w) p k = Some ex" using fr by (simp add: fresh_for_def)
  then have cat: "catalogue (db w) p k = Some (view ex)" by (simp add: catalogue_def)
  show ?thesis
  proof (cases "mo_source ex = ''manual'' \<or> mo_enabled ex \<noteq> 1")
    case True
    have "after_missing k (catalogue (db w) p) = catalogue (db w) p"
      using True cat by (auto simp: after_missing_def view_def withdrawn_def fun_eq_iff)
    from step_same [where f = "after_missing k", OF ok this] True k show ?thesis
      by (auto simp: reconcile_missing_def wp_simps)
  next
    case False
    have "step_ok p em k (after_missing k) (db w) d'" if "disable_model (mo_id ex) now (db w) = Inr d'" for now d'
    proof -
      note f = change_model_facts [OF that [unfolded disable_model_def] ok _ row refl]
      show ?thesis
        by (rule step_update [OF f(1), where m = "ex\<lparr>mo_enabled := 0, mo_updated_at := now\<rparr>"])
          (use f(2) cat False in \<open>simp_all add: model_key_def after_missing_def withdrawn_def view_def\<close>)
    qed
    then show ?thesis using False k by (simp add: reconcile_missing_def wp_simps split: option.split sum.split)
  qed
qed

section \<open>The two loops\<close>

lemma wp_reconcile_items:
  assumes "models_ok (db w)" "distinct (map dm_modelIdentifier its)"
    and "\<And>it. it \<in> set its \<Longrightarrow> fresh_for p em (db w) (dm_modelIdentifier it)"
  shows "wp (reconcile_items env p em its c) (\<lambda>_ w'. tidy p (db w) (db w')
      \<and> catalogue (db w') p = fold after_item its (catalogue (db w) p)
      \<and> (\<forall>k. k \<notin> dm_modelIdentifier ` set its \<longrightarrow> fresh_for p em (db w') k = fresh_for p em (db w) k)) (\<lambda>_ _. True) w"
  using assms
proof (induction its arbitrary: c w)
  case (Cons it its)
  have item: "wp (reconcile_item env p em it c)
      (\<lambda>_ w'. step_ok p em (dm_modelIdentifier it) (after_item it) (db w) (db w')) (\<lambda>_ _. True) w"
    by (rule wp_reconcile_item) (use Cons.prems in auto)
  show ?case
    unfolding reconcile_items.simps wp_bnd
  proof (rule wp_mono [OF item])
    fix c' and v :: world
    assume "step_ok p em (dm_modelIdentifier it) (after_item it) (db w) (db v)"
    then have s: "tidy p (db w) (db v)" "catalogue (db v) p = after_item it (catalogue (db w) p)"
      "\<And>k'. k' \<noteq> dm_modelIdentifier it \<Longrightarrow> fresh_for p em (db v) k' = fresh_for p em (db w) k'"
      by (simp_all add: step_ok_def)
    have ok: "models_ok (db v)" using s(1) by (simp add: tidy_def)
    have fr: "fresh_for p em (db v) (dm_modelIdentifier it')" if "it' \<in> set its" for it'
      using Cons.prems(2,3) that s(3) [of "dm_modelIdentifier it'"] by (metis distinct.simps(2) image_eqI list.set_intros(2) list.set_map list.simps(9))
    have d: "distinct (map dm_modelIdentifier its)" using Cons.prems(2) by simp
    show "wp (reconcile_items env p em its c') (\<lambda>_ w'. tidy p (db w) (db w')
      \<and> catalogue (db w') p = fold after_item (it # its) (catalogue (db w) p)
      \<and> (\<forall>k. k \<notin> dm_modelIdentifier ` set (it # its) \<longrightarrow> fresh_for p em (db w') k = fresh_for p em (db w) k)) (\<lambda>_ _. True) v"
      by (rule wp_mono [OF Cons.IH [OF ok d fr]]) (use s tidy_trans [OF s(1)] in auto)
  qed simp
qed (simp add: wp_simps tidy_refl)

lemma wp_disable_missing:
  assumes "models_ok (db w)" "distinct (map fst es)"
    and "\<And>e. e \<in> set es \<Longrightarrow> fst e \<notin> set seen \<Longrightarrow> map_of em (fst e) = Some (snd e) \<and> fresh_for p em (db w) (fst e)"
  shows "wp (disable_missing env seen es c) (\<lambda>_ w'. tidy p (db w) (db w')
      \<and> catalogue (db w') p = fold after_missing (filter (\<lambda>k. k \<notin> set seen) (map fst es)) (catalogue (db w) p)) (\<lambda>_ _. True) w"
  using assms
proof (induction es arbitrary: c w)
  case (Cons e es)
  let ?rest = "\<lambda>k v. tidy p (db w) (db v) \<and> catalogue (db v) p = k (catalogue (db w) p)
    \<and> (\<forall>k'. k' \<noteq> fst e \<longrightarrow> fresh_for p em (db v) k' = fresh_for p em (db w) k')"
  have item: "wp (reconcile_missing env seen e c)
      (\<lambda>_ v. ?rest (if fst e \<in> set seen then (\<lambda>x. x) else after_missing (fst e)) v) (\<lambda>_ _. True) w"
  proof (cases "fst e \<in> set seen")
    case True
    then show ?thesis using Cons.prems(1) by (simp add: reconcile_missing_def wp_simps tidy_refl)
  next
    case False
    with Cons.prems(3) [of e] have "map_of em (fst e) = Some (snd e)" "fresh_for p em (db w) (fst e)" by simp_all
    from wp_reconcile_missing [OF Cons.prems(1) this False, of env c] show ?thesis
      by (simp add: False step_ok_def)
  qed
  show ?case
    unfolding disable_missing.simps wp_bnd
  proof (rule wp_mono [OF item])
    fix c' and v :: world
    assume s: "?rest (if fst e \<in> set seen then (\<lambda>x. x) else after_missing (fst e)) v"
    have ok: "models_ok (db v)" using s by (simp add: tidy_def)
    have fr: "map_of em (fst e') = Some (snd e') \<and> fresh_for p em (db v) (fst e')" if "e' \<in> set es" "fst e' \<notin> set seen" for e'
    proof -
      have "fst e' \<in> set (map fst es)" using that(1) by simp
      then have "fst e' \<noteq> fst e" using Cons.prems(2) by (metis distinct.simps(2) list.simps(9))
      then show ?thesis using Cons.prems(3) [of e'] that s by simp
    qed
    have d: "distinct (map fst es)" using Cons.prems(2) by simp
    have t: "tidy p (db w) (db v)" using s by simp
    show "wp (disable_missing env seen es c') (\<lambda>_ w'. tidy p (db w) (db w')
      \<and> catalogue (db w') p = fold after_missing (filter (\<lambda>k. k \<notin> set seen) (map fst (e # es))) (catalogue (db w) p)) (\<lambda>_ _. True) v"
      by (rule wp_mono [OF Cons.IH [OF ok d fr]]) (use s tidy_trans [OF t] in auto)
  qed simp
qed (simp add: wp_simps tidy_refl)

text \<open>The two loops as \<open>target\<close>.\<close>

lemma fold_after_item:
  "distinct (map dm_modelIdentifier its) \<Longrightarrow> fold after_item its c k
   = (case find (\<lambda>it. dm_modelIdentifier it = k) its of None \<Rightarrow> c k | Some it \<Rightarrow> after_item it c k)"
proof (induction its arbitrary: c)
  case (Cons it its)
  show ?case
  proof (cases "dm_modelIdentifier it = k")
    case True
    then have "k \<notin> set (map dm_modelIdentifier its)" using Cons.prems by auto
    then have "find (\<lambda>it. dm_modelIdentifier it = k) its = None" by (auto simp: find_None_iff)
    with Cons True show ?thesis by simp
  next
    case False
    then have "after_item it c k = c k" by (auto simp: after_item_def split: option.split)
    note first = this
    have later: "after_item it' (after_item it c) k = after_item it' c k" if "dm_modelIdentifier it' = k" for it'
      using False that by (auto simp: after_item_def split: option.split)
    have ih: "fold after_item (it # its) c k = (case find (\<lambda>it. dm_modelIdentifier it = k) its of
        None \<Rightarrow> after_item it c k | Some it' \<Rightarrow> after_item it' (after_item it c) k)"
      using Cons by simp
    show ?thesis
    proof (cases "find (\<lambda>it. dm_modelIdentifier it = k) its")
      case None
      with ih first False show ?thesis by simp
    next
      case (Some it')
      then have "dm_modelIdentifier it' = k" by (auto simp: find_Some_iff)
      from ih later [OF this] Some False show ?thesis by simp
    qed
  qed
qed simp

lemma fold_after_missing:
  "distinct ks \<Longrightarrow> fold after_missing ks c k = (if k \<in> set ks then after_missing k c k else c k)"
proof (induction ks arbitrary: c)
  case (Cons k' ks)
  have "after_missing k' c k = c k" if "k' \<noteq> k" using that by (auto simp: after_missing_def split: option.split)
  moreover have "after_missing k (after_missing k' c) k = after_missing k c k" if "k' \<noteq> k"
    using that by (auto simp: after_missing_def split: option.split)
  ultimately show ?case using Cons by auto
qed simp

lemma loops_target:
  assumes its: "distinct (map dm_modelIdentifier its)" and ks: "distinct ks"
    and stored: "\<And>k. c k \<noteq> None \<longleftrightarrow> k \<in> set ks"
  shows "fold after_missing (filter (\<lambda>k. k \<notin> dm_modelIdentifier ` set its) ks) (fold after_item its c) = target its c"
proof
  fix k
  let ?f = "find (\<lambda>it. dm_modelIdentifier it = k) its"
  have d: "distinct (filter (\<lambda>k. k \<notin> dm_modelIdentifier ` set its) ks)" using ks by simp
  show "fold after_missing (filter (\<lambda>k. k \<notin> dm_modelIdentifier ` set its) ks) (fold after_item its c) k = target its c k"
  proof (cases ?f)
    case None
    then have "k \<notin> dm_modelIdentifier ` set its" by (auto simp: find_None_iff)
    with None stored [of k] show ?thesis
      by (cases "c k") (auto simp: fold_after_missing [OF d] fold_after_item [OF its] after_missing_def target_def)
  next
    case (Some it)
    then have it: "dm_modelIdentifier it = k" "k \<in> dm_modelIdentifier ` set its" by (auto simp: find_Some_iff)
    with Some show ?thesis
      by (cases "c k") (auto simp: fold_after_missing [OF d] fold_after_item [OF its] after_item_def target_def)
  qed
qed

lemma wp_reconcile:
  assumes ok: "models_ok (db w)" and its: "distinct (map dm_modelIdentifier its)"
  shows "wp (reconcile env p its) (\<lambda>s w'. tidy p (db w) (db w')
     \<and> catalogue (db w') p = target its (catalogue (db w) p)
     \<and> sm_models s = map (mapModelRow None) (sort_key (\<lambda>m. (mo_created_at m, mo_id m)) (models_of (db w') p)))
     (\<lambda>_ _. True) w"
proof -
  let ?em = "existing_map (models_of (db w) p)"
  let ?ks = "map fst ?em"
  note em = existing_map_facts [OF ok, of p]
  have fr: "fresh_for p ?em (db w) k" for k by (simp add: fresh_for_def em)
  have stored: "catalogue (db w) p k \<noteq> None \<longleftrightarrow> k \<in> set ?ks" for k
    using em(1) [of k] map_of_eq_None_iff [of ?em k] by (simp add: catalogue_def)
  have entry: "map_of ?em (fst e) = Some (snd e)" if "e \<in> set ?em" for e
    using em(2) that by (cases e) simp
  have loop2: "wp (disable_missing env (map dm_modelIdentifier its) ?em c) (\<lambda>_ w'. tidy p (db w) (db w')
      \<and> catalogue (db w') p = target its (catalogue (db w) p)) (\<lambda>_ _. True) v"
    if v: "tidy p (db w) (db v)" "catalogue (db v) p = fold after_item its (catalogue (db w) p)"
      "\<forall>k. k \<notin> dm_modelIdentifier ` set its \<longrightarrow> fresh_for p ?em (db v) k = fresh_for p ?em (db w) k" for v c
  proof -
    have okv: "models_ok (db v)" using v(1) by (simp add: tidy_def)
    have e: "map_of ?em (fst e) = Some (snd e) \<and> fresh_for p ?em (db v) (fst e)"
      if "e \<in> set ?em" "fst e \<notin> set (map dm_modelIdentifier its)" for e
      using entry [OF that(1)] v(3) fr that(2) by simp
    show ?thesis
      by (rule wp_mono [OF wp_disable_missing [OF okv em(2) e]])
        (use tidy_trans [OF v(1)] v(2) loops_target [OF its em(2) stored] in auto)
  qed
  show ?thesis
    unfolding reconcile_def wp_bnd wp_select
    by (rule wp_mono [OF wp_reconcile_items [OF ok its fr]], rule wp_mono [OF loop2]) (auto simp: wp_simps)
qed

section \<open>A second run\<close>

lemma target_idem: "target its (target its c) = target its c"
  by (rule ext) (auto simp: target_def offered_def withdrawn_def split: option.split prod.split)

lemma reconcile_item_idle:
  assumes "map_of em (dm_modelIdentifier it) = Some ex" "mo_source ex = ''manual'' \<or> \<not> has_changed ex it"
  shows "reconcile_item env p em it c w = (Inr (c\<lparr>ct_unchanged := Suc (ct_unchanged c)\<rparr>), w)"
  using assms by (auto simp: reconcile_item_def ret_def)

lemma reconcile_items_idle:
  assumes "\<And>it. it \<in> set its \<Longrightarrow> \<exists>ex. map_of em (dm_modelIdentifier it) = Some ex
     \<and> (mo_source ex = ''manual'' \<or> \<not> has_changed ex it)"
  shows "\<exists>n. reconcile_items env p em its c w = (Inr (c\<lparr>ct_unchanged := n\<rparr>), w)"
  using assms
proof (induction its arbitrary: c)
  case Nil
  show ?case by (intro exI [of _ "ct_unchanged c"]) (simp add: ret_def)
next
  case (Cons it its)
  then obtain ex where "map_of em (dm_modelIdentifier it) = Some ex" "mo_source ex = ''manual'' \<or> \<not> has_changed ex it"
    by (meson list.set_intros(1))
  note one = reconcile_item_idle [OF this, of env p c w]
  from Cons.IH [of "c\<lparr>ct_unchanged := Suc (ct_unchanged c)\<rparr>"] Cons.prems one show ?case
    by (auto simp: bnd_def)
qed

lemma disable_missing_idle:
  assumes "\<And>e. e \<in> set es \<Longrightarrow> fst e \<notin> set seen \<Longrightarrow> mo_source (snd e) = ''manual'' \<or> mo_enabled (snd e) \<noteq> 1"
  shows "\<exists>n. disable_missing env seen es c w = (Inr (c\<lparr>ct_unchanged := n\<rparr>), w)"
  using assms
proof (induction es arbitrary: c)
  case Nil
  show ?case by (intro exI [of _ "ct_unchanged c"]) (simp add: ret_def)
next
  case (Cons e es)
  have "reconcile_missing env seen e c w = (Inr (if fst e \<in> set seen then c else c\<lparr>ct_unchanged := Suc (ct_unchanged c)\<rparr>), w)"
    using Cons.prems [of e] by (auto simp: reconcile_missing_def ret_def Let_def)
  with Cons.IH [of "if fst e \<in> set seen then c else c\<lparr>ct_unchanged := Suc (ct_unchanged c)\<rparr>"] Cons.prems show ?case
    by (cases "fst e \<in> set seen") (auto simp: bnd_def)
qed

lemma reconcile_idle:
  assumes ok: "models_ok (db w)" and fix_: "target its (catalogue (db w) p) = catalogue (db w) p"
    and its: "distinct (map dm_modelIdentifier its)"
  shows "\<exists>s. reconcile env p its w = (Inr s, w) \<and> sm_added s = 0 \<and> sm_updated s = 0 \<and> sm_disabled s = 0"
proof -
  let ?em = "existing_map (models_of (db w) p)"
  note em = existing_map_facts [OF ok, of p]
  have same: "target its (catalogue (db w) p) k = catalogue (db w) p k" for k using fix_ by simp
  have item: "\<exists>ex. map_of ?em (dm_modelIdentifier it) = Some ex \<and> (mo_source ex = ''manual'' \<or> \<not> has_changed ex it)"
    if it: "it \<in> set its" for it
  proof -
    let ?k = "dm_modelIdentifier it"
    have f: "find (\<lambda>x. dm_modelIdentifier x = ?k) its = Some it"
      using it its by (induction its) auto
    with same [of ?k] obtain ex where ex: "model_by_key (db w) p ?k = Some ex"
      by (cases "model_by_key (db w) p ?k") (simp_all add: target_def catalogue_def)
    with same [of ?k] f have "mo_source ex = ''manual'' \<or> \<not> has_changed ex it"
      by (auto simp: target_def catalogue_def view_def offered_def has_changed_def split: if_splits)
    with ex show ?thesis by (simp add: em)
  qed
  have missing: "mo_source (snd e) = ''manual'' \<or> mo_enabled (snd e) \<noteq> 1"
    if e: "e \<in> set ?em" "fst e \<notin> set (map dm_modelIdentifier its)" for e
  proof -
    have "model_by_key (db w) p (fst e) = Some (snd e)" using em(1) em(2) e(1) by (cases e) (metis fst_conv map_of_eq_Some_iff snd_conv)
    moreover have "find (\<lambda>x. dm_modelIdentifier x = fst e) its = None"
      using e(2) by (simp add: find_None_iff) (metis image_eqI)
    ultimately show ?thesis using same [of "fst e"]
      by (auto simp: target_def catalogue_def view_def withdrawn_def split: if_splits)
  qed
  obtain n where n: "reconcile_items env p ?em its no_counts w = (Inr (no_counts\<lparr>ct_unchanged := n\<rparr>), w)"
    using reconcile_items_idle [of its ?em env p no_counts w] item by blast
  obtain n' where n': "disable_missing env (map dm_modelIdentifier its) ?em (no_counts\<lparr>ct_unchanged := n\<rparr>) w
      = (Inr (no_counts\<lparr>ct_unchanged := n'\<rparr>), w)"
    using disable_missing_idle [of ?em "map dm_modelIdentifier its" env "no_counts\<lparr>ct_unchanged := n\<rparr>" w] missing by auto
  show ?thesis
    using n n' by (simp add: reconcile_def bnd_def select_def gets_def ret_def no_counts_def)
qed

section \<open>The whole request\<close>

lemma dedup_items_ids: "set (map dm_modelIdentifier (dedup_items seen its)) = dm_modelIdentifier ` set its - set seen"
  by (induction seen its rule: dedup_items.induct) auto

lemma distinct_dedup: "distinct (map dm_modelIdentifier (dedup_items seen its))"
proof (induction seen its rule: dedup_items.induct)
  case (2 seen it its)
  then show ?case using dedup_items_ids [of "dm_modelIdentifier it # seen" its] by auto
qed simp

lemma find_dedup: "k \<notin> set seen \<Longrightarrow> find (\<lambda>it. dm_modelIdentifier it = k) (dedup_items seen its) = find (\<lambda>it. dm_modelIdentifier it = k) its"
  by (induction seen its rule: dedup_items.induct) auto

lemma target_dedup: "target (dedup_items [] its) = target its"
  by (intro ext) (simp add: target_def find_dedup)

definition discovered :: "string \<Rightarrow> discovered_model list \<Rightarrow> database \<Rightarrow> discovery_summary \<Rightarrow> database \<Rightarrow> bool" where
  "discovered p its d s d' \<longleftrightarrow> tidy p d d' \<and> catalogue d' p = target its (catalogue d p)
     \<and> sm_models s = map (mapModelRow None) (sort_key (\<lambda>m. (mo_created_at m, mo_id m)) (models_of d' p))"

lemma wp_discover:
  assumes "\<And>config call. discoveries config = Some call \<Longrightarrow> models_ok (dc_others call (db w))"
  shows "wp (discover env discoveries p timeout)
    (\<lambda>s w'. \<exists>config call its. discoveries config = Some call \<and> dc_result call = Inr (Some (map Some its))
        \<and> discovered p its (dc_others call (db w)) s (db w'))
    (\<lambda>_ w'. db w' = db w \<or> (\<exists>config call. discoveries config = Some call \<and> db w' = dc_others call (db w))) w"
proof -
  have tx: "wp (transaction env (reconcile env p (dedup_items [] its))) (\<lambda>s w'. discovered p its (db v) s (db w'))
      (\<lambda>_ w'. db w' = db v) v" if "models_ok (db v)" for v its
    by (rule wp_transaction_cases, rule wp_mono [OF wp_reconcile [OF that distinct_dedup]])
      (auto simp: discovered_def target_dedup)
  show ?thesis
  proof (cases "check_discoverable env (db w) p")
    case (Inr r)
    obtain provider key where r: "r = (provider, key)" by (cases r)
    show ?thesis
    proof (cases "discovery_adapter env provider key")
      case a: (Inr config)
      show ?thesis
      proof (cases "discoveries config")
        case (Some call)
        let ?v = "w\<lparr>db := dc_others call (db w)\<rparr>"
        have ok: "models_ok (db ?v)" using assms [OF Some] by simp
        show ?thesis
        proof (cases "dc_result call")
          case b: (Inr raw)
          show ?thesis
          proof (cases "validated_items p raw")
            case c: (Inr its)
            then have raw: "dc_result call = Inr (Some (map Some its))"
              using b by (auto simp: validated_items_def valid_item_def list_all_iff split: option.splits if_splits intro!: map_idI [symmetric])
            show ?thesis
              using Inr r a Some b c raw
              by (simp add: discover_def wp_simps) (rule wp_mono [OF tx [OF ok]], auto)
          qed (use Inr r a Some b in \<open>auto simp: discover_def wp_simps\<close>)
        qed (use Inr r a Some in \<open>auto simp: discover_def wp_simps\<close>)
      qed (use Inr r a in \<open>simp add: discover_def wp_simps\<close>)
    qed (use Inr r in \<open>simp add: discover_def wp_simps\<close>)
  qed (simp add: discover_def wp_simps)
qed

text \<open>Once more, with the same answer and nothing else going on: nothing is written.\<close>

lemma wp_discover_again:
  assumes fin: "discovered p its d s (db w)"
    and again: "\<And>config call. discoveries config = Some call \<Longrightarrow> dc_result call = Inr (Some (map Some its))
      \<and> dc_others call = (\<lambda>d. d)"
  shows "wp (discover env discoveries p timeout)
    (\<lambda>s' w'. db w' = db w \<and> sm_added s' = 0 \<and> sm_updated s' = 0 \<and> sm_disabled s' = 0)
    (\<lambda>_ w'. db w' = db w) w"
proof -
  have ok: "models_ok (db w)" and cat: "target its (catalogue (db w) p) = catalogue (db w) p"
    using fin by (simp_all add: discovered_def tidy_def target_idem)
  have same: "w\<lparr>db := db w\<rparr> = w" by simp
  have "target (dedup_items [] its) (catalogue (db w) p) = catalogue (db w) p" by (simp add: target_dedup cat)
  from reconcile_idle [OF ok this distinct_dedup, of env] obtain s' where
    s': "reconcile env p (dedup_items [] its) w = (Inr s', w)" "sm_added s' = 0" "sm_updated s' = 0" "sm_disabled s' = 0"
    by blast
  have tx: "wp (transaction env (reconcile env p (dedup_items [] its)))
      (\<lambda>s' w'. db w' = db w \<and> sm_added s' = 0 \<and> sm_updated s' = 0 \<and> sm_disabled s' = 0) (\<lambda>_ w'. db w' = db w) w"
    unfolding wp_transaction using s' by (simp add: wp_def [of "reconcile env p its'" for its']) (simp add: wp_simps split: option.split)
  show ?thesis
  proof (cases "check_discoverable env (db w) p")
    case (Inr r)
    obtain provider key where r: "r = (provider, key)" by (cases r)
    show ?thesis
    proof (cases "discovery_adapter env provider key")
      case a: (Inr config)
      show ?thesis
      proof (cases "discoveries config")
        case (Some call)
        note c = again [OF Some]
        show ?thesis
          using Inr r a Some c tx by (cases "validated_items p (Some (map Some its))")
            (auto simp: discover_def wp_simps same validated_items_def o_def split: if_splits)
      qed (use Inr r a in \<open>simp add: discover_def wp_simps\<close>)
    qed (use Inr r in \<open>simp add: discover_def wp_simps\<close>)
  qed (simp add: discover_def wp_simps)
qed

end
