(* ===== verification/PathSafety.thy ===== *)
theory PathSafety
  imports ModelErrors
begin

text \<open>
  \<open>file-storage/path-safety.ts\<close> on a POSIX system (\<open>path.sep\<close> is a slash and names are
  case-sensitive): from a reference to a path below the storage root, and the check that no
  symbolic link on the way leads out of it. An absolute path is the list of its names.
  \<open>decodeURIComponent\<close> is a parameter, since what it returns may leave the alphabet of the
  model; so are \<open>lstat\<close> and \<open>realpath\<close>.
\<close>

type_synonym path = "string list"

section \<open>Node's \<open>path\<close>\<close>

definition bslash :: char where
  "bslash = CHR 0x5C"

definition slash :: char where
  "slash = CHR ''/''"

fun split_on :: "(char \<Rightarrow> bool) \<Rightarrow> string \<Rightarrow> string list" where
  "split_on P [] = [[]]"
| "split_on P (c # s) = (if P c then [] # split_on P s
     else (case split_on P s of [] \<Rightarrow> [[c]] | x # xs \<Rightarrow> (c # x) # xs))"

definition path_text :: "path \<Rightarrow> string" where
  "path_text p = slash # js_join [slash] p"

text \<open>\<open>path.resolve(base, ...names)\<close> for an absolute base and names without a slash.\<close>

definition path_step :: "string \<Rightarrow> path \<Rightarrow> path" where
  "path_step x p = (if x = [] \<or> x = ''.'' then p else if x = ''..'' then butlast p else p @ [x])"

definition path_walk :: "path \<Rightarrow> string list \<Rightarrow> path" where
  "path_walk base names = fold path_step names base"

text \<open>\<open>path.resolve(p)\<close> in the working directory \<open>cwd\<close>.\<close>

definition path_resolve :: "path \<Rightarrow> string \<Rightarrow> path" where
  "path_resolve cwd p = path_walk (if prefix [slash] p then [] else cwd) (split_on (\<lambda>c. c = slash) p)"

fun common_length :: "path \<Rightarrow> path \<Rightarrow> nat" where
  "common_length (a # as) (b # bs) = (if a = b then Suc (common_length as bs) else 0)"
| "common_length _ _ = 0"

definition path_relative :: "path \<Rightarrow> path \<Rightarrow> string" where
  "path_relative from to =
     (let n = common_length from to
      in js_join [slash] (replicate (length from - n) ''..'' @ drop n to))"

section \<open>References\<close>

definition invalid_path :: "string \<Rightarrow> exn" where
  "invalid_path msg = http_error 400 ''InvalidPathError'' ''INVALID_PATH'' msg"

definition is_drive :: "string \<Rightarrow> bool" where
  "is_drive s = (case s of a # b # r \<Rightarrow>
      ((65 \<le> code_unit a \<and> code_unit a \<le> 90) \<or> (97 \<le> code_unit a \<and> code_unit a \<le> 122)) \<and> b = CHR '':''
        \<and> (case r of [] \<Rightarrow> True | c # _ \<Rightarrow> c = slash \<or> c = bslash)
   | _ \<Rightarrow> False)"

definition assertSafeReference :: "(string \<Rightarrow> string option) \<Rightarrow> string \<Rightarrow> exn + string" where
  "assertSafeReference decode reference =
     (if js_trim reference = [] then Inl (invalid_path ''Storage reference must be a non-empty string'')
      else if js_includes reference [CHR 0x00] \<or> js_includes reference ''%00''
      then Inl (invalid_path ''Storage reference must not contain null bytes'')
      else case decode reference of
        None \<Rightarrow> Inl (invalid_path ''Storage reference contains malformed URL encoding'')
      | Some decodedRef \<Rightarrow>
          if js_includes decodedRef [CHR 0x00]
          then Inl (invalid_path ''Storage reference must not contain null bytes'')
          else if prefix [slash] decodedRef \<or> prefix [bslash] decodedRef \<or> is_drive decodedRef
          then Inl (invalid_path (''Storage reference must be relative to storage root, received absolute path: ''
                 @ quoted reference))
          else Inr decodedRef)"

definition escapes_root :: "string \<Rightarrow> bool \<Rightarrow> bool" where
  "escapes_root rel allowRoot = ((rel = [] \<and> \<not> allowRoot) \<or> rel = ''..'' \<or> prefix (''..'' @ [slash]) rel
     \<or> prefix (''..'' @ [bslash]) rel \<or> prefix [slash] rel)"

definition with_separator :: "string \<Rightarrow> string" where
  "with_separator p = (if suffix [slash] p then p else p @ [slash])"

definition resolveStoragePath ::
  "(string \<Rightarrow> string option) \<Rightarrow> path \<Rightarrow> string \<Rightarrow> string \<Rightarrow> bool \<Rightarrow> exn + path" where
  "resolveStoragePath decode cwd storageRoot reference allowRoot =
     (case assertSafeReference decode reference of
        Inl e \<Rightarrow> Inl e
      | Inr decodedRef \<Rightarrow>
          let normalizedRoot = path_resolve cwd storageRoot;
              segments = filter (\<lambda>x. x \<noteq> []) (split_on (\<lambda>c. c = slash \<or> c = bslash) decodedRef);
              resolvedPath = path_walk normalizedRoot segments;
              relative = path_relative normalizedRoot resolvedPath in
          if segments = [] \<and> \<not> allowRoot
          then Inl (invalid_path ''Storage reference resolves to the root directory itself'')
          else if escapes_root relative allowRoot
          then Inl (invalid_path (''Storage reference '' @ quoted reference @ '' escapes the storage root''))
          else if \<not> prefix (with_separator (path_text normalizedRoot)) (path_text resolvedPath)
                  \<and> (\<not> allowRoot \<or> resolvedPath \<noteq> normalizedRoot)
          then Inl (invalid_path (''Storage reference '' @ quoted reference @ '' escapes the storage root boundary''))
          else Inr resolvedPath)"

section \<open>Symbolic links\<close>

record file_system =
  fs_lstat :: "path \<Rightarrow> exn + bool"
  fs_realpath :: "path \<Rightarrow> exn + path"

definition is_enoent :: "exn \<Rightarrow> bool" where
  "is_enoent e = (cause_code (Some e) = Some ''ENOENT'')"

text \<open>The body of the loop for one path: \<open>lstat\<close> tells whether it is a symbolic link.\<close>

definition check_link :: "file_system \<Rightarrow> path \<Rightarrow> string \<Rightarrow> path \<Rightarrow> exn + unit" where
  "check_link fs realRoot reference current =
     (case fs_lstat fs current of
        Inl e \<Rightarrow> Inl e
      | Inr False \<Rightarrow> Inr ()
      | Inr True \<Rightarrow> (case fs_realpath fs current of
          Inl e \<Rightarrow> Inl e
        | Inr realCurrent \<Rightarrow>
            if escapes_root (path_relative realRoot realCurrent) False
            then Inl (invalid_path (''Symlink in storage path '' @ quoted reference
                   @ '' points outside the storage root to '' @ quoted (path_text realCurrent)))
            else if \<not> prefix (with_separator (path_text realRoot)) (path_text realCurrent)
            then Inl (invalid_path (''Symlink in storage path '' @ quoted reference
                   @ '' resolves outside the storage root boundary to '' @ quoted (path_text realCurrent)))
            else Inr ()))"

function check_links :: "file_system \<Rightarrow> path \<Rightarrow> path \<Rightarrow> string \<Rightarrow> path \<Rightarrow> exn + unit" where
  "check_links fs realRoot normalizedRoot reference current =
     (if current = normalizedRoot \<or> current = [] then Inr ()
      else case check_link fs realRoot reference current of
        Inl e \<Rightarrow> if is_enoent e then check_links fs realRoot normalizedRoot reference (butlast current) else Inl e
      | Inr _ \<Rightarrow> check_links fs realRoot normalizedRoot reference (butlast current))"
  by pat_completeness auto
termination by (relation "measure (\<lambda>(fs, rr, nr, r, p). length p)") auto

declare check_links.simps [simp del]

definition verifyStoragePathContainment ::
  "file_system \<Rightarrow> (string \<Rightarrow> string option) \<Rightarrow> path \<Rightarrow> string \<Rightarrow> string \<Rightarrow> bool \<Rightarrow> exn + path" where
  "verifyStoragePathContainment fs decode cwd storageRoot reference allowRoot =
     (case resolveStoragePath decode cwd storageRoot reference allowRoot of
        Inl e \<Rightarrow> Inl e
      | Inr resolvedPath \<Rightarrow>
          let normalizedRoot = path_resolve cwd storageRoot;
              realRoot = (case fs_realpath fs normalizedRoot of Inl _ \<Rightarrow> normalizedRoot | Inr r \<Rightarrow> r)
          in case check_links fs realRoot normalizedRoot reference resolvedPath of
               Inl e \<Rightarrow> Inl e
             | Inr _ \<Rightarrow> Inr resolvedPath)"

section \<open>Names\<close>

text \<open>The names a normalised path is made of.\<close>

definition proper :: "string \<Rightarrow> bool" where
  "proper x \<longleftrightarrow> x \<noteq> [] \<and> x \<noteq> ''.'' \<and> x \<noteq> ''..'' \<and> slash \<notin> set x"

lemma split_on_nonempty [simp]: "split_on P s \<noteq> []"
  by (cases s) (auto split: list.split)

lemma split_on_names: "x \<in> set (split_on P s) \<Longrightarrow> \<forall>c\<in>set x. \<not> P c"
proof (induction s arbitrary: x)
  case (Cons c s)
  obtain y ys where y: "split_on P s = y # ys" by (cases "split_on P s") simp_all
  show ?case
  proof (cases "P c \<and> x \<noteq> [] \<or> x \<in> set (split_on P s)")
    case True
    with Cons show ?thesis by (cases "P c") (auto simp: y)
  next
    case False
    with Cons.prems y have "x = [] \<or> (\<not> P c \<and> x = c # y)" by (auto split: if_splits)
    moreover have "\<forall>c\<in>set y. \<not> P c" using Cons.IH [of y] y by simp
    ultimately show ?thesis by auto
  qed
qed simp

lemma path_walk_proper:
  "\<forall>x\<in>set base. proper x \<Longrightarrow> \<forall>x\<in>set names. slash \<notin> set x \<Longrightarrow> \<forall>x\<in>set (path_walk base names). proper x"
proof (induction names arbitrary: base)
  case (Cons n names)
  have "\<forall>x\<in>set (path_step n base). proper x"
    using Cons.prems by (auto simp: path_step_def proper_def dest: in_set_butlastD)
  with Cons show ?case by (simp add: path_walk_def)
qed (simp add: path_walk_def)

lemma path_resolve_proper: "\<forall>x\<in>set cwd. proper x \<Longrightarrow> \<forall>x\<in>set (path_resolve cwd p). proper x"
  unfolding path_resolve_def by (rule path_walk_proper) (auto dest: split_on_names)

text \<open>What a walk adds to its base comes from the names it was given.\<close>

lemma path_walk_new:
  "\<exists>k new. path_walk base names = take k base @ new \<and> set new \<subseteq> set names"
proof (induction names arbitrary: base)
  case Nil
  show ?case by (rule exI [of _ "length base"], rule exI [of _ "[]"]) (simp add: path_walk_def)
next
  case (Cons n names)
  obtain k new where w: "path_walk (path_step n base) names = take k (path_step n base) @ new" "set new \<subseteq> set names"
    using Cons.IH by blast
  consider "path_step n base = base" | "path_step n base = butlast base" | "path_step n base = base @ [n]"
    by (cases "n = [] \<or> n = ''.''"; cases "n = ''..''") (simp_all add: path_step_def)
  then have "\<exists>j more. take k (path_step n base) = take j base @ more \<and> set more \<subseteq> {n}"
  proof cases
    case 2
    then show ?thesis by (intro exI [of _ "min k (length base - 1)"] exI [of _ "[]"]) (simp add: butlast_conv_take)
  next
    case 3
    then show ?thesis by (intro exI [of _ k] exI [of _ "take (k - length base) [n]"]) (auto dest: in_set_takeD)
  qed (intro exI [of _ k] exI [of _ "[]"], simp)
  then obtain j more where "take k (path_step n base) = take j base @ more" "set more \<subseteq> {n}" by blast
  then have "path_walk base (n # names) = take j base @ (more @ new)" "set (more @ new) \<subseteq> set (n # names)"
    using w by (auto simp: path_walk_def)
  then show ?case by blast
qed

lemma prefix_take_new:
  assumes "take k base @ new = base @ rest"
  shows "set rest \<subseteq> set new"
proof -
  have "drop (length base) (take k base @ new) = rest" using assms by simp
  then have "rest = drop (length base - length (take k base)) new" by simp
  then show ?thesis by (metis set_drop_subset)
qed

section \<open>Containment\<close>

lemma common_length_prefix: "common_length xs (xs @ ys) = length xs"
  by (induction xs) simp_all

lemma common_length_bound: "common_length xs ys \<le> length xs"
  by (induction xs ys rule: common_length.induct) simp_all

lemma common_length_full: "common_length xs ys = length xs \<Longrightarrow> prefix xs ys"
  by (induction xs ys rule: common_length.induct) (auto split: if_splits)

lemma relative_below: "path_relative base (base @ rest) = js_join [slash] rest"
  by (simp add: path_relative_def common_length_prefix)

lemma relative_outside:
  assumes "\<not> prefix base p"
  shows "escapes_root (path_relative base p) allowRoot"
proof -
  have "common_length base p \<noteq> length base" using assms common_length_full by blast
  then obtain n where "length base - common_length base p = Suc n"
    using common_length_bound [of base p] by (metis Suc_diff_Suc le_neq_implies_less)
  then have "path_relative base p = js_join [slash] (''..'' # (replicate n ''..'' @ drop (common_length base p) p))"
    by (simp add: path_relative_def)
  then show ?thesis
    by (cases "replicate n ''..'' @ drop (common_length base p) p") (simp_all add: escapes_root_def)
qed

lemma first_name:
  assumes "slash \<notin> set y"
  shows "takeWhile (\<lambda>c. c \<noteq> slash) (js_join [slash] (y # ys)) = y"
proof -
  have "\<And>c. c \<in> set y \<Longrightarrow> c \<noteq> slash" using assms by auto
  from takeWhile_append2 [OF this] this show ?thesis by (cases ys) simp_all
qed

lemma relative_inside:
  assumes "rest \<noteq> []" "\<forall>x\<in>set rest. proper x" "\<forall>x\<in>set rest. bslash \<notin> set x"
  shows "\<not> escapes_root (js_join [slash] rest) allowRoot"
proof -
  obtain y ys where rest: "rest = y # ys" using assms(1) by (cases rest) simp_all
  have y: "y \<noteq> []" "y \<noteq> ''..''" "slash \<notin> set y" "bslash \<notin> set y"
    using assms(2,3) by (simp_all add: rest proper_def)
  have sep: "slash \<noteq> CHR ''.''" "bslash \<noteq> CHR ''.''" "bslash \<noteq> slash" by (simp_all add: slash_def bslash_def)
  let ?r = "js_join [slash] (y # ys)"
  have first: "takeWhile (\<lambda>c. c \<noteq> slash) ?r = y" using first_name [OF y(3)] .
  have "?r \<noteq> []" "\<not> prefix [slash] ?r" using first y(1) by (auto simp: prefix_def)
  moreover have "?r \<noteq> ''..''" "\<not> prefix (''..'' @ [slash]) ?r" using first y(2) sep by (auto simp: prefix_def)
  moreover have "\<not> prefix (''..'' @ [bslash]) ?r" using first y(4) sep by (auto simp: prefix_def)
  ultimately show ?thesis by (simp add: rest escapes_root_def)
qed

lemma not_escaping: "\<not> escapes_root (path_relative base p) allowRoot \<Longrightarrow> \<exists>rest. p = base @ rest \<and> (rest \<noteq> [] \<or> allowRoot)"
  using relative_outside [of base p allowRoot] relative_below [of base "[]"]
  by (cases "prefix base p") (auto simp: prefix_def escapes_root_def)

lemma join_Cons: "ys \<noteq> [] \<Longrightarrow> js_join sep (x # ys) = x @ sep @ js_join sep ys"
  by (cases ys) simp_all

lemma join_append: "xs \<noteq> [] \<Longrightarrow> ys \<noteq> [] \<Longrightarrow> js_join sep (xs @ ys) = js_join sep xs @ sep @ js_join sep ys"
proof (induction xs)
  case (Cons x xs)
  then show ?case by (cases "xs = []") (simp_all add: join_Cons)
qed simp

lemma suffix_last: "suffix [c] s \<longleftrightarrow> s \<noteq> [] \<and> last s = c"
  by (cases s rule: rev_cases) auto

lemma join_last:
  "xs \<noteq> [] \<Longrightarrow> \<forall>x\<in>set xs. proper x \<Longrightarrow> js_join [slash] xs \<noteq> [] \<and> last (js_join [slash] xs) \<noteq> slash"
proof (induction xs)
  case (Cons x xs)
  have "proper x" using Cons.prems(2) by simp
  then have "x \<noteq> []" "slash \<notin> set x" by (simp_all add: proper_def)
  then have "last x \<noteq> slash" using last_in_set [of x] by metis
  note x = \<open>x \<noteq> []\<close> this
  from x Cons show ?case by (cases "xs = []") (simp_all add: join_Cons)
qed simp

lemma below_separator:
  assumes "rest \<noteq> []" "\<forall>x\<in>set base. proper x"
  shows "prefix (with_separator (path_text base)) (path_text (base @ rest))"
proof (cases "base = []")
  case False
  then have "\<not> suffix [slash] (path_text base)"
    using join_last [OF False assms(2)] unfolding suffix_last by (simp add: path_text_def)
  then show ?thesis using False assms(1) by (simp add: with_separator_def path_text_def join_append)
qed (simp add: with_separator_def path_text_def)

lemma segments_facts:
  assumes "x \<in> set (filter (\<lambda>x. x \<noteq> []) (split_on (\<lambda>c. c = slash \<or> c = bslash) s))"
  shows "slash \<notin> set x" "bslash \<notin> set x"
proof -
  have "x \<in> set (split_on (\<lambda>c. c = slash \<or> c = bslash) s)" using assms by simp
  from split_on_names [OF this] show "slash \<notin> set x" "bslash \<notin> set x" by blast+
qed

definition segments_of :: "string \<Rightarrow> string list" where
  "segments_of s = filter (\<lambda>x. x \<noteq> []) (split_on (\<lambda>c. c = slash \<or> c = bslash) s)"

text \<open>A file reference is accepted exactly when it leads strictly below the root.\<close>

lemma resolveStoragePath_iff:
  assumes cwd: "\<forall>x\<in>set cwd. proper x"
  shows "resolveStoragePath decode cwd r reference False = Inr p \<longleftrightarrow>
    (\<exists>s rest. assertSafeReference decode reference = Inr s \<and> p = path_walk (path_resolve cwd r) (segments_of s)
       \<and> p = path_resolve cwd r @ rest \<and> rest \<noteq> [])"
proof -
  let ?base = "path_resolve cwd r"
  have base: "\<forall>x\<in>set ?base. proper x" by (rule path_resolve_proper [OF cwd])
  have ok: "resolveStoragePath decode cwd r reference False = Inr p"
    if s: "assertSafeReference decode reference = Inr s" and p: "p = path_walk ?base (segments_of s)"
      and rest: "p = ?base @ rest" "rest \<noteq> []" for s rest
  proof -
    obtain k new where new: "path_walk ?base (segments_of s) = take k ?base @ new" "set new \<subseteq> set (segments_of s)"
      using path_walk_new by blast
    then have "set rest \<subseteq> set (segments_of s)" using prefix_take_new [of k ?base new rest] p rest(1) by auto
    moreover have "\<forall>x\<in>set (segments_of s). slash \<notin> set x \<and> bslash \<notin> set x"
      using segments_facts unfolding segments_of_def by blast
    ultimately have "\<forall>x\<in>set rest. bslash \<notin> set x" by blast
    moreover have "\<forall>x\<in>set rest. proper x"
      using path_walk_proper [OF base, of "segments_of s"] \<open>\<forall>x\<in>set (segments_of s). slash \<notin> set x \<and> bslash \<notin> set x\<close>
        p rest(1) by (metis Un_iff set_append)
    ultimately have esc: "\<not> escapes_root (path_relative ?base p) False"
      using relative_inside [OF rest(2)] by (simp add: rest(1) relative_below)
    have "segments_of s \<noteq> []" using p rest by (auto simp: path_walk_def)
    then show ?thesis
      using s p esc below_separator [OF rest(2) base] rest(1)
      by (simp add: resolveStoragePath_def Let_def segments_of_def)
  qed
  moreover have "\<exists>s rest. assertSafeReference decode reference = Inr s \<and> p = path_walk ?base (segments_of s)
       \<and> p = ?base @ rest \<and> rest \<noteq> []" if "resolveStoragePath decode cwd r reference False = Inr p"
  proof -
    from that obtain s where s: "assertSafeReference decode reference = Inr s" "p = path_walk ?base (segments_of s)"
      "\<not> escapes_root (path_relative ?base p) False"
      by (auto simp: resolveStoragePath_def Let_def segments_of_def split: sum.splits if_splits)
    with not_escaping [OF s(3)] show ?thesis by blast
  qed
  ultimately show ?thesis by blast
qed

section \<open>Links\<close>

lemma check_link_inside:
  assumes "check_link fs rr reference p = Inr x" "fs_lstat fs p = Inr True" "fs_realpath fs p = Inr rp"
  shows "\<exists>rest. rp = rr @ rest \<and> rest \<noteq> []"
proof -
  have "\<not> escapes_root (path_relative rr rp) False" using assms by (auto simp: check_link_def split: if_splits)
  from not_escaping [OF this] show ?thesis by simp
qed

text \<open>Every link on the way that resolves at all has been found inside.\<close>

lemma check_links_inside:
  assumes "check_links fs rr base reference p = Inr u" "prefix base q" "q \<noteq> base" "prefix q p"
    and "fs_lstat fs q = Inr True" "fs_realpath fs q = Inr rq"
  shows "\<exists>rest. rq = rr @ rest \<and> rest \<noteq> []"
  using assms(1,4)
proof (induction "length p" arbitrary: p)
  case 0
  then show ?case using assms(2,3) by simp
next
  case (Suc n)
  have p: "p \<noteq> base" "p \<noteq> []"
    using Suc.hyps(2) Suc.prems(2) assms(2,3) by (auto dest: prefix_order.antisym)
  show ?case
  proof (cases "q = p")
    case True
    have "check_link fs rr reference p = Inr ()"
    proof (cases "check_link fs rr reference p")
      case (Inl e)
      have "\<not> is_enoent e"
        using Inl assms(5,6) True by (auto simp: check_link_def is_enoent_def invalid_path_def http_error_def cause_code_def split: if_splits)
      with Inl p Suc.prems(1) show ?thesis by (simp add: check_links.simps [of fs rr base reference p])
    qed simp
    with check_link_inside [of fs rr reference p] assms(5,6) True show ?thesis by blast
  next
    case False
    have "prefix q (butlast p)"
      using Suc.prems(2) False by (metis append_butlast_last_id p(2) prefix_snoc)
    moreover have "check_links fs rr base reference (butlast p) = Inr u"
      using Suc.prems(1) p by (auto simp: check_links.simps [of fs rr base reference p] split: sum.splits if_splits)
    moreover have "n = length (butlast p)" using Suc.hyps(2) by simp
    ultimately show ?thesis using Suc.hyps(1) by blast
  qed
qed

text \<open>
  What \<open>realpath\<close> promises: a path it resolves exists, and when its last name is no link its real
  path is that name below the real path of its directory.
\<close>

locale real_paths =
  fixes fs :: file_system
  assumes exists_law: "fs_realpath fs p = Inr r \<Longrightarrow> \<exists>b. fs_lstat fs p = Inr b"
    and name_law: "fs_realpath fs (p @ [x]) = Inr r \<Longrightarrow> fs_lstat fs (p @ [x]) = Inr False
      \<Longrightarrow> \<exists>q. fs_realpath fs p = Inr q \<and> r = q @ [x]"
begin

lemma stays_inside:
  assumes "fs_realpath fs base = Inr rr"
    and "\<And>q rq. prefix base q \<Longrightarrow> q \<noteq> base \<Longrightarrow> prefix q (base @ rest) \<Longrightarrow> fs_lstat fs q = Inr True \<Longrightarrow> fs_realpath fs q = Inr rq
      \<Longrightarrow> \<exists>more. rq = rr @ more \<and> more \<noteq> []"
    and "fs_realpath fs (base @ rest) = Inr rp" "rest \<noteq> []"
  shows "\<exists>more. rp = rr @ more \<and> more \<noteq> []"
  using assms(2-)
proof (induction rest arbitrary: rp rule: rev_induct)
  case (snoc x rest)
  let ?q = "base @ rest @ [x]"
  obtain b where b: "fs_lstat fs ?q = Inr b" using exists_law [OF snoc.prems(2)] by blast
  show ?case
  proof (cases b)
    case True
    with b snoc.prems(1) [of ?q rp] snoc.prems(2) show ?thesis by simp
  next
    case False
    then obtain q where q: "fs_realpath fs (base @ rest) = Inr q" "rp = q @ [x]"
      using name_law [of "base @ rest" x rp] snoc.prems(2) b by auto
    show ?thesis
    proof (cases "rest = []")
      case True
      with q assms(1) show ?thesis by simp
    next
      case False
      have "\<exists>more. q = rr @ more \<and> more \<noteq> []"
      proof (rule snoc.IH [OF _ q(1) False])
        fix q' rq
        assume "prefix base q'" "q' \<noteq> base" "prefix q' (base @ rest)" "fs_lstat fs q' = Inr True" "fs_realpath fs q' = Inr rq"
        then show "\<exists>more. rq = rr @ more \<and> more \<noteq> []"
          using snoc.prems(1) [of q' rq] by (metis append.assoc prefix_prefix)
      qed
      with q show ?thesis by auto
    qed
  qed
qed simp

end

end
