(* ===== verification/ContentType.thy ===== *)
theory ContentType
  imports ModelErrors Persistence
begin

text \<open>
  \<open>file-storage/content-type.ts\<close> and \<open>picture-uploads.ts\<close>: what kind of file some bytes are,
  told from the bytes alone, and whether they may be stored. The decoding of bytes to text
  (\<open>Buffer.toString('utf-8')\<close>) and the check that a text is JSON (\<open>JSON.parse\<close>) are parameters.
\<close>

record decoders =
  utf8_text :: "byte list \<Rightarrow> string"
  is_json :: "string \<Rightarrow> bool"

section \<open>Names of types\<close>

definition MIME_TO_EXTENSION :: "(string \<times> string) list" where
  "MIME_TO_EXTENSION =
     [(''image/jpeg'', ''.jpg''), (''image/png'', ''.png''), (''image/gif'', ''.gif''), (''image/webp'', ''.webp''),
      (''image/svg+xml'', ''.svg''), (''image/avif'', ''.avif''), (''image/bmp'', ''.bmp''), (''image/tiff'', ''.tiff''),
      (''image/x-icon'', ''.ico''), (''application/pdf'', ''.pdf''), (''application/zip'', ''.zip''),
      (''application/gzip'', ''.gz''), (''application/x-tar'', ''.tar''), (''application/vnd.sqlite3'', ''.db''),
      (''application/x-sqlite3'', ''.db''), (''audio/mpeg'', ''.mp3''), (''audio/wav'', ''.wav''), (''audio/ogg'', ''.ogg''),
      (''video/mp4'', ''.mp4''), (''video/webm'', ''.webm''), (''video/x-matroska'', ''.mkv''),
      (''application/json'', ''.json''), (''text/html'', ''.html''), (''application/xml'', ''.xml''),
      (''text/plain'', ''.txt''), (''text/markdown'', ''.md''), (''text/csv'', ''.csv''),
      (''application/octet-stream'', ''.bin'')]"

definition mime_aliases :: "(string \<times> string) list" where
  "mime_aliases =
     [(''image/jpg'', ''image/jpeg''), (''image/x-png'', ''image/png''), (''image/vnd.microsoft.icon'', ''image/x-icon''),
      (''application/x-gzip'', ''application/gzip''), (''application/x-gunzip'', ''application/gzip''),
      (''application/gzipped'', ''application/gzip''), (''gzip'', ''application/gzip''),
      (''application/x-zip'', ''application/zip''), (''application/x-zip-compressed'', ''application/zip''),
      (''application/x-sqlite3'', ''application/vnd.sqlite3''), (''application/sqlite3'', ''application/vnd.sqlite3''),
      (''application/x-sqlite'', ''application/vnd.sqlite3''), (''audio/mp3'', ''audio/mpeg''),
      (''text/x-markdown'', ''text/markdown'')]"

definition normalizeMimeType :: "string \<Rightarrow> string" where
  "normalizeMimeType mime = (let lower = js_lower (js_trim mime) in from_option lower (map_of mime_aliases lower))"

definition getExtensionForMime :: "string \<Rightarrow> string" where
  "getExtensionForMime mime = from_option ''.bin'' (map_of MIME_TO_EXTENSION (normalizeMimeType mime))"

section \<open>Sniffing\<close>

record detected_type =
  dt_mime :: string
  dt_extension :: string

definition detected_as :: "string \<Rightarrow> string \<Rightarrow> detected_type" where
  "detected_as mime extension = \<lparr>dt_mime = mime, dt_extension = extension\<rparr>"

text \<open>The bytes from position \<open>i\<close> on, when the buffer is long enough for them.\<close>

definition bytes_at :: "nat \<Rightarrow> byte list \<Rightarrow> byte list \<Rightarrow> bool" where
  "bytes_at i sig buf = (take (length sig) (drop i buf) = sig)"

text \<open>\<open>buf.subarray(a, b).toString('ascii')\<close>: the high bit of a byte is dropped.\<close>

definition ascii_text :: "nat \<Rightarrow> nat \<Rightarrow> byte list \<Rightarrow> string" where
  "ascii_text a b buf = map (\<lambda>x. char_of (unat x mod 128)) (slice a b buf)"

definition detect_image :: "byte list \<Rightarrow> detected_type option" where
  "detect_image buf =
     (if bytes_at 0 [0xff, 0xd8, 0xff] buf then Some (detected_as ''image/jpeg'' ''.jpg'')
      else if bytes_at 0 [0x89, 0x50, 0x4e, 0x47, 0x0d, 0x0a, 0x1a, 0x0a] buf then Some (detected_as ''image/png'' ''.png'')
      else if bytes_at 0 [0x47, 0x49, 0x46, 0x38, 0x37, 0x61] buf \<or> bytes_at 0 [0x47, 0x49, 0x46, 0x38, 0x39, 0x61] buf
      then Some (detected_as ''image/gif'' ''.gif'')
      else if 12 \<le> length buf \<and> bytes_at 0 [0x52, 0x49, 0x46, 0x46] buf \<and> ascii_text 8 12 buf = ''WEBP''
      then Some (detected_as ''image/webp'' ''.webp'')
      else if 12 \<le> length buf \<and> bytes_at 0 [0x52, 0x49, 0x46, 0x46] buf \<and> ascii_text 8 12 buf = ''WAVE''
      then Some (detected_as ''audio/wav'' ''.wav'')
      else None)"

definition detect_container :: "byte list \<Rightarrow> detected_type option" where
  "detect_container buf =
     (if 12 \<le> length buf \<and> ascii_text 4 8 buf = ''ftyp''
      then (if ascii_text 8 12 buf \<in> {''avif'', ''avis'', ''mif1'', ''msf1''}
            then Some (detected_as ''image/avif'' ''.avif'') else Some (detected_as ''video/mp4'' ''.mp4''))
      else if bytes_at 0 [0x42, 0x4d] buf then Some (detected_as ''image/bmp'' ''.bmp'')
      else if bytes_at 0 [0x49, 0x49, 0x2a, 0x00] buf \<or> bytes_at 0 [0x4d, 0x4d, 0x00, 0x2a] buf
      then Some (detected_as ''image/tiff'' ''.tiff'')
      else if bytes_at 0 [0x00, 0x00, 0x01, 0x00] buf then Some (detected_as ''image/x-icon'' ''.ico'')
      else if bytes_at 0 [0x25, 0x50, 0x44, 0x46] buf then Some (detected_as ''application/pdf'' ''.pdf'')
      else if bytes_at 0 [0x1f, 0x8b] buf then Some (detected_as ''application/gzip'' ''.gz'')
      else if bytes_at 0 [0x50, 0x4b] buf \<and> 4 \<le> length buf \<and> buf ! 2 \<in> {0x03, 0x05, 0x07} \<and> buf ! 3 \<in> {0x04, 0x06, 0x08}
      then Some (detected_as ''application/zip'' ''.zip'')
      else None)"

definition sqlite_header :: string where
  "sqlite_header = ''SQLite format 3'' @ [CHR 0x00]"

definition detect_other :: "decoders \<Rightarrow> byte list \<Rightarrow> detected_type option" where
  "detect_other dec buf =
     (if 16 \<le> length buf \<and> utf8_text dec (take 16 buf) = sqlite_header
      then Some (detected_as ''application/vnd.sqlite3'' ''.db'')
      else if 262 \<le> length buf \<and> ascii_text 257 262 buf = ''ustar'' then Some (detected_as ''application/x-tar'' ''.tar'')
      else if bytes_at 0 [0x4f, 0x67, 0x67, 0x53] buf then Some (detected_as ''audio/ogg'' ''.ogg'')
      else if bytes_at 0 [0x1a, 0x45, 0xdf, 0xa3] buf then Some (detected_as ''video/webm'' ''.webm'')
      else if bytes_at 0 [0x49, 0x44, 0x33] buf then Some (detected_as ''audio/mpeg'' ''.mp3'')
      else if bytes_at 0 [0xff, 0xfb] buf \<or> bytes_at 0 [0xff, 0xf3] buf \<or> bytes_at 0 [0xff, 0xf2] buf
      then Some (detected_as ''audio/mpeg'' ''.mp3'')
      else None)"

text \<open>The loop over the sample; \<open>n\<close> is \<open>nonPrintableCount\<close>.\<close>

fun printable :: "nat \<Rightarrow> byte list \<Rightarrow> bool" where
  "printable n [] = True"
| "printable n (b # bs) =
     (if b = 0 then False
      else if b < 0x20 \<and> b \<noteq> 0x09 \<and> b \<noteq> 0x0a \<and> b \<noteq> 0x0d then (if 2 < Suc n then False else printable (Suc n) bs)
      else printable n bs)"

definition extractTextSample :: "decoders \<Rightarrow> byte list \<Rightarrow> string option" where
  "extractTextSample dec buf =
     (let limit = min (length buf) 4096;
          startOffset = (if bytes_at 0 [0xef, 0xbb, 0xbf] buf then 3 else 0);
          sample = slice startOffset limit buf
      in if printable 0 sample then Some (utf8_text dec sample) else None)"

definition detect_text :: "decoders \<Rightarrow> string \<Rightarrow> detected_type" where
  "detect_text dec sample =
     (let trimmed = js_trim sample; lower = js_lower trimmed in
      if (js_includes lower ''<svg'' \<and> (prefix ''<?xml'' lower \<or> prefix ''<!doctype svg'' lower \<or> prefix ''<svg'' lower))
         \<or> (prefix ''<svg'' lower \<and> js_includes lower ''xmlns'')
      then detected_as ''image/svg+xml'' ''.svg''
      else if prefix ''<!doctype html'' lower \<or> prefix ''<html'' lower then detected_as ''text/html'' ''.html''
      else if prefix ''<?xml'' lower then detected_as ''application/xml'' ''.xml''
      else if (prefix [CHR 0x7B] trimmed \<or> prefix [CHR 0x5B] trimmed) \<and> is_json dec trimmed
      then detected_as ''application/json'' ''.json''
      else detected_as ''text/plain'' ''.txt'')"

definition detectContentType :: "decoders \<Rightarrow> byte list \<Rightarrow> detected_type" where
  "detectContentType dec buf =
     (if buf = [] then detected_as ''application/octet-stream'' ''.bin''
      else case detect_image buf of Some t \<Rightarrow> t
      | None \<Rightarrow> (case detect_container buf of Some t \<Rightarrow> t
      | None \<Rightarrow> (case detect_other dec buf of Some t \<Rightarrow> t
      | None \<Rightarrow> (case extractTextSample dec buf of Some sample \<Rightarrow> detect_text dec sample
      | None \<Rightarrow> detected_as ''application/octet-stream'' ''.bin''))))"

section \<open>Validation\<close>

definition file_too_large :: "nat \<Rightarrow> nat \<Rightarrow> exn" where
  "file_too_large maxBytes actual = http_error 413 ''FilePayloadTooLargeError'' ''FILE_TOO_LARGE''
     (''File size ('' @ show_nat actual @ '' bytes) exceeds the maximum allowed limit of '' @ show_nat maxBytes @ '' bytes'')"

definition unsupported_media_type :: "string \<Rightarrow> string list \<Rightarrow> exn" where
  "unsupported_media_type detected allowed = http_error 415 ''UnsupportedMediaTypeError'' ''UNSUPPORTED_MEDIA_TYPE''
     (''Detected content type '' @ [CHR 0x27] @ detected @ [CHR 0x27]
       @ '' is not permitted. Allowed types: '' @ js_join '', '' allowed)"

definition mime_allowed :: "string \<Rightarrow> string \<Rightarrow> bool" where
  "mime_allowed detected allowed = (allowed = ''*/*'' \<or> allowed = detected
     \<or> (suffix ''/*'' allowed \<and> prefix (take (length allowed - 2) allowed @ ''/'') detected))"

definition validateFile :: "decoders \<Rightarrow> nat option \<Rightarrow> string list \<Rightarrow> byte list \<Rightarrow> exn + detected_type" where
  "validateFile dec maxBytes allowedMimeTypes data =
     (if (case maxBytes of None \<Rightarrow> False | Some m \<Rightarrow> m < length data)
      then Inl (file_too_large (from_option 0 maxBytes) (length data))
      else let detected = detectContentType dec data in
        if allowedMimeTypes \<noteq> []
           \<and> \<not> list_ex (mime_allowed (normalizeMimeType (dt_mime detected))) (map normalizeMimeType allowedMimeTypes)
        then Inl (unsupported_media_type (dt_mime detected) allowedMimeTypes) else Inr detected)"

definition ALLOWED_PICTURE_MIME_TYPES :: "string list" where
  "ALLOWED_PICTURE_MIME_TYPES = [''image/jpeg'', ''image/png'', ''image/webp'', ''image/gif'']"

definition assertUploadablePicture :: "decoders \<Rightarrow> byte list option \<Rightarrow> nat \<Rightarrow> exn + string" where
  "assertUploadablePicture dec file maxBytes =
     (case file of
        None \<Rightarrow> Inl (bad_request ''MISSING_FILE'' ''No file uploaded or file is empty'')
      | Some buf \<Rightarrow>
          if buf = [] then Inl (bad_request ''MISSING_FILE'' ''No file uploaded or file is empty'')
          else if maxBytes < length buf
          then Inl (http_error 413 ''PayloadTooLargeException'' ''FILE_TOO_LARGE''
                 (''File size ('' @ show_nat (length buf) @ '' bytes) exceeds the maximum allowed limit of ''
                   @ show_nat maxBytes @ '' bytes''))
          else let detected = detectContentType dec buf in
            if dt_mime detected \<notin> set ALLOWED_PICTURE_MIME_TYPES
            then Inl (unsupported_media_type (dt_mime detected) ALLOWED_PICTURE_MIME_TYPES)
            else Inr (dt_mime detected))"

section \<open>What is sniffed\<close>

definition known_type :: "detected_type \<Rightarrow> bool" where
  "known_type t \<longleftrightarrow> (dt_mime t, dt_extension t) \<in> set MIME_TO_EXTENSION \<and> normalizeMimeType (dt_mime t) = dt_mime t"

lemma known_extension: "known_type t \<Longrightarrow> dt_extension t = getExtensionForMime (dt_mime t)"
proof -
  assume k: "known_type t"
  have "distinct (map fst MIME_TO_EXTENSION)" by code_simp
  with k have "map_of MIME_TO_EXTENSION (dt_mime t) = Some (dt_extension t)"
    by (simp add: known_type_def)
  with k show ?thesis by (simp add: getExtensionForMime_def known_type_def)
qed

lemma known_list:
  "list_all known_type
    [detected_as ''image/jpeg'' ''.jpg'', detected_as ''image/png'' ''.png'', detected_as ''image/gif'' ''.gif'',
     detected_as ''image/webp'' ''.webp'', detected_as ''audio/wav'' ''.wav'', detected_as ''image/avif'' ''.avif'',
     detected_as ''video/mp4'' ''.mp4'', detected_as ''image/bmp'' ''.bmp'', detected_as ''image/tiff'' ''.tiff'',
     detected_as ''image/x-icon'' ''.ico'', detected_as ''application/pdf'' ''.pdf'', detected_as ''application/gzip'' ''.gz'',
     detected_as ''application/zip'' ''.zip'', detected_as ''application/vnd.sqlite3'' ''.db'', detected_as ''application/x-tar'' ''.tar'',
     detected_as ''audio/ogg'' ''.ogg'', detected_as ''video/webm'' ''.webm'', detected_as ''audio/mpeg'' ''.mp3'',
     detected_as ''image/svg+xml'' ''.svg'', detected_as ''text/html'' ''.html'', detected_as ''application/xml'' ''.xml'',
     detected_as ''application/json'' ''.json'', detected_as ''text/plain'' ''.txt'', detected_as ''application/octet-stream'' ''.bin'']"
  by code_simp

lemmas known_members = known_list [unfolded list.pred_inject]

lemma known_sniffed:
  "detect_image buf = Some t \<Longrightarrow> known_type t" "detect_container buf = Some t \<Longrightarrow> known_type t"
  "detect_other dec buf = Some t \<Longrightarrow> known_type t" "known_type (detect_text dec sample)"
  unfolding detect_image_def detect_container_def detect_other_def detect_text_def Let_def
  by (auto simp: known_members split: if_splits)

lemma detect_known: "known_type (detectContentType dec buf)"
  using known_sniffed by (auto simp: detectContentType_def known_members split: option.split)

text \<open>The four types of pictures come from signatures only.\<close>

definition picture_signature :: "byte list \<Rightarrow> bool" where
  "picture_signature buf \<longleftrightarrow> bytes_at 0 [0xff, 0xd8, 0xff] buf
     \<or> bytes_at 0 [0x89, 0x50, 0x4e, 0x47, 0x0d, 0x0a, 0x1a, 0x0a] buf
     \<or> bytes_at 0 [0x47, 0x49, 0x46, 0x38, 0x37, 0x61] buf \<or> bytes_at 0 [0x47, 0x49, 0x46, 0x38, 0x39, 0x61] buf
     \<or> (bytes_at 0 [0x52, 0x49, 0x46, 0x46] buf \<and> ascii_text 8 12 buf = ''WEBP'')"

lemma not_picture:
  "detect_container buf = Some t \<Longrightarrow> dt_mime t \<notin> set ALLOWED_PICTURE_MIME_TYPES"
  "detect_other dec buf = Some t \<Longrightarrow> dt_mime t \<notin> set ALLOWED_PICTURE_MIME_TYPES"
  "dt_mime (detect_text dec sample) \<notin> set ALLOWED_PICTURE_MIME_TYPES"
  unfolding detect_container_def detect_other_def detect_text_def Let_def ALLOWED_PICTURE_MIME_TYPES_def
  by (auto simp: detected_as_def split: if_splits)

lemma image_signature:
  "detect_image buf = Some t \<Longrightarrow> dt_mime t \<in> set ALLOWED_PICTURE_MIME_TYPES \<Longrightarrow> picture_signature buf"
  unfolding detect_image_def ALLOWED_PICTURE_MIME_TYPES_def picture_signature_def
  by (auto simp: detected_as_def split: if_splits)

lemma picture_iff:
  "dt_mime (detectContentType dec buf) \<in> set ALLOWED_PICTURE_MIME_TYPES \<longleftrightarrow> picture_signature buf"
proof
  assume p: "dt_mime (detectContentType dec buf) \<in> set ALLOWED_PICTURE_MIME_TYPES"
  have "dt_mime (detected_as ''application/octet-stream'' ''.bin'') \<notin> set ALLOWED_PICTURE_MIME_TYPES"
    by (simp add: ALLOWED_PICTURE_MIME_TYPES_def detected_as_def)
  with p obtain t where "detect_image buf = Some t" "dt_mime t \<in> set ALLOWED_PICTURE_MIME_TYPES"
    using not_picture by (auto simp: detectContentType_def split: option.splits if_splits)
  then show "picture_signature buf" by (rule image_signature)
next
  assume s: "picture_signature buf"
  have "12 \<le> length buf" if "ascii_text 8 12 buf = ''WEBP''"
    using arg_cong [OF that, of length] by (simp add: ascii_text_def length_slice)
  with s have "\<exists>t. detect_image buf = Some t \<and> dt_mime t \<in> set ALLOWED_PICTURE_MIME_TYPES"
    by (auto simp: picture_signature_def detect_image_def detected_as_def ALLOWED_PICTURE_MIME_TYPES_def)
  moreover have "buf \<noteq> []" using s by (auto simp: picture_signature_def bytes_at_def)
  ultimately show "dt_mime (detectContentType dec buf) \<in> set ALLOWED_PICTURE_MIME_TYPES"
    by (auto simp: detectContentType_def)
qed

section \<open>Only the head of a file is looked at\<close>

lemma bytes_at_take: "i + length sig \<le> n \<Longrightarrow> bytes_at i sig (take n buf) = bytes_at i sig buf"
  by (simp add: bytes_at_def drop_take min_def)

lemma ascii_text_take: "b \<le> n \<Longrightarrow> ascii_text a b (take n buf) = ascii_text a b buf"
  by (simp add: ascii_text_def slice_def drop_take min_def)

lemma nth_takes: "2 < n \<Longrightarrow> take n buf ! 2 = buf ! 2" "3 < n \<Longrightarrow> take n buf ! 3 = buf ! 3"
  by simp_all

lemma detect_image_take: "12 \<le> n \<Longrightarrow> detect_image (take n buf) = detect_image buf"
  unfolding detect_image_def by (simp add: bytes_at_take ascii_text_take)

lemma detect_container_take: "12 \<le> n \<Longrightarrow> detect_container (take n buf) = detect_container buf"
  unfolding detect_container_def by (simp add: bytes_at_take ascii_text_take)

lemma detect_other_take: "262 \<le> n \<Longrightarrow> detect_other dec (take n buf) = detect_other dec buf"
  unfolding detect_other_def by (simp add: bytes_at_take ascii_text_take min_def)

lemma sample_take: "extractTextSample dec (take 4096 buf) = extractTextSample dec buf"
  by (simp add: extractTextSample_def bytes_at_take slice_def drop_take min_def)

lemma detect_head: "detectContentType dec (take 4096 buf) = detectContentType dec buf"
  unfolding detectContentType_def detect_image_take [of 4096, simplified] detect_container_take [of 4096, simplified]
    detect_other_take [of 4096, simplified] sample_take
  by simp

end
