(* ===== verification/FileStorage.thy ===== *)
theory FileStorage
  imports PathSafety ContentType "HOL-Library.AList"
begin

text \<open>
  \<open>file-storage/file-storage.service.ts\<close> on a disk of folders, files and symbolic links. A disk
  gives each real path (no link among its directories) its node; the target of a link is a real
  path. The root folder is always there.
\<close>

datatype node = Folder | Regular "byte list" | Link path

type_synonym disk = "(path \<times> node) list"

section \<open>The file system\<close>

definition node_at :: "disk \<Rightarrow> path \<Rightarrow> node option" where
  "node_at D p = (if p = [] then Some Folder else map_of D p)"

definition os_error :: "string \<Rightarrow> exn" where
  "os_error code = Err (Plain (Some code)) ''Error'' code [] None"

text \<open>The node a name stands for in a real folder, and its real path.\<close>

definition entry_at :: "disk \<Rightarrow> path \<Rightarrow> string \<Rightarrow> exn + node" where
  "entry_at D q x = (case node_at D q of
     Some Folder \<Rightarrow> (case node_at D (q @ [x]) of None \<Rightarrow> Inl (os_error ''ENOENT'') | Some n \<Rightarrow> Inr n)
   | _ \<Rightarrow> Inl (os_error ''ENOTDIR''))"

definition enter :: "disk \<Rightarrow> exn + path \<Rightarrow> string \<Rightarrow> exn + path" where
  "enter D r x = (case r of
     Inl e \<Rightarrow> Inl e
   | Inr q \<Rightarrow> (case entry_at D q x of
       Inl e \<Rightarrow> Inl e
     | Inr (Link t) \<Rightarrow> (case node_at D t of
         None \<Rightarrow> Inl (os_error ''ENOENT'') | Some (Link _) \<Rightarrow> Inl (os_error ''ELOOP'') | Some _ \<Rightarrow> Inr t)
     | Inr _ \<Rightarrow> Inr (q @ [x])))"

definition disk_realpath :: "disk \<Rightarrow> path \<Rightarrow> exn + path" where
  "disk_realpath D p = foldl (enter D) (Inr []) p"

definition disk_lstat :: "disk \<Rightarrow> path \<Rightarrow> exn + node" where
  "disk_lstat D p = (if p = [] then Inr Folder else case disk_realpath D (butlast p) of
     Inl e \<Rightarrow> Inl e | Inr q \<Rightarrow> entry_at D q (last p))"

definition disk_stat :: "disk \<Rightarrow> path \<Rightarrow> exn + node" where
  "disk_stat D p = (case disk_realpath D p of Inl e \<Rightarrow> Inl e
     | Inr q \<Rightarrow> (case node_at D q of None \<Rightarrow> Inl (os_error ''ENOENT'') | Some n \<Rightarrow> Inr n))"

definition is_link :: "node \<Rightarrow> bool" where
  "is_link n = (case n of Link _ \<Rightarrow> True | _ \<Rightarrow> False)"

definition disk_files :: "disk \<Rightarrow> file_system" where
  "disk_files D = \<lparr>fs_lstat = (\<lambda>p. case disk_lstat D p of Inl e \<Rightarrow> Inl e | Inr n \<Rightarrow> Inr (is_link n)),
     fs_realpath = disk_realpath D\<rparr>"

text \<open>\<open>fs.unlink\<close> removes the name, not what a link points to; a folder is refused.\<close>

definition disk_unlink :: "disk \<Rightarrow> path \<Rightarrow> exn + disk" where
  "disk_unlink D p = (case disk_realpath D (butlast p) of
     Inl e \<Rightarrow> Inl e
   | Inr q \<Rightarrow> (case entry_at D q (last p) of
       Inl e \<Rightarrow> Inl e
     | Inr Folder \<Rightarrow> Inl (os_error ''EPERM'')
     | Inr _ \<Rightarrow> Inr (filter (\<lambda>e. fst e \<noteq> q @ [last p]) D)))"

text \<open>\<open>fs.mkdir(p, { recursive: true })\<close>: the real path of the directory, and the disk.\<close>

fun make_dirs :: "disk \<Rightarrow> path \<Rightarrow> string list \<Rightarrow> exn + path \<times> disk" where
  "make_dirs D q [] = Inr (q, D)"
| "make_dirs D q (x # xs) = (case node_at D (q @ [x]) of
     None \<Rightarrow> make_dirs ((q @ [x], Folder) # D) (q @ [x]) xs
   | Some Folder \<Rightarrow> make_dirs D (q @ [x]) xs
   | Some (Regular _) \<Rightarrow> Inl (os_error ''EEXIST'')
   | Some (Link t) \<Rightarrow> (case node_at D t of Some Folder \<Rightarrow> make_dirs D t xs | _ \<Rightarrow> Inl (os_error ''EEXIST'')))"

section \<open>The service\<close>

definition resolveAndVerify :: "disk \<Rightarrow> (string \<Rightarrow> string option) \<Rightarrow> path \<Rightarrow> string \<Rightarrow> exn + path" where
  "resolveAndVerify D decode storageRoot reference =
     verifyStoragePathContainment (disk_files D) decode [] (path_text storageRoot) reference False"

definition file_not_found :: "string \<Rightarrow> exn" where
  "file_not_found reference = http_error 404 ''FileNotFoundError'' ''FILE_NOT_FOUND'' (''Stored file not found: '' @ reference)"

definition assertValidBucket :: "string \<Rightarrow> exn + string" where
  "assertValidBucket bucket =
     (let trimmed = js_trim bucket in
      if trimmed = [] then Inl (invalid_path ''Bucket name must be a non-empty string'')
      else if js_includes trimmed [slash] \<or> js_includes trimmed [bslash] \<or> js_includes trimmed ''..''
           \<or> js_includes trimmed [CHR 0x00]
      then Inl (invalid_path (''Invalid bucket name: '' @ quoted bucket))
      else Inr trimmed)"

record stored_file =
  sf_reference :: string
  sf_size :: nat
  sf_contentType :: string

text \<open>
  \<open>path.join(root, bucket)\<close>; a bucket is one name, possibly a dot. The bytes are written to a
  temporary name and renamed; when either step fails (\<open>fault\<close>) the temporary file is removed.
\<close>

definition put_file :: "disk \<Rightarrow> exn option \<Rightarrow> path \<Rightarrow> string \<Rightarrow> byte list \<Rightarrow> (exn + unit) \<times> disk" where
  "put_file D fault dir name buffer = (case fault of Some e \<Rightarrow> (Inl e, D)
     | None \<Rightarrow> (Inr (), AList.update (dir @ [name]) (Regular buffer) D))"

definition write_file ::
  "decoders \<Rightarrow> exn option \<Rightarrow> path \<Rightarrow> string \<Rightarrow> byte list \<Rightarrow> nat option \<Rightarrow> string list \<Rightarrow> string \<Rightarrow> disk
   \<Rightarrow> (exn + stored_file) \<times> disk" where
  "write_file dec fault storageRoot bucket buffer maxBytes allowed fileId D =
     (case assertValidBucket bucket of
        Inl e \<Rightarrow> (Inl e, D)
      | Inr validBucket \<Rightarrow> (case make_dirs D [] (path_walk storageRoot [validBucket]) of
          Inl e \<Rightarrow> (Inl e, D)
        | Inr (dir, D') \<Rightarrow> (case validateFile dec maxBytes allowed buffer of
            Inl e \<Rightarrow> (Inl e, D')
          | Inr detected \<Rightarrow>
              let fileName = fileId @ dt_extension detected in
              (case put_file D' fault dir fileName buffer of
                 (Inl e, D'') \<Rightarrow> (Inl e, D'')
               | (Inr _, D'') \<Rightarrow> (Inr \<lparr>sf_reference = validBucket @ [slash] @ fileName, sf_size = length buffer,
                     sf_contentType = dt_mime detected\<rparr>, D'')))))"

text \<open>
  \<open>writeStreamInternal\<close>: the chunks are counted against the limit, the first 4 KiB are kept
  for the type, the type is checked after the last chunk.
\<close>

fun consume_chunks :: "nat option \<Rightarrow> nat \<Rightarrow> byte list \<Rightarrow> byte list list \<Rightarrow> exn + nat \<times> byte list" where
  "consume_chunks maxBytes n header [] = Inr (n, header)"
| "consume_chunks maxBytes n header (buf # bufs) =
     (let n' = n + length buf in
      if (case maxBytes of None \<Rightarrow> False | Some m \<Rightarrow> m < n') then Inl (file_too_large (from_option 0 maxBytes) n')
      else consume_chunks maxBytes n' (if length header < 4096 then header @ take (4096 - length header) buf else header) bufs)"

definition write_stream ::
  "decoders \<Rightarrow> exn option \<Rightarrow> path \<Rightarrow> string \<Rightarrow> byte list list \<Rightarrow> nat option \<Rightarrow> string list \<Rightarrow> string \<Rightarrow> disk
   \<Rightarrow> (exn + stored_file) \<times> disk" where
  "write_stream dec fault storageRoot bucket chunks maxBytes allowed fileId D =
     (case assertValidBucket bucket of
        Inl e \<Rightarrow> (Inl e, D)
      | Inr validBucket \<Rightarrow> (case make_dirs D [] (path_walk storageRoot [validBucket]) of
          Inl e \<Rightarrow> (Inl e, D)
        | Inr (dir, D') \<Rightarrow> (case consume_chunks maxBytes 0 [] chunks of
            Inl e \<Rightarrow> (Inl e, D')
          | Inr (total_bytes, header) \<Rightarrow>
              let detected = detectContentType dec header in
              (case (if allowed \<noteq> [] then validateFile dec None allowed header else Inr detected) of
                 Inl e \<Rightarrow> (Inl e, D')
               | Inr _ \<Rightarrow>
                   let fileName = fileId @ dt_extension detected in
                   (case put_file D' fault dir fileName (concat chunks) of
                      (Inl e, D'') \<Rightarrow> (Inl e, D'')
                    | (Inr _, D'') \<Rightarrow> (Inr \<lparr>sf_reference = validBucket @ [slash] @ fileName, sf_size = total_bytes,
                          sf_contentType = dt_mime detected\<rparr>, D''))))))"

text \<open>\<open>fs.stat\<close>, where a missing file is \<open>FileNotFoundError\<close> and so is a folder.\<close>

definition stat_regular :: "disk \<Rightarrow> string \<Rightarrow> path \<Rightarrow> exn + byte list" where
  "stat_regular D reference p = (case disk_stat D p of
     Inl e \<Rightarrow> Inl (if is_enoent e then file_not_found reference else e)
   | Inr (Regular bytes) \<Rightarrow> Inr bytes
   | Inr _ \<Rightarrow> Inl (file_not_found reference))"

definition read_file :: "disk \<Rightarrow> (string \<Rightarrow> string option) \<Rightarrow> path \<Rightarrow> string \<Rightarrow> exn + byte list" where
  "read_file D decode storageRoot reference = (case resolveAndVerify D decode storageRoot reference of
     Inl e \<Rightarrow> Inl e | Inr p \<Rightarrow> stat_regular D reference p)"

definition stat_file :: "decoders \<Rightarrow> disk \<Rightarrow> (string \<Rightarrow> string option) \<Rightarrow> path \<Rightarrow> string \<Rightarrow> exn + nat \<times> string" where
  "stat_file dec D decode storageRoot reference = (case resolveAndVerify D decode storageRoot reference of
     Inl e \<Rightarrow> Inl e
   | Inr p \<Rightarrow> (case stat_regular D reference p of
       Inl e \<Rightarrow> Inl e
     | Inr bytes \<Rightarrow> Inr (length bytes, dt_mime (detectContentType dec (take (min (length bytes) 4096) bytes)))))"

definition delete_file :: "disk \<Rightarrow> (string \<Rightarrow> string option) \<Rightarrow> path \<Rightarrow> string \<Rightarrow> (exn + unit) \<times> disk" where
  "delete_file D decode storageRoot reference = (case resolveAndVerify D decode storageRoot reference of
     Inl e \<Rightarrow> (Inl e, D)
   | Inr p \<Rightarrow> (case disk_stat D p of
       Inl e \<Rightarrow> (if is_enoent e then Inr () else Inl e, D)
     | Inr Folder \<Rightarrow> (Inl (invalid_path (''Cannot delete directory as a file: '' @ quoted reference)), D)
     | Inr _ \<Rightarrow> (case disk_unlink D p of
         Inl e \<Rightarrow> (if is_enoent e then Inr () else Inl e, D)
       | Inr D' \<Rightarrow> (Inr (), D'))))"

definition file_exists :: "disk \<Rightarrow> (string \<Rightarrow> string option) \<Rightarrow> path \<Rightarrow> string \<Rightarrow> exn + bool" where
  "file_exists D decode storageRoot reference = (case resolveAndVerify D decode storageRoot reference of
     Inl e \<Rightarrow> Inl e
   | Inr p \<Rightarrow> (case disk_stat D p of
       Inl e \<Rightarrow> if is_enoent e then Inr False else Inl e
     | Inr (Regular _) \<Rightarrow> Inr True
     | Inr _ \<Rightarrow> Inr False))"

section \<open>The disk keeps the promises of \<open>realpath\<close>\<close>

lemma realpath_snoc: "disk_realpath D (p @ [x]) = enter D (disk_realpath D p) x"
  by (simp add: disk_realpath_def)

lemma enterD:
  "enter D r x = Inr q' \<Longrightarrow> \<exists>q n. r = Inr q \<and> entry_at D q x = Inr n
     \<and> (case n of Link t \<Rightarrow> q' = t \<and> (\<exists>m. node_at D t = Some m \<and> \<not> is_link m) | _ \<Rightarrow> q' = q @ [x])"
  by (auto simp: enter_def is_link_def split: sum.splits node.splits option.splits)

interpretation disk: real_paths "disk_files D" for D
proof
  fix p r
  assume "fs_realpath (disk_files D) p = Inr r"
  then have r: "disk_realpath D p = Inr r" by (simp add: disk_files_def)
  have "\<exists>n. disk_lstat D p = Inr n"
  proof (cases p rule: rev_cases)
    case Nil
    then show ?thesis by (simp add: disk_lstat_def)
  next
    case (snoc q x)
    from enterD [OF r [unfolded snoc realpath_snoc]] show ?thesis
      by (auto simp: snoc disk_lstat_def)
  qed
  then show "\<exists>b. fs_lstat (disk_files D) p = Inr b" by (auto simp: disk_files_def)
next
  fix p x r
  assume "fs_realpath (disk_files D) (p @ [x]) = Inr r" "fs_lstat (disk_files D) (p @ [x]) = Inr False"
  then have r: "disk_realpath D (p @ [x]) = Inr r" and l: "\<exists>n. disk_lstat D (p @ [x]) = Inr n \<and> \<not> is_link n"
    by (auto simp: disk_files_def split: sum.splits)
  from enterD [OF r [unfolded realpath_snoc]] obtain q n where q: "disk_realpath D p = Inr q" "entry_at D q x = Inr n"
    "case n of Link t \<Rightarrow> r = t \<and> (\<exists>m. node_at D t = Some m \<and> \<not> is_link m) | _ \<Rightarrow> r = q @ [x]" by blast
  with l have "r = q @ [x]" by (cases n) (auto simp: disk_lstat_def is_link_def)
  with q show "\<exists>q. fs_realpath (disk_files D) p = Inr q \<and> r = q @ [x]" by (simp add: disk_files_def)
qed

end
