(* ===== verification/StorageFacts.thy ===== *)
theory StorageFacts
  imports FileStorage
begin

text \<open>
  What the file storage promises: whatever a reference says, only files below the real path of
  the storage root are read or removed; and what has been written is what is read back.
\<close>

section \<open>The root as a text\<close>

lemma split_slash_name: "slash \<notin> set x \<Longrightarrow> split_on (\<lambda>c. c = slash) x = [x]"
  by (induction x) auto

lemma split_slash_join: "slash \<notin> set x \<Longrightarrow> split_on (\<lambda>c. c = slash) (x @ slash # s) = x # split_on (\<lambda>c. c = slash) s"
  by (induction x) auto

lemma split_join: "p \<noteq> [] \<Longrightarrow> \<forall>x\<in>set p. proper x \<Longrightarrow> split_on (\<lambda>c. c = slash) (js_join [slash] p) = p"
proof (induction p)
  case (Cons x p)
  then have "slash \<notin> set x" by (simp add: proper_def)
  with Cons show ?case by (cases "p = []") (simp_all add: join_Cons split_slash_name split_slash_join)
qed simp

lemma path_walk_names: "\<forall>x\<in>set names. proper x \<Longrightarrow> path_walk base names = base @ names"
  by (induction names arbitrary: base) (simp_all add: path_walk_def path_step_def proper_def)

lemma path_resolve_text:
  assumes "\<forall>x\<in>set p. proper x"
  shows "path_resolve cwd (path_text p) = p"
proof -
  have skip: "path_walk base ([] # xs) = path_walk base xs" for base xs by (simp add: path_walk_def path_step_def)
  have "path_resolve cwd (path_text p) = path_walk [] ([] # split_on (\<lambda>c. c = slash) (js_join [slash] p))"
    by (simp add: path_resolve_def path_text_def)
  also have "\<dots> = p"
  proof (cases "p = []")
    case True
    then show ?thesis by (simp add: path_walk_def path_step_def)
  next
    case False
    then show ?thesis unfolding skip split_join [OF False assms] path_walk_names [OF assms] by simp
  qed
  finally show ?thesis .
qed

section \<open>Only below the root\<close>

lemma realpath_prefix: "disk_realpath D (p @ q) = Inr r \<Longrightarrow> \<exists>r'. disk_realpath D p = Inr r'"
proof (induction q arbitrary: r rule: rev_induct)
  case (snoc x q)
  then show ?case using enterD [of D "disk_realpath D (p @ q)" x r] realpath_snoc [of D "p @ q" x] by auto
qed simp

lemma verified_inside:
  assumes root: "\<forall>x\<in>set root'. proper x" and v: "resolveAndVerify D decode root' reference = Inr p"
    and p: "disk_realpath D q = Inr rq" "prefix root' q" "prefix q p"
  shows "\<exists>rr more. disk_realpath D root' = Inr rr \<and> rq = rr @ more \<and> (q \<noteq> root' \<longrightarrow> more \<noteq> [])"
proof -
  obtain rest where q: "q = root' @ rest" using p(2) by (auto simp: prefix_def)
  obtain rr where rr: "disk_realpath D root' = Inr rr" using realpath_prefix p(1) q by blast
  have links: "check_links (disk_files D) rr root' reference p = Inr ()"
    using v rr path_resolve_text [OF root, of "[]"]
    by (auto simp: resolveAndVerify_def verifyStoragePathContainment_def Let_def disk_files_def split: sum.splits)
  show ?thesis
  proof (cases "rest = []")
    case True
    with rr p(1) q show ?thesis by simp
  next
    case False
    have "\<exists>more. rq = rr @ more \<and> more \<noteq> []"
    proof (rule disk.stays_inside [of D root' rr rest])
      fix q' r'
      assume a: "prefix root' q'" "q' \<noteq> root'" "prefix q' (root' @ rest)"
        "fs_lstat (disk_files D) q' = Inr True" "fs_realpath (disk_files D) q' = Inr r'"
      have "prefix q' p" using a(3) p(3) q prefix_order.trans by blast
      from check_links_inside [OF links a(1,2) this a(4,5)] show "\<exists>more. r' = rr @ more \<and> more \<noteq> []" .
    qed (use rr p(1) q False in \<open>simp_all add: disk_files_def\<close>)
    with rr show ?thesis by blast
  qed
qed

lemma verified_below:
  assumes "\<forall>x\<in>set root'. proper x" "resolveAndVerify D decode root' reference = Inr p"
  shows "\<exists>rest. p = root' @ rest \<and> rest \<noteq> []"
proof -
  have r: "resolveStoragePath decode [] (path_text root') reference False = Inr p"
    using assms(2) by (auto simp: resolveAndVerify_def verifyStoragePathContainment_def Let_def split: sum.splits)
  show ?thesis
    using r resolveStoragePath_iff [of "[]" decode "path_text root'" reference p] path_resolve_text [OF assms(1), of "[]"]
    by auto
qed

lemma read_inside:
  assumes root: "\<forall>x\<in>set root'. proper x" and r: "read_file D decode root' reference = Inr bytes"
  shows "\<exists>rr more. disk_realpath D root' = Inr rr \<and> more \<noteq> [] \<and> node_at D (rr @ more) = Some (Regular bytes)"
proof -
  obtain p where p: "resolveAndVerify D decode root' reference = Inr p" "stat_regular D reference p = Inr bytes"
    using r by (auto simp: read_file_def split: sum.splits)
  obtain q where q: "disk_realpath D p = Inr q" "node_at D q = Some (Regular bytes)"
    using p(2) by (auto simp: stat_regular_def disk_stat_def split: sum.splits node.splits option.splits)
  obtain rest where rest: "p = root' @ rest" "rest \<noteq> []" using verified_below [OF root p(1)] by blast
  from verified_inside [OF root p(1) q(1)] rest q(2) show ?thesis by auto
qed

lemma node_at_remove: "p \<noteq> q \<Longrightarrow> node_at (filter (\<lambda>e. fst e \<noteq> q) D) p = node_at D p"
proof -
  assume "p \<noteq> q"
  then have "map_of (filter (\<lambda>e. fst e \<noteq> q) D) p = map_of D p" by (induction D) auto
  then show ?thesis by (simp add: node_at_def)
qed

lemma delete_inside:
  assumes root: "\<forall>x\<in>set root'. proper x" and d: "delete_file D decode root' reference = (res, D')"
    and ch: "node_at D' x \<noteq> node_at D x"
  shows "\<exists>rr more. disk_realpath D root' = Inr rr \<and> more \<noteq> [] \<and> x = rr @ more"
proof -
  have "D' \<noteq> D" using ch by blast
  then obtain p where p: "resolveAndVerify D decode root' reference = Inr p" "disk_unlink D p = Inr D'"
    using d by (auto simp: delete_file_def split: sum.splits node.splits if_splits)
  obtain rest where rest: "p = root' @ rest" "rest \<noteq> []" using verified_below [OF root p(1)] by blast
  obtain q where q: "disk_realpath D (butlast p) = Inr q" "D' = filter (\<lambda>e. fst e \<noteq> q @ [last p]) D"
    using p(2) by (auto simp: disk_unlink_def split: sum.splits node.splits)
  have x: "x = q @ [last p]" using node_at_remove [of x "q @ [last p]" D] ch q(2) by blast
  have "prefix root' (butlast p)" "prefix (butlast p) p"
    using rest by (simp_all add: butlast_append prefixeq_butlast)
  from verified_inside [OF root p(1) q(1) this] x show ?thesis by auto
qed

section \<open>Writing and reading back\<close>

definition plain_char :: "char \<Rightarrow> bool" where
  "plain_char c \<longleftrightarrow> c \<in> set ''abcdefghijklmnopqrstuvwxyz0123456789-.''"

text \<open>A name of those characters that does not begin with a dot.\<close>

definition plain :: "string \<Rightarrow> bool" where
  "plain s \<longleftrightarrow> s \<noteq> [] \<and> hd s \<noteq> CHR ''.'' \<and> list_all plain_char s"

definition KNOWN_STORAGE_BUCKETS :: "string list" where
  "KNOWN_STORAGE_BUCKETS = [''pictures'', ''project-images'', ''artifacts'', ''backups'']"

lemma known_buckets: "list_all (\<lambda>b. plain b \<and> assertValidBucket b = Inr b) KNOWN_STORAGE_BUCKETS"
  by code_simp

lemma extension_plain: "list_all (\<lambda>(m, e). list_all plain_char e) MIME_TO_EXTENSION"
  by (simp add: MIME_TO_EXTENSION_def plain_char_def)

lemma plain_char_facts: "plain_char c \<Longrightarrow> c \<noteq> slash \<and> c \<noteq> bslash \<and> c \<noteq> CHR 0x00 \<and> c \<noteq> CHR ''%'' \<and> c \<noteq> CHR '':'' \<and> \<not> js_ws c"
  by (auto simp: plain_char_def slash_def bslash_def js_ws_def code_unit_def Let_def)

lemma slash_facts: "slash \<noteq> CHR 0x00" "slash \<noteq> CHR ''%''" "slash \<noteq> CHR '':''"
  by (simp_all add: slash_def)

lemma plainD: "plain s \<Longrightarrow> c \<in> set s \<Longrightarrow> plain_char c"
  by (simp add: plain_def list_all_iff)

lemma plain_proper: "plain s \<Longrightarrow> proper s"
  using plainD [of s slash] plain_char_facts [of slash] by (auto simp: plain_def proper_def)

lemma plain_append: "plain s \<Longrightarrow> list_all plain_char t \<Longrightarrow> plain (s @ t)"
  by (simp add: plain_def)

lemma uuid_plain:
  assumes "is_uuid_v7 s"
  shows "plain s"
proof -
  have m: "plain_char c" if "matches_mask k c" "k \<in> set ''xxxxxxxx-xxxx-7xxx-Vxxx-xxxxxxxxxxxx''" for k c
    using that by (auto simp: matches_mask_def is_hex_def plain_char_def split: if_splits)
  have l: "list_all2 matches_mask ''xxxxxxxx-xxxx-7xxx-Vxxx-xxxxxxxxxxxx'' s"
    using assms by (simp only: is_uuid_v7_def)
  have "plain_char (s ! i)" if i: "i < length s" for i
    using list_all2_nthD2 [OF l i] list_all2_lengthD [OF l] i by (intro m [OF _ nth_mem]) simp_all
  then have "list_all plain_char s" by (simp add: list_all_length)
  moreover obtain c r where "s = c # r" "matches_mask (CHR ''x'') c" using l by (auto simp: list_all2_Cons1)
  ultimately show ?thesis by (auto simp: plain_def matches_mask_def is_hex_def)
qed

lemma split_on_name: "\<forall>c\<in>set x. \<not> P c \<Longrightarrow> split_on P x = [x]"
  by (induction x) auto

lemma split_on_join: "\<forall>c\<in>set x. \<not> P c \<Longrightarrow> P d \<Longrightarrow> split_on P (x @ d # s) = x # split_on P s"
  by (induction x) auto

lemma safe_reference:
  assumes b: "plain b" "plain f" and d: "decode (b @ [slash] @ f) = Some (b @ [slash] @ f)"
  shows "assertSafeReference decode (b @ [slash] @ f) = Inr (b @ [slash] @ f)"
proof -
  let ?s = "b @ [slash] @ f"
  obtain c r where s: "b = c # r" "plain_char c" using b(1) by (cases b) (auto simp: plain_def)
  have chars: "x \<noteq> CHR 0x00 \<and> x \<noteq> CHR ''%'' \<and> x \<noteq> CHR '':''" if "x \<in> set ?s" for x
    using that plainD [OF b(1), of x] plainD [OF b(2), of x] plain_char_facts [of x] slash_facts by auto
  have "js_trim ?s \<noteq> []" using s plain_char_facts [of c] unfolding js_trim_eq_Nil by auto
  moreover have "\<not> js_includes ?s [CHR 0x00]" "\<not> js_includes ?s ''%00''"
    using chars unfolding js_includes_iff by (metis in_set_conv_decomp append_Cons)+
  moreover have "\<not> prefix [slash] ?s" "\<not> prefix [bslash] ?s" using s plain_char_facts [of c] by auto
  moreover have "\<not> is_drive ?s"
  proof
    assume "is_drive ?s"
    then have "CHR '':'' \<in> set ?s" by (auto simp: is_drive_def simp del: append_Cons set_append split: list.splits)
    with chars show False by blast
  qed
  ultimately show ?thesis using d by (simp add: assertSafeReference_def del: append_Cons)
qed

lemma reference_resolves:
  assumes b: "plain b" "plain f" and d: "decode (b @ [slash] @ f) = Some (b @ [slash] @ f)"
    and root: "\<forall>x\<in>set root'. proper x"
  shows "resolveStoragePath decode [] (path_text root') (b @ [slash] @ f) False = Inr (root' @ [b, f])"
proof -
  have n: "\<forall>c\<in>set b. \<not> (c = slash \<or> c = bslash)" "\<forall>c\<in>set f. \<not> (c = slash \<or> c = bslash)"
    using plainD [OF b(1)] plainD [OF b(2)] plain_char_facts by blast+
  have "segments_of (b @ [slash] @ f) = [b, f]"
    using b split_on_join [OF n(1), of slash f] split_on_name [OF n(2)] by (simp add: segments_of_def plain_def)
  moreover have "path_walk root' [b, f] = root' @ [b, f]"
    using b plain_proper by (intro path_walk_names) auto
  ultimately show ?thesis
    using safe_reference [where decode = decode, OF b d] path_resolve_text [OF root, of "[]"]
    by (subst resolveStoragePath_iff) auto
qed

section \<open>A real folder\<close>

definition real_folder :: "disk \<Rightarrow> path \<Rightarrow> bool" where
  "real_folder D p \<longleftrightarrow> (\<forall>q. prefix q p \<longrightarrow> node_at D q = Some Folder)"

lemma real_folderD: "real_folder D p \<Longrightarrow> node_at D p = Some Folder" "real_folder D (p @ [x]) \<Longrightarrow> real_folder D p"
  by (auto simp: real_folder_def)

lemma realpath_folder: "real_folder D p \<Longrightarrow> disk_realpath D p = Inr p"
proof (induction p rule: rev_induct)
  case Nil
  then show ?case by (simp add: disk_realpath_def)
next
  case (snoc x p)
  have "entry_at D p x = Inr Folder"
    using real_folderD [OF snoc.prems] real_folderD(1) [OF snoc.prems] real_folderD(1) [OF real_folderD(2) [OF snoc.prems]]
    by (simp add: entry_at_def)
  with snoc.IH [OF real_folderD(2) [OF snoc.prems]] show ?case by (simp add: realpath_snoc enter_def)
qed

lemma entry_in_folder: "real_folder D p \<Longrightarrow> node_at D (p @ [x]) = Some n \<Longrightarrow> disk_lstat D (p @ [x]) = Inr n"
  using realpath_folder [of D p] real_folderD(1) [of D p] by (simp add: disk_lstat_def entry_at_def)

lemma realpath_entry:
  "real_folder D p \<Longrightarrow> node_at D (p @ [x]) = Some n \<Longrightarrow> \<not> is_link n \<Longrightarrow> disk_realpath D (p @ [x]) = Inr (p @ [x])"
  using realpath_folder [of D p] real_folderD(1) [of D p]
  by (cases n) (auto simp: realpath_snoc enter_def entry_at_def is_link_def)

lemma make_dirs_folder: "real_folder D (q @ xs) \<Longrightarrow> make_dirs D q (xs @ ys) = make_dirs D (q @ xs) ys"
proof (induction xs arbitrary: q)
  case (Cons x xs)
  have "node_at D (q @ [x]) = Some Folder" using Cons.prems by (auto simp: real_folder_def)
  with Cons.IH [of "q @ [x]"] Cons.prems show ?case by simp
qed simp

text \<open>The bucket is a folder, or not there yet.\<close>

lemma make_bucket:
  assumes root: "real_folder D root'" and b: "node_at D (root' @ [b]) \<in> {None, Some Folder}"
  shows "\<exists>D'. make_dirs D [] (root' @ [b]) = Inr (root' @ [b], D') \<and> real_folder D' (root' @ [b])"
proof (cases "node_at D (root' @ [b])")
  case None
  let ?D = "(root' @ [b], Folder) # D"
  have "node_at ?D q = Some Folder" if "prefix q (root' @ [b])" for q
    using that root by (auto simp: real_folder_def node_at_def)
  then have "real_folder ?D (root' @ [b])" by (simp add: real_folder_def)
  moreover have "make_dirs D [] (root' @ [b]) = Inr (root' @ [b], ?D)"
    using make_dirs_folder [of D "[]" root' "[b]"] root None by simp
  ultimately show ?thesis by blast
next
  case (Some n)
  with b have n: "node_at D (root' @ [b]) = Some Folder" by simp
  have "real_folder D (root' @ [b])" using root n by (auto simp: real_folder_def)
  moreover have "make_dirs D [] (root' @ [b]) = Inr (root' @ [b], D)"
    using make_dirs_folder [of D "[]" root' "[b]"] root n by simp
  ultimately show ?thesis by blast
qed

lemma node_at_update: "p \<noteq> [] \<Longrightarrow> node_at (AList.update p n D) q = (if q = p then Some n else node_at D q)"
  by (simp add: node_at_def update_conv')

lemma stored_verifies:
  assumes root: "\<forall>x\<in>set root'. proper x" and dir: "real_folder D (root' @ [b])"
    and stored: "node_at D (root' @ [b, f]) = Some (Regular bytes)"
    and b: "plain b" "plain f" and d: "decode (b @ [slash] @ f) = Some (b @ [slash] @ f)"
  shows "resolveAndVerify D decode root' (b @ [slash] @ f) = Inr (root' @ [b, f])"
    and "disk_stat D (root' @ [b, f]) = Inr (Regular bytes)"
proof -
  let ?p = "root' @ [b, f]"
  note r = real_folderD(2) [OF dir]
  have lf: "disk_lstat D ?p = Inr (Regular bytes)" using entry_in_folder [OF dir, of f] stored by simp
  have lb: "disk_lstat D (root' @ [b]) = Inr Folder"
    by (rule entry_in_folder [OF r]) (rule real_folderD(1) [OF dir])
  have "check_links (disk_files D) root' root' ref (root' @ [b]) = Inr ()" for ref
    using lb by (simp add: check_links.simps [of _ _ _ _ "root' @ [b]"] check_links.simps [of _ _ _ _ root']
      check_link_def disk_files_def is_link_def)
  then have "check_links (disk_files D) root' root' ref ?p = Inr ()" for ref
    using lf by (simp add: check_links.simps [of _ _ _ _ ?p] check_link_def disk_files_def is_link_def butlast_append)
  then show "resolveAndVerify D decode root' (b @ [slash] @ f) = Inr ?p"
    using reference_resolves [where decode = decode, OF b d root] realpath_folder [OF r] path_resolve_text [OF root, of "[]"]
    by (simp add: resolveAndVerify_def verifyStoragePathContainment_def Let_def disk_files_def del: append_Cons)
  show "disk_stat D ?p = Inr (Regular bytes)"
    using realpath_entry [OF dir, of f "Regular bytes"] stored by (simp add: disk_stat_def is_link_def)
qed

lemma write_readable:
  assumes root: "\<forall>x\<in>set root'. proper x" "real_folder D root'" and b: "bucket \<in> set KNOWN_STORAGE_BUCKETS"
    "node_at D (root' @ [bucket]) \<in> {None, Some Folder}" and i: "is_uuid_v7 fileId"
    and w: "write_file dec fault root' bucket bytes maxBytes allowed fileId D = (Inr sf, D')"
    and d: "decode (sf_reference sf) = Some (sf_reference sf)"
  shows "read_file D' decode root' (sf_reference sf) = Inr bytes"
    and "stat_file dec D' decode root' (sf_reference sf) = Inr (sf_size sf, sf_contentType sf)"
proof -
  have pb: "plain bucket" "assertValidBucket bucket = Inr bucket"
    using known_buckets b(1) by (auto simp: list_all_iff)
  have walk: "path_walk root' [bucket] = root' @ [bucket]"
    using plain_proper [OF pb(1)] by (intro path_walk_names) simp
  obtain D1 where D1: "make_dirs D [] (root' @ [bucket]) = Inr (root' @ [bucket], D1)" "real_folder D1 (root' @ [bucket])"
    using make_bucket [OF root(2) b(2)] by blast
  let ?t = "detectContentType dec bytes"
  let ?f = "fileId @ dt_extension ?t"
  have v: "validateFile dec maxBytes allowed bytes = Inr ?t"
    using w pb(2) walk D1(1) by (auto simp: write_file_def validateFile_def Let_def split: sum.splits if_splits)
  then have r: "sf = \<lparr>sf_reference = bucket @ [slash] @ ?f, sf_size = length bytes, sf_contentType = dt_mime ?t\<rparr>"
    "D' = AList.update (root' @ [bucket, ?f]) (Regular bytes) D1"
    using w pb(2) walk D1(1) by (auto simp: write_file_def put_file_def Let_def split: option.splits)
  have "list_all plain_char (dt_extension ?t)"
    using detect_known [of dec bytes] extension_plain by (auto simp: known_type_def list_all_iff)
  then have pf: "plain ?f" by (rule plain_append [OF uuid_plain [OF i]])
  have stored: "node_at D' (root' @ [bucket, ?f]) = Some (Regular bytes)" by (simp add: r(2) node_at_update)
  have "node_at D' q = Some Folder" if "prefix q (root' @ [bucket])" for q
  proof -
    have "q \<noteq> root' @ [bucket, ?f]" using that by (auto dest: prefix_length_le)
    moreover have "node_at D1 q = Some Folder" using that D1(2) by (simp only: real_folder_def)
    ultimately show ?thesis by (simp add: r(2) node_at_update)
  qed
  then have dir: "real_folder D' (root' @ [bucket])" by (simp add: real_folder_def)
  have ref: "sf_reference sf = bucket @ [slash] @ ?f" by (simp add: r(1))
  note s = stored_verifies [where decode = decode, OF root(1) dir stored pb(1) pf d [unfolded ref]]
  show "read_file D' decode root' (sf_reference sf) = Inr bytes"
    unfolding ref read_file_def s(1) by (simp add: stat_regular_def s(2))
  have head: "detectContentType dec (take (min (length bytes) 4096) bytes) = ?t"
    using detect_head [of dec bytes] by (cases "length bytes \<le> 4096") (simp_all add: min_def)
  show "stat_file dec D' decode root' (sf_reference sf) = Inr (sf_size sf, sf_contentType sf)"
    unfolding ref stat_file_def s(1) by (simp add: stat_regular_def s(2) head r(1))
qed

section \<open>Streams and buffers\<close>

lemma consume_chunks_total: "consume_chunks maxBytes n header bufs = Inr (m, h) \<Longrightarrow> m = n + length (concat bufs)"
proof (induction bufs arbitrary: n header)
  case (Cons buf bufs)
  then obtain h' where "consume_chunks maxBytes (n + length buf) h' bufs = Inr (m, h)"
    by (auto simp: Let_def split: if_splits)
  from Cons.IH [OF this] show ?case by simp
qed simp

lemma consume_chunks_header:
  "consume_chunks maxBytes n (take 4096 xs) bufs = Inr (m, h) \<Longrightarrow> h = take 4096 (xs @ concat bufs)"
proof (induction bufs arbitrary: n xs)
  case (Cons buf bufs)
  let ?h = "take 4096 xs"
  have "(if length ?h < 4096 then ?h @ take (4096 - length ?h) buf else ?h) = take 4096 (xs @ buf)"
    by (simp add: min_def)
  with Cons.IH [of _ "xs @ buf"] Cons.prems show ?case by (auto simp: Let_def split: if_splits)
qed simp

lemma consume_chunks_iff:
  "(\<exists>r. consume_chunks maxBytes n header bufs = Inr r) \<longleftrightarrow> (case maxBytes of None \<Rightarrow> True
     | Some m \<Rightarrow> bufs = [] \<or> n + length (concat bufs) \<le> m)"
proof (induction bufs arbitrary: n header)
  case (Cons buf bufs)
  then show ?case by (cases maxBytes) (auto simp: Let_def)
qed (cases maxBytes; simp)

text \<open>An upload that comes in chunks is stored like the same bytes in one buffer.\<close>

lemma stream_as_buffer:
  "snd (write_stream dec fault root' bucket chunks maxBytes allowed i D) = snd (write_file dec fault root' bucket (concat chunks) maxBytes allowed i D)"
  "fst (write_stream dec fault root' bucket chunks maxBytes allowed i D) = Inr sf
     \<longleftrightarrow> fst (write_file dec fault root' bucket (concat chunks) maxBytes allowed i D) = Inr sf"
proof -
  let ?bytes = "concat chunks"
  have fits: "(\<exists>r. consume_chunks maxBytes 0 [] chunks = Inr r) \<longleftrightarrow> \<not> (case maxBytes of None \<Rightarrow> False | Some m \<Rightarrow> m < length ?bytes)"
    unfolding consume_chunks_iff by (auto split: option.split)
  have same: "snd (write_stream dec fault root' bucket chunks maxBytes allowed i D) = snd (write_file dec fault root' bucket ?bytes maxBytes allowed i D)
    \<and> (fst (write_stream dec fault root' bucket chunks maxBytes allowed i D) = Inr sf
       \<longleftrightarrow> fst (write_file dec fault root' bucket ?bytes maxBytes allowed i D) = Inr sf)"
  proof (cases "consume_chunks maxBytes 0 [] chunks")
    case (Inl e)
    then have "(case maxBytes of None \<Rightarrow> False | Some m \<Rightarrow> m < length ?bytes)" using fits by auto
    then have "\<exists>e'. validateFile dec maxBytes allowed ?bytes = Inl e'" by (simp add: validateFile_def)
    then show ?thesis using Inl by (auto simp: write_stream_def write_file_def split: sum.split)
  next
    case (Inr r)
    then obtain n h where r: "consume_chunks maxBytes 0 [] chunks = Inr (n, h)" by (cases r) simp
    then have n: "n = length ?bytes" "h = take 4096 ?bytes"
      using consume_chunks_total [OF r] consume_chunks_header [of maxBytes 0 "[]" chunks n h] by simp_all
    have t: "detectContentType dec h = detectContentType dec ?bytes" by (simp add: n(2) detect_head)
    have fit: "\<not> (case maxBytes of None \<Rightarrow> False | Some m \<Rightarrow> m < length ?bytes)" using fits Inr by blast
    define X where "X = (if allowed \<noteq> [] then validateFile dec None allowed h else Inr (detectContentType dec h))"
    have v: "validateFile dec maxBytes allowed ?bytes = X"
      using fit by (simp add: X_def validateFile_def t)
    have u: "u = detectContentType dec h" if "X = Inr u" for u
      using that by (auto simp: X_def validateFile_def Let_def split: if_splits)
    have x: "(\<exists>e. X = Inl e) \<or> X = Inr (detectContentType dec h)" using u by (cases X) auto
    have w: "write_stream dec fault root' bucket chunks maxBytes allowed i D
        = write_file dec fault root' bucket ?bytes maxBytes allowed i D"
      unfolding write_stream_def write_file_def r v n(1) Let_def X_def [symmetric] prod.case sum.case
      using x by (elim disjE exE) (simp_all only: sum.case)
    then show ?thesis by simp
  qed
  from same show "snd (write_stream dec fault root' bucket chunks maxBytes allowed i D) = snd (write_file dec fault root' bucket ?bytes maxBytes allowed i D)"
    "fst (write_stream dec fault root' bucket chunks maxBytes allowed i D) = Inr sf
     \<longleftrightarrow> fst (write_file dec fault root' bucket ?bytes maxBytes allowed i D) = Inr sf" by blast+
qed

section \<open>Links that lead nowhere, and buckets that are links\<close>

text \<open>A link whose target does not exist passes the check, wherever it points.\<close>

lemma dangling_link_verifies:
  assumes root: "\<forall>x\<in>set root'. proper x" "real_folder D root'"
    and l: "plain f" "node_at D (root' @ [f]) = Some (Link t)" "node_at D t = None"
    and d: "decode f = Some f" "resolveStoragePath decode [] (path_text root') f False = Inr (root' @ [f])"
  shows "resolveAndVerify D decode root' f = Inr (root' @ [f])"
proof -
  have "disk_lstat D (root' @ [f]) = Inr (Link t)" by (rule entry_in_folder [OF root(2) l(2)])
  moreover have "disk_realpath D (root' @ [f]) = Inl (os_error ''ENOENT'')"
    using realpath_folder [OF root(2)] real_folderD(1) [OF root(2)] l(2,3)
    by (simp add: realpath_snoc enter_def entry_at_def)
  ultimately have "check_links (disk_files D) root' root' f (root' @ [f]) = Inr ()"
    by (simp add: check_links.simps [of _ _ _ _ "root' @ [f]"] check_links.simps [of _ _ _ _ root'] check_link_def disk_files_def
      is_link_def is_enoent_def os_error_def cause_code_def)
  then show ?thesis
    using d(2) realpath_folder [OF root(2)] path_resolve_text [OF root(1), of "[]"]
    by (simp add: resolveAndVerify_def verifyStoragePathContainment_def Let_def disk_files_def)
qed

text \<open>A bucket that is a link is followed when a file is written, even out of the root.\<close>

lemma linked_bucket_written:
  assumes root: "real_folder D root'" and b: "bucket \<in> set KNOWN_STORAGE_BUCKETS"
    and l: "node_at D (root' @ [bucket]) = Some (Link t)" "node_at D t = Some Folder"
    and v: "validateFile dec maxBytes allowed bytes = Inr ty"
  shows "\<exists>sf D'. write_file dec None root' bucket bytes maxBytes allowed fileId D = (Inr sf, D')
     \<and> node_at D' (t @ [fileId @ dt_extension ty]) = Some (Regular bytes)"
proof -
  have pb: "plain bucket" "assertValidBucket bucket = Inr bucket"
    using known_buckets b by (auto simp: list_all_iff)
  have walk: "path_walk root' [bucket] = root' @ [bucket]"
    using plain_proper [OF pb(1)] by (intro path_walk_names) simp
  have "make_dirs D [] (root' @ [bucket]) = Inr (t, D)"
    using make_dirs_folder [of D "[]" root' "[bucket]"] root l by simp
  then show ?thesis
    using pb(2) walk v by (simp add: write_file_def put_file_def Let_def node_at_update)
qed

end
