(* ===== verification/Calendar.thy ===== *)
theory Calendar
  imports Persistence
begin

text \<open>
  The calendar behind \<open>Date\<close>: the civil date of a day counted from the epoch and back, and
  the order of ISO timestamps, which is the order of time.
\<close>

section \<open>Civil dates\<close>

record civil_date =
  cv_year :: nat
  cv_month :: nat
  cv_day :: nat

definition year_start :: "nat \<Rightarrow> nat" where
  "year_start y = sum_list (map year_days [1970..<y])"

definition month_start :: "nat \<Rightarrow> nat \<Rightarrow> nat" where
  "month_start y m = sum_list (take (m - 1) (month_days y))"

definition civil_of_day :: "nat \<Rightarrow> civil_date" where
  "civil_of_day n = (let (y, yd) = split_year 1970 n; (m, d) = split_month (month_days y) 1 yd
     in \<lparr>cv_year = y, cv_month = m, cv_day = d + 1\<rparr>)"

definition day_of_civil :: "civil_date \<Rightarrow> nat" where
  "day_of_civil c = year_start (cv_year c) + month_start (cv_year c) (cv_month c) + (cv_day c - 1)"

definition valid_civil :: "civil_date \<Rightarrow> bool" where
  "valid_civil c \<longleftrightarrow> 1970 \<le> cv_year c \<and> 1 \<le> cv_month c \<and> cv_month c \<le> 12 \<and> 1 \<le> cv_day c
     \<and> cv_day c \<le> month_days (cv_year c) ! (cv_month c - 1)"

subsection \<open>Years and months\<close>

lemma year_days_pos [simp]: "0 < year_days y" by (simp add: year_days_def)

lemma sum_month_days: "sum_list (month_days y) = year_days y"
  by (simp add: month_days_def year_days_def)

lemma length_month_days [simp]: "length (month_days y) = 12" by (simp add: month_days_def)

lemma split_year_sum:
  "split_year y n = (y', d) \<Longrightarrow> y \<le> y' \<and> d < year_days y' \<and> n = sum_list (map year_days [y..<y']) + d"
proof (induction y n rule: split_year.induct)
  case (1 y n)
  show ?case
  proof (cases "n < year_days y")
    case True
    with 1(2) show ?thesis by (simp add: split_year.simps [of y n])
  next
    case False
    then have s: "split_year (y + 1) (n - year_days y) = (y', d)" using 1(2) by (simp add: split_year.simps [of y n])
    from 1(1) [OF False s] have h: "Suc y \<le> y'" "d < year_days y'"
      "n - year_days y = sum_list (map year_days [Suc y..<y']) + d" by simp_all
    then have "[y..<y'] = y # [Suc y..<y']" by (simp add: upt_conv_Cons)
    with h False show ?thesis by simp
  qed
qed

lemma split_month_sum:
  "split_month ls m n = (m', d) \<Longrightarrow> n < sum_list ls \<Longrightarrow>
   m \<le> m' \<and> m' - m < length ls \<and> d < ls ! (m' - m) \<and> n = sum_list (take (m' - m) ls) + d"
proof (induction ls m n rule: split_month.induct)
  case (2 l ls m n)
  show ?case
  proof (cases "n < l")
    case False
    with "2.prems" have "split_month ls (m + 1) (n - l) = (m', d)" "n - l < sum_list ls" by simp_all
    from "2.IH" [OF False this] have h: "m + 1 \<le> m'" "m' - (m + 1) < length ls" "d < ls ! (m' - (m + 1))"
      "n - l = sum_list (take (m' - (m + 1)) ls) + d" by blast+
    moreover have "m' - m = Suc (m' - (m + 1))" using h(1) by simp
    ultimately show ?thesis using False by simp
  qed (use "2.prems" in simp)
qed simp

lemma year_start_Suc: "1970 \<le> y \<Longrightarrow> year_start (Suc y) = year_start y + year_days y"
  by (simp add: year_start_def)

lemma year_start_mono: "y < z \<Longrightarrow> 1970 \<le> y \<Longrightarrow> year_start y + year_days y \<le> year_start z"
proof (induction z)
  case (Suc z)
  show ?case
  proof (cases "y = z")
    case False
    with Suc have "year_start y + year_days y \<le> year_start z" "1970 \<le> z" by simp_all
    then show ?thesis by (simp add: year_start_Suc)
  qed (use Suc.prems in \<open>simp add: year_start_Suc\<close>)
qed simp

lemma month_start_mono:
  assumes "m < k" "1 \<le> m" "k \<le> 12"
  shows "month_start y m + month_days y ! (m - 1) \<le> month_start y k"
proof -
  have "take (k - 1) (month_days y) = take (m - 1) (month_days y)
      @ month_days y ! (m - 1) # drop m (take (k - 1) (month_days y))"
    using assms id_take_nth_drop [of "m - 1" "take (k - 1) (month_days y)"] by simp
  then show ?thesis unfolding month_start_def by (metis le_add1 sum_list.Cons sum_list.append add.assoc)
qed

text \<open>The parts of a day, and that they are the only ones.\<close>

lemma civil_of_day_parts:
  assumes "civil_of_day n = c"
  shows "valid_civil c" and "day_of_civil c = n"
proof -
  obtain y yd where y: "split_year 1970 n = (y, yd)" by (cases "split_year 1970 n")
  obtain m d where m: "split_month (month_days y) 1 yd = (m, d)" by (cases "split_month (month_days y) 1 yd")
  note ys = split_year_sum [OF y]
  have ms: "1 \<le> m" "m - 1 < 12" "d < month_days y ! (m - 1)" "yd = sum_list (take (m - 1) (month_days y)) + d"
    using split_month_sum [OF m] ys by (simp_all add: sum_month_days)
  have c: "c = \<lparr>cv_year = y, cv_month = m, cv_day = d + 1\<rparr>" using assms y m by (simp add: civil_of_day_def)
  show "valid_civil c" using ys ms by (auto simp: valid_civil_def c)
  show "day_of_civil c = n" using ys ms by (simp add: day_of_civil_def c year_start_def month_start_def)
qed

lemma civil_of_day_valid [simp]: "valid_civil (civil_of_day n)"
  by (rule civil_of_day_parts) simp

lemma day_of_civil_of_day [simp]: "day_of_civil (civil_of_day n) = n"
  by (rule civil_of_day_parts) simp

definition civil_key :: "civil_date \<Rightarrow> nat \<times> nat \<times> nat" where
  "civil_key c = (cv_year c, cv_month c, cv_day c)"

lemma day_within_year:
  assumes "valid_civil c"
  shows "month_start (cv_year c) (cv_month c) + cv_day c \<le> year_days (cv_year c)"
proof -
  let ?m = "cv_month c" and ?l = "month_days (cv_year c)"
  have b: "1 \<le> ?m" "?m \<le> 12" "cv_day c \<le> ?l ! (?m - 1)" using assms by (auto simp: valid_civil_def)
  have "month_start (cv_year c) ?m + ?l ! (?m - 1) = sum_list (take ?m ?l)"
    using b take_Suc_conv_app_nth [of "?m - 1" ?l] by (simp add: month_start_def)
  also have "\<dots> \<le> sum_list ?l" by (metis append_take_drop_id le_add1 sum_list.append)
  finally show ?thesis using b(3) sum_month_days [of "cv_year c"] by simp
qed

lemma day_of_civil_less:
  assumes a: "valid_civil a" and b: "valid_civil b" and l: "civil_key a < civil_key b"
  shows "day_of_civil a < day_of_civil b"
proof -
  consider "cv_year a < cv_year b" | "cv_year a = cv_year b" "cv_month a < cv_month b"
    | "cv_year a = cv_year b" "cv_month a = cv_month b" "cv_day a < cv_day b"
    using l by (auto simp: civil_key_def le_less)
  then show ?thesis
  proof cases
    case 1
    then show ?thesis
      using year_start_mono [OF 1] day_within_year [OF a] a b by (auto simp: day_of_civil_def valid_civil_def)
  next
    case 2
    then show ?thesis
      using month_start_mono [OF 2(2), of "cv_year a"] a b by (auto simp: day_of_civil_def valid_civil_def)
  next
    case 3
    then show ?thesis using a by (auto simp: day_of_civil_def valid_civil_def)
  qed
qed

lemma civil_key_inj: "civil_key a = civil_key b \<longleftrightarrow> a = (b :: civil_date)"
  by (cases a, cases b) (simp add: civil_key_def)

lemma day_of_civil_less_iff:
  "valid_civil a \<Longrightarrow> valid_civil b \<Longrightarrow> day_of_civil a < day_of_civil b \<longleftrightarrow> civil_key a < civil_key b"
  using day_of_civil_less [of a b] day_of_civil_less [of b a] civil_key_inj [of a b]
  by (metis less_asym' neqE)

lemma civil_of_day_of_civil: "valid_civil c \<Longrightarrow> civil_of_day (day_of_civil c) = c"
  using day_of_civil_less_iff [of c "civil_of_day (day_of_civil c)"]
    day_of_civil_less_iff [of "civil_of_day (day_of_civil c)" c] civil_key_inj [of "civil_of_day (day_of_civil c)" c]
  by (auto simp: neq_iff)

lemma civil_of_day_mono: "civil_key (civil_of_day m) < civil_key (civil_of_day n) \<longleftrightarrow> m < n"
  using day_of_civil_less_iff [of "civil_of_day m" "civil_of_day n"] by simp

section \<open>The order of timestamps\<close>

lemma digit_char_less: "a < 10 \<Longrightarrow> b < 10 \<Longrightarrow> digit_char a < digit_char b \<longleftrightarrow> a < b"
  by (simp add: digit_char_def less_char_def of_char_of)

lemma digit_char_eq: "a < 10 \<Longrightarrow> b < 10 \<Longrightarrow> digit_char a = digit_char b \<longleftrightarrow> a = b"
  using digit_char_less [of a b] digit_char_less [of b a] by (metis less_irrefl neqE)

lemma div_mod_less: "(a :: nat) < b \<longleftrightarrow> a div n < b div n \<or> a div n = b div n \<and> a mod n < b mod n" if "0 < n"
proof (cases "a div n = b div n")
  case True
  then show ?thesis using mult_div_mod_eq [of n a] mult_div_mod_eq [of n b] by (metis add_less_cancel_left less_irrefl)
next
  case False
  have le: "x div n < y div n \<Longrightarrow> x < y" for x y
    using that by (metis div_le_mono leD leI)
  show ?thesis using False le [of a b] le [of b a] by (metis nat_neq_iff less_asym')
qed

lemma div_mod_10_eq: "(a :: nat) = b \<longleftrightarrow> a div 10 = b div 10 \<and> a mod 10 = b mod 10"
proof
  assume "a div 10 = b div 10 \<and> a mod 10 = b mod 10"
  then have "10 * (a div 10) + a mod 10 = 10 * (b div 10) + b mod 10" by simp
  then show "a = b" unfolding mult_div_mod_eq .
qed simp

lemma div_mod_10_less: "(a :: nat) < b \<longleftrightarrow> a div 10 < b div 10 \<or> a div 10 = b div 10 \<and> a mod 10 < b mod 10"
  by (rule div_mod_less) simp

lemma div_10_less: "(a :: nat) < 10 ^ Suc w \<Longrightarrow> a div 10 < 10 ^ w"
  by (simp add: less_mult_imp_div_less mult.commute)

lemma zero_pad_eq: "a < 10 ^ w \<Longrightarrow> b < 10 ^ w \<Longrightarrow> zero_pad w a = zero_pad w b \<longleftrightarrow> a = b"
proof (induction w arbitrary: a b)
  case (Suc w)
  have "zero_pad (Suc w) a = zero_pad (Suc w) b
    \<longleftrightarrow> zero_pad w (a div 10) = zero_pad w (b div 10) \<and> digit_char (a mod 10) = digit_char (b mod 10)" by simp
  also have "\<dots> \<longleftrightarrow> a div 10 = b div 10 \<and> a mod 10 = b mod 10"
    unfolding Suc.IH [OF div_10_less [OF Suc.prems(1)] div_10_less [OF Suc.prems(2)]] by (simp add: digit_char_eq)
  finally show ?case unfolding div_mod_10_eq [of a b] .
qed simp

lemma zero_pad_less: "a < 10 ^ w \<Longrightarrow> b < 10 ^ w \<Longrightarrow> zero_pad w a < zero_pad w b \<longleftrightarrow> a < b"
proof (induction w arbitrary: a b)
  case (Suc w)
  note d = div_10_less [OF Suc.prems(1)] div_10_less [OF Suc.prems(2)]
  have "zero_pad (Suc w) a < zero_pad (Suc w) b \<longleftrightarrow> zero_pad w (a div 10) < zero_pad w (b div 10)
    \<or> zero_pad w (a div 10) = zero_pad w (b div 10) \<and> digit_char (a mod 10) < digit_char (b mod 10)"
    by (simp add: append_less_iff)
  also have "\<dots> \<longleftrightarrow> a div 10 < b div 10 \<or> a div 10 = b div 10 \<and> a mod 10 < b mod 10"
    unfolding Suc.IH [OF d] zero_pad_eq [OF d] by (simp add: digit_char_less)
  finally show ?case unfolding div_mod_10_less [of a b] .
qed simp

text \<open>A timestamp is the sequence of its seven fields, each of a fixed width.\<close>

definition iso_fields :: "nat \<Rightarrow> (nat \<times> nat) list" where
  "iso_fields ms = (let c = civil_of_day (ms div 86400000); r = ms mod 86400000
     in [(4, cv_year c), (2, cv_month c), (2, cv_day c), (2, r div 3600000), (2, r div 60000 mod 60),
         (2, r div 1000 mod 60), (3, r mod 1000)])"

definition iso_text :: "(nat \<times> nat) list \<Rightarrow> string" where
  "iso_text fs = concat (map2 (\<lambda>(w, n) c. zero_pad w n @ [c]) fs ''--T::.Z'')"

lemma toISOString_fields: "toISOString ms = iso_text (iso_fields ms)"
  by (simp add: toISOString_def iso_text_def iso_fields_def civil_of_day_def Let_def split: prod.split)

lemma iso_text_less:
  assumes "map fst fs = map fst gs" "\<forall>(w, n) \<in> set fs \<union> set gs. n < 10 ^ w" "length fs = length cs"
  shows "concat (map2 (\<lambda>(w, n) c. zero_pad w n @ [c]) fs cs) < concat (map2 (\<lambda>(w, n) c. zero_pad w n @ [c]) gs cs)
    \<longleftrightarrow> map snd fs < map snd gs"
  using assms
proof (induction fs arbitrary: gs cs)
  case (Cons f fs)
  obtain w a where f: "f = (w, a)" by (cases f)
  from Cons.prems(1) f obtain b gs' where gs: "gs = (w, b) # gs'" "map fst fs = map fst gs'" by (cases gs) auto
  obtain c cs' where cs: "cs = c # cs'" "length fs = length cs'" using Cons.prems(3) by (cases cs) auto
  have ab: "a < 10 ^ w" "b < 10 ^ w" using Cons.prems(2) f gs by auto
  have "concat (map2 (\<lambda>(w, n) c. zero_pad w n @ [c]) fs cs') < concat (map2 (\<lambda>(w, n) c. zero_pad w n @ [c]) gs' cs')
    \<longleftrightarrow> map snd fs < map snd gs'"
    by (rule Cons.IH) (use Cons.prems(2) f gs cs in auto)
  then show ?case by (simp add: f gs cs append_less_iff zero_pad_less [OF ab] zero_pad_eq [OF ab])
qed simp

lemma month_days_bound: "1 \<le> m \<Longrightarrow> m \<le> 12 \<Longrightarrow> month_days y ! (m - 1) \<le> 31"
proof -
  assume "1 \<le> m" "m \<le> 12"
  then have "month_days y ! (m - 1) \<in> set (month_days y)" by (intro nth_mem) simp
  then show ?thesis by (auto simp: month_days_def)
qed

lemma civil_bounds: "valid_civil c \<Longrightarrow> cv_month c \<le> 12 \<and> cv_day c \<le> 31"
  using month_days_bound [of "cv_month c" "cv_year c"] by (auto simp: valid_civil_def)

lemma year_bound: "cv_year (civil_of_day n) \<le> y \<longleftrightarrow> n < year_start (Suc y)" if "1970 \<le> y"
proof -
  let ?c = "civil_of_day n"
  have v: "valid_civil ?c" by simp
  then have c: "1970 \<le> cv_year ?c" "1 \<le> cv_month ?c" "1 \<le> cv_day ?c" by (auto simp: valid_civil_def)
  have n: "n = year_start (cv_year ?c) + month_start (cv_year ?c) (cv_month ?c) + (cv_day ?c - 1)"
    using day_of_civil_of_day [of n] unfolding day_of_civil_def by simp
  have up: "n < year_start (Suc (cv_year ?c))"
    using day_within_year [OF v] n c year_start_Suc [of "cv_year ?c"] by linarith
  have lo: "year_start (cv_year ?c) \<le> n" using n by simp
  show ?thesis
  proof
    assume "cv_year ?c \<le> y"
    then have "year_start (Suc (cv_year ?c)) \<le> year_start (Suc y)"
      using year_start_mono [of "Suc (cv_year ?c)" "Suc y"] c(1) by (cases "cv_year ?c = y") simp_all
    then show "n < year_start (Suc y)" using up by simp
  next
    assume n': "n < year_start (Suc y)"
    show "cv_year ?c \<le> y"
    proof (rule ccontr)
      assume "\<not> cv_year ?c \<le> y"
      then have "year_start (Suc y) \<le> year_start (cv_year ?c)"
        using year_start_mono [of "Suc y" "cv_year ?c"] that by (cases "Suc y = cv_year ?c") simp_all
      then show False using n' lo by simp
    qed
  qed
qed

text \<open>The end of the year 9999.\<close>

definition last_ms :: nat where
  "last_ms = 253402300800000"

lemma ceiling_step: "0 < k \<Longrightarrow> (y + k) div k = (y + (k - 1)) div k + (if k dvd y then 1 else (0 :: nat))"
proof -
  assume k: "0 < k"
  show ?thesis
  proof (cases "k dvd y")
    case True
    then obtain q where y: "y = k * q" by auto
    have "(q * k + (k - 1)) div k = q + (k - 1) div k" by (rule div_mult_self3) (use k in simp)
    then show ?thesis using k True y by (simp add: mult.commute)
  next
    case False
    then have m: "0 < y mod k" by (simp add: mod_greater_zero_iff_not_dvd)
    have "y + (k - 1) = Suc (y div k) * k + (y mod k - 1)"
      using m k mult_div_mod_eq [of k y] by (simp add: mult.commute)
    moreover have "(Suc (y div k) * k + (y mod k - 1)) div k = Suc (y div k) + (y mod k - 1) div k"
      by (rule div_mult_self3) (use k in simp)
    moreover have "(y mod k - 1) div k = 0" using mod_less_divisor [OF k, of y] by (simp add: less_imp_diff_less)
    ultimately have "(y + (k - 1)) div k = Suc (y div k)" by simp
    then show ?thesis using False k by simp
  qed
qed

lemma year_days_sum: "year_days y + (if 100 dvd y then 1 else 0)
  = 365 + (if 4 dvd y then 1 else 0) + (if 400 dvd y then 1 else 0)"
proof -
  have "400 dvd y \<Longrightarrow> 100 dvd y" "100 dvd y \<Longrightarrow> 4 dvd y" by (auto elim!: dvdE)
  then show ?thesis by (auto simp: year_days_def is_leap_def mod_eq_0_iff_dvd)
qed

text \<open>The number of days before a year, with its leap days.\<close>

lemma year_start_closed:
  "1970 \<le> y \<Longrightarrow> year_start y + 719528 + (y + 99) div 100 = 365 * y + (y + 3) div 4 + (y + 399) div 400"
proof (induction y rule: dec_induct)
  case base
  then show ?case by (simp add: year_start_def)
next
  case (step y)
  have c: "(Suc y + 99) div 100 = (y + 99) div 100 + (if 100 dvd y then 1 else 0)"
    "(Suc y + 3) div 4 = (y + 3) div 4 + (if 4 dvd y then 1 else 0)"
    "(Suc y + 399) div 400 = (y + 399) div 400 + (if 400 dvd y then 1 else 0)"
    using ceiling_step [of 100 y] ceiling_step [of 4 y] ceiling_step [of 400 y] by simp_all
  show ?case using step(3) year_start_Suc [OF step(1)] year_days_sum [of y] unfolding c
    by (simp split: if_splits)
qed

lemma year_start_10000: "year_start 10000 = 2932897"
  using year_start_closed [of 10000] by simp

lemma year_four_digits: "ms < last_ms \<Longrightarrow> cv_year (civil_of_day (ms div 86400000)) < 10000"
  using year_bound [of 9999 "ms div 86400000"] by (simp add: last_ms_def year_start_10000 less_Suc_eq_le [symmetric])

lemma iso_fields_bound: "ms < last_ms \<Longrightarrow> (w, n) \<in> set (iso_fields ms) \<Longrightarrow> n < 10 ^ w"
  using year_four_digits [of ms] civil_bounds [OF civil_of_day_valid, of "ms div 86400000"]
  by (auto simp: iso_fields_def Let_def)

lemma iso_fields_less: "map snd (iso_fields a) < map snd (iso_fields b) \<longleftrightarrow> a < b"
proof -
  let ?d = "\<lambda>x :: nat. x div 86400000" and ?r = "\<lambda>x :: nat. x mod 86400000"
  have dr: "a < b \<longleftrightarrow> ?d a < ?d b \<or> ?d a = ?d b \<and> ?r a < ?r b" by (rule div_mod_less) simp
  have r: "x < y \<longleftrightarrow> [x div 3600000, x div 60000 mod 60, x div 1000 mod 60, x mod 1000]
      < [y div 3600000, y div 60000 mod 60, y div 1000 mod 60, y mod 1000]" for x y :: nat
    using div_mod_less [of 1000 x y] div_mod_less [of 60 "x div 1000" "y div 1000"]
      div_mod_less [of 60 "x div 60000" "y div 60000"]
      div_mod_less [of 60 "y div 1000" "x div 1000"] div_mod_less [of 60 "y div 60000" "x div 60000"]
    by (simp add: le_less div_mult2_eq [symmetric]) (metis neq_iff)
  have k: "civil_key (civil_of_day (?d a)) < civil_key (civil_of_day (?d b)) \<longleftrightarrow> ?d a < ?d b"
    "civil_key (civil_of_day (?d a)) = civil_key (civil_of_day (?d b)) \<longleftrightarrow> ?d a = ?d b"
    using civil_of_day_mono [of "?d a" "?d b"] civil_of_day_mono [of "?d b" "?d a"]
      civil_key_inj [of "civil_of_day (?d a)" "civil_of_day (?d b)"] day_of_civil_of_day by (blast, metis)
  have "map snd (iso_fields a) < map snd (iso_fields b) \<longleftrightarrow>
      civil_key (civil_of_day (?d a)) < civil_key (civil_of_day (?d b))
      \<or> civil_key (civil_of_day (?d a)) = civil_key (civil_of_day (?d b))
        \<and> [?r a div 3600000, ?r a div 60000 mod 60, ?r a div 1000 mod 60, ?r a mod 1000]
          < [?r b div 3600000, ?r b div 60000 mod 60, ?r b div 1000 mod 60, ?r b mod 1000]"
    by (auto simp: iso_fields_def Let_def civil_key_def le_less)
  then show ?thesis unfolding k dr r [symmetric] .
qed

lemma toISOString_less: "a < last_ms \<Longrightarrow> b < last_ms \<Longrightarrow> toISOString a < toISOString b \<longleftrightarrow> a < b"
  unfolding toISOString_fields iso_text_def
  by (subst iso_text_less) (auto simp: iso_fields_less dest: iso_fields_bound, auto simp: iso_fields_def Let_def)

lemma toISOString_le: "a < last_ms \<Longrightarrow> b < last_ms \<Longrightarrow> toISOString a \<le> toISOString b \<longleftrightarrow> a \<le> b"
  using toISOString_less [of b a] by (simp add: not_less [symmetric])

end
