(* ===== verification/Budget.thy ===== *)
theory Budget
  imports Chats Calendar
begin

text \<open>
  \<open>modules/budget/\<close>: the window of a budget period in the user's time zone, and the spending
  inside it. An instant is a number of milliseconds since the epoch. What \<open>Intl\<close> knows of a
  zone is a parameter: how many seconds its clocks are ahead of UTC at each second, or
  \<^const>\<open>None\<close> for a name it rejects. Amounts are exact; the noise of binary fractions that
  \<open>roundUsd\<close> is there to drop is not modelled.
\<close>

section \<open>Civil dates\<close>

text \<open>\<open>utcDate\<close> in milliseconds, and back.\<close>

definition utcDate :: "civil_date \<Rightarrow> nat" where
  "utcDate c = day_of_civil c * 86400000"

definition civil_of_ms :: "nat \<Rightarrow> civil_date" where
  "civil_of_ms ms = civil_of_day (ms div 86400000)"

definition addDays :: "civil_date \<Rightarrow> int \<Rightarrow> civil_date" where
  "addDays date days = civil_of_ms (nat (int (utcDate date) + days * 86400000))"

text \<open>The epoch was a Thursday, day 4 of a week that starts on Sunday.\<close>

definition getUTCDay :: "nat \<Rightarrow> nat" where
  "getUTCDay ms = (ms div 86400000 + 4) mod 7"

definition startCivilDate :: "string \<Rightarrow> civil_date \<Rightarrow> civil_date" where
  "startCivilDate period today =
     (if period = ''daily'' then today
      else if period = ''weekly'' then addDays today (- int ((getUTCDay (utcDate today) + 6) mod 7))
      else today\<lparr>cv_day := 1\<rparr>)"

definition advance_period :: "string \<Rightarrow> civil_date \<Rightarrow> civil_date" where
  "advance_period period start =
     (if period = ''daily'' then addDays start 1
      else if period = ''weekly'' then addDays start 7
      else if cv_month start = 12 then \<lparr>cv_year = cv_year start + 1, cv_month = 1, cv_day = 1\<rparr>
      else start\<lparr>cv_month := cv_month start + 1, cv_day := 1\<rparr>)"

section \<open>Time zones\<close>

type_synonym zone = "int \<Rightarrow> int"

text \<open>\<open>partsIn\<close>: the date, and hours, minutes and seconds, the clocks of the zone show.\<close>

definition wall_second :: "zone \<Rightarrow> int \<Rightarrow> int" where
  "wall_second z t = t div 1000 + z (t div 1000)"

definition partsIn :: "zone \<Rightarrow> int \<Rightarrow> civil_date \<times> nat \<times> nat \<times> nat" where
  "partsIn z t = (let s = nat (wall_second z t); r = s mod 86400
     in (civil_of_ms (s * 1000), r div 3600, r div 60 mod 60, r mod 60))"

definition civilDateIn :: "zone \<Rightarrow> int \<Rightarrow> civil_date" where
  "civilDateIn z t = fst (partsIn z t)"

definition zoneOffsetMs :: "zone \<Rightarrow> int \<Rightarrow> int" where
  "zoneOffsetMs z t = (let (c, h, m, s) = partsIn z t
     in int (utcDate c + (h * 3600 + m * 60 + s) * 1000) - t div 1000 * 1000)"

definition instantAtCivilMidnight :: "zone \<Rightarrow> civil_date \<Rightarrow> int" where
  "instantAtCivilMidnight z date =
     (let asIfUtc = int (utcDate date); firstGuess = asIfUtc - zoneOffsetMs z asIfUtc
      in asIfUtc - zoneOffsetMs z firstGuess)"

definition usableZone :: "(string \<Rightarrow> zone option) \<Rightarrow> string option \<Rightarrow> string" where
  "usableZone zones timeZone = (case timeZone of None \<Rightarrow> ''UTC''
     | Some name \<Rightarrow> if name = [] \<or> zones name = None then ''UTC'' else name)"

definition clocks :: "(string \<Rightarrow> zone option) \<Rightarrow> string \<Rightarrow> zone" where
  "clocks zones name = (if name = ''UTC'' then (\<lambda>_. 0) else from_option (\<lambda>_. 0) (zones name))"

section \<open>The window of a period\<close>

definition window_instants :: "zone \<Rightarrow> string \<Rightarrow> int \<Rightarrow> int \<times> int" where
  "window_instants z period now =
     (let start = startCivilDate period (civilDateIn z now); end' = advance_period period start
      in (instantAtCivilMidnight z start, instantAtCivilMidnight z end'))"

definition periodWindow :: "(string \<Rightarrow> zone option) \<Rightarrow> string \<Rightarrow> nat \<Rightarrow> string option \<Rightarrow> string \<times> string" where
  "periodWindow zones period now timeZone =
     (let (a, b) = window_instants (clocks zones (usableZone zones timeZone)) period (int now)
      in (toISOString (nat a), toISOString (nat b)))"

section \<open>The budget mapper\<close>

record period_spend =
  ps_spentUsd :: rat
  ps_callCount :: nat

record budget_response =
  br_id :: string
  br_limitUsd :: "rat option"
  br_period :: string
  br_periodStart :: string
  br_periodEnd :: string
  br_spentUsd :: rat
  br_remainingUsd :: "rat option"
  br_usedFraction :: "rat option"
  br_callCount :: nat
  br_createdAt :: string
  br_updatedAt :: string

record update_budget_dto =
  ub_limitUsd :: "rat option option"
  ub_period :: "string option"

text \<open>\<open>Math.round\<close> rounds halves up.\<close>

definition roundUsd :: "rat \<Rightarrow> rat" where
  "roundUsd amount = of_int \<lfloor>amount * 1000000 + 1 / 2\<rfloor> / 1000000"

text \<open>A limit of \<open>0\<close> would give a fraction that is no number, which JSON writes as \<open>null\<close>.\<close>

definition mapBudgetToResponse :: "spend_budget_row \<Rightarrow> string \<times> string \<Rightarrow> period_spend \<Rightarrow> budget_response" where
  "mapBudgetToResponse row window spend =
     (let spentUsd = roundUsd (ps_spentUsd spend)
      in \<lparr>br_id = bud_id row, br_limitUsd = bud_limit_usd row, br_period = bud_period row,
          br_periodStart = fst window, br_periodEnd = snd window, br_spentUsd = spentUsd,
          br_remainingUsd = map_option (\<lambda>l. roundUsd (l - spentUsd)) (bud_limit_usd row),
          br_usedFraction = (case bud_limit_usd row of None \<Rightarrow> None
            | Some l \<Rightarrow> if l = 0 then None else Some (roundUsd (spentUsd / l))),
          br_callCount = ps_callCount spend, br_createdAt = bud_created_at row, br_updatedAt = bud_updated_at row\<rparr>)"

record budget_update_result =
  bs_updatedRow :: spend_budget_row
  bs_hasChanges :: bool
  bs_limit :: "rat option option"
  bs_period :: "string option"

definition applyBudgetUpdates :: "spend_budget_row \<Rightarrow> update_budget_dto \<Rightarrow> string \<Rightarrow> budget_update_result" where
  "applyBudgetUpdates row dto now =
     (let l = changed (ub_limitUsd dto) (bud_limit_usd row); p = changed (ub_period dto) (bud_period row);
          hasChanges = (l \<noteq> None \<or> p \<noteq> None)
      in \<lparr>bs_updatedRow = row\<lparr>bud_limit_usd := from_option (bud_limit_usd row) l,
            bud_period := from_option (bud_period row) p,
            bud_updated_at := (if hasChanges then now else bud_updated_at row)\<rparr>,
          bs_hasChanges = hasChanges, bs_limit = l, bs_period = p\<rparr>)"

section \<open>Statements\<close>

definition budget_periods :: "string list" where
  "budget_periods = [''daily'', ''weekly'', ''monthly'']"

definition budget_row :: "database \<Rightarrow> spend_budget_row option" where
  "budget_row d = find (\<lambda>b. bud_singleton b = 1) (spend_budget d)"

text \<open>\<open>INSERT \<dots> ON CONFLICT (singleton) DO NOTHING\<close>.\<close>

definition provision_budget :: "string \<Rightarrow> string \<Rightarrow> database \<Rightarrow> exn + database" where
  "provision_budget i now d =
     (if budget_row d \<noteq> None then Inr d
      else if list_ex (\<lambda>b. bud_id b = i) (spend_budget d)
      then Inl (sqlite_error ''SQLITE_CONSTRAINT_PRIMARYKEY'' ''UNIQUE constraint failed: spend_budget.id'')
      else Inr (d\<lparr>spend_budget := spend_budget d @ [\<lparr>bud_id = i, bud_singleton = 1, bud_limit_usd = None,
             bud_period = ''monthly'', bud_created_at = now, bud_updated_at = now\<rparr>]\<rparr>))"

definition update_budget_columns ::
  "string \<Rightarrow> rat option option \<Rightarrow> string option \<Rightarrow> string \<Rightarrow> database \<Rightarrow> exn + database" where
  "update_budget_columns i limit' period now d =
     (if (case period of None \<Rightarrow> False | Some p \<Rightarrow> p \<notin> set budget_periods) \<and> list_ex (\<lambda>b. bud_id b = i) (spend_budget d)
      then Inl (sqlite_error ''SQLITE_CONSTRAINT_CHECK'' ''CHECK constraint failed: spend_budget'')
      else Inr (d\<lparr>spend_budget := map (\<lambda>b. if bud_id b = i
        then b\<lparr>bud_limit_usd := from_option (bud_limit_usd b) limit', bud_period := from_option (bud_period b) period,
               bud_updated_at := now\<rparr> else b) (spend_budget d)\<rparr>))"

text \<open>\<open>COALESCE(SUM(cost_usd), 0)\<close> and \<open>COUNT(cost_usd)\<close> ignore \<open>NULL\<close>.\<close>

definition spendIn :: "database \<Rightarrow> string \<times> string \<Rightarrow> period_spend" where
  "spendIn d window =
     (let costs = List.map_filter us_cost_usd
            (filter (\<lambda>u. fst window \<le> us_occurred_at u \<and> us_occurred_at u < snd window) (usage_events d))
      in \<lparr>ps_spentUsd = sum_list costs, ps_callCount = length costs\<rparr>)"

definition user_timezone :: "database \<Rightarrow> string option" where
  "user_timezone d = (case find (\<lambda>u. usr_singleton u = 1) (user_profile d) of None \<Rightarrow> None | Some u \<Rightarrow> usr_timezone u)"

section \<open>BudgetService\<close>

definition readBudget :: "env \<Rightarrow> spend_budget_row comp" where
  "readBudget env =
     transaction env
       (bnd (now_iso env) (\<lambda>timestamp. bnd (fresh_id env) (\<lambda>i.
        bnd (exec_write env (provision_budget i timestamp)) (\<lambda>_.
        query (\<lambda>d. case budget_row d of None \<Rightarrow> Inl (plain_error ''The spending budget could not be provisioned'')
          | Some r \<Rightarrow> Inr r)))))"

definition budget_response_of ::
  "(string \<Rightarrow> zone option) \<Rightarrow> nat \<Rightarrow> spend_budget_row \<Rightarrow> database \<Rightarrow> budget_response" where
  "budget_response_of zones now row d =
     (let window = periodWindow zones (bud_period row) now (user_timezone d)
      in mapBudgetToResponse row window (spendIn d window))"

definition findBudget :: "env \<Rightarrow> (string \<Rightarrow> zone option) \<Rightarrow> budget_response comp" where
  "findBudget env zones =
     bnd (date_now env) (\<lambda>now. bnd (readBudget env) (\<lambda>row. select (budget_response_of zones now row)))"

definition updateBudget :: "env \<Rightarrow> (string \<Rightarrow> zone option) \<Rightarrow> update_budget_dto \<Rightarrow> budget_response comp" where
  "updateBudget env zones dto =
     bnd (date_now env) (\<lambda>now.
     bnd (readBudget env) (\<lambda>existing.
     bnd (if bs_hasChanges (applyBudgetUpdates existing dto []) then
            bnd (now_iso env) (\<lambda>t.
            let result = applyBudgetUpdates existing dto t in
            bnd (exec_write env (update_budget_columns (bud_id existing) (bs_limit result) (bs_period result) t))
              (\<lambda>_. ret (bs_updatedRow result)))
          else ret existing) (\<lambda>row.
     select (budget_response_of zones now row))))"

end
