(* ===== verification/BudgetFacts.thy ===== *)
theory BudgetFacts
  imports Budget
begin

text \<open>
  What the window of a budget period is: with clocks that never skip or repeat one of its two
  midnights, the interval from local midnight to local midnight that holds the instant.
\<close>

section \<open>Clocks\<close>

definition bounded_zone :: "zone \<Rightarrow> bool" where
  "bounded_zone z \<longleftrightarrow> (\<forall>t. \<bar>z t\<bar> \<le> 86400)"

text \<open>
  Around the midnight with the wall clock reading \<open>A\<close> the clocks change at most once, at \<open>T\<close>,
  and the change neither skips that reading nor shows it twice.
\<close>

definition regular_midnight :: "zone \<Rightarrow> int \<Rightarrow> bool" where
  "regular_midnight z A \<longleftrightarrow> (\<exists>T o1 o2. \<bar>o1\<bar> \<le> 86400 \<and> \<bar>o2\<bar> \<le> 86400
     \<and> (\<forall>t. \<bar>t - A\<bar> \<le> 86400 \<longrightarrow> z t = (if t < T then o1 else o2))
     \<and> (T \<le> A - max o1 o2 \<or> A - min o1 o2 < T))"

lemma boundary:
  assumes b: "bounded_zone z" and r: "regular_midnight z A"
  defines "c \<equiv> A - z (A - z A)"
  shows "c + z c = A" and "A \<le> t + z t \<longleftrightarrow> c \<le> t"
proof -
  obtain T o1 o2 where o: "\<bar>o1\<bar> \<le> 86400" "\<bar>o2\<bar> \<le> 86400"
    and z: "\<And>t. \<bar>t - A\<bar> \<le> 86400 \<Longrightarrow> z t = (if t < T then o1 else o2)"
    and T: "T \<le> A - max o1 o2 \<or> A - min o1 o2 < T"
    using r unfolding regular_midnight_def by blast
  have zA: "z A = o1 \<or> z A = o2" using z [of A] by simp
  have g: "\<bar>(A - z A) - A\<bar> \<le> 86400" using zA o by auto
  have zt: "\<bar>z t\<bar> \<le> 86400" using b by (simp add: bounded_zone_def)
  show "c + z c = A" "A \<le> t + z t \<longleftrightarrow> c \<le> t"
  proof (atomize (full), cases "T \<le> A - max o1 o2")
    case True
    then have "\<not> A - z A < T" using zA by auto
    then have c: "c = A - o2" using z [OF g] by (simp add: c_def)
    have "\<bar>c - A\<bar> \<le> 86400" "\<not> c < T" using c o True by auto
    then have "z c = o2" using z by simp
    moreover have "A \<le> t + z t \<longleftrightarrow> c \<le> t"
    proof (cases "\<bar>t - A\<bar> \<le> 86400")
      case near: True
      show ?thesis using z [OF near] c True by (cases "t < T") auto
    next
      case False
      then show ?thesis using zt c o by auto
    qed
    ultimately show "c + z c = A \<and> (A \<le> t + z t \<longleftrightarrow> c \<le> t)" using c by simp
  next
    case False
    then have F: "A - min o1 o2 < T" using T by simp
    then have "A - z A < T" using zA by auto
    then have c: "c = A - o1" using z [OF g] by (simp add: c_def)
    have "\<bar>c - A\<bar> \<le> 86400" "c < T" using c o F by auto
    then have "z c = o1" using z by simp
    moreover have "A \<le> t + z t \<longleftrightarrow> c \<le> t"
    proof (cases "\<bar>t - A\<bar> \<le> 86400")
      case near: True
      show ?thesis using z [OF near] c F by (cases "t < T") auto
    next
      case False
      then show ?thesis using zt c o by auto
    qed
    ultimately show "c + z c = A \<and> (A \<le> t + z t \<longleftrightarrow> c \<le> t)" using c by simp
  qed
qed

section \<open>Readings of the clock\<close>

lemma partsIn_second:
  assumes "0 \<le> wall_second z t"
  shows "partsIn z t = (civil_of_day (nat (wall_second z t) div 86400),
      nat (wall_second z t) mod 86400 div 3600, nat (wall_second z t) mod 86400 div 60 mod 60,
      nat (wall_second z t) mod 60)"
proof -
  have "nat (wall_second z t) * 1000 div 86400000 = nat (wall_second z t) div 86400" by simp
  moreover have "nat (wall_second z t) mod 86400 mod 60 = nat (wall_second z t) mod 60" by (simp add: mod_mod_cancel)
  ultimately show ?thesis by (simp add: partsIn_def civil_of_ms_def Let_def)
qed

lemma partsIn_midnight:
  assumes "wall_second z t = int (d * 86400)"
  shows "partsIn z t = (civil_of_day d, 0, 0, 0)"
proof -
  have n: "nat (wall_second z t) = d * 86400" "0 \<le> wall_second z t" unfolding assms by (rule nat_int, simp)
  have "d * 86400 mod 60 = (d * 1440) * 60 mod 60" by simp
  also have "\<dots> = 0" by (rule mod_mult_self2_is_0)
  finally show ?thesis unfolding partsIn_second [OF n(2)] n(1) by simp
qed

lemma zoneOffsetMs_second:
  assumes "0 \<le> wall_second z t"
  shows "zoneOffsetMs z t = z (t div 1000) * 1000"
proof -
  let ?s = "nat (wall_second z t)"
  define r where "r = ?s mod 86400"
  have r: "r div 3600 * 3600 + r div 60 mod 60 * 60 + ?s mod 60 = r"
  proof -
    have "?s mod 60 = r mod 60" by (simp add: r_def mod_mod_cancel)
    moreover have "r div 3600 = r div 60 div 60" by (simp add: div_mult2_eq [symmetric])
    moreover have "60 * (r div 60) + r mod 60 = r" "60 * (r div 60 div 60) + r div 60 mod 60 = r div 60"
      by (rule mult_div_mod_eq)+
    ultimately show ?thesis by linarith
  qed
  have "?s div 86400 * 86400000 + (r div 3600 * 3600 + r div 60 mod 60 * 60 + ?s mod 60) * 1000 = ?s * 1000"
    unfolding r using mult_div_mod_eq [of 86400 ?s] unfolding r_def by linarith
  then have "zoneOffsetMs z t = int (?s * 1000) - t div 1000 * 1000"
    unfolding zoneOffsetMs_def partsIn_second [OF assms] Let_def prod.case utcDate_def day_of_civil_of_day r_def by simp
  also have "\<dots> = wall_second z t * 1000 - t div 1000 * 1000" using assms by simp
  finally show ?thesis by (simp add: wall_second_def algebra_simps)
qed

lemma instantAtCivilMidnight_second:
  fixes c :: civil_date
  defines "A \<equiv> int (day_of_civil c) * 86400"
  assumes b: "bounded_zone z" and A: "172800 \<le> A"
  shows "instantAtCivilMidnight z c = 1000 * (A - z (A - z A))"
proof -
  have z: "\<bar>z t\<bar> \<le> 86400" for t using b by (simp add: bounded_zone_def)
  have u: "int (utcDate c) = 1000 * A" by (simp add: utcDate_def A_def)
  have "0 \<le> wall_second z (1000 * A)" using z [of A] A by (simp add: wall_second_def)
  then have g: "zoneOffsetMs z (1000 * A) = z A * 1000" using zoneOffsetMs_second [of z "1000 * A"] by simp
  have gd: "(1000 * A - z A * 1000) div 1000 = A - z A"
    by (metis mult.commute nonzero_mult_div_cancel_left right_diff_distrib' zero_neq_numeral)
  have "0 \<le> wall_second z (1000 * A - z A * 1000)"
    unfolding wall_second_def gd using z [of A] z [of "A - z A"] A by linarith
  then have "zoneOffsetMs z (1000 * A - z A * 1000) = z (A - z A) * 1000"
    using zoneOffsetMs_second [of z "1000 * A - z A * 1000"] by (simp add: gd)
  then show ?thesis by (simp add: instantAtCivilMidnight_def u g Let_def)
qed

section \<open>Periods\<close>

text \<open>The day, counted from the epoch, on which the period of the day \<open>n\<close> starts, and the next one.\<close>

definition period_starts :: "string \<Rightarrow> nat \<Rightarrow> nat" where
  "period_starts period n = day_of_civil (startCivilDate period (civil_of_day n))"

definition period_ends :: "string \<Rightarrow> nat \<Rightarrow> nat" where
  "period_ends period n = day_of_civil (advance_period period (startCivilDate period (civil_of_day n)))"

lemma addDays_day: "0 \<le> int (day_of_civil c) + k \<Longrightarrow> addDays c k = civil_of_day (nat (int (day_of_civil c) + k))"
proof -
  assume a: "0 \<le> int (day_of_civil c) + k"
  have "nat (int (utcDate c) + k * 86400000) = nat (int (day_of_civil c) + k) * 86400000"
    using a by (simp add: utcDate_def nat_eq_iff algebra_simps)
  then show ?thesis by (simp add: addDays_def civil_of_ms_def)
qed

lemma weekday: "getUTCDay (utcDate (civil_of_day n)) = (n + 4) mod 7"
  by (simp add: getUTCDay_def utcDate_def)

lemma weekly_start: "7 \<le> n \<Longrightarrow> startCivilDate ''weekly'' (civil_of_day n) = civil_of_day (n - (n + 3) mod 7)"
proof -
  assume n: "7 \<le> n"
  have m: "((n + 4) mod 7 + 6) mod 7 = (n + 3) mod 7" by presburger
  have "(n + 3) mod 7 < 7" by simp
  then have "(n + 3) mod 7 \<le> n" using n by linarith
  then show ?thesis unfolding startCivilDate_def weekday m by (subst addDays_day) (auto simp: nat_diff_distrib')
qed

lemma month_start_1 [simp]: "month_start y 1 = 0" by (simp add: month_start_def)

lemma valid_first: "valid_civil c \<Longrightarrow> valid_civil (c\<lparr>cv_day := 1\<rparr>)"
  by (auto simp: valid_civil_def)

lemma month_start_Suc: "1 \<le> m \<Longrightarrow> m \<le> 12 \<Longrightarrow> month_start y (Suc m) = month_start y m + month_days y ! (m - 1)"
  using take_Suc_conv_app_nth [of "m - 1" "month_days y"] by (simp add: month_start_def)

lemma month_days_pos: "1 \<le> m \<Longrightarrow> m \<le> 12 \<Longrightarrow> 1 \<le> month_days y ! (m - 1)"
proof -
  assume "1 \<le> m" "m \<le> 12"
  then have "month_days y ! (m - 1) \<in> set (month_days y)" by (intro nth_mem) simp
  then show ?thesis by (auto simp: month_days_def)
qed

lemma month_end:
  assumes v: "valid_civil c"
  shows "day_of_civil (advance_period ''monthly'' (c\<lparr>cv_day := 1\<rparr>))
      = day_of_civil (c\<lparr>cv_day := 1\<rparr>) + month_days (cv_year c) ! (cv_month c - 1)"
    and "valid_civil (advance_period ''monthly'' (c\<lparr>cv_day := 1\<rparr>))"
    and "cv_day (advance_period ''monthly'' (c\<lparr>cv_day := 1\<rparr>)) = 1"
proof -
  have b: "1 \<le> cv_month c" "cv_month c \<le> 12" "1970 \<le> cv_year c" using v by (auto simp: valid_civil_def)
  have full: "month_start y 12 + month_days y ! 11 = year_days y" for y
    using sum_month_days [of y] by (simp add: month_start_def month_days_def)
  show "day_of_civil (advance_period ''monthly'' (c\<lparr>cv_day := 1\<rparr>))
      = day_of_civil (c\<lparr>cv_day := 1\<rparr>) + month_days (cv_year c) ! (cv_month c - 1)"
    using b month_start_Suc [of "cv_month c" "cv_year c"] year_start_Suc [of "cv_year c"] full [of "cv_year c"]
      month_start_1 [of "cv_year c + 1"]
    by (auto simp: advance_period_def day_of_civil_def)
  show "valid_civil (advance_period ''monthly'' (c\<lparr>cv_day := 1\<rparr>))"
    using b month_days_pos [of 1 "cv_year c + 1"] month_days_pos [of "cv_month c + 1" "cv_year c"]
    by (auto simp: advance_period_def valid_civil_def)
  show "cv_day (advance_period ''monthly'' (c\<lparr>cv_day := 1\<rparr>)) = 1"
    by (simp add: advance_period_def)
qed

lemma advance_valid:
  assumes p: "period \<in> set budget_periods" and n: "7 \<le> n"
  shows "valid_civil (advance_period period (startCivilDate period (civil_of_day n)))"
  using p month_end(2) [OF civil_of_day_valid, of n] weekly_start [OF n]
  by (auto simp: budget_periods_def advance_period_def [of "''daily''"] advance_period_def [of "''weekly''"] startCivilDate_def
      addDays_day)

lemma advance_day:
  "period \<in> set budget_periods \<Longrightarrow> 7 \<le> n \<Longrightarrow>
   civil_of_day (period_ends period n) = advance_period period (startCivilDate period (civil_of_day n))"
  by (simp add: period_ends_def civil_of_day_of_civil advance_valid)

text \<open>A period holds its day, and the next one starts where it ends.\<close>

lemma period_facts:
  assumes p: "period \<in> set budget_periods" and n: "7 \<le> n"
  shows "period_starts period n \<le> n" and "n < period_ends period n" and "n - 31 \<le> period_starts period n"
    and "startCivilDate period (civil_of_day (period_ends period n))
      = advance_period period (startCivilDate period (civil_of_day n))"
    and "valid_civil (startCivilDate period (civil_of_day n))"
proof -
  consider "period = ''daily''" | "period = ''weekly''" | "period = ''monthly''" using p by (auto simp: budget_periods_def)
  then have "period_starts period n \<le> n \<and> n < period_ends period n \<and> n - 31 \<le> period_starts period n
    \<and> startCivilDate period (civil_of_day (period_ends period n))
      = advance_period period (startCivilDate period (civil_of_day n))
    \<and> valid_civil (startCivilDate period (civil_of_day n))"
  proof cases
    case 1
    then show ?thesis
      by (simp add: period_starts_def period_ends_def startCivilDate_def advance_period_def addDays_day nat_add_distrib)
  next
    case 2
    let ?m = "n - (n + 3) mod 7"
    have m: "(n + 3) mod 7 < 7" "?m \<le> n" "n < ?m + 7" "7 \<le> ?m + 7" using n by simp_all
    have e: "advance_period ''weekly'' (civil_of_day ?m) = civil_of_day (?m + 7)"
      by (simp add: advance_period_def addDays_day nat_add_distrib)
    have "(?m + 7 + 3) mod 7 = 0" using n m(1) by presburger
    then have "startCivilDate ''weekly'' (civil_of_day (?m + 7)) = civil_of_day (?m + 7)"
      using weekly_start [OF m(4)] by simp
    then show ?thesis using 2 m e by (simp add: period_starts_def period_ends_def weekly_start [OF n])
  next
    case 3
    let ?c = "civil_of_day n"
    have s: "startCivilDate ''monthly'' c = c\<lparr>cv_day := 1\<rparr>" for c by (simp add: startCivilDate_def)
    have v: "valid_civil ?c" by simp
    then have b: "1 \<le> cv_day ?c" "cv_day ?c \<le> month_days (cv_year ?c) ! (cv_month ?c - 1)"
      "1 \<le> cv_month ?c" "cv_month ?c \<le> 12"
      by (auto simp: valid_civil_def)
    have d: "n + 1 = day_of_civil (?c\<lparr>cv_day := 1\<rparr>) + cv_day ?c"
      using day_of_civil_of_day [of n] b(1) unfolding day_of_civil_def by simp
    have e: "civil_of_day (day_of_civil (advance_period ''monthly'' (?c\<lparr>cv_day := 1\<rparr>)))
        = advance_period ''monthly'' (?c\<lparr>cv_day := 1\<rparr>)"
      by (rule civil_of_day_of_civil [OF month_end(2) [OF v]])
    have "(advance_period ''monthly'' (?c\<lparr>cv_day := 1\<rparr>))\<lparr>cv_day := 1\<rparr> = advance_period ''monthly'' (?c\<lparr>cv_day := 1\<rparr>)"
      using month_end(3) [OF v] by (cases "advance_period ''monthly'' (?c\<lparr>cv_day := 1\<rparr>)") simp
    then show ?thesis
      using 3 d b month_end(1) [OF v] month_days_bound [OF b(3,4), of "cv_year ?c"] valid_first [OF v] e
      by (simp add: period_starts_def period_ends_def s)
  qed
  then show "period_starts period n \<le> n" "n < period_ends period n" "n - 31 \<le> period_starts period n"
    "startCivilDate period (civil_of_day (period_ends period n))
      = advance_period period (startCivilDate period (civil_of_day n))"
    "valid_civil (startCivilDate period (civil_of_day n))"
    by blast+
qed

section \<open>The window\<close>

text \<open>The midnights of the two days, as readings of the wall clock.\<close>

definition window_midnights :: "zone \<Rightarrow> string \<Rightarrow> int \<Rightarrow> int \<times> int" where
  "window_midnights z period now = (let n = nat (wall_second z now) div 86400
     in (int (period_starts period n) * 86400, int (period_ends period n) * 86400))"

definition regular_window :: "zone \<Rightarrow> string \<Rightarrow> int \<Rightarrow> bool" where
  "regular_window z period now \<longleftrightarrow> bounded_zone z \<and> regular_midnight z (fst (window_midnights z period now))
     \<and> regular_midnight z (snd (window_midnights z period now))"

text \<open>Instants later than 40 days after the epoch, so that no reading is before it.\<close>

definition settled :: "int \<Rightarrow> bool" where
  "settled now \<longleftrightarrow> 40 * 86400000 \<le> now"

lemma wall_settled:
  assumes "bounded_zone z" "settled now"
  shows "39 * 86400 \<le> wall_second z now" and "39 \<le> nat (wall_second z now) div 86400"
    and "nat (wall_second z now) div 86400 * 86400 \<le> nat (wall_second z now)"
    and "nat (wall_second z now) < (nat (wall_second z now) div 86400 + 1) * 86400"
proof -
  have "\<bar>z (now div 1000)\<bar> \<le> 86400" "40 * 86400 \<le> now div 1000"
    using assms by (auto simp: bounded_zone_def settled_def)
  then show w: "39 * 86400 \<le> wall_second z now" by (simp add: wall_second_def)
  then have "39 * 86400 \<le> nat (wall_second z now)" by simp
  then show "39 \<le> nat (wall_second z now) div 86400" using div_le_mono [of "39 * 86400" "nat (wall_second z now)" 86400] by simp
  show "nat (wall_second z now) div 86400 * 86400 \<le> nat (wall_second z now)" by (rule div_times_less_eq_dividend)
  show "nat (wall_second z now) < (nat (wall_second z now) div 86400 + 1) * 86400"
    using dividend_less_div_times [of 86400 "nat (wall_second z now)"] by simp
qed

lemma civilDateIn_settled:
  assumes "bounded_zone z" "settled now"
  shows "civilDateIn z now = civil_of_day (nat (wall_second z now) div 86400)"
  using wall_settled(1) [OF assms] by (simp add: civilDateIn_def partsIn_second)

lemma window_instants_settled:
  assumes p: "period \<in> set budget_periods" and r: "regular_window z period now" and s: "settled now"
    and w: "window_instants z period now = (a, b)"
  obtains c e where "a = 1000 * c" "b = 1000 * e"
    and "c + z c = fst (window_midnights z period now)" "e + z e = snd (window_midnights z period now)"
    and "\<And>t. fst (window_midnights z period now) \<le> t + z t \<longleftrightarrow> c \<le> t"
    and "\<And>t. snd (window_midnights z period now) \<le> t + z t \<longleftrightarrow> e \<le> t"
proof -
  let ?n = "nat (wall_second z now) div 86400" and ?s = "startCivilDate period (civilDateIn z now)"
  have b: "bounded_zone z" and rm: "regular_midnight z (fst (window_midnights z period now))"
    "regular_midnight z (snd (window_midnights z period now))"
    using r by (auto simp: regular_window_def)
  note n = wall_settled(2) [OF b s]
  have d: "fst (window_midnights z period now) = int (day_of_civil ?s) * 86400"
    "snd (window_midnights z period now) = int (day_of_civil (advance_period period ?s)) * 86400"
    by (simp_all add: window_midnights_def Let_def civilDateIn_settled [OF b s] period_starts_def period_ends_def)
  have pf: "?n - 31 \<le> period_starts period ?n" "?n < period_ends period ?n"
    using period_facts [OF p, of ?n] n by simp_all
  have "2 \<le> period_starts period ?n" "2 \<le> period_ends period ?n" using pf n by linarith+
  then have lo: "172800 \<le> fst (window_midnights z period now)" "172800 \<le> snd (window_midnights z period now)"
    by (simp_all add: window_midnights_def Let_def)
  note i = instantAtCivilMidnight_second [OF b, of ?s] instantAtCivilMidnight_second [OF b, of "advance_period period ?s"]
  have a: "a = 1000 * (fst (window_midnights z period now) - z (fst (window_midnights z period now) - z (fst (window_midnights z period now))))"
    and e: "b = 1000 * (snd (window_midnights z period now) - z (snd (window_midnights z period now) - z (snd (window_midnights z period now))))"
    using w i lo unfolding window_instants_def Let_def d by simp_all
  show ?thesis
    by (rule that [OF a e boundary(1) [OF b rm(1)] boundary(1) [OF b rm(2)] boundary(2) [OF b rm(1)] boundary(2) [OF b rm(2)]])
qed

lemma wall_at: "wall_second z (1000 * c) = c + z c"
  by (simp add: wall_second_def)

lemma window_holds_now:
  assumes p: "period \<in> set budget_periods" and r: "regular_window z period now" and s: "settled now"
    and w: "window_instants z period now = (a, b)"
  shows "a \<le> now" and "now < b"
proof -
  let ?w = "wall_second z now"
  have b: "bounded_zone z" using r by (simp add: regular_window_def)
  obtain c e where ce: "a = 1000 * c" "b = 1000 * e"
    and c: "fst (window_midnights z period now) \<le> now div 1000 + z (now div 1000) \<longleftrightarrow> c \<le> now div 1000"
    and e: "snd (window_midnights z period now) \<le> now div 1000 + z (now div 1000) \<longleftrightarrow> e \<le> now div 1000"
    using window_instants_settled [OF p r s w] by metis
  note n = wall_settled [OF b s]
  have "7 \<le> nat ?w div 86400" using n(2) by simp
  note pf = period_facts [OF p this]
  have "period_starts period (nat ?w div 86400) * 86400 \<le> nat ?w" using pf(1) n by (meson le_trans mult_le_mono1)
  then have "fst (window_midnights z period now) \<le> ?w" using n(1) by (simp add: window_midnights_def Let_def)
  then have "c \<le> now div 1000" using c by (simp add: wall_second_def)
  then show "a \<le> now" using ce by simp
  have "(nat ?w div 86400 + 1) * 86400 \<le> period_ends period (nat ?w div 86400) * 86400"
    using pf(2) n(2) by (intro mult_le_mono1) simp
  then have "nat ?w < period_ends period (nat ?w div 86400) * 86400" using n(4) by linarith
  then have "?w < snd (window_midnights z period now)" using n(1) by (simp add: window_midnights_def Let_def)
  then have "now div 1000 < e" using e by (simp add: wall_second_def)
  then show "now < b" using ce by simp
qed

text \<open>The start reads midnight on the first day, and the next window starts at the end of this one.\<close>

lemma window_starts_at_midnight:
  assumes p: "period \<in> set budget_periods" and r: "regular_window z period now" and s: "settled now"
    and w: "window_instants z period now = (a, b)"
  shows "partsIn z a = (startCivilDate period (civilDateIn z now), 0, 0, 0)"
    and "partsIn z b = (advance_period period (startCivilDate period (civilDateIn z now)), 0, 0, 0)"
proof -
  have b: "bounded_zone z" using r by (simp add: regular_window_def)
  let ?n = "nat (wall_second z now) div 86400"
  note n = wall_settled [OF b s] and cd = civilDateIn_settled [OF b s]
  have pf: "valid_civil (startCivilDate period (civil_of_day ?n))"
    "civil_of_day (period_ends period ?n) = advance_period period (startCivilDate period (civil_of_day ?n))"
    using period_facts(5) [OF p, of ?n] n(2) advance_day [OF p, of ?n] by simp_all
  obtain c e where ce: "a = 1000 * c" "b = 1000 * e"
    and m: "c + z c = fst (window_midnights z period now)" "e + z e = snd (window_midnights z period now)"
    using window_instants_settled [OF p r s w] by metis
  have "wall_second z a = int (period_starts period ?n * 86400)" "wall_second z b = int (period_ends period ?n * 86400)"
    using m by (simp_all add: ce wall_at window_midnights_def Let_def)
  then show "partsIn z a = (startCivilDate period (civilDateIn z now), 0, 0, 0)"
    "partsIn z b = (advance_period period (startCivilDate period (civilDateIn z now)), 0, 0, 0)"
    using pf unfolding cd by (simp_all only: partsIn_midnight) (simp add: period_starts_def civil_of_day_of_civil)
qed

lemma windows_adjoin:
  assumes p: "period \<in> set budget_periods" and r: "regular_window z period now" and s: "settled now"
    and w: "window_instants z period now = (a, b)" and s': "settled b"
  shows "fst (window_instants z period b) = b"
proof -
  have b: "bounded_zone z" using r by (simp add: regular_window_def)
  let ?n = "nat (wall_second z now) div 86400"
  have "civilDateIn z b = advance_period period (startCivilDate period (civilDateIn z now))"
    using window_starts_at_midnight(2) [OF p r s w] by (simp add: civilDateIn_def)
  moreover have "startCivilDate period (advance_period period (startCivilDate period (civilDateIn z now)))
      = advance_period period (startCivilDate period (civilDateIn z now))"
    using period_facts(4) [OF p, of ?n] wall_settled(2) [OF b s] advance_day [OF p, of ?n]
    by (simp add: civilDateIn_settled [OF b s])
  ultimately show ?thesis using w by (simp add: window_instants_def Let_def)
qed

section \<open>A midnight that the clocks skip\<close>

text \<open>
  West of Greenwich, clocks put forward at midnight: the instant taken for the start of the day
  is before the change, in the last hour of the day before. From then to the change the window
  of the day has already ended.
\<close>

lemma skipped_midnight:
  assumes z: "z = (\<lambda>t. if t < T then o1 else o2)" and o: "o1 < o2" "o2 \<le> 0" "- 86400 \<le> o1"
    and T: "T + o1 = int n * 86400" and n: "41 \<le> n"
    and now: "(T - (o2 - o1)) * 1000 \<le> now" "now < T * 1000"
  shows "civilDateIn z now = civil_of_day (n - 1)" and "snd (window_instants z ''daily'' now) \<le> now"
proof -
  let ?A = "int n * 86400"
  have b: "bounded_zone z" using z o by (simp add: bounded_zone_def)
  have ns: "T - (o2 - o1) \<le> now div 1000" "now div 1000 < T" using now by auto
  then have w: "wall_second z now = now div 1000 + o1" using z by (simp add: wall_second_def)
  have "settled now" using ns(1) T n o by (simp add: settled_def)
  note s = b this
  have "?A - (o2 - o1) \<le> wall_second z now" "wall_second z now < ?A" using ns T w by linarith+
  then have "int (n - 1) * 86400 \<le> wall_second z now" "wall_second z now < int (n - 1) * 86400 + 86400"
    using o n by (auto simp: of_nat_diff)
  moreover have "v div 86400 = k" if "k * 86400 \<le> v" "v < k * 86400 + 86400" for k v :: int
    using that by linarith
  ultimately have "wall_second z now div 86400 = int (n - 1)" by blast
  then have d: "nat (wall_second z now) div 86400 = n - 1"
    using wall_settled(1) [OF s] by (simp add: nat_div_distrib [symmetric])
  show c: "civilDateIn z now = civil_of_day (n - 1)" using civilDateIn_settled [OF s] d by simp
  have e: "advance_period ''daily'' (startCivilDate ''daily'' (civil_of_day (n - 1))) = civil_of_day n"
    using n by (simp add: advance_period_def startCivilDate_def addDays_day nat_add_distrib)
  have zA: "z ?A = o1" "z (?A - o1) = o2" using z T o by auto
  have "instantAtCivilMidnight z (civil_of_day n) = 1000 * (?A - o2)"
    using instantAtCivilMidnight_second [OF b, of "civil_of_day n"] n zA by simp
  then show "snd (window_instants z ''daily'' now) \<le> now"
    using e now(1) T by (simp add: window_instants_def Let_def c)
qed

section \<open>Spending\<close>

lemma spendIn_instants:
  assumes "\<forall>u \<in> set (usage_events d). us_occurred_at u = toISOString (tm u) \<and> tm u < last_ms" "a < last_ms" "b < last_ms"
  shows "spendIn d (toISOString a, toISOString b)
    = (let costs = List.map_filter us_cost_usd (filter (\<lambda>u. a \<le> tm u \<and> tm u < b) (usage_events d))
       in \<lparr>ps_spentUsd = sum_list costs, ps_callCount = length costs\<rparr>)"
proof -
  have "filter (\<lambda>u. toISOString a \<le> us_occurred_at u \<and> us_occurred_at u < toISOString b) (usage_events d)
      = filter (\<lambda>u. a \<le> tm u \<and> tm u < b) (usage_events d)"
    by (rule filter_cong) (use assms in \<open>auto simp: toISOString_le toISOString_less\<close>)
  then show ?thesis by (simp add: spendIn_def)
qed

lemma map_filter_parts:
  assumes "\<And>x. R x \<longleftrightarrow> P x \<or> Q x" "\<And>x. \<not> (P x \<and> Q x)"
  shows "sum_list (List.map_filter f (filter P xs)) + sum_list (List.map_filter f (filter Q xs))
      = (sum_list (List.map_filter f (filter R xs)) :: rat)"
    and "length (List.map_filter f (filter P xs)) + length (List.map_filter f (filter Q xs))
      = length (List.map_filter f (filter R xs))"
  using assms by (induction xs) (auto simp: List.map_filter_def split: option.splits)

lemma spendIn_adjoining:
  assumes "x \<le> y" "y \<le> z"
  shows "ps_spentUsd (spendIn d (x, y)) + ps_spentUsd (spendIn d (y, z)) = ps_spentUsd (spendIn d (x, z))"
    and "ps_callCount (spendIn d (x, y)) + ps_callCount (spendIn d (y, z)) = ps_callCount (spendIn d (x, z))"
proof -
  have "(x \<le> v \<and> v < z) \<longleftrightarrow> (x \<le> v \<and> v < y) \<or> (y \<le> v \<and> v < z)" "\<not> ((x \<le> v \<and> v < y) \<and> (y \<le> v \<and> v < z))" for v :: string
    using assms by (auto intro: order.trans order.strict_trans1 order.strict_trans2 simp: not_less [symmetric])
  then show "ps_spentUsd (spendIn d (x, y)) + ps_spentUsd (spendIn d (y, z)) = ps_spentUsd (spendIn d (x, z))"
    "ps_callCount (spendIn d (x, y)) + ps_callCount (spendIn d (y, z)) = ps_callCount (spendIn d (x, z))"
    unfolding spendIn_def Let_def fst_conv snd_conv period_spend.simps
    by (intro map_filter_parts; blast)+
qed

section \<open>The service\<close>

text \<open>There is at most one budget, on one of the known periods.\<close>

definition budgets_ok :: "database \<Rightarrow> bool" where
  "budgets_ok d \<longleftrightarrow> length (spend_budget d) \<le> 1
     \<and> (\<forall>b \<in> set (spend_budget d). bud_singleton b = 1 \<and> bud_period b \<in> set budget_periods)"

lemma budget_row_ok: "budgets_ok d \<Longrightarrow> budget_row d = Some r \<Longrightarrow> spend_budget d = [r] \<and> bud_period r \<in> set budget_periods"
  by (cases "spend_budget d") (auto simp: budgets_ok_def budget_row_def)

lemma budget_row_none: "budgets_ok d \<Longrightarrow> budget_row d = None \<longleftrightarrow> spend_budget d = []"
  by (cases "spend_budget d") (auto simp: budgets_ok_def budget_row_def)

definition default_budget :: "spend_budget_row \<Rightarrow> bool" where
  "default_budget r \<longleftrightarrow> bud_limit_usd r = None \<and> bud_period r = ''monthly''"

text \<open>Reading provisions the row when there is none, and changes nothing else.\<close>

definition provisioned :: "database \<Rightarrow> spend_budget_row \<Rightarrow> database \<Rightarrow> bool" where
  "provisioned d r d' \<longleftrightarrow> budgets_ok d' \<and> d' = d\<lparr>spend_budget := [r]\<rparr>
     \<and> (case budget_row d of Some r' \<Rightarrow> r = r' | None \<Rightarrow> default_budget r)"

lemma provision_budget_facts:
  assumes "budgets_ok d" "provision_budget i now d = Inr d'"
  shows "\<exists>r. budget_row d' = Some r \<and> provisioned d r d'"
proof (cases "budget_row d")
  case None
  then have "spend_budget d = []" using budget_row_none [OF assms(1)] by simp
  then show ?thesis
    using assms None
    by (auto simp: provision_budget_def provisioned_def budgets_ok_def budget_row_def budget_periods_def default_budget_def
        split: if_splits)
next
  case (Some r)
  then have "spend_budget d = [r]" using budget_row_ok [OF assms(1)] by blast
  then have "d\<lparr>spend_budget := [r]\<rparr> = d" by (cases d) simp
  then show ?thesis using assms Some by (auto simp: provision_budget_def provisioned_def)
qed

lemma wp_readBudget:
  assumes "budgets_ok (db w)"
  shows "wp (readBudget env) (\<lambda>r w'. budget_row (db w') = Some r \<and> provisioned (db w) r (db w'))
    (\<lambda>_ w'. db w' = db w) w"
  unfolding readBudget_def
  by (rule wp_transaction_cases)
    (use provision_budget_facts [OF assms] in \<open>fastforce simp: wp_simps split: option.split sum.split\<close>)

lemma wp_findBudget:
  assumes ok: "budgets_ok (db w)"
  shows "wp (findBudget env zones) (\<lambda>r w'. \<exists>row. provisioned (db w) row (db w')
      \<and> r = budget_response_of zones (clock env (ticks w)) row (db w')) (\<lambda>_ w'. db w' = db w) w"
  unfolding findBudget_def wp_simps
  by (rule wp_mono [OF wp_readBudget]) (use ok in auto)

lemma bud_id_row: "budgets_ok d \<Longrightarrow> budget_row d = Some r \<Longrightarrow>
    spend_budget (d\<lparr>spend_budget := map (\<lambda>b. if bud_id b = bud_id r then f b else b) (spend_budget d)\<rparr>) = [f r]"
  using budget_row_ok [of d r] by simp

text \<open>An update stores what the response reports, in the same single row.\<close>

lemma wp_updateBudget:
  assumes ok: "budgets_ok (db w)" and p: "case ub_period dto of None \<Rightarrow> True | Some p \<Rightarrow> p \<in> set budget_periods"
  shows "wp (updateBudget env zones dto) (\<lambda>r w'. \<exists>old t row. provisioned (db w) old ((db w')\<lparr>spend_budget := [old]\<rparr>)
      \<and> row = bs_updatedRow (applyBudgetUpdates old dto t) \<and> budgets_ok (db w') \<and> spend_budget (db w') = [row]
      \<and> r = budget_response_of zones (clock env (ticks w)) row (db w')) (\<lambda>_ _. True) w"
proof -
  have step: "wp (bnd (if bs_hasChanges (applyBudgetUpdates existing dto []) then
            bnd (now_iso env) (\<lambda>t.
            let result = applyBudgetUpdates existing dto t in
            bnd (exec_write env (update_budget_columns (bud_id existing) (bs_limit result) (bs_period result) t))
              (\<lambda>_. ret (bs_updatedRow result)))
          else ret existing) (\<lambda>row. select (budget_response_of zones now row)))
     (\<lambda>r w'. \<exists>old t row. provisioned d0 old ((db w')\<lparr>spend_budget := [old]\<rparr>)
      \<and> row = bs_updatedRow (applyBudgetUpdates old dto t) \<and> budgets_ok (db w') \<and> spend_budget (db w') = [row]
      \<and> r = budget_response_of zones now row (db w')) (\<lambda>_ _. True) w1"
    if row: "budget_row (db w1) = Some existing" and pr: "provisioned d0 existing (db w1)" for existing d0 w1 now
  proof -
    have b: "budgets_ok (db w1)" using pr unfolding provisioned_def by (rule conjunct1)
    have s: "spend_budget (db w1) = [existing]" "bud_period existing \<in> set budget_periods"
      using budget_row_ok [OF b row] by blast+
    have same: "(db w1)\<lparr>spend_budget := [existing]\<rparr> = db w1" using s(1) by (cases "db w1") simp
    have one: "bud_singleton existing = 1" using b s(1) by (simp add: budgets_ok_def)
    have idle: "bs_updatedRow (applyBudgetUpdates existing dto []) = existing"
      if "\<not> bs_hasChanges (applyBudgetUpdates existing dto [])"
      using that by (simp add: applyBudgetUpdates_def Let_def)
    have pp: "bs_period (applyBudgetUpdates existing dto t) = None
        \<or> (\<exists>q. bs_period (applyBudgetUpdates existing dto t) = Some q \<and> q \<in> set budget_periods)" for t
      using p by (auto simp: applyBudgetUpdates_def Let_def changed_def split: option.splits)
    have upd: "bs_updatedRow (applyBudgetUpdates existing dto t)
        = existing\<lparr>bud_limit_usd := from_option (bud_limit_usd existing) (bs_limit (applyBudgetUpdates existing dto t)),
            bud_period := from_option (bud_period existing) (bs_period (applyBudgetUpdates existing dto t)), bud_updated_at := t\<rparr>"
      if "bs_hasChanges (applyBudgetUpdates existing dto [])" for t
      using that by (simp add: applyBudgetUpdates_def Let_def)
    show ?thesis
    proof (cases "bs_hasChanges (applyBudgetUpdates existing dto [])")
      case False
      have "provisioned d0 existing ((db w1)\<lparr>spend_budget := [existing]\<rparr>)
          \<and> existing = bs_updatedRow (applyBudgetUpdates existing dto []) \<and> budgets_ok (db w1)
          \<and> spend_budget (db w1) = [existing]"
        unfolding same idle [OF False] using b s(1) pr by blast
      then show ?thesis unfolding if_not_P [OF False] wp_ret wp_bnd wp_select by blast
    next
      case True
      have "update_budget_columns (bud_id existing) (bs_limit (applyBudgetUpdates existing dto t))
          (bs_period (applyBudgetUpdates existing dto t)) t (db w1)
        = Inr ((db w1)\<lparr>spend_budget := [bs_updatedRow (applyBudgetUpdates existing dto t)]\<rparr>)" for t
        using pp [of t] s by (auto simp: update_budget_columns_def upd [OF True])
      moreover have "budgets_ok ((db w1)\<lparr>spend_budget := [bs_updatedRow (applyBudgetUpdates existing dto t)]\<rparr>)" for t
        using pp [of t] s one by (auto simp: budgets_ok_def upd [OF True])
      moreover have "provisioned d0 existing ((db w1)\<lparr>spend_budget := [existing]\<rparr>)" unfolding same by (rule pr)
      ultimately show ?thesis using True
        by (auto simp: wp_simps Let_def split: option.split)
    qed
  qed
  show ?thesis
    unfolding updateBudget_def wp_bnd wp_date_now
    by (rule wp_mono [OF wp_readBudget]) (use ok step in \<open>auto simp: wp_bnd\<close>)
qed

section \<open>What a response counts\<close>

definition events_timed :: "(usage_row \<Rightarrow> nat) \<Rightarrow> database \<Rightarrow> bool" where
  "events_timed tm d \<longleftrightarrow> (\<forall>u \<in> set (usage_events d). us_occurred_at u = toISOString (tm u) \<and> tm u < last_ms)"

definition user_clocks :: "(string \<Rightarrow> zone option) \<Rightarrow> database \<Rightarrow> zone" where
  "user_clocks zones d = clocks zones (usableZone zones (user_timezone d))"

definition counts_period :: "zone \<Rightarrow> nat \<Rightarrow> (usage_row \<Rightarrow> nat) \<Rightarrow> database \<Rightarrow> budget_response \<Rightarrow> bool" where
  "counts_period z now tm d r \<longleftrightarrow> (\<exists>a b. br_periodStart r = toISOString a \<and> br_periodEnd r = toISOString b
     \<and> a \<le> now \<and> now < b
     \<and> partsIn z (int a) = (startCivilDate (br_period r) (civilDateIn z (int now)), 0, 0, 0)
     \<and> fst (window_instants z (br_period r) (int b)) = int b
     \<and> (let costs = List.map_filter us_cost_usd (filter (\<lambda>u. a \<le> tm u \<and> tm u < b) (usage_events d))
        in br_spentUsd r = roundUsd (sum_list costs) \<and> br_callCount r = length costs))"

lemma period_ends_bound:
  assumes p: "period \<in> set budget_periods" and n: "7 \<le> n"
  shows "period_ends period n \<le> n + 31"
proof -
  consider "period = ''daily''" | "period = ''weekly''" | "period = ''monthly''" using p by (auto simp: budget_periods_def)
  then show ?thesis
  proof cases
    case 1
    then show ?thesis by (simp add: period_ends_def startCivilDate_def advance_period_def addDays_day nat_add_distrib)
  next
    case 2
    then show ?thesis
      by (simp add: period_ends_def weekly_start [OF n] advance_period_def addDays_day nat_add_distrib)
  next
    case 3
    have v: "valid_civil (civil_of_day n)" by simp
    then have "1 \<le> cv_month (civil_of_day n)" "cv_month (civil_of_day n) \<le> 12" by (auto simp: valid_civil_def)
    then show ?thesis
      using 3 month_end(1) [OF v] month_days_bound [of "cv_month (civil_of_day n)" "cv_year (civil_of_day n)"]
        period_facts(1) [OF p n]
      by (simp add: period_ends_def period_starts_def startCivilDate_def)
  qed
qed

text \<open>Nor so late that an end is past the years of four digits.\<close>

definition datable :: "nat \<Rightarrow> bool" where
  "datable now \<longleftrightarrow> settled (int now) \<and> now + 34 * 86400000 < last_ms"

lemma response_counts:
  assumes t: "events_timed tm d" and dt: "datable now" and p: "bud_period row \<in> set budget_periods"
    and r': "regular_window (user_clocks zones d) (bud_period row) (int now)"
  shows "counts_period (user_clocks zones d) now tm d (budget_response_of zones now row d)"
proof -
  let ?z = "user_clocks zones d"
  obtain a b where w: "window_instants ?z (bud_period row) (int now) = (a, b)" by fastforce
  have s: "settled (int now)" using dt by (simp add: datable_def)
  have bz: "bounded_zone ?z" using r' by (simp add: regular_window_def)
  obtain c e where c: "a = 1000 * c" "c + ?z c = fst (window_midnights ?z (bud_period row) (int now))"
    and e: "b = 1000 * e" "e + ?z e = snd (window_midnights ?z (bud_period row) (int now))"
    using window_instants_settled [OF p r' s w] by metis
  let ?n = "nat (wall_second ?z (int now)) div 86400"
  have n: "39 \<le> ?n" by (rule wall_settled(2) [OF bz s])
  moreover have "?n - 31 \<le> period_starts (bud_period row) ?n" using period_facts(3) [OF p, of ?n] n by linarith
  ultimately have "2 \<le> period_starts (bud_period row) ?n" by linarith
  then have "172800 \<le> c + ?z c" using c(2) by (simp add: window_midnights_def Let_def)
  moreover have z: "\<bar>?z t\<bar> \<le> 86400" for t using bz by (simp add: bounded_zone_def)
  ultimately have a0: "0 \<le> a" using c(1) z [of c] by linarith
  have "e + ?z e \<le> int ((?n + 31) * 86400)"
    unfolding e(2) using period_ends_bound [OF p, of ?n] n by (simp add: window_midnights_def Let_def)
  moreover have "int (?n * 86400) \<le> wall_second ?z (int now)"
    using wall_settled(1,3) [OF bz s] by linarith
  moreover have "v \<le> u + 33 * 86400"
    if "v + x \<le> int ((k + 31) * 86400)" "int (k * 86400) \<le> u + y" "\<bar>x\<bar> \<le> 86400" "\<bar>y\<bar> \<le> 86400" for k u v x y
    using that by simp
  ultimately have "e \<le> int now div 1000 + 33 * 86400"
    using z unfolding wall_second_def by blast
  then have hi: "b < int last_ms" using dt e(1) unfolding datable_def by linarith
  have h: "a \<le> int now" "int now < b" using window_holds_now [OF p r' s w] by blast+
  have ints: "int (nat a) = a" "int (nat b) = b" using a0 h by simp_all
  have nats: "nat a \<le> now" "now < nat b" using h a0 by linarith+
  have b': "settled b" using s h(2) by (simp add: settled_def)
  have resp: "budget_response_of zones now row d
      = mapBudgetToResponse row (toISOString (nat a), toISOString (nat b)) (spendIn d (toISOString (nat a), toISOString (nat b)))"
    using w by (simp add: budget_response_of_def periodWindow_def user_clocks_def Let_def)
  have sp: "spendIn d (toISOString (nat a), toISOString (nat b))
    = (let costs = List.map_filter us_cost_usd (filter (\<lambda>u. nat a \<le> tm u \<and> tm u < nat b) (usage_events d))
       in \<lparr>ps_spentUsd = sum_list costs, ps_callCount = length costs\<rparr>)"
    by (rule spendIn_instants) (use t hi h in \<open>auto simp: events_timed_def\<close>)
  show ?thesis
    unfolding counts_period_def resp
    by (rule exI [where x = "nat a"], rule exI [where x = "nat b"])
      (use h a0 window_starts_at_midnight(1) [OF p r' s w] windows_adjoin [OF p r' s w b'] in
        \<open>simp add: mapBudgetToResponse_def sp Let_def ints nats\<close>)
qed

lemma fixed_offset_regular: "\<bar>off\<bar> \<le> 86400 \<Longrightarrow> regular_window (\<lambda>_. off) period now"
proof -
  assume "\<bar>off\<bar> \<le> 86400"
  moreover from this have "regular_midnight (\<lambda>_. off) A" for A
    unfolding regular_midnight_def by (intro exI [where x = "A - off"] exI [where x = off]) simp
  ultimately show ?thesis by (simp add: regular_window_def bounded_zone_def)
qed

end
