(* ===== verification/JsonText.thy ===== *)
theory JsonText
  imports ModelErrors Persistence
begin

text \<open>
  \<open>JSON.parse\<close>, and \<open>JSON.stringify\<close> of a list of strings, as the tags of memories use
  them, on the Latin-1 alphabet: a text with an escape \<open>\u0100\<close> or above has no reading here.
  The members of an object are kept in their order with duplicates. Reading carries fuel; each
  step takes a character, so twice the length of the text is enough.
\<close>

section \<open>Writing\<close>

definition json_escape :: "char \<Rightarrow> string" where
  "json_escape c = (let n = code_unit c in
     if n = 0x22 then [CHR 0x5C, CHR 0x22] else if n = 0x5C then [CHR 0x5C, CHR 0x5C]
     else if n = 8 then [CHR 0x5C, CHR ''b''] else if n = 9 then [CHR 0x5C, CHR ''t'']
     else if n = 10 then [CHR 0x5C, CHR ''n''] else if n = 12 then [CHR 0x5C, CHR ''f'']
     else if n = 13 then [CHR 0x5C, CHR ''r'']
     else if n < 32 then [CHR 0x5C, CHR ''u'', CHR ''0'', CHR ''0'', hex_digit (n div 16), hex_digit (n mod 16)]
     else [c])"

definition json_string :: "string \<Rightarrow> string" where
  "json_string s = [CHR 0x22] @ concat (map json_escape s) @ [CHR 0x22]"

definition stringify_strings :: "string list \<Rightarrow> string" where
  "stringify_strings xs = ''['' @ js_join '','' (map json_string xs) @ '']''"

section \<open>Reading\<close>

definition json_ws :: "char \<Rightarrow> bool" where
  "json_ws c = (code_unit c \<in> {9, 10, 13, 32})"

definition skip_ws :: "string \<Rightarrow> string" where
  "skip_ws s = dropWhile json_ws s"

definition hex_value :: "char \<Rightarrow> nat option" where
  "hex_value c = (let n = code_unit c in
     if 48 \<le> n \<and> n \<le> 57 then Some (n - 48) else if 97 \<le> n \<and> n \<le> 102 then Some (n - 87)
     else if 65 \<le> n \<and> n \<le> 70 then Some (n - 55) else None)"

definition hex4 :: "char \<Rightarrow> char \<Rightarrow> char \<Rightarrow> char \<Rightarrow> nat option" where
  "hex4 a b c d = (case (hex_value a, hex_value b, hex_value c, hex_value d) of
     (Some i, Some j, Some k, Some l) \<Rightarrow> Some (((i * 16 + j) * 16 + k) * 16 + l) | _ \<Rightarrow> None)"

definition simple_escape :: "char \<Rightarrow> char option" where
  "simple_escape e = (let n = code_unit e in
     if n \<in> {0x22, 0x5C, 0x2F} then Some e
     else if e = CHR ''b'' then Some (char_of (8 :: nat)) else if e = CHR ''f'' then Some (char_of (12 :: nat))
     else if e = CHR ''n'' then Some (char_of (10 :: nat)) else if e = CHR ''r'' then Some (char_of (13 :: nat))
     else if e = CHR ''t'' then Some (char_of (9 :: nat)) else None)"

definition put_char :: "char \<Rightarrow> (string \<times> string) option \<Rightarrow> (string \<times> string) option" where
  "put_char c x = map_option (\<lambda>(t, r). (c # t, r)) x"

text \<open>The characters up to the closing quote, and what follows it.\<close>

fun json_chars :: "string \<Rightarrow> (string \<times> string) option" where
  "json_chars [] = None"
| "json_chars (c # s) =
     (if code_unit c = 0x22 then Some ([], s)
      else if code_unit c = 0x5C
      then (case s of [] \<Rightarrow> None
            | e # s' \<Rightarrow>
               if e = CHR ''u''
               then (case s' of a # b # x # y # s'' \<Rightarrow>
                        (case hex4 a b x y of None \<Rightarrow> None
                         | Some n \<Rightarrow> if n < 256 then put_char (char_of n) (json_chars s'') else None)
                     | _ \<Rightarrow> None)
               else (case simple_escape e of None \<Rightarrow> None | Some x \<Rightarrow> put_char x (json_chars s')))
      else if code_unit c < 32 then None
      else put_char c (json_chars s))"

definition is_digit :: "char \<Rightarrow> bool" where
  "is_digit c = (48 \<le> code_unit c \<and> code_unit c \<le> 57)"

definition digits_value :: "string \<Rightarrow> nat" where
  "digits_value s = foldl (\<lambda>n c. 10 * n + (code_unit c - 48)) 0 s"

definition json_fraction :: "string \<Rightarrow> (rat \<times> string) option" where
  "json_fraction s = (case s of
     c # r \<Rightarrow> if c = CHR ''.''
       then (let f = takeWhile is_digit r in
             if f = [] then None else Some (of_nat (digits_value f) / 10 ^ length f, dropWhile is_digit r))
       else Some (0, s)
   | [] \<Rightarrow> Some (0, []))"

definition json_exponent :: "string \<Rightarrow> (rat \<times> string) option" where
  "json_exponent s = (case s of
     c # r \<Rightarrow> if c = CHR ''e'' \<or> c = CHR ''E''
       then (let minus = (case r of x # _ \<Rightarrow> x = CHR ''-'' | [] \<Rightarrow> False);
                 r' = (case r of x # t \<Rightarrow> if x = CHR ''-'' \<or> x = CHR ''+'' then t else r | [] \<Rightarrow> []);
                 e = takeWhile is_digit r' in
             if e = [] then None
             else Some (if minus then 1 / 10 ^ digits_value e else 10 ^ digits_value e, dropWhile is_digit r'))
       else Some (1, s)
   | [] \<Rightarrow> Some (1, []))"

definition json_number :: "string \<Rightarrow> (rat \<times> string) option" where
  "json_number s =
     (let minus = (case s of c # _ \<Rightarrow> c = CHR ''-'' | [] \<Rightarrow> False); s' = (if minus then tl s else s);
          whole = takeWhile is_digit s' in
      if whole = [] \<or> (hd whole = CHR ''0'' \<and> length whole > 1) then None
      else (case json_fraction (dropWhile is_digit s') of None \<Rightarrow> None
       | Some (f, r) \<Rightarrow> (case json_exponent r of None \<Rightarrow> None
          | Some (e, r') \<Rightarrow> Some ((if minus then -1 else 1) * (of_nat (digits_value whole) + f) * e, r'))))"

definition literal :: "string \<Rightarrow> json \<Rightarrow> string \<Rightarrow> (json \<times> string) option" where
  "literal word v s = (if prefix word s then Some (v, drop (length word) s) else None)"

fun json_value :: "nat \<Rightarrow> string \<Rightarrow> (json \<times> string) option"
  and json_elements :: "nat \<Rightarrow> string \<Rightarrow> (json list \<times> string) option"
  and json_members :: "nat \<Rightarrow> string \<Rightarrow> ((string \<times> json) list \<times> string) option" where
  "json_value 0 s = None"
| "json_value (Suc n) s = (case skip_ws s of [] \<Rightarrow> None
   | c # r \<Rightarrow>
      if code_unit c = 0x22 then map_option (\<lambda>(t, r'). (JStr t, r')) (json_chars r)
      else if c = CHR ''['' then
        (case skip_ws r of [] \<Rightarrow> None
         | e # r' \<Rightarrow> if e = CHR '']'' then Some (JArr [], r')
                    else map_option (\<lambda>(vs, r''). (JArr vs, r'')) (json_elements n r))
      else if c = CHR ''{'' then
        (case skip_ws r of [] \<Rightarrow> None
         | e # r' \<Rightarrow> if e = CHR ''}'' then Some (JObj [], r')
                    else map_option (\<lambda>(vs, r''). (JObj vs, r'')) (json_members n r))
      else if c = CHR ''t'' then literal ''true'' (JBool True) (c # r)
      else if c = CHR ''f'' then literal ''false'' (JBool False) (c # r)
      else if c = CHR ''n'' then literal ''null'' JNull (c # r)
      else map_option (\<lambda>(q, r'). (JNum q, r')) (json_number (c # r)))"
| "json_elements 0 s = None"
| "json_elements (Suc n) s = (case json_value n s of None \<Rightarrow> None
   | Some (v, r) \<Rightarrow> (case skip_ws r of [] \<Rightarrow> None
      | c # r' \<Rightarrow> if c = CHR '']'' then Some ([v], r')
                 else if c = CHR '','' then map_option (\<lambda>(vs, r''). (v # vs, r'')) (json_elements n r')
                 else None))"
| "json_members 0 s = None"
| "json_members (Suc n) s = (case skip_ws s of [] \<Rightarrow> None
   | q # s' \<Rightarrow> if code_unit q \<noteq> 0x22 then None
     else (case json_chars s' of None \<Rightarrow> None
      | Some (k, r) \<Rightarrow> (case skip_ws r of [] \<Rightarrow> None
         | c # r' \<Rightarrow> if c \<noteq> CHR '':'' then None
           else (case json_value n r' of None \<Rightarrow> None
            | Some (v, t) \<Rightarrow> (case skip_ws t of [] \<Rightarrow> None
               | e # t' \<Rightarrow> if e = CHR ''}'' then Some ([(k, v)], t')
                          else if e = CHR '','' then map_option (\<lambda>(ms, t''). ((k, v) # ms, t'')) (json_members n t')
                          else None)))))"

definition parse_json :: "string \<Rightarrow> json option" where
  "parse_json s = (case json_value (2 * length s + 2) s of None \<Rightarrow> None
     | Some (v, r) \<Rightarrow> if skip_ws r = [] then Some v else None)"

section \<open>What is written is what is read\<close>

lemma hex_value_digit: "n < 16 \<Longrightarrow> hex_value (hex_digit n) = Some n"
  by (auto simp: hex_value_def hex_digit_def code_unit_def Let_def)

lemma char_of_code_unit [simp]: "char_of (code_unit c) = c"
  by (simp add: code_unit_def)

lemma json_chars_escape: "json_chars (json_escape c @ s) = put_char c (json_chars s)"
proof -
  define n where "n = code_unit c"
  have c: "c = char_of n" by (simp add: n_def)
  have u: "code_unit CHR 0x22 = 0x22" "code_unit CHR 0x5C = 0x5C" by (simp_all add: code_unit_def)
  have e: "simple_escape CHR ''b'' = Some (char_of (8 :: nat))" "simple_escape CHR ''f'' = Some (char_of (12 :: nat))"
    "simple_escape CHR ''n'' = Some (char_of (10 :: nat))" "simple_escape CHR ''r'' = Some (char_of (13 :: nat))"
    "simple_escape CHR ''t'' = Some (char_of (9 :: nat))" "simple_escape CHR 0x22 = Some CHR 0x22"
    "simple_escape CHR 0x5C = Some CHR 0x5C"
    by (simp_all add: simple_escape_def code_unit_def Let_def)
  consider "n \<in> {0x22, 0x5C, 8, 9, 10, 12, 13}" | "n \<notin> {0x22, 0x5C, 8, 9, 10, 12, 13}" "n < 32"
    | "n \<notin> {0x22, 0x5C, 8, 9, 10, 12, 13}" "\<not> n < 32"
    by blast
  then show ?thesis
  proof cases
    case 1
    have k: "c = CHR 0x22" if "n = 0x22" using c that char_of_code_unit [of "CHR 0x22"] u by simp
    have b: "c = CHR 0x5C" if "n = 0x5C" using c that char_of_code_unit [of "CHR 0x5C"] u by simp
    have "json_escape c = (if n = 0x22 then [CHR 0x5C, CHR 0x22] else if n = 0x5C then [CHR 0x5C, CHR 0x5C]
        else if n = 8 then [CHR 0x5C, CHR ''b''] else if n = 9 then [CHR 0x5C, CHR ''t'']
        else if n = 10 then [CHR 0x5C, CHR ''n''] else if n = 12 then [CHR 0x5C, CHR ''f''] else [CHR 0x5C, CHR ''r''])"
      using 1 unfolding json_escape_def Let_def n_def [symmetric] by auto
    then show ?thesis using 1 k b c by (elim insertE) (simp_all add: u e)
  next
    case 2
    have "hex_value CHR ''0'' = Some 0" by (simp add: hex_value_def code_unit_def)
    then have h: "hex4 CHR ''0'' CHR ''0'' (hex_digit (n div 16)) (hex_digit (n mod 16)) = Some n"
      using 2(2) by (simp add: hex4_def hex_value_digit)
    have "json_escape c = [CHR 0x5C, CHR ''u'', CHR ''0'', CHR ''0'', hex_digit (n div 16), hex_digit (n mod 16)]"
      using 2 unfolding json_escape_def Let_def n_def [symmetric] by auto
    then show ?thesis using 2(2) h c [symmetric] by (simp add: u)
  next
    case 3
    then show ?thesis by (simp add: json_escape_def Let_def n_def [symmetric])
  qed
qed

lemma json_chars_string: "json_chars (concat (map json_escape t) @ CHR 0x22 # r) = Some (t, r)"
  by (induction t) (simp_all add: json_chars_escape put_char_def code_unit_def)

declare json_chars.simps [simp del]

lemma json_value_string: "json_value (Suc n) (json_string t @ r) = Some (JStr t, r)"
  using json_chars_string [of t r] by (simp add: json_string_def skip_ws_def json_ws_def code_unit_def)

lemma json_elements_strings:
  "length ts < n \<Longrightarrow> json_elements (Suc n) (js_join '','' (map json_string (t # ts)) @ CHR '']'' # r)
     = Some (map JStr (t # ts), r)"
proof (induction ts arbitrary: n t)
  case Nil
  then show ?case
    by (cases n) (simp_all del: json_value.simps add: json_value_string skip_ws_def json_ws_def code_unit_def)
next
  case (Cons u us)
  then obtain m where n: "n = Suc m" "length us < m" by (cases n) auto
  have "json_elements (Suc n) (json_string t @ CHR '','' # js_join '','' (map json_string (u # us)) @ CHR '']'' # r)
      = Some (map JStr (t # u # us), r)"
    unfolding json_elements.simps(2) using Cons.IH [OF n(2), of u]
    by (simp del: json_value.simps json_elements.simps add: n(1) json_value_string skip_ws_def json_ws_def code_unit_def)
  then show ?case by simp
qed

lemma json_string_length: "2 \<le> length (json_string t)"
  by (simp add: json_string_def)

lemma join_length: "length ts \<le> length (js_join '','' (map json_string ts))"
proof (induction ts rule: induct_list012)
  case (3 t u us)
  then show ?case using json_string_length [of t] by simp
qed (simp_all add: json_string_def)

lemma parse_stringify: "parse_json (stringify_strings ts) = Some (JArr (map JStr ts))"
proof (cases ts)
  case Nil
  have "json_value (Suc 5) ''[]'' = Some (JArr [], [])"
    unfolding json_value.simps(2) by (simp add: skip_ws_def json_ws_def code_unit_def)
  then show ?thesis using Nil by (simp del: json_value.simps add: parse_json_def stringify_strings_def skip_ws_def)
next
  case (Cons t us)
  let ?s = "stringify_strings ts"
  obtain k where k: "2 * length ?s + 2 = Suc (Suc k)" "length us < k"
    using join_length [of ts] Cons by (auto simp: stringify_strings_def)
  have s: "?s = CHR ''['' # js_join '','' (map json_string (t # us)) @ [CHR '']'']"
    by (simp add: stringify_strings_def Cons)
  have q: "\<exists>x. js_join '','' (map json_string (t # us)) @ [CHR '']''] = CHR 0x22 # x"
    by (cases us) (simp_all add: json_string_def)
  then obtain x where x: "js_join '','' (map json_string (t # us)) @ [CHR '']''] = CHR 0x22 # x" by blast
  have e: "json_elements (Suc k) (CHR 0x22 # x) = Some (map JStr (t # us), [])"
    using json_elements_strings [OF k(2), of t "[]"] x by simp
  have "json_value (Suc (Suc k)) (CHR ''['' # CHR 0x22 # x) = Some (JArr (map JStr (t # us)), [])"
    unfolding json_value.simps(2) using e
    by (simp del: json_elements.simps add: skip_ws_def json_ws_def code_unit_def)
  moreover have "parse_json ?s = (case json_value (Suc (Suc k)) ?s of None \<Rightarrow> None
      | Some (v, r) \<Rightarrow> if skip_ws r = [] then Some v else None)"
    unfolding parse_json_def k(1) by (rule refl)
  ultimately show ?thesis unfolding s x using Cons by (simp del: json_value.simps add: skip_ws_def)
qed

end
