(* ===== verification/Memories.thy ===== *)
theory Memories
  imports Chats JsonText
begin

text \<open>
  \<open>modules/memory/\<close>: tags (\<open>tags/tag-helpers.ts\<close>), the private memories of an agent and the
  memories shared by all. A tag filter is the SQL clause with its parameters, and beside it
  what SQLite makes of that clause on a row.
\<close>

section \<open>Tags\<close>

definition MAX_TAG_LENGTH :: nat where
  "MAX_TAG_LENGTH = 50"

definition MAX_TAGS_PER_MEMORY :: nat where
  "MAX_TAGS_PER_MEMORY = 50"

definition normalizeTag :: "string \<Rightarrow> string option" where
  "normalizeTag tag = (let trimmed = js_lower (js_trim tag) in
     if trimmed = [] then None else Some (take MAX_TAG_LENGTH trimmed))"

definition normalized_tags :: "string list \<Rightarrow> string list" where
  "normalized_tags tags = List.map_filter normalizeTag tags"

definition unique_sorted :: "string list \<Rightarrow> string list" where
  "unique_sorted cleaned = take MAX_TAGS_PER_MEMORY (sort (remdups cleaned))"

definition normalizeTagsOnWrite :: "string list option \<Rightarrow> string option" where
  "normalizeTagsOnWrite tags = (case tags of None \<Rightarrow> None
     | Some ts \<Rightarrow> (let cleaned = normalized_tags ts in
         if cleaned = [] then None else Some (stringify_strings (unique_sorted cleaned))))"

fun json_text :: "json \<Rightarrow> string option" where
  "json_text (JStr s) = Some s"
| "json_text _ = None"

text \<open>Of a column, which holds text or \<open>NULL\<close>.\<close>

definition parseTagsOnRead :: "string option \<Rightarrow> string list" where
  "parseTagsOnRead rawTags = (case rawTags of None \<Rightarrow> []
     | Some t \<Rightarrow> if t = [] then [] else
         (case parse_json t of Some (JArr xs) \<Rightarrow> List.map_filter json_text xs | _ \<Rightarrow> []))"

subsection \<open>Filters\<close>

datatype tag_input = TagText string | TagList "string list"

fun split_commas :: "string \<Rightarrow> string list" where
  "split_commas [] = [[]]"
| "split_commas (c # s) = (if c = CHR '','' then [] # split_commas s
     else (case split_commas s of x # xs \<Rightarrow> (c # x) # xs | [] \<Rightarrow> [[c]]))"

text \<open>A \<open>Set\<close> keeps the first occurrence of each value.\<close>

definition js_set :: "'a list \<Rightarrow> 'a list" where
  "js_set xs = rev (remdups (rev xs))"

definition parseTagFilterInput :: "tag_input \<Rightarrow> string list" where
  "parseTagFilterInput input = js_set (normalized_tags
     (case input of TagText s \<Rightarrow> split_commas s | TagList ts \<Rightarrow> ts))"

datatype tag_mode = TagsAll | TagsAny

record tag_predicate =
  tp_sqlClause :: string
  tp_params :: "string list"

definition any_clause :: "string \<Rightarrow> nat \<Rightarrow> string" where
  "any_clause column n = ''('' @ column @ '' IS NOT NULL AND json_valid('' @ column
     @ '') = 1 AND EXISTS (SELECT 1 FROM json_each('' @ column @ '') WHERE json_each.value IN (''
     @ js_join '', '' (replicate n ''?'') @ '')))''"

definition all_clause :: "string \<Rightarrow> nat \<Rightarrow> string" where
  "all_clause column n = ''('' @ column @ '' IS NOT NULL AND json_valid('' @ column @ '') = 1 AND ''
     @ js_join '' AND '' (replicate n
         (''EXISTS (SELECT 1 FROM json_each('' @ column @ '') WHERE json_each.value = ?)'')) @ '')''"

definition buildTagFilterPredicate :: "tag_input \<Rightarrow> string \<Rightarrow> tag_mode option \<Rightarrow> tag_predicate option" where
  "buildTagFilterPredicate tags column mode =
     (let parsedTags = parseTagFilterInput tags in
      if parsedTags = [] then None
      else Some \<lparr>tp_sqlClause = (if from_option TagsAll mode = TagsAny then any_clause else all_clause) column (length parsedTags),
                 tp_params = parsedTags\<rparr>)"

text \<open>
  The texts among the values of \<open>json_each\<close>: the elements of an array, the values of an
  object, or the value itself. A text equals a text only.
\<close>

definition json_each_texts :: "json \<Rightarrow> string list" where
  "json_each_texts v = (case v of JArr xs \<Rightarrow> List.map_filter json_text xs
     | JObj ms \<Rightarrow> List.map_filter (json_text \<circ> snd) ms | JStr s \<Rightarrow> [s] | _ \<Rightarrow> [])"

definition tags_satisfy :: "tag_mode option \<Rightarrow> string list \<Rightarrow> string option \<Rightarrow> bool" where
  "tags_satisfy mode params column = (case column of None \<Rightarrow> False
     | Some text' \<Rightarrow> (case parse_json text' of None \<Rightarrow> False
        | Some v \<Rightarrow> if from_option TagsAll mode = TagsAny then list_ex (\<lambda>t. t \<in> set (json_each_texts v)) params
                   else list_all (\<lambda>t. t \<in> set (json_each_texts v)) params))"

definition tag_condition :: "string option \<Rightarrow> tag_mode option \<Rightarrow> string option \<Rightarrow> bool" where
  "tag_condition tagFilter mode column =
     (case trim_or_null tagFilter of None \<Rightarrow> True
      | Some _ \<Rightarrow> (case buildTagFilterPredicate (TagText (from_option [] tagFilter)) [] mode of None \<Rightarrow> True
         | Some p \<Rightarrow> tags_satisfy mode (tp_params p) column))"

definition getDistinctTagsQuery :: "string \<Rightarrow> string option \<Rightarrow> string \<times> string list" where
  "getDistinctTagsQuery tableName agentId =
     (''SELECT DISTINCT json_each.value AS tag FROM '' @ tableName @ '', json_each('' @ tableName @ ''.tags) WHERE ''
        @ tableName @ ''.tags IS NOT NULL AND json_valid('' @ tableName @ ''.tags) = 1''
        @ (if truthy agentId then '' AND '' @ tableName @ ''.agent_id = ?'' else []) @ '' ORDER BY tag ASC'',
      if truthy agentId then [from_option [] agentId] else [])"

section \<open>Queries\<close>

record list_memories_query =
  lq_page :: pagination_query
  lq_sortBy :: "string option"
  lq_tag :: "string option"
  lq_tags :: "string option"
  lq_tagMode :: "tag_mode option"
  lq_content :: "string option"
  lq_search :: "string option"

definition ALLOWED_MEMORY_SORT_COLUMNS :: "(string \<times> string) list" where
  "ALLOWED_MEMORY_SORT_COLUMNS = [(''createdAt'', ''created_at''), (''created_at'', ''created_at''),
     (''updatedAt'', ''updated_at''), (''updated_at'', ''updated_at''), (''id'', ''id''), (''content'', ''content'')]"

definition memory_pagination :: "list_memories_query \<Rightarrow> sql_pagination_options" where
  "memory_pagination q = \<lparr>po_query = (lq_page q)\<lparr>pq_sort := coalesce (pq_sort (lq_page q)) (lq_sortBy q)\<rparr>,
     po_allowedSortColumns = ALLOWED_MEMORY_SORT_COLUMNS, po_defaultSortKey = ''createdAt'',
     po_defaultOrder = ''desc'', po_tiebreakerColumn = Some ''id''\<rparr>"

definition memory_conditions :: "list_memories_query \<Rightarrow> string \<Rightarrow> string option \<Rightarrow> bool" where
  "memory_conditions q content tags =
     (tag_condition (coalesce (lq_tags q) (lq_tag q)) (lq_tagMode q) tags
      \<and> matches_search (coalesce (lq_content q) (lq_search q)) (Some content))"

definition memory_page :: "list_memories_query \<Rightarrow> (string \<Rightarrow> 'r \<Rightarrow> string) \<Rightarrow> ('r \<Rightarrow> string) \<Rightarrow> ('r \<Rightarrow> 'm) \<Rightarrow> 'r list
    \<Rightarrow> exn + 'm page" where
  "memory_page q column i response rows =
     (case buildPaginationSqlFragment (memory_pagination q) of
        Inl e \<Rightarrow> Inl e
      | Inr fragment \<Rightarrow>
         (case resolve_sort_column (memory_pagination q) of
            Inl e \<Rightarrow> Inl e
          | Inr col \<Rightarrow>
              let asc = sort_key (\<lambda>r. (column col r, i r)) rows;
                  ordered = (if sort_ascending (memory_pagination q) then asc else rev asc)
              in Inr (createPaginatedResponse (map response (page_of (sr_params fragment) ordered)) (length rows)
                   (Some (fst (sr_params fragment))) (Some (snd (sr_params fragment))))))"

section \<open>Statements\<close>

definition agent_memory_by_id :: "database \<Rightarrow> string \<Rightarrow> string \<Rightarrow> agent_memory_row option" where
  "agent_memory_by_id d agentId i = find (\<lambda>r. mem_id r = i \<and> mem_agent_id r = agentId) (agent_memories d)"

definition insert_agent_memory :: "agent_memory_row \<Rightarrow> database \<Rightarrow> exn + database" where
  "insert_agent_memory r d =
     (if list_ex (\<lambda>x. mem_id x = mem_id r) (agent_memories d)
      then Inl (sqlite_error ''SQLITE_CONSTRAINT_PRIMARYKEY'' ''UNIQUE constraint failed: agent_memories.id'')
      else if agent_by_id d (mem_agent_id r) = None then Inl foreign_key_error
      else Inr (d\<lparr>agent_memories := agent_memories d @ [r]\<rparr>))"

definition update_agent_memory ::
  "string \<Rightarrow> string \<Rightarrow> string option \<Rightarrow> string option option \<Rightarrow> string \<Rightarrow> database \<Rightarrow> exn + database" where
  "update_agent_memory agentId i content tags now d =
     Inr (d\<lparr>agent_memories := map (\<lambda>r. if mem_id r = i \<and> mem_agent_id r = agentId
       then r\<lparr>mem_content := from_option (mem_content r) content, mem_tags := from_option (mem_tags r) tags,
              mem_updated_at := now\<rparr> else r) (agent_memories d)\<rparr>)"

definition delete_agent_memories :: "(agent_memory_row \<Rightarrow> bool) \<Rightarrow> database \<Rightarrow> exn + database" where
  "delete_agent_memories P d = Inr (d\<lparr>agent_memories := filter (\<lambda>r. \<not> P r) (agent_memories d)\<rparr>)"

definition shared_memory_by_id :: "database \<Rightarrow> string \<Rightarrow> shared_memory_row option" where
  "shared_memory_by_id d i = find (\<lambda>r. shm_id r = i) (shared_memories d)"

definition insert_shared_memory :: "shared_memory_row \<Rightarrow> database \<Rightarrow> exn + database" where
  "insert_shared_memory r d =
     (if shared_memory_by_id d (shm_id r) \<noteq> None
      then Inl (sqlite_error ''SQLITE_CONSTRAINT_PRIMARYKEY'' ''UNIQUE constraint failed: shared_memories.id'')
      else Inr (d\<lparr>shared_memories := shared_memories d @ [r]\<rparr>))"

definition update_shared_memory ::
  "string \<Rightarrow> string option \<Rightarrow> string option option \<Rightarrow> string \<Rightarrow> database \<Rightarrow> exn + database" where
  "update_shared_memory i content tags now d =
     Inr (d\<lparr>shared_memories := map (\<lambda>r. if shm_id r = i
       then r\<lparr>shm_content := from_option (shm_content r) content, shm_tags := from_option (shm_tags r) tags,
              shm_updated_at := now\<rparr> else r) (shared_memories d)\<rparr>)"

definition delete_shared_memories :: "(shared_memory_row \<Rightarrow> bool) \<Rightarrow> database \<Rightarrow> exn + database" where
  "delete_shared_memories P d = Inr (d\<lparr>shared_memories := filter (\<lambda>r. \<not> P r) (shared_memories d)\<rparr>)"

section \<open>AgentMemoriesService\<close>

record agent_memory_response =
  amr_id :: string
  amr_agentId :: string
  amr_content :: string
  amr_tags :: "string list"
  amr_createdAt :: string
  amr_updatedAt :: string

definition mapAgentMemoryRowToResponse :: "agent_memory_row \<Rightarrow> agent_memory_response" where
  "mapAgentMemoryRowToResponse r =
     \<lparr>amr_id = mem_id r, amr_agentId = mem_agent_id r, amr_content = mem_content r,
      amr_tags = parseTagsOnRead (mem_tags r), amr_createdAt = mem_created_at r, amr_updatedAt = mem_updated_at r\<rparr>"

record create_memory_dto =
  cm_content :: string
  cm_tags :: "string list option"

record update_memory_dto =
  um_content :: "string option"
  um_tags :: "string list option option"

record memory_update_result =
  mu_hasChanges :: bool
  mu_content :: "string option"
  mu_tags :: "string option option"

definition applyAgentMemoryUpdates :: "agent_memory_row \<Rightarrow> update_memory_dto \<Rightarrow> memory_update_result" where
  "applyAgentMemoryUpdates existing dto =
     (let c = changed (um_content dto) (mem_content existing);
          t = changed (map_option normalizeTagsOnWrite (um_tags dto)) (mem_tags existing)
      in \<lparr>mu_hasChanges = (c \<noteq> None \<or> t \<noteq> None), mu_content = c, mu_tags = t\<rparr>)"

definition memory_not_found :: "string \<Rightarrow> exn" where
  "memory_not_found memoryId = not_found [] (''Memory with ID '' @ quoted memoryId @ '' not found'')"

definition assertAgentExists :: "database \<Rightarrow> string \<Rightarrow> exn + unit" where
  "assertAgentExists d agentId = (case agent_by_id d agentId of
     None \<Rightarrow> Inl (not_found ''AGENT_NOT_FOUND'' (''Agent with ID '' @ quoted agentId @ '' not found''))
   | Some _ \<Rightarrow> Inr ())"

definition agent_memory_column :: "string \<Rightarrow> agent_memory_row \<Rightarrow> string" where
  "agent_memory_column col r = (if col = ''created_at'' then mem_created_at r
     else if col = ''updated_at'' then mem_updated_at r else if col = ''content'' then mem_content r else mem_id r)"

definition findAllAgentMemories :: "database \<Rightarrow> string \<Rightarrow> list_memories_query \<Rightarrow> exn + agent_memory_response page" where
  "findAllAgentMemories d agentId q = (case assertAgentExists d agentId of Inl e \<Rightarrow> Inl e
     | Inr _ \<Rightarrow> memory_page q agent_memory_column mem_id mapAgentMemoryRowToResponse
         (filter (\<lambda>r. mem_agent_id r = agentId \<and> memory_conditions q (mem_content r) (mem_tags r)) (agent_memories d)))"

definition createAgentMemory :: "env \<Rightarrow> string \<Rightarrow> create_memory_dto \<Rightarrow> agent_memory_response comp" where
  "createAgentMemory env agentId dto =
     bnd (query (\<lambda>d. assertAgentExists d agentId)) (\<lambda>_.
     bnd (fresh_id env) (\<lambda>i. bnd (now_iso env) (\<lambda>now.
     let row = \<lparr>mem_id = i, mem_agent_id = agentId, mem_content = cm_content dto,
                mem_tags = normalizeTagsOnWrite (cm_tags dto), mem_created_at = now, mem_updated_at = now\<rparr> in
     bnd (exec_write env (insert_agent_memory row)) (\<lambda>_. ret (mapAgentMemoryRowToResponse row)))))"

definition findOneAgentMemory :: "database \<Rightarrow> string \<Rightarrow> string \<Rightarrow> exn + agent_memory_response" where
  "findOneAgentMemory d agentId memoryId = (case assertAgentExists d agentId of Inl e \<Rightarrow> Inl e
     | Inr _ \<Rightarrow> (case agent_memory_by_id d agentId memoryId of None \<Rightarrow> Inl (memory_not_found memoryId)
        | Some r \<Rightarrow> Inr (mapAgentMemoryRowToResponse r)))"

definition updateAgentMemory :: "env \<Rightarrow> string \<Rightarrow> string \<Rightarrow> update_memory_dto \<Rightarrow> agent_memory_response comp" where
  "updateAgentMemory env agentId memoryId dto =
     bnd (query (\<lambda>d. assertAgentExists d agentId)) (\<lambda>_.
     bnd (query (\<lambda>d. case agent_memory_by_id d agentId memoryId of
        None \<Rightarrow> Inl (memory_not_found memoryId) | Some r \<Rightarrow> Inr r)) (\<lambda>existing.
     bnd (now_iso env) (\<lambda>now.
     let result = applyAgentMemoryUpdates existing dto in
     if \<not> mu_hasChanges result then ret (mapAgentMemoryRowToResponse existing)
     else bnd (select (\<lambda>d. agent_memory_by_id d agentId memoryId)) (\<lambda>found.
          bnd (exec_write env (update_agent_memory agentId memoryId (mu_content result) (mu_tags result) now)) (\<lambda>_.
          if found = None then raise_exn (memory_not_found memoryId)
          else query (\<lambda>d. case agent_memory_by_id d agentId memoryId of
            None \<Rightarrow> Inl (type_error ''Cannot read properties of undefined'')
          | Some r \<Rightarrow> Inr (mapAgentMemoryRowToResponse r)))))))"

definition removeAgentMemory :: "env \<Rightarrow> string \<Rightarrow> string \<Rightarrow> unit comp" where
  "removeAgentMemory env agentId memoryId =
     bnd (query (\<lambda>d. assertAgentExists d agentId)) (\<lambda>_.
     bnd (select (\<lambda>d. agent_memory_by_id d agentId memoryId)) (\<lambda>found.
     bnd (exec_write env (delete_agent_memories (\<lambda>r. mem_id r = memoryId \<and> mem_agent_id r = agentId))) (\<lambda>_.
     if found = None then raise_exn (memory_not_found memoryId) else ret ())))"

definition removeAllAgentMemories :: "env \<Rightarrow> string \<Rightarrow> nat comp" where
  "removeAllAgentMemories env agentId =
     bnd (query (\<lambda>d. assertAgentExists d agentId)) (\<lambda>_.
     bnd (select (\<lambda>d. length (filter (\<lambda>r. mem_agent_id r = agentId) (agent_memories d)))) (\<lambda>deleted.
     bnd (exec_write env (delete_agent_memories (\<lambda>r. mem_agent_id r = agentId))) (\<lambda>_. ret deleted)))"

section \<open>SharedMemoriesService\<close>

record shared_memory_response =
  smr_id :: string
  smr_content :: string
  smr_tags :: "string list"
  smr_createdAt :: string
  smr_updatedAt :: string

definition mapSharedMemoryRowToResponse :: "shared_memory_row \<Rightarrow> shared_memory_response" where
  "mapSharedMemoryRowToResponse r =
     \<lparr>smr_id = shm_id r, smr_content = shm_content r, smr_tags = parseTagsOnRead (shm_tags r),
      smr_createdAt = shm_created_at r, smr_updatedAt = shm_updated_at r\<rparr>"

text \<open>Part of the mapper; the service does not call it.\<close>

definition applySharedMemoryUpdates :: "shared_memory_row \<Rightarrow> update_memory_dto \<Rightarrow> memory_update_result" where
  "applySharedMemoryUpdates existing dto =
     (let c = changed (um_content dto) (shm_content existing);
          t = changed (map_option normalizeTagsOnWrite (um_tags dto)) (shm_tags existing)
      in \<lparr>mu_hasChanges = (c \<noteq> None \<or> t \<noteq> None), mu_content = c, mu_tags = t\<rparr>)"

definition shared_memory_column :: "string \<Rightarrow> shared_memory_row \<Rightarrow> string" where
  "shared_memory_column col r = (if col = ''created_at'' then shm_created_at r
     else if col = ''updated_at'' then shm_updated_at r else if col = ''content'' then shm_content r else shm_id r)"

definition findAllSharedMemories :: "database \<Rightarrow> list_memories_query \<Rightarrow> exn + shared_memory_response page" where
  "findAllSharedMemories d q = memory_page q shared_memory_column shm_id mapSharedMemoryRowToResponse
     (filter (\<lambda>r. memory_conditions q (shm_content r) (shm_tags r)) (shared_memories d))"

definition createSharedMemory :: "env \<Rightarrow> create_memory_dto \<Rightarrow> shared_memory_response comp" where
  "createSharedMemory env dto =
     bnd (fresh_id env) (\<lambda>i. bnd (now_iso env) (\<lambda>now.
     let row = \<lparr>shm_id = i, shm_content = cm_content dto, shm_tags = normalizeTagsOnWrite (cm_tags dto),
                shm_created_at = now, shm_updated_at = now\<rparr> in
     bnd (exec_write env (insert_shared_memory row)) (\<lambda>_. ret (mapSharedMemoryRowToResponse row))))"

definition findOneSharedMemory :: "database \<Rightarrow> string \<Rightarrow> exn + shared_memory_response" where
  "findOneSharedMemory d memoryId = (case shared_memory_by_id d memoryId of
     None \<Rightarrow> Inl (memory_not_found memoryId) | Some r \<Rightarrow> Inr (mapSharedMemoryRowToResponse r))"

definition updateSharedMemory :: "env \<Rightarrow> string \<Rightarrow> update_memory_dto \<Rightarrow> shared_memory_response comp" where
  "updateSharedMemory env memoryId dto =
     bnd (now_iso env) (\<lambda>now.
     if um_content dto = None \<and> um_tags dto = None then query (\<lambda>d. findOneSharedMemory d memoryId)
     else bnd (select (\<lambda>d. shared_memory_by_id d memoryId)) (\<lambda>found.
          bnd (exec_write env (update_shared_memory memoryId (um_content dto)
                (map_option normalizeTagsOnWrite (um_tags dto)) now)) (\<lambda>_.
          if found = None then raise_exn (memory_not_found memoryId)
          else query (\<lambda>d. findOneSharedMemory d memoryId))))"

definition removeSharedMemory :: "env \<Rightarrow> string \<Rightarrow> unit comp" where
  "removeSharedMemory env memoryId =
     bnd (select (\<lambda>d. shared_memory_by_id d memoryId)) (\<lambda>found.
     bnd (exec_write env (delete_shared_memories (\<lambda>r. shm_id r = memoryId))) (\<lambda>_.
     if found = None then raise_exn (memory_not_found memoryId) else ret ()))"

definition removeAllSharedMemories :: "env \<Rightarrow> nat comp" where
  "removeAllSharedMemories env =
     bnd (select (\<lambda>d. length (shared_memories d))) (\<lambda>deleted.
     bnd (exec_write env (delete_shared_memories (\<lambda>_. True))) (\<lambda>_. ret deleted))"

end
