(* ===== verification/MemoryFacts.thy ===== *)
theory MemoryFacts
  imports Memories
begin

text \<open>
  Tags as sets: what is stored is the sorted list of the normalized tags, a filter compares it
  with the normalized tags of the request. The private memories of other agents are out of
  reach of every request that names one agent.
\<close>

section \<open>Stored tags\<close>

definition canonical_tags :: "string list option \<Rightarrow> string list" where
  "canonical_tags tags = unique_sorted (normalized_tags (from_option [] tags))"

lemma unique_sorted_facts:
  "sorted (unique_sorted xs)" "distinct (unique_sorted xs)" "set (unique_sorted xs) \<subseteq> set xs"
  "length (unique_sorted xs) \<le> MAX_TAGS_PER_MEMORY"
  "length (remdups xs) \<le> MAX_TAGS_PER_MEMORY \<Longrightarrow> set (unique_sorted xs) = set xs"
  using set_take_subset [of MAX_TAGS_PER_MEMORY "sort (remdups xs)"]
  by (auto simp: unique_sorted_def sorted_wrt_take distinct_take)

lemma unique_sorted_Nil [simp]: "unique_sorted xs = [] \<longleftrightarrow> xs = []"
proof -
  have "set (sort (remdups xs)) = set xs" by simp
  then have "sort (remdups xs) = [] \<longleftrightarrow> xs = []" by (metis set_empty)
  then show ?thesis by (simp add: unique_sorted_def MAX_TAGS_PER_MEMORY_def)
qed

lemma unique_sorted_set: "set xs = set ys \<Longrightarrow> unique_sorted xs = unique_sorted ys"
proof -
  assume "set xs = set ys"
  then have "sort (remdups xs) = sort (remdups ys)"
    by (intro sorted_distinct_set_unique) (simp_all add: sorted_sort)
  then show ?thesis by (simp add: unique_sorted_def)
qed

lemma map_filter_texts [simp]: "List.map_filter json_text (map JStr xs) = xs"
  by (induction xs) (simp_all add: List.map_filter_def)

lemma stored_tags:
  "normalizeTagsOnWrite tags = (if canonical_tags tags = [] then None else Some (stringify_strings (canonical_tags tags)))"
  by (cases tags) (simp_all add: normalizeTagsOnWrite_def canonical_tags_def Let_def normalized_tags_def)

lemma parse_normalized: "parseTagsOnRead (normalizeTagsOnWrite tags) = canonical_tags tags"
  unfolding stored_tags by (auto simp: parseTagsOnRead_def parse_stringify) (simp add: stringify_strings_def)

lemma stored_tags_same: "canonical_tags a = canonical_tags b \<Longrightarrow> normalizeTagsOnWrite a = normalizeTagsOnWrite b"
  by (simp add: stored_tags)

section \<open>Normalized tags\<close>

lemma js_lower_char_idem [simp]: "js_lower_char (js_lower_char c) = js_lower_char c"
proof -
  have "code_unit c < 256" by (simp add: code_unit_def)
  then show ?thesis by (auto simp: js_lower_char_def code_unit_def Let_def)
qed

lemma js_ws_lower [simp]: "js_ws (js_lower_char c) = js_ws c"
proof -
  have "code_unit c < 256" by (simp add: code_unit_def)
  then show ?thesis by (auto simp: js_lower_char_def js_ws_def code_unit_def Let_def)
qed

lemma js_trim_lower: "js_trim (js_lower s) = js_lower (js_trim s)"
  by (simp add: js_trim_def js_lower_def dropWhile_map rev_map comp_def)

lemma js_lower_idem [simp]: "js_lower (js_lower s) = js_lower s"
  by (simp add: js_lower_def)

lemma js_trim_idem [simp]: "js_trim (js_trim s) = js_trim s"
proof -
  let ?a = "dropWhile js_ws s" and ?b = "js_trim s"
  have b: "rev ?b = dropWhile js_ws (rev ?a)" by (simp add: js_trim_def)
  have "dropWhile js_ws ?b = ?b"
  proof (cases ?b)
    case (Cons x xs)
    have "suffix (rev ?b) (rev ?a)" unfolding b by (rule suffix_dropWhile)
    then have "prefix ?b ?a" by (simp add: suffix_to_prefix)
    then have "\<not> js_ws x" using Cons hd_dropWhile [of js_ws s] by (cases ?a) auto
    then show ?thesis using Cons by simp
  qed simp
  then have "js_trim ?b = rev (dropWhile js_ws (rev ?b))" by (simp add: js_trim_def)
  also have "\<dots> = ?b" unfolding b by (simp add: js_trim_def)
  finally show ?thesis .
qed

lemma normalizeTag_again:
  assumes "length tag \<le> MAX_TAG_LENGTH" "normalizeTag tag = Some t"
  shows "normalizeTag t = Some t"
proof -
  have t: "t = js_lower (js_trim tag)" "t \<noteq> []"
    using assms js_trim_length [of tag] by (auto simp: normalizeTag_def Let_def js_lower_def split: if_splits)
  then have "js_trim t = t" by (simp add: js_trim_lower js_trim_idem)
  then show ?thesis using assms t by (auto simp: normalizeTag_def Let_def js_lower_def split: if_splits)
qed

lemma normalized_tags_set: "set (normalized_tags ts) = {t. \<exists>raw\<in>set ts. normalizeTag raw = Some t}"
  by (induction ts) (auto simp: normalized_tags_def List.map_filter_simps split: option.splits)

lemma normalized_fixed: "(\<And>t. t \<in> set ts \<Longrightarrow> normalizeTag t = Some t) \<Longrightarrow> normalized_tags ts = ts"
  by (induction ts) (simp_all add: normalized_tags_def List.map_filter_simps)

lemma unique_sorted_again: "unique_sorted (unique_sorted xs) = unique_sorted xs"
  using unique_sorted_facts [of xs]
  by (simp add: unique_sorted_def [of "unique_sorted xs"] distinct_remdups_id sorted_sort_id)

text \<open>Within the length that a request may have, the tags of a response are stored as they are.\<close>

lemma canonical_again:
  assumes "\<forall>raw\<in>set (from_option [] tags). length raw \<le> MAX_TAG_LENGTH"
  shows "canonical_tags (Some (canonical_tags tags)) = canonical_tags tags"
proof -
  have "normalizeTag t = Some t" if "t \<in> set (canonical_tags tags)" for t
    using that assms unique_sorted_facts(3) normalizeTag_again
    by (fastforce simp: canonical_tags_def normalized_tags_set)
  then have "normalized_tags (canonical_tags tags) = canonical_tags tags" by (rule normalized_fixed)
  then show ?thesis by (simp add: canonical_tags_def unique_sorted_again)
qed

section \<open>Filters\<close>

definition wanted_tags :: "string option \<Rightarrow> string set" where
  "wanted_tags tagFilter = (case trim_or_null tagFilter of None \<Rightarrow> {}
     | Some _ \<Rightarrow> set (normalized_tags (split_commas (from_option [] tagFilter))))"

definition matches_tags :: "string set \<Rightarrow> tag_mode option \<Rightarrow> string set \<Rightarrow> bool" where
  "matches_tags wanted mode tags \<longleftrightarrow> wanted = {} \<or> (if mode = Some TagsAny then wanted \<inter> tags \<noteq> {} else wanted \<subseteq> tags)"

lemma js_set_set [simp]: "set (js_set xs) = set xs" "js_set xs = [] \<longleftrightarrow> xs = []"
  by (simp_all add: js_set_def)

lemma tags_satisfy_stored:
  "params \<noteq> [] \<Longrightarrow> tags_satisfy mode params (normalizeTagsOnWrite tags) \<longleftrightarrow>
     matches_tags (set params) mode (set (canonical_tags tags))"
  by (cases mode rule: option.exhaust; cases "the mode")
    (auto simp: tags_satisfy_def stored_tags parse_stringify json_each_texts_def matches_tags_def list_ex_iff list_all_iff)

lemma tag_condition_stored:
  "tag_condition tagFilter mode (normalizeTagsOnWrite tags)
     \<longleftrightarrow> matches_tags (wanted_tags tagFilter) mode (set (canonical_tags tags))"
proof (cases "trim_or_null tagFilter")
  case None
  then show ?thesis by (simp add: tag_condition_def wanted_tags_def matches_tags_def)
next
  case (Some x)
  show ?thesis
    by (cases "normalized_tags (split_commas (from_option [] tagFilter)) = []")
      (simp_all add: Some tag_condition_def wanted_tags_def buildTagFilterPredicate_def parseTagFilterInput_def Let_def
        tags_satisfy_stored, simp add: matches_tags_def)
qed

text \<open>A clause has one placeholder for each of its parameters, and no text of the request.\<close>

lemma predicate_is_closed:
  "buildTagFilterPredicate tags column mode = Some p \<Longrightarrow>
     tp_sqlClause p = (if from_option TagsAll mode = TagsAny then any_clause else all_clause) column (length (tp_params p))"
  by (auto simp: buildTagFilterPredicate_def Let_def split: if_splits)

section \<open>Private memories\<close>

lemma wp_createAgentMemory:
  "wp (createAgentMemory env agentId dto)
     (\<lambda>r w'. \<exists>row. agent_memories (db w') = agent_memories (db w) @ [row] \<and> r = mapAgentMemoryRowToResponse row
        \<and> agent_memory_by_id (db w') agentId (mem_id row) = Some row \<and> mem_content row = cm_content dto
        \<and> mem_tags row = normalizeTagsOnWrite (cm_tags dto) \<and> agent_by_id (db w') agentId \<noteq> None)
     (\<lambda>_ w'. db w' = db w) w"
proof -
  have "find P (xs @ [x]) = Some x" if "\<not> list_ex Q xs" "\<And>y. P y \<Longrightarrow> Q y" "P x" for P Q :: "agent_memory_row \<Rightarrow> bool" and xs x
    using that by (induction xs) auto
  note found = this [where Q = "\<lambda>y. mem_id y = i" for i]
  show ?thesis
    unfolding createAgentMemory_def
    by (auto simp: wp_simps Let_def assertAgentExists_def insert_agent_memory_def agent_memory_by_id_def agent_by_id_def
        split: option.splits sum.splits intro!: found)
qed

text \<open>Only the private memories of the agent may change.\<close>

definition private_frame :: "string \<Rightarrow> database \<Rightarrow> database \<Rightarrow> bool" where
  "private_frame agentId d d' \<longleftrightarrow> d' = d\<lparr>agent_memories := agent_memories d'\<rparr>
     \<and> filter (\<lambda>r. mem_agent_id r \<noteq> agentId) (agent_memories d') = filter (\<lambda>r. mem_agent_id r \<noteq> agentId) (agent_memories d)"

interpretation own: store_relation "private_frame agentId" for agentId
proof
  show "private_frame agentId d d" for d by (cases d) (simp add: private_frame_def)
next
  fix d1 d2 d3
  assume a: "private_frame agentId d1 d2" "private_frame agentId d2 d3"
  then have "d3 = d2\<lparr>agent_memories := agent_memories d3\<rparr>" "d2 = d1\<lparr>agent_memories := agent_memories d2\<rparr>"
    by (simp_all add: private_frame_def)
  then have "d3 = d1\<lparr>agent_memories := agent_memories d3\<rparr>" by (cases d1, cases d2, cases d3) simp
  then show "private_frame agentId d1 d3" using a by (simp add: private_frame_def)
qed

lemma frame_insert: "insert_agent_memory r d = Inr d' \<Longrightarrow> private_frame (mem_agent_id r) d d'"
  by (auto simp: insert_agent_memory_def private_frame_def split: if_splits)

lemma frame_update: "update_agent_memory agentId i content tags now d = Inr d' \<Longrightarrow> private_frame agentId d d'"
proof -
  have "filter (\<lambda>r. mem_agent_id r \<noteq> agentId) (map (\<lambda>r. if mem_id r = i \<and> mem_agent_id r = agentId
       then r\<lparr>mem_content := f r, mem_tags := g r, mem_updated_at := now\<rparr> else r) xs)
    = filter (\<lambda>r. mem_agent_id r \<noteq> agentId) xs" for f g xs
    by (induction xs) auto
  then show "update_agent_memory agentId i content tags now d = Inr d' \<Longrightarrow> private_frame agentId d d'"
    by (auto simp: update_agent_memory_def private_frame_def)
qed

lemma frame_delete:
  "delete_agent_memories P d = Inr d' \<Longrightarrow> (\<And>r. P r \<Longrightarrow> mem_agent_id r = agentId) \<Longrightarrow> private_frame agentId d d'"
  by (auto simp: delete_agent_memories_def private_frame_def intro!: filter_cong [OF refl])

lemma private_requests:
  "obeys (on_db (private_frame agentId)) (createAgentMemory env agentId dto)"
  "obeys (on_db (private_frame agentId)) (updateAgentMemory env agentId memoryId changes)"
  "obeys (on_db (private_frame agentId)) (removeAgentMemory env agentId memoryId)"
  "obeys (on_db (private_frame agentId)) (removeAllAgentMemories env agentId)"
  unfolding createAgentMemory_def updateAgentMemory_def removeAgentMemory_def removeAllAgentMemories_def Let_def
  by (auto intro!: obeys_intros own.obeys_exec_write
      dest: frame_insert frame_update elim: frame_delete)

lemma page_of_subset: "set (page_of p xs) \<subseteq> set xs"
  by (auto simp: page_of_def dest: in_set_takeD in_set_dropD)

lemma memory_page_items:
  "memory_page q column i response rows = Inr p \<Longrightarrow> x \<in> set (page_items p) \<Longrightarrow> x \<in> response ` set rows"
  by (auto simp: memory_page_def createPaginatedResponse_def Let_def dest!: subsetD [OF page_of_subset]
      split: sum.splits if_splits)

lemma private_reads:
  "findAllAgentMemories d agentId q = Inr p \<Longrightarrow> x \<in> set (page_items p) \<Longrightarrow> amr_agentId x = agentId"
  "findOneAgentMemory d agentId i = Inr x \<Longrightarrow> amr_agentId x = agentId \<and> amr_id x = i"
  by (auto simp: findAllAgentMemories_def findOneAgentMemory_def mapAgentMemoryRowToResponse_def agent_memory_by_id_def
      find_Some_iff dest!: memory_page_items split: sum.splits option.splits)

section \<open>Findings\<close>

text \<open>An update of a shared memory that changes nothing still moves \<open>updated_at\<close>.\<close>

lemma shared_update_touches:
  assumes "update_shared_memory i (um_content dto) (map_option normalizeTagsOnWrite (um_tags dto)) now d = Inr d'"
    and "shared_memory_by_id d i = Some r" "\<not> mu_hasChanges (applySharedMemoryUpdates r dto)"
  shows "shared_memory_by_id d' i = Some (r\<lparr>shm_updated_at := now\<rparr>)"
proof -
  have f: "from_option (shm_content r) (um_content dto) = shm_content r"
    "from_option (shm_tags r) (map_option normalizeTagsOnWrite (um_tags dto)) = shm_tags r"
    using assms(3) by (auto simp: applySharedMemoryUpdates_def changed_def Let_def split: option.splits if_splits)
  let ?f = "\<lambda>r. r\<lparr>shm_content := from_option (shm_content r) (um_content dto),
    shm_tags := from_option (shm_tags r) (map_option normalizeTagsOnWrite (um_tags dto)), shm_updated_at := now\<rparr>"
  have "find (\<lambda>r. shm_id r = i) (map (\<lambda>r. if shm_id r = i then ?f r else r) xs) = map_option ?f (find (\<lambda>r. shm_id r = i) xs)"
    for xs :: "shared_memory_row list"
    by (induction xs) auto
  moreover have "?f r = r\<lparr>shm_updated_at := now\<rparr>" using f by simp
  ultimately show ?thesis using assms(1,2) by (auto simp: update_shared_memory_def shared_memory_by_id_def)
qed

text \<open>A tag that holds a comma is stored as one tag, and a filter by it asks for its parts.\<close>

lemma comma_tag_not_found:
  "\<not> tag_condition (Some ''a,b'') None (normalizeTagsOnWrite (Some [''a,b'']))"
proof -
  have n: "normalizeTag ''a,b'' = Some ''a,b''" "normalizeTag ''a'' = Some ''a''" "normalizeTag ''b'' = Some ''b''"
    by (simp_all add: normalizeTag_def js_trim_def js_ws_def js_lower_def js_lower_char_def code_unit_def
        MAX_TAG_LENGTH_def Let_def)
  have "trim_or_null (Some ''a,b'') = Some ''a,b''"
    by (simp add: trim_or_null_def js_trim_def js_ws_def code_unit_def Let_def)
  then show ?thesis
    unfolding tag_condition_stored
    by (simp add: wanted_tags_def matches_tags_def canonical_tags_def normalized_tags_def List.map_filter_simps n
        unique_sorted_def MAX_TAGS_PER_MEMORY_def)
qed

end
