(* ===== verification/Encryption.thy ===== *)
theory Encryption
  imports JsonText
begin

text \<open>
  \<open>crypto/encryption/\<close>: the stored form of a secret, the master key and where it comes from, and
  the preview of a key. AES-256-GCM is a parameter. Text and bytes convert by UTF-8, where
  SUBSTITUTE stands for every character outside the Latin-1 alphabet; so does NEXT LINE for the
  ellipsis of a preview.
\<close>

section \<open>Text and bytes\<close>

definition utf8_char :: "char \<Rightarrow> byte list" where
  "utf8_char c = (let n = code_unit c in
     if n < 128 then [of_nat n] else [of_nat (192 + n div 64), of_nat (128 + n mod 64)])"

definition utf8_encode :: "string \<Rightarrow> byte list" where
  "utf8_encode s = concat (map utf8_char s)"

definition SUBSTITUTE :: char where
  "SUBSTITUTE = CHR 0x1A"

fun utf8_decode :: "byte list \<Rightarrow> string" where
  "utf8_decode [] = []"
| "utf8_decode [b] = [if unat b < 128 then char_of (unat b) else SUBSTITUTE]"
| "utf8_decode (b # c # bs) =
     (if unat b < 128 then char_of (unat b) # utf8_decode (c # bs)
      else if 194 \<le> unat b \<and> unat b \<le> 195 \<and> unat c div 64 = 2
      then char_of ((unat b - 192) * 64 + unat c mod 64) # utf8_decode bs
      else SUBSTITUTE # utf8_decode (c # bs))"

section \<open>Errors\<close>

definition decryption_error :: "string \<Rightarrow> exn" where
  "decryption_error msg = Err (Plain None) ''DecryptionError'' msg [] None"

definition key_error :: "string \<Rightarrow> exn" where
  "key_error msg = Err (Plain None) ''KeyManagementError'' msg [] None"

section \<open>The master key\<close>

fun from_hex :: "string \<Rightarrow> byte list" where
  "from_hex (a # b # s) = of_nat (16 * from_option 0 (hex_value a) + from_option 0 (hex_value b)) # from_hex s"
| "from_hex _ = []"

definition base64_value :: "char \<Rightarrow> nat option" where
  "base64_value c = (let n = code_unit c in
     if 65 \<le> n \<and> n \<le> 90 then Some (n - 65) else if 97 \<le> n \<and> n \<le> 122 then Some (n - 71)
     else if 48 \<le> n \<and> n \<le> 57 then Some (n + 4) else if n = 43 then Some 62 else if n = 47 then Some 63 else None)"

text \<open>Groups of four digits are three bytes; a last group of three digits is two.\<close>

fun from_base64 :: "nat list \<Rightarrow> byte list" where
  "from_base64 (a # b # c # d # s) =
     of_nat (a * 4 + b div 16) # of_nat (b mod 16 * 16 + c div 4) # of_nat (c mod 4 * 64 + d) # from_base64 s"
| "from_base64 [a, b, c] = [of_nat (a * 4 + b div 16), of_nat (b mod 16 * 16 + c div 4)]"
| "from_base64 [a, b] = [of_nat (a * 4 + b div 16)]"
| "from_base64 _ = []"

definition key_invalid :: "string \<Rightarrow> nat \<Rightarrow> exn" where
  "key_invalid source n = key_error (''Master key from '' @ source
     @ '' is invalid: must be exactly 32 bytes (received '' @ show_nat n @ '' bytes)'')"

definition parseAndValidateKey :: "byte list \<Rightarrow> string \<Rightarrow> exn + byte list" where
  "parseAndValidateKey content source =
     (let key_text = js_trim (utf8_decode content) in
      if length content = 32 then Inr content
      else if length key_text = 64 \<and> list_all (\<lambda>c. hex_value c \<noteq> None) key_text then Inr (from_hex key_text)
      else if length key_text = 44 \<and> list_all (\<lambda>c. base64_value c \<noteq> None) (butlast key_text) \<and> last key_text = CHR ''=''
      then Inr (from_base64 (List.map_filter base64_value key_text))
      else Inl (key_invalid source (length content)))"

datatype raw_key = KeyBytes "byte list" | KeyText string

definition normalizeKey :: "raw_key \<Rightarrow> exn + byte list" where
  "normalizeKey rawKey = (case rawKey of
     KeyBytes b \<Rightarrow> if length b = 32 then Inr b else parseAndValidateKey b ''provided buffer key''
   | KeyText t \<Rightarrow> parseAndValidateKey (utf8_encode (js_trim t)) ''provided string key'')"

text \<open>
  The state of one process: the key it holds, and the file, which processes share. What one run
  meets: fresh random bytes, a file that another process creates between the check and the
  writing, and any other failure of the file system.
\<close>

record key_state =
  kc_master :: "byte list option"
  kf_file :: "byte list option"

record key_run =
  kr_env :: "string option"
  kr_path :: string
  kr_random :: "byte list"
  kr_appears :: "byte list option"
  kr_fault :: "string option"

definition loadOrCreateKeyFile :: "key_run \<Rightarrow> byte list option \<Rightarrow> (exn + byte list) \<times> byte list option" where
  "loadOrCreateKeyFile run stored = (case kr_fault run of
     Some msg \<Rightarrow> (Inl (key_error (''Failed to initialize master key at '' @ kr_path run @ '': '' @ msg)), stored)
   | None \<Rightarrow> (case stored of
        Some content \<Rightarrow> (parseAndValidateKey content (kr_path run), stored)
      | None \<Rightarrow> (case kr_appears run of
           Some content \<Rightarrow> (parseAndValidateKey content (kr_path run), Some content)
         | None \<Rightarrow> (Inr (kr_random run), Some (kr_random run)))))"

definition getMasterKey :: "key_run \<Rightarrow> key_state \<Rightarrow> (exn + byte list) \<times> key_state" where
  "getMasterKey run s = (case kc_master s of
     Some k \<Rightarrow> (Inr k, s)
   | None \<Rightarrow> if truthy (map_option js_trim (kr_env run))
       then (case normalizeKey (KeyText (js_trim (from_option [] (kr_env run)))) of
               Inl e \<Rightarrow> (Inl e, s) | Inr k \<Rightarrow> (Inr k, s\<lparr>kc_master := Some k\<rparr>))
       else (case loadOrCreateKeyFile run (kf_file s) of
               (Inl e, stored) \<Rightarrow> (Inl e, s\<lparr>kf_file := stored\<rparr>)
             | (Inr k, stored) \<Rightarrow> (Inr k, \<lparr>kc_master = Some k, kf_file = stored\<rparr>)))"

section \<open>Encryption and decryption\<close>

text \<open>
  AES-256-GCM: key, nonce, associated data and plaintext give ciphertext and tag, and back when
  the tag is right. The master key is what \<open>getMasterKey\<close> answers.
\<close>

record crypt =
  gcm_seal :: "byte list \<Rightarrow> byte list \<Rightarrow> byte list \<Rightarrow> byte list \<Rightarrow> byte list \<times> byte list"
  gcm_open :: "byte list \<Rightarrow> byte list \<Rightarrow> byte list \<Rightarrow> byte list \<Rightarrow> byte list \<Rightarrow> byte list option"
  master_key :: "exn + byte list"

definition ENCRYPTION_FORMAT_VERSION_V1 :: byte where
  "ENCRYPTION_FORMAT_VERSION_V1 = 1"

definition GCM_NONCE_LENGTH :: nat where
  "GCM_NONCE_LENGTH = 12"

definition GCM_AUTH_TAG_LENGTH :: nat where
  "GCM_AUTH_TAG_LENGTH = 16"

definition MIN_ENCRYPTED_VALUE_LENGTH :: nat where
  "MIN_ENCRYPTED_VALUE_LENGTH = 1 + GCM_AUTH_TAG_LENGTH"

definition aad_bytes :: "string option \<Rightarrow> byte list" where
  "aad_bytes associatedData = utf8_encode (from_option [] associatedData)"

definition encrypt_bytes :: "crypt \<Rightarrow> byte list \<Rightarrow> byte list \<Rightarrow> string option \<Rightarrow> exn + byte list" where
  "encrypt_bytes cy plainBuf nonce associatedData = (case master_key cy of Inl e \<Rightarrow> Inl e
     | Inr key \<Rightarrow> (let (ciphertext, authTag) = gcm_seal cy key nonce (aad_bytes associatedData) plainBuf
         in Inr ([ENCRYPTION_FORMAT_VERSION_V1] @ ciphertext @ authTag)))"

definition encrypt_text :: "crypt \<Rightarrow> string \<Rightarrow> byte list \<Rightarrow> string option \<Rightarrow> exn + byte list" where
  "encrypt_text cy plaintext nonce associatedData = encrypt_bytes cy (utf8_encode plaintext) nonce associatedData"

definition decryptToBuffer :: "crypt \<Rightarrow> byte list \<Rightarrow> byte list \<Rightarrow> string option \<Rightarrow> exn + byte list" where
  "decryptToBuffer cy encBuf nonceBuf associatedData =
     (if length nonceBuf \<noteq> GCM_NONCE_LENGTH then Inl (decryption_error ''Decryption failed: invalid nonce length'')
      else if length encBuf < MIN_ENCRYPTED_VALUE_LENGTH
      then Inl (decryption_error ''Decryption failed: invalid ciphertext payload'')
      else if hd encBuf \<noteq> ENCRYPTION_FORMAT_VERSION_V1
      then Inl (decryption_error (''Decryption failed: unsupported encryption version byte ('' @ show_nat (unat (hd encBuf)) @ '')''))
      else (let n = length encBuf - GCM_AUTH_TAG_LENGTH; authTag = drop n encBuf; ciphertext = take (n - 1) (tl encBuf)
            in case master_key cy of Inl e \<Rightarrow> Inl e
             | Inr key \<Rightarrow> (case gcm_open cy key nonceBuf (aad_bytes associatedData) ciphertext authTag of
                 Some p \<Rightarrow> Inr p
               | None \<Rightarrow> Inl (decryption_error
                   ''Decryption failed: authentication verification failed or ciphertext is corrupted''))))"

definition decrypt_text :: "crypt \<Rightarrow> byte list \<Rightarrow> byte list \<Rightarrow> string option \<Rightarrow> exn + string" where
  "decrypt_text cy encryptedValue nonce associatedData = (case decryptToBuffer cy encryptedValue nonce associatedData of
     Inl e \<Rightarrow> Inl e | Inr b \<Rightarrow> Inr (utf8_decode b))"

section \<open>Previews\<close>

definition DEFAULT_SUFFIX_LENGTH :: nat where
  "DEFAULT_SUFFIX_LENGTH = 4"

definition MASK_ELLIPSIS :: string where
  "MASK_ELLIPSIS = [CHR 0x85]"

definition KNOWN_CREDENTIAL_PREFIXES :: "string list" where
  "KNOWN_CREDENTIAL_PREFIXES = [''sk-ant-'', ''sk-proj-'', ''sk-admin-'', ''sk-org-'', ''sk-'', ''gsk_'', ''ghp_'',
     ''gho_'', ''xoxb-'', ''xoxp-'', ''key-'']"

record mask_options =
  mk_suffixLength :: "nat option"
  mk_customPrefix :: "string option"

text \<open>\<open>slice(-n)\<close>: the last characters, and all of them when \<open>n\<close> is \<open>0\<close>.\<close>

definition slice_last :: "nat \<Rightarrow> string \<Rightarrow> string" where
  "slice_last n s = (if n = 0 then s else drop (length s - n) s)"

definition matched_prefix :: "string \<Rightarrow> string option \<Rightarrow> string" where
  "matched_prefix key customPrefix =
     (if truthy customPrefix \<and> prefix (from_option [] customPrefix) key then from_option [] customPrefix
      else from_option [] (find (\<lambda>p. prefix p key) KNOWN_CREDENTIAL_PREFIXES))"

definition maskKey :: "string option \<Rightarrow> mask_options option \<Rightarrow> string" where
  "maskKey key options =
     (case key of None \<Rightarrow> [] | Some k \<Rightarrow>
        if k = [] then []
        else (let suffixLength = from_option DEFAULT_SUFFIX_LENGTH (case options of None \<Rightarrow> None | Some x \<Rightarrow> mk_suffixLength x) in
          if length k \<le> suffixLength then MASK_ELLIPSIS
          else (let p = matched_prefix k (case options of None \<Rightarrow> None | Some x \<Rightarrow> mk_customPrefix x);
                    tail = slice_last suffixLength k in
            if p \<noteq> [] \<and> length p + suffixLength + 1 \<le> length k then p @ MASK_ELLIPSIS @ tail
            else MASK_ELLIPSIS @ tail)))"

end
