(* ===== verification/EncryptionFacts.thy ===== *)
theory EncryptionFacts
  imports Encryption
begin

text \<open>
  Encoding and decoding of text, keys and payloads are inverse to each other, the master key is
  the same from call to call and from process to process, and a preview hides a part of the key.
\<close>

section \<open>Text and bytes\<close>

lemma utf8_decode_ascii: "unat b < 128 \<Longrightarrow> utf8_decode (b # bs) = char_of (unat b) # utf8_decode bs"
  by (cases bs) simp_all

lemma code_unit_bound: "code_unit c < 256"
  by (simp add: code_unit_def)

lemma byte_bound: "unat (b :: byte) < 256"
  using unsigned_less [of b] by simp

lemma unat_byte: "n < 256 \<Longrightarrow> unat (of_nat n :: byte) = n"
  by (simp add: unat_of_nat)

lemma utf8_decode_encode: "utf8_decode (utf8_encode s) = s"
proof (induction s)
  case Nil
  then show ?case by (simp add: utf8_encode_def)
next
  case (Cons c s)
  let ?n = "code_unit c"
  have n: "?n < 256" by (rule code_unit_bound)
  have s: "utf8_encode (c # s) = utf8_char c @ utf8_encode s" by (simp add: utf8_encode_def)
  show ?case
  proof (cases "?n < 128")
    case True
    then have "utf8_char c = [of_nat ?n]" by (simp add: utf8_char_def)
    then show ?thesis using True n Cons.IH by (simp add: s utf8_decode_ascii unat_byte)
  next
    case False
    have d: "2 \<le> ?n div 64" "?n div 64 \<le> 3" "?n mod 64 < 64" "?n div 64 * 64 + ?n mod 64 = ?n"
      using n False by auto
    have e: "utf8_char c = [of_nat (192 + ?n div 64), of_nat (128 + ?n mod 64)]"
      using False by (simp add: utf8_char_def Let_def)
    have u: "unat (of_nat (192 + ?n div 64) :: byte) = 192 + ?n div 64"
      "unat (of_nat (128 + ?n mod 64) :: byte) = 128 + ?n mod 64"
      using d by (intro unat_byte; linarith)+
    have "(128 + m) div 64 = 2" "(128 + m) mod 64 = m" if "m < 64" for m :: nat
      using that mod_mult_self4 [of 64 2 m] by simp_all
    note this [OF d(3)]
    then show ?thesis
      unfolding s e append.simps utf8_decode.simps(3) u using d Cons.IH by simp
  qed
qed

lemma utf8_length: "length s \<le> length (utf8_encode s)"
  by (induction s) (auto simp: utf8_encode_def utf8_char_def Let_def)

section \<open>Keys\<close>

definition to_hex :: "byte list \<Rightarrow> string" where
  "to_hex bs = concat (map hex_byte bs)"

lemma from_to_hex: "from_hex (to_hex bs) = bs"
proof (induction bs)
  case (Cons b bs)
  have "unat b div 16 < 16" using byte_bound [of b] by simp
  then have "hex_value (hex_digit (unat b div 16)) = Some (unat b div 16)"
    "hex_value (hex_digit (unat b mod 16)) = Some (unat b mod 16)"
    by (simp_all add: hex_value_digit)
  moreover have "16 * (unat b div 16) + unat b mod 16 = unat b" by (rule mult_div_mod_eq)
  ultimately show ?case using Cons by (simp add: to_hex_def hex_byte_def)
qed (simp add: to_hex_def)

lemma to_hex_shape: "length (to_hex bs) = 2 * length bs" "list_all (\<lambda>c. hex_value c \<noteq> None) (to_hex bs)"
proof -
  have "unat b div 16 < 16" for b :: byte using byte_bound [of b] by simp
  then show "length (to_hex bs) = 2 * length bs" "list_all (\<lambda>c. hex_value c \<noteq> None) (to_hex bs)"
    by (induction bs) (simp_all add: to_hex_def hex_byte_def hex_value_digit)
qed

definition base64_digit :: "nat \<Rightarrow> char" where
  "base64_digit n = char_of (if n < 26 then n + 65 else if n < 52 then n + 71 else if n < 62 then n - 4
     else if n = 62 then 43 else 47)"

fun base64_digits :: "byte list \<Rightarrow> nat list" where
  "base64_digits (x # y # z # bs) = (unat x div 4) # (unat x mod 4 * 16 + unat y div 16)
     # (unat y mod 16 * 4 + unat z div 64) # (unat z mod 64) # base64_digits bs"
| "base64_digits [x, y] = [unat x div 4, unat x mod 4 * 16 + unat y div 16, unat y mod 16 * 4]"
| "base64_digits [x] = [unat x div 4, unat x mod 4 * 16]"
| "base64_digits [] = []"

definition to_base64 :: "byte list \<Rightarrow> string" where
  "to_base64 bs = map base64_digit (base64_digits bs) @ ''=''"

lemma base64_value_digit: "n < 64 \<Longrightarrow> base64_value (base64_digit n) = Some n"
  by (auto simp: base64_value_def base64_digit_def code_unit_def Let_def)

lemma digit_bounds: "a < 256 \<Longrightarrow> a div 4 < 64" "a < 256 \<Longrightarrow> a div 16 < 16" "a < 256 \<Longrightarrow> a div 64 < 4" for a :: nat
  by linarith+

lemma join_16: "d < 16 \<Longrightarrow> (c * 16 + d) div 16 = c" "d < 16 \<Longrightarrow> (c * 16 + d) mod 16 = d" for c d :: nat
  by simp_all

lemma join_4: "d < 4 \<Longrightarrow> (c * 4 + d) div 4 = c" "d < 4 \<Longrightarrow> (c * 4 + d) mod 4 = d" for c d :: nat
  by simp_all

lemma from_base64_digits: "from_base64 (base64_digits bs) = bs"
proof (induction bs rule: base64_digits.induct)
  case (1 x y z bs)
  note b = byte_bound [of x] byte_bound [of y] byte_bound [of z]
  have w: "of_nat (unat v) = v" for v :: byte by simp
  show ?case
    using 1 by (simp only: base64_digits.simps from_base64.simps join_16 [OF digit_bounds(2) [OF b(2)]]
        join_4 [OF digit_bounds(3) [OF b(3)]] div_mult_mod_eq w)
next
  case (2 x y)
  have w: "of_nat (unat v) = v" for v :: byte by simp
  have "unat y mod 16 * 4 div 4 = unat y mod 16" by simp
  then show ?case
    by (simp only: base64_digits.simps from_base64.simps join_16 [OF digit_bounds(2) [OF byte_bound [of y]]]
        div_mult_mod_eq w)
next
  case (3 x)
  have w: "of_nat (unat v) = v" for v :: byte by simp
  have "unat x mod 4 * 16 div 16 = unat x mod 4" by simp
  then show ?case by (simp only: base64_digits.simps from_base64.simps div_mult_mod_eq w)
qed simp

lemma base64_digits_shape:
  "\<forall>n\<in>set (base64_digits bs). n < 64" "length bs = 3 * k + 2 \<Longrightarrow> length (base64_digits bs) = 4 * k + 3"
proof -
  have m: "c * 16 + d < 64" if "c < 4" "d < 16" for c d :: nat using that by linarith
  have m': "c * 4 + d < 64" if "c < 16" "d < 4" for c d :: nat using that by linarith
  have "unat x div 4 < 64" "unat x mod 4 * 16 + unat y div 16 < 64" "unat x mod 16 * 4 + unat y div 64 < 64"
    "unat x mod 4 * 16 < 64" "unat x mod 16 * 4 < 64" for x y :: byte
    using m [of "unat x mod 4" "unat y div 16"] m' [of "unat x mod 16" "unat y div 64"] m [of "unat x mod 4" 0]
      m' [of "unat x mod 16" 0] digit_bounds [OF byte_bound [of x]] digit_bounds [OF byte_bound [of y]]
    by simp_all
  note this [simp]
  show "\<forall>n\<in>set (base64_digits bs). n < 64" by (induction bs rule: base64_digits.induct) simp_all
  show "length bs = 3 * k + 2 \<Longrightarrow> length (base64_digits bs) = 4 * k + 3"
    by (induction bs arbitrary: k rule: base64_digits.induct) (simp, case_tac k, auto)
qed

text \<open>The text of a key, in hexadecimal or base 64, blanks around it allowed, is the key.\<close>

lemma key_texts:
  assumes k: "length k = 32" and t: "js_trim t = to_hex k \<or> js_trim t = to_base64 k"
  shows "parseAndValidateKey (utf8_encode t) source = Inr k"
proof -
  have h: "length (to_hex k) = 64" "list_all (\<lambda>c. hex_value c \<noteq> None) (to_hex k)" using to_hex_shape k by simp_all
  have d: "length (base64_digits k) = 43" using base64_digits_shape(2) [of k 10] k by simp
  have v: "List.map_filter base64_value (map base64_digit ns) = ns" "list_all (\<lambda>c. base64_value c \<noteq> None) (map base64_digit ns)"
    if "\<forall>n\<in>set ns. n < 64" for ns
    using that by (induction ns) (simp_all add: base64_value_digit List.map_filter_simps)
  note v = v [OF base64_digits_shape(1) [of k]]
  have e: "base64_value CHR ''='' = None" by (simp add: base64_value_def code_unit_def)
  have m: "List.map_filter base64_value (to_base64 k) = base64_digits k"
    using v(1) e by (simp add: to_base64_def List.map_filter_def)
  have l: "length (to_base64 k) = 44" "butlast (to_base64 k) = map base64_digit (base64_digits k)" "last (to_base64 k) = CHR ''=''"
    using d by (simp_all add: to_base64_def)
  have "length (js_trim t) \<ge> 44" using t h l by auto
  then have "length (utf8_encode t) \<noteq> 32" using js_trim_length [of t] utf8_length [of t] by linarith
  then show ?thesis
    using t h l v m by (auto simp: parseAndValidateKey_def Let_def utf8_decode_encode from_to_hex from_base64_digits)
qed

text \<open>Once there is a key, it stays: in the process, in the file, and for the next process.\<close>

lemma getMasterKey_again:
  "getMasterKey run s = (Inr k, s') \<Longrightarrow> getMasterKey run' s' = (Inr k, s')"
  by (auto simp: getMasterKey_def split: option.splits if_splits sum.splits prod.splits)

lemma key_file_kept:
  "getMasterKey run s = (r, s') \<Longrightarrow> kf_file s = Some c \<Longrightarrow> kf_file s' = Some c"
  by (auto simp: getMasterKey_def loadOrCreateKeyFile_def split: option.splits if_splits sum.splits prod.splits)

lemma key_for_next_process:
  assumes "getMasterKey run s = (Inr k, s')" "kc_master s = None" "\<not> truthy (map_option js_trim (kr_env run))"
    and "length (kr_random run) = 32" "\<not> truthy (map_option js_trim (kr_env run'))" "kr_fault run' = None"
    and "kr_path run' = kr_path run"
  shows "getMasterKey run' \<lparr>kc_master = None, kf_file = kf_file s'\<rparr> = (Inr k, \<lparr>kc_master = Some k, kf_file = kf_file s'\<rparr>)"
  using assms
  by (auto simp: getMasterKey_def loadOrCreateKeyFile_def parseAndValidateKey_def [of "kr_random run"]
      split: option.splits sum.splits prod.splits)

section \<open>Payloads\<close>

text \<open>What AES-256-GCM promises: a tag of 16 bytes, and opening is the inverse of sealing.\<close>

definition gcm_laws :: "crypt \<Rightarrow> bool" where
  "gcm_laws cy \<longleftrightarrow> (\<forall>k n a p. length (snd (gcm_seal cy k n a p)) = GCM_AUTH_TAG_LENGTH)
     \<and> (\<forall>k n a c t p. length t = GCM_AUTH_TAG_LENGTH \<longrightarrow> gcm_open cy k n a c t = Some p \<longleftrightarrow> gcm_seal cy k n a p = (c, t))"

lemma decrypt_iff:
  assumes laws: "gcm_laws cy"
  shows "decryptToBuffer cy enc nonce aad = Inr p \<longleftrightarrow>
    length nonce = GCM_NONCE_LENGTH \<and> encrypt_bytes cy p nonce aad = Inr enc"
proof
  let ?n = "length enc - GCM_AUTH_TAG_LENGTH"
  assume d: "decryptToBuffer cy enc nonce aad = Inr p"
  then obtain k where n: "length nonce = GCM_NONCE_LENGTH" and l: "MIN_ENCRYPTED_VALUE_LENGTH \<le> length enc"
    and h: "hd enc = ENCRYPTION_FORMAT_VERSION_V1" and k: "master_key cy = Inr k"
    and o: "gcm_open cy k nonce (aad_bytes aad) (take (?n - 1) (tl enc)) (drop ?n enc) = Some p"
    by (auto simp: decryptToBuffer_def Let_def not_less split: if_splits sum.splits option.splits)
  have "length (drop ?n enc) = GCM_AUTH_TAG_LENGTH" using l by (simp add: MIN_ENCRYPTED_VALUE_LENGTH_def)
  then have s: "gcm_seal cy k nonce (aad_bytes aad) p = (take (?n - 1) (tl enc), drop ?n enc)"
    using laws o by (simp add: gcm_laws_def)
  have "enc = hd enc # take (?n - 1) (tl enc) @ drop ?n enc"
    using l by (cases enc; cases ?n) (auto simp: MIN_ENCRYPTED_VALUE_LENGTH_def)
  then show "length nonce = GCM_NONCE_LENGTH \<and> encrypt_bytes cy p nonce aad = Inr enc"
    using n k h s by (simp add: encrypt_bytes_def)
next
  assume a: "length nonce = GCM_NONCE_LENGTH \<and> encrypt_bytes cy p nonce aad = Inr enc"
  then obtain k where k: "master_key cy = Inr k" by (cases "master_key cy") (auto simp: encrypt_bytes_def)
  obtain c t where s: "gcm_seal cy k nonce (aad_bytes aad) p = (c, t)" by fastforce
  have enc: "enc = ENCRYPTION_FORMAT_VERSION_V1 # c @ t" using a k s by (simp add: encrypt_bytes_def)
  have "length (snd (gcm_seal cy k nonce (aad_bytes aad) p)) = GCM_AUTH_TAG_LENGTH" using laws by (simp add: gcm_laws_def)
  then have t: "length t = GCM_AUTH_TAG_LENGTH" using s by simp
  then have "gcm_open cy k nonce (aad_bytes aad) c t = Some p" using laws s by (simp add: gcm_laws_def)
  then show "decryptToBuffer cy enc nonce aad = Inr p"
    using a k t by (simp add: decryptToBuffer_def enc MIN_ENCRYPTED_VALUE_LENGTH_def Let_def)
qed

lemma decrypt_encrypted_text:
  assumes "gcm_laws cy" "length nonce = GCM_NONCE_LENGTH" "encrypt_text cy s nonce aad = Inr enc"
  shows "decrypt_text cy enc nonce aad = Inr s"
  using assms decrypt_iff [OF assms(1), of enc nonce aad "utf8_encode s"]
  by (simp add: encrypt_text_def decrypt_text_def utf8_decode_encode)

section \<open>Previews\<close>

text \<open>
  With the default length, a preview is an ellipsis and the last four characters, perhaps after
  a known prefix; between them, at least one character is hidden.
\<close>

lemma mask_hides:
  assumes "maskKey (Some key) None = shown" "key \<noteq> []"
  shows "length key \<le> 4 \<and> shown = MASK_ELLIPSIS
    \<or> (\<exists>start hidden tail. start \<in> insert [] (set KNOWN_CREDENTIAL_PREFIXES) \<and> hidden \<noteq> [] \<and> length tail = 4
        \<and> key = start @ hidden @ tail \<and> shown = start @ MASK_ELLIPSIS @ tail)"
proof (cases "length key \<le> 4")
  case True
  then show ?thesis using assms by (simp add: maskKey_def DEFAULT_SUFFIX_LENGTH_def)
next
  case False
  define p where "p = matched_prefix key None"
  let ?tail = "drop (length key - 4) key"
  have p: "p \<in> insert [] (set KNOWN_CREDENTIAL_PREFIXES)" "prefix p key"
    by (auto simp: p_def matched_prefix_def from_option_def find_Some_iff split: option.splits)
  have shown: "shown = (if p \<noteq> [] \<and> length p + 5 \<le> length key then p else []) @ MASK_ELLIPSIS @ ?tail"
    using assms False by (auto simp: maskKey_def DEFAULT_SUFFIX_LENGTH_def slice_last_def p_def Let_def)
  have cut: "\<exists>hidden. hidden \<noteq> [] \<and> key = start @ hidden @ ?tail" if pre: "prefix start key" and len: "length start + 5 \<le> length key" for start
  proof -
    obtain rest where m: "key = start @ rest" using pre by (blast elim: prefixE)
    then have "rest = take (length rest - 4) rest @ ?tail" "take (length rest - 4) rest \<noteq> []" using len by auto
    then show ?thesis using m by blast
  qed
  have l: "length ?tail = 4" using False by simp
  show ?thesis
  proof (cases "p \<noteq> [] \<and> length p + 5 \<le> length key")
    case True
    then have "shown = p @ MASK_ELLIPSIS @ ?tail" using shown by simp
    moreover obtain hidden where "hidden \<noteq> []" "key = p @ hidden @ ?tail" using cut [of p] p(2) True by blast
    ultimately show ?thesis using p(1) l by blast
  next
    case F: False
    have "shown = [] @ MASK_ELLIPSIS @ ?tail" using shown F by auto
    moreover obtain hidden where "hidden \<noteq> []" "key = [] @ hidden @ ?tail" using cut [of "[]"] False by auto
    ultimately show ?thesis using l by blast
  qed
qed

text \<open>Asked to show nothing of it, the preview shows the whole key.\<close>

lemma mask_leaks:
  "key \<noteq> [] \<Longrightarrow> suffix key (maskKey (Some key) (Some \<lparr>mk_suffixLength = Some 0, mk_customPrefix = c\<rparr>))"
  by (auto simp: maskKey_def slice_last_def Let_def suffix_def)

end
