(* ===== verification/Providers.thy ===== *)
theory Providers
  imports Models Discovery EncryptionFacts
begin

text \<open>
  \<open>modules/providers/providers.service.ts\<close> and \<open>credentials/credentials.service.ts\<close>: the
  providers, what goes with one that is deleted, and the credential of each. Rows with equal
  sort keys come in the order of insertion.
\<close>

section \<open>Statements\<close>

definition PROVIDER_KINDS :: "string list" where
  "PROVIDER_KINDS = [''anthropic'', ''openai'', ''google'', ''ollama'', ''lmstudio'', ''openai_compatible'']"

definition ALWAYS_LOCAL_KINDS :: "string list" where
  "ALWAYS_LOCAL_KINDS = [''ollama'', ''lmstudio'']"

definition kind_check :: exn where
  "kind_check = sqlite_error ''SQLITE_CONSTRAINT_CHECK'' ''CHECK constraint failed: providers''"

definition insert_provider :: "provider_row \<Rightarrow> database \<Rightarrow> exn + database" where
  "insert_provider r d =
     (if pr_kind r \<notin> set PROVIDER_KINDS then Inl kind_check
      else if provider_by_id d (pr_id r) \<noteq> None
      then Inl (sqlite_error ''SQLITE_CONSTRAINT_PRIMARYKEY'' ''UNIQUE constraint failed: providers.id'')
      else Inr (d\<lparr>providers := providers d @ [r]\<rparr>))"

definition update_provider_row ::
  "string \<Rightarrow> string \<Rightarrow> string \<Rightarrow> int \<Rightarrow> string option \<Rightarrow> int \<Rightarrow> string \<Rightarrow> database \<Rightarrow> exn + database" where
  "update_provider_row i name kind isLocal baseUrl enabled now d =
     (if kind \<notin> set PROVIDER_KINDS \<and> provider_by_id d i \<noteq> None then Inl kind_check
      else Inr (d\<lparr>providers := map (\<lambda>p. if pr_id p = i then p\<lparr>pr_name := name, pr_kind := kind, pr_is_local := isLocal,
             pr_base_url := baseUrl, pr_enabled := enabled, pr_updated_at := now\<rparr> else p) (providers d)\<rparr>))"

text \<open>
  \<open>DELETE FROM providers\<close>: its models and its credential go with it, the agents lose a model
  that is gone, and the usage events what they name.
\<close>

definition unset :: "string list \<Rightarrow> string option \<Rightarrow> string option" where
  "unset gone ref = (case ref of None \<Rightarrow> None | Some i \<Rightarrow> if i \<in> set gone then None else ref)"

definition delete_provider :: "string \<Rightarrow> database \<Rightarrow> exn + database" where
  "delete_provider i d =
     (let gone = map mo_id (models_of d i) in
      Inr (d\<lparr>providers := filter (\<lambda>p. pr_id p \<noteq> i) (providers d),
        models := filter (\<lambda>m. mo_provider_id m \<noteq> i) (models d),
        credentials := filter (\<lambda>c. cr_provider_id c \<noteq> i) (credentials d),
        agents := map (\<lambda>a. a\<lparr>ag_model_id := unset gone (ag_model_id a)\<rparr>) (agents d),
        usage_events := map (\<lambda>u. u\<lparr>us_provider_id := unset [i] (us_provider_id u),
          us_model_id := unset gone (us_model_id u)\<rparr>) (usage_events d)\<rparr>))"

definition upsert_credential :: "credential_row \<Rightarrow> database \<Rightarrow> exn + database" where
  "upsert_credential r d =
     (if provider_by_id d (cr_provider_id r) = None then Inl foreign_key_error
      else if credential_by_provider d (cr_provider_id r) = None then Inr (d\<lparr>credentials := credentials d @ [r]\<rparr>)
      else Inr (d\<lparr>credentials := map (\<lambda>c. if cr_provider_id c = cr_provider_id r
             then r\<lparr>cr_created_at := cr_created_at c\<rparr> else c) (credentials d)\<rparr>))"

definition delete_credential :: "string \<Rightarrow> database \<Rightarrow> exn + database" where
  "delete_credential p d = Inr (d\<lparr>credentials := filter (\<lambda>c. cr_provider_id c \<noteq> p) (credentials d)\<rparr>)"

section \<open>ProvidersService\<close>

record provider_dto =
  pv_id :: string
  pv_name :: string
  pv_kind :: string
  pv_isLocal :: bool
  pv_baseUrl :: "string option"
  pv_enabled :: bool
  pv_createdAt :: string
  pv_updatedAt :: string

definition mapProviderRow :: "provider_row \<Rightarrow> provider_dto" where
  "mapProviderRow r = \<lparr>pv_id = pr_id r, pv_name = pr_name r, pv_kind = pr_kind r, pv_isLocal = fromDbBoolean (pr_is_local r),
     pv_baseUrl = pr_base_url r, pv_enabled = fromDbBoolean (pr_enabled r), pv_createdAt = pr_created_at r,
     pv_updatedAt = pr_updated_at r\<rparr>"

definition deriveIsLocal :: "string \<Rightarrow> bool option \<Rightarrow> bool" where
  "deriveIsLocal kind clientValue = (if kind \<in> set ALWAYS_LOCAL_KINDS then True else from_option False clientValue)"

definition assertBaseUrl :: "string \<Rightarrow> string option \<Rightarrow> exn + unit" where
  "assertBaseUrl kind baseUrl = (if kind \<in> set LOCAL_OR_CUSTOM_KINDS \<and> \<not> truthy baseUrl
     then Inl (bad_request [] (''baseUrl is required when kind is '' @ sql_quote kind)) else Inr ())"

definition findOneProvider :: "database \<Rightarrow> string \<Rightarrow> exn + provider_dto" where
  "findOneProvider d i = (case provider_by_id d i of None \<Rightarrow> Inl (provider_missing i) | Some r \<Rightarrow> Inr (mapProviderRow r))"

record create_provider_dto =
  np_name :: string
  np_kind :: string
  np_baseUrl :: "string option"
  np_isLocal :: "bool option"
  np_enabled :: "bool option"

definition createProvider :: "env \<Rightarrow> create_provider_dto \<Rightarrow> provider_dto comp" where
  "createProvider env dto =
     bnd (of_sum (assertBaseUrl (np_kind dto) (np_baseUrl dto))) (\<lambda>_.
     bnd (fresh_id env) (\<lambda>i. bnd (now_iso env) (\<lambda>now.
     bnd (exec_write env (insert_provider \<lparr>pr_id = i, pr_name = np_name dto, pr_kind = np_kind dto,
            pr_is_local = toDbBoolean (deriveIsLocal (np_kind dto) (np_isLocal dto)), pr_base_url = np_baseUrl dto,
            pr_enabled = toDbBoolean (from_option True (np_enabled dto)), pr_created_at = now, pr_updated_at = now\<rparr>)) (\<lambda>_.
     query (\<lambda>d. findOneProvider d i)))))"

text \<open>\<open>up_has_baseUrl\<close> is \<open>'baseUrl' in dto\<close>; the value is then \<^const>\<open>None\<close> for \<open>null\<close> and for \<open>undefined\<close>.\<close>

record update_provider_dto =
  up_name :: "string option"
  up_kind :: "string option"
  up_has_baseUrl :: bool
  up_baseUrl :: "string option"
  up_isLocal :: "bool option"
  up_enabled :: "bool option"

definition updateProvider :: "env \<Rightarrow> string \<Rightarrow> update_provider_dto \<Rightarrow> provider_dto comp" where
  "updateProvider env i dto =
     bnd (query (\<lambda>d. findOneProvider d i)) (\<lambda>existing.
     let newKind = from_option (pv_kind existing) (up_kind dto);
         newBaseUrl = (if up_has_baseUrl dto then up_baseUrl dto else pv_baseUrl existing) in
     bnd (of_sum (assertBaseUrl newKind newBaseUrl)) (\<lambda>_.
     let newIsLocal = deriveIsLocal newKind (coalesce (up_isLocal dto) (Some (pv_isLocal existing)));
         newEnabled = from_option (pv_enabled existing) (up_enabled dto);
         newName = from_option (pv_name existing) (up_name dto) in
     bnd (now_iso env) (\<lambda>now.
     bnd (exec_write env (update_provider_row i newName newKind (toDbBoolean newIsLocal) newBaseUrl
            (toDbBoolean newEnabled) now)) (\<lambda>_.
     query (\<lambda>d. findOneProvider d i)))))"

definition removeProvider :: "env \<Rightarrow> string \<Rightarrow> unit comp" where
  "removeProvider env i =
     bnd (query (\<lambda>d. if provider_by_id d i = None then Inl (provider_missing i) else Inr ())) (\<lambda>_.
     exec_write env (delete_provider i))"

record list_providers_query =
  lv_page :: pagination_query
  lv_kind :: "string option"
  lv_enabled :: "bool option"
  lv_isLocal :: "bool option"

definition PROVIDER_SORT_COLUMNS :: "(string \<times> string) list" where
  "PROVIDER_SORT_COLUMNS = [(''id'', ''id''), (''name'', ''name''), (''kind'', ''kind''), (''createdAt'', ''created_at''),
     (''updatedAt'', ''updated_at'')]"

definition provider_pagination :: "list_providers_query \<Rightarrow> sql_pagination_options" where
  "provider_pagination q = \<lparr>po_query = lv_page q, po_allowedSortColumns = PROVIDER_SORT_COLUMNS,
     po_defaultSortKey = ''createdAt'', po_defaultOrder = ''desc'', po_tiebreakerColumn = None\<rparr>"

definition provider_conditions :: "list_providers_query \<Rightarrow> provider_row \<Rightarrow> bool" where
  "provider_conditions q p \<longleftrightarrow> (case lv_kind q of None \<Rightarrow> True | Some k \<Rightarrow> pr_kind p = k)
     \<and> (case lv_enabled q of None \<Rightarrow> True | Some b \<Rightarrow> pr_enabled p = toDbBoolean b)
     \<and> (case lv_isLocal q of None \<Rightarrow> True | Some b \<Rightarrow> pr_is_local p = toDbBoolean b)"

definition provider_column :: "string \<Rightarrow> provider_row \<Rightarrow> string" where
  "provider_column col p = (if col = ''id'' then pr_id p else if col = ''name'' then pr_name p
     else if col = ''kind'' then pr_kind p else if col = ''created_at'' then pr_created_at p else pr_updated_at p)"

text \<open>Stable sorting by one column, in either direction.\<close>

definition ordered_rows :: "bool \<Rightarrow> ('r \<Rightarrow> string) \<Rightarrow> 'r list \<Rightarrow> 'r list" where
  "ordered_rows ascending column rows = (if ascending then sort_key column rows else rev (sort_key column (rev rows)))"

definition findAllProviders :: "database \<Rightarrow> list_providers_query \<Rightarrow> exn + provider_dto page" where
  "findAllProviders d q =
     (case buildPaginationSqlFragment (provider_pagination q) of
        Inl e \<Rightarrow> Inl e
      | Inr fragment \<Rightarrow>
         (case resolve_sort_column (provider_pagination q) of
            Inl e \<Rightarrow> Inl e
          | Inr col \<Rightarrow>
              let rows = filter (provider_conditions q) (providers d);
                  ordered = ordered_rows (sort_ascending (provider_pagination q)) (provider_column col) rows
              in Inr (createPaginatedResponse (map mapProviderRow (page_of (sr_params fragment) ordered)) (length rows)
                   (Some (clamp_limit (pq_limit (lv_page q)))) (Some (clamp_offset (pq_offset (lv_page q)))))))"

section \<open>CredentialsService\<close>

record credential_response =
  crd_providerId :: string
  crd_configured :: bool
  crd_maskedPreview :: string
  crd_createdAt :: string
  crd_updatedAt :: string

record set_credential_dto =
  sc_apiKey :: "string option"
  sc_value :: "string option"

definition credential_metadata :: "credential_row \<Rightarrow> credential_response" where
  "credential_metadata r = \<lparr>crd_providerId = cr_provider_id r, crd_configured = True,
     crd_maskedPreview = from_option [] (cr_masked_preview r), crd_createdAt = cr_created_at r, crd_updatedAt = cr_updated_at r\<rparr>"

definition findCredential :: "database \<Rightarrow> string \<Rightarrow> exn + credential_response" where
  "findCredential d p = (case assertProviderExists d p of Inl e \<Rightarrow> Inl e
     | Inr _ \<Rightarrow> (case credential_by_provider d p of
          None \<Rightarrow> Inl (not_found [] (''No credential configured for provider '' @ sql_quote p))
        | Some r \<Rightarrow> Inr (credential_metadata r)))"

definition setCredential :: "env \<Rightarrow> crypt \<Rightarrow> string \<Rightarrow> set_credential_dto \<Rightarrow> credential_response comp" where
  "setCredential env cy p dto =
     bnd (query (\<lambda>d. assertProviderExists d p)) (\<lambda>_.
     let secret = map_option js_trim (coalesce (sc_apiKey dto) (sc_value dto)) in
     if \<not> truthy secret then raise_exn (bad_request [] ''Credential value is required and cannot be empty'')
     else bnd (draw_bytes env) (\<lambda>nonce.
          bnd (of_sum (encrypt_text cy (from_option [] secret) nonce (Some p))) (\<lambda>encryptedValue.
          bnd (now_iso env) (\<lambda>now.
          bnd (exec_write env (upsert_credential \<lparr>cr_provider_id = p, cr_encrypted_value = encryptedValue, cr_nonce = nonce,
                 cr_masked_preview = Some (maskKey secret None), cr_created_at = now, cr_updated_at = now\<rparr>)) (\<lambda>_.
          query (\<lambda>d. case credential_by_provider d p of
              None \<Rightarrow> Inl (internal_error [] ''Failed to retrieve persisted credential record'')
            | Some r \<Rightarrow> Inr (credential_metadata r)))))))"

definition removeCredential :: "env \<Rightarrow> string \<Rightarrow> unit comp" where
  "removeCredential env p = bnd (query (\<lambda>d. assertProviderExists d p)) (\<lambda>_. exec_write env (delete_credential p))"

text \<open>The \<open>EncryptionService\<close> behind \<open>decrypt\<close> of an environment.\<close>

definition decrypts_with :: "env \<Rightarrow> crypt \<Rightarrow> bool" where
  "decrypts_with env cy \<longleftrightarrow> (\<forall>enc nonce p. decrypt env enc nonce p = decrypt_text cy enc nonce (Some p))"

end
