(* ===== verification/ProviderFacts.thy ===== *)
theory ProviderFacts
  imports Providers
begin

text \<open>
  A credential is decrypted to what was set, by the execution chain too; and a provider that needs
  an address keeps one, whatever the requests.
\<close>

section \<open>Credentials\<close>

definition credentials_ok :: "database \<Rightarrow> bool" where
  "credentials_ok d \<longleftrightarrow> distinct (map cr_provider_id (credentials d))"

lemma find_append_new: "find P xs = None \<Longrightarrow> P x \<Longrightarrow> find P (xs @ [x]) = Some x"
  by (induction xs) (auto split: if_splits)

lemma upsert_then_find:
  assumes "upsert_credential r d = Inr d'"
  shows "\<exists>created. credential_by_provider d' (cr_provider_id r) = Some (r\<lparr>cr_created_at := created\<rparr>)
     \<and> created = (case credential_by_provider d (cr_provider_id r) of None \<Rightarrow> cr_created_at r | Some old \<Rightarrow> cr_created_at old)
     \<and> providers d' = providers d \<and> provider_by_id d (cr_provider_id r) \<noteq> None"
proof (cases "credential_by_provider d (cr_provider_id r)")
  case None
  then show ?thesis
    using assms by (auto simp: upsert_credential_def credential_by_provider_def find_append_new split: if_splits)
next
  case (Some old)
  have "find (\<lambda>c. cr_provider_id c = p) (map (\<lambda>c. if cr_provider_id c = p then r\<lparr>cr_created_at := cr_created_at c\<rparr> else c) xs)
      = map_option (\<lambda>c. r\<lparr>cr_created_at := cr_created_at c\<rparr>) (find (\<lambda>c. cr_provider_id c = p) xs)"
    if "p = cr_provider_id r" for p and xs :: "credential_row list"
    using that by (induction xs) auto
  then show ?thesis using assms Some by (auto simp: upsert_credential_def credential_by_provider_def split: if_splits)
qed

lemma wp_setCredential:
  "wp (setCredential env cy p dto)
     (\<lambda>r w'. \<exists>row secret nonce. secret = js_trim (from_option [] (coalesce (sc_apiKey dto) (sc_value dto))) \<and> secret \<noteq> []
        \<and> nonce = rand env (draws w) \<and> credential_by_provider (db w') p = Some row
        \<and> encrypt_text cy secret nonce (Some p) = Inr (cr_encrypted_value row) \<and> cr_nonce row = nonce
        \<and> cr_masked_preview row = Some (maskKey (Some secret) None) \<and> r = credential_metadata row
        \<and> provider_by_id (db w') p \<noteq> None
        \<and> (\<forall>old. credential_by_provider (db w) p = Some old \<longrightarrow> cr_created_at row = cr_created_at old))
     (\<lambda>_ w'. True) w"
proof -
  have step: "\<exists>row. credential_by_provider d' p = Some row \<and> Inr enc = Inr (cr_encrypted_value row) \<and> cr_nonce row = nonce
        \<and> cr_masked_preview row = Some m \<and> provider_by_id d' p \<noteq> None
        \<and> (\<forall>old. credential_by_provider d p = Some old \<longrightarrow> cr_created_at row = cr_created_at old)"
    if "upsert_credential \<lparr>cr_provider_id = p, cr_encrypted_value = enc, cr_nonce = nonce, cr_masked_preview = Some m,
          cr_created_at = now, cr_updated_at = now\<rparr> d = Inr d'" for d d' enc nonce m now
    using upsert_then_find [OF that] by (auto simp: provider_by_id_def)
  show ?thesis
    unfolding setCredential_def
    by (cases "coalesce (sc_apiKey dto) (sc_value dto)")
      (auto simp: wp_simps Let_def truthy_def split: option.splits sum.splits dest!: step)
qed

section \<open>Providers\<close>

definition provider_ok :: "provider_row \<Rightarrow> bool" where
  "provider_ok r \<longleftrightarrow> pr_kind r \<in> set PROVIDER_KINDS
     \<and> (pr_kind r \<in> set LOCAL_OR_CUSTOM_KINDS \<longrightarrow> truthy (pr_base_url r))
     \<and> (pr_kind r \<in> set ALWAYS_LOCAL_KINDS \<longrightarrow> pr_is_local r = 1)"

definition providers_ok :: "database \<Rightarrow> bool" where
  "providers_ok d \<longleftrightarrow> distinct (map pr_id (providers d)) \<and> (\<forall>r\<in>set (providers d). provider_ok r)"

lemma assertBaseUrl_ok: "assertBaseUrl k u = Inr x \<Longrightarrow> k \<in> set LOCAL_OR_CUSTOM_KINDS \<Longrightarrow> truthy u"
  by (auto simp: assertBaseUrl_def split: if_splits)

lemma deriveIsLocal_ok: "k \<in> set ALWAYS_LOCAL_KINDS \<Longrightarrow> toDbBoolean (deriveIsLocal k b) = 1"
  by (simp add: deriveIsLocal_def toDbBoolean_def)

lemma insert_provider_ok:
  assumes "insert_provider r d = Inr d'" "pr_kind r \<in> set PROVIDER_KINDS \<Longrightarrow> provider_ok r" "providers_ok d"
  shows "providers_ok d'"
proof -
  have d': "d' = d\<lparr>providers := providers d @ [r]\<rparr>" and k: "provider_ok r" and new: "provider_by_id d (pr_id r) = None"
    using assms by (auto simp: insert_provider_def split: if_splits)
  have "pr_id r \<notin> set (map pr_id (providers d))" using new unfolding provider_by_id_def find_None_iff by auto
  then show ?thesis using assms(3) k by (simp add: d' providers_ok_def)
qed

lemma update_provider_ok:
  assumes u: "update_provider_row i name kind isLocal url enabled now d = Inr d'" and ok: "providers_ok d"
    and new: "kind \<in> set LOCAL_OR_CUSTOM_KINDS \<Longrightarrow> truthy url" "kind \<in> set ALWAYS_LOCAL_KINDS \<Longrightarrow> isLocal = 1"
  shows "providers_ok d'"
proof -
  define f where "f p = (if pr_id p = i then p\<lparr>pr_name := name, pr_kind := kind, pr_is_local := isLocal,
    pr_base_url := url, pr_enabled := enabled, pr_updated_at := now\<rparr> else p)" for p :: provider_row
  have d': "d' = d\<lparr>providers := map f (providers d)\<rparr>"
    and k: "provider_by_id d i \<noteq> None \<Longrightarrow> kind \<in> set PROVIDER_KINDS"
    using u by (auto simp: update_provider_row_def f_def split: if_splits)
  have "map pr_id (map f (providers d)) = map pr_id (providers d)" by (simp add: f_def)
  then have "distinct (map pr_id (map f (providers d)))" using ok unfolding providers_ok_def by (simp only:)
  moreover have "provider_ok (f r)" if "r \<in> set (providers d)" for r
  proof (cases "pr_id r = i")
    case True
    then have "provider_by_id d i \<noteq> None" using that by (auto simp: provider_by_id_def find_None_iff)
    then show ?thesis using True k new by (simp add: provider_ok_def f_def)
  next
    case False
    then show ?thesis using that ok by (simp add: providers_ok_def f_def)
  qed
  ultimately show ?thesis unfolding d' providers_ok_def by (simp add: comp_def)
qed

lemma wp_createProvider:
  "providers_ok (db w) \<Longrightarrow> wp (createProvider env dto) (\<lambda>_ w'. providers_ok (db w')) (\<lambda>_ w'. providers_ok (db w')) w"
  unfolding createProvider_def
  by (auto simp: wp_simps provider_ok_def deriveIsLocal_ok split: option.splits sum.splits
      dest!: assertBaseUrl_ok elim!: insert_provider_ok)

lemma wp_updateProvider:
  "providers_ok (db w) \<Longrightarrow> wp (updateProvider env i dto) (\<lambda>_ w'. providers_ok (db w')) (\<lambda>_ w'. providers_ok (db w')) w"
  unfolding updateProvider_def
  by (auto simp: wp_simps Let_def split: option.splits sum.splits
      elim!: update_provider_ok intro: deriveIsLocal_ok dest: assertBaseUrl_ok)

lemma wp_removeProvider:
  "providers_ok (db w) \<Longrightarrow> wp (removeProvider env i) (\<lambda>_ w'. providers_ok (db w')) (\<lambda>_ w'. providers_ok (db w')) w"
  unfolding removeProvider_def
  by (auto simp: wp_simps delete_provider_def providers_ok_def Let_def distinct_map_filter split: option.splits sum.splits)

text \<open>
  The object of a request has every field of its class: \<open>'baseUrl' in dto\<close> holds when the body
  does not name it. A new name clears the address of a provider of a hosted kind.
\<close>

lemma update_forgets_base_url:
  assumes "updateProvider env i \<lparr>up_name = name, up_kind = None, up_has_baseUrl = True, up_baseUrl = None,
      up_isLocal = None, up_enabled = None\<rparr> w = (Inr r, w')"
  shows "pv_baseUrl r = None \<and> pv_kind r \<notin> set LOCAL_OR_CUSTOM_KINDS"
proof -
  have f: "find (\<lambda>p. pr_id p = i) (map (\<lambda>p. if pr_id p = i then f p else p) xs) = map_option f (find (\<lambda>p. pr_id p = i) xs)"
    if "\<And>p. pr_id (f p) = pr_id p" for f and xs :: "provider_row list"
    using that by (induction xs) auto
  have "wp (updateProvider env i \<lparr>up_name = name, up_kind = None, up_has_baseUrl = True, up_baseUrl = None,
      up_isLocal = None, up_enabled = None\<rparr>) (\<lambda>r w'. pv_baseUrl r = None \<and> pv_kind r \<notin> set LOCAL_OR_CUSTOM_KINDS) (\<lambda>_ _. True) w"
    unfolding updateProvider_def
    by (auto simp: wp_simps Let_def assertBaseUrl_def findOneProvider_def update_provider_row_def provider_by_id_def
        mapProviderRow_def f split: option.splits sum.splits if_splits)
  then show ?thesis using assms by (rule wp_Inr)
qed

end
