(* ===== verification/ServiceSamples.thy ===== *)
theory ServiceSamples
  imports RosterFacts DiscoveryFacts StorageFacts BudgetFacts MemoryFacts ProviderFacts SampleRuns
begin

text \<open>
  Runs of the management services on the small installation of \<open>Examples\<close>: a team of one member
  that gets a second, a discovery of one new model, a disk with a stored picture, and a user who lives in Oslo.
\<close>

section \<open>A team\<close>

definition crew_db :: database where
  "crew_db = sample_db\<lparr>agents := [sample_agent, sample_agent\<lparr>ag_id := ''a2''\<rparr>],
     teams := [\<lparr>te_id = ''t1'', te_name = ''Crew'', te_description = None, te_strategy = ''sequential'',
        te_max_turns_per_interaction = Some 5, te_created_at = sample_time, te_updated_at = sample_time\<rparr>],
     team_members := [\<lparr>tm_team_id = ''t1'', tm_agent_id = ''a1'', tm_role = None, tm_position = Some 0,
        tm_is_coordinator = 0, tm_created_at = sample_time\<rparr>]\<rparr>"

definition crew_world :: world where
  "crew_world = sample_world\<lparr>db := crew_db\<rparr>"

lemma team_rosters: "rosters_ok crew_db" "roster crew_db ''t1'' = [''a1'']"
proof -
  have h: "holds_roster crew_db t (if t = ''t1'' then [''a1''] else [])" for t
    by (simp add: holds_roster_def entries_def members_of_def crew_db_def numbered_def)
  show "rosters_ok crew_db" unfolding rosters_ok_def using h by blast
  show "roster crew_db ''t1'' = [''a1'']" using roster_eq [OF h [of "''t1''"]] by simp
qed

lemma team_addition: "\<exists>r w'. addMember answering_env ''t1'' ''a2'' None crew_world = (Inr r, w')"
proof -
  have "wp (addMember answering_env ''t1'' ''a2'' None) (\<lambda>_ _. True) (\<lambda>_ _. False) crew_world"
    by (simp add: addMember_def wp_simps wp_transaction check_addition_def assertTeamExists_def team_by_id_def
        agent_by_id_def member_by_key_def members_of_def insert_member_def touchTeam_def touch_team_def Let_def
        crew_world_def crew_db_def answering_env_def sample_agent_def sample_db_def)
  then show ?thesis by (auto dest: wp_total)
qed

section \<open>A discovery\<close>

definition sample_item :: discovered_model where
  "sample_item = \<lparr>dm_modelIdentifier = ''phi'', dm_displayName = ''Phi'', dm_contextWindow = Some 4096,
     dm_defaultTemperature = None, dm_defaultMaxTokens = None\<rparr>"

definition sample_call :: discovery_call where
  "sample_call = \<lparr>dc_result = Inr (Some [Some sample_item]), dc_others = (\<lambda>d. d), dc_deadline = False\<rparr>"

definition model_world :: world where
  "model_world = sample_world\<lparr>db := sample_db\<lparr>providers := [sample_provider\<lparr>pr_base_url := Some ''http://h''\<rparr>]\<rparr>\<rparr>"

lemma model_world_ok: "models_ok (db model_world)"
  by (simp add: models_ok_def model_world_def sample_db_def)

lemma sample_discovery: "\<exists>s w'. discover answering_env (\<lambda>_. Some sample_call) ''p1'' None model_world = (Inr s, w')"
proof -
  have v: "validated_items ''p1'' (Some [Some sample_item]) = Inr [sample_item]"
    unfolding validated_items_def valid_item_def sample_item_def by code_simp
  have "wp (discover answering_env (\<lambda>_. Some sample_call) ''p1'' None) (\<lambda>_ _. True) (\<lambda>_ _. False) model_world"
    apply (simp add: discover_def wp_simps check_discoverable_def discovery_key_def getDecryptedCredential_def
        LOCAL_OR_CUSTOM_KINDS_def discovery_adapter_def isSupported_def adapter_create_def sample_call_def v
        model_world_def sample_db_def sample_provider_def provider_by_id_def credential_by_provider_def
        js_trim_def js_ws_def code_unit_def is_not_found_def http_defs answering_env_def Let_def)
    apply (simp add: wp_transaction reconcile_def wp_simps existing_map_def models_of_def sample_model_def sample_item_def
        reconcile_item_def reconcile_missing_def insert_model_def discovered_row_def model_by_id_def model_by_key_def
        provider_by_id_def Let_def)
    done
  then show ?thesis by (auto dest: wp_total)
qed

section \<open>A disk\<close>

definition sample_disk :: disk where
  "sample_disk = [([''data''], Folder), ([''data'', ''artifacts''], Folder)]"

definition sample_file_id :: string where
  "sample_file_id = newId 0 (replicate 10 0)"

text \<open>Bytes below 128 as their characters, and the percent sign as itself.\<close>

definition sample_decoders :: decoders where
  "sample_decoders = \<lparr>utf8_text = map (\<lambda>b. char_of (unat b)), is_json = (\<lambda>_. False)\<rparr>"

lemma sample_root: "\<forall>x\<in>set [''data'']. proper x" "real_folder sample_disk [''data'']"
  by (auto simp: proper_def slash_def real_folder_def sample_disk_def node_at_def prefix_Cons)

lemma sample_id: "is_uuid_v7 sample_file_id"
  unfolding sample_file_id_def by (rule uuid_v7_newId) simp

lemma sample_write:
  "\<exists>sf D'. write_file sample_decoders None [''data''] ''artifacts'' [0xff, 0xd8, 0xff] None [] sample_file_id sample_disk = (Inr sf, D')"
proof -
  have b: "assertValidBucket ''artifacts'' = Inr ''artifacts''" by code_simp
  show ?thesis
    by (simp add: write_file_def b path_walk_def path_step_def sample_disk_def node_at_def validateFile_def put_file_def Let_def)
qed

section \<open>A budget\<close>

definition far_clock :: env where
  "far_clock = answering_env\<lparr>clock := (\<lambda>_. 3600000000)\<rparr>"

definition one_zone :: "string \<Rightarrow> zone option" where
  "one_zone name = (if name = ''Europe/Oslo'' then Some (\<lambda>_. 3600) else None)"

definition oslo_user :: user_profile_row where
  "oslo_user = \<lparr>usr_id = ''u1'', usr_singleton = 1, usr_display_name = Some ''Ada'', usr_pronouns = None,
     usr_about = None, usr_locale = None, usr_timezone = Some ''Europe/Oslo'', usr_include_in_prompts = 1,
     usr_picture_path = None, usr_picture_updated_at = None, usr_created_at = sample_time, usr_updated_at = sample_time\<rparr>"

definition spender_world :: world where
  "spender_world = sample_world\<lparr>db := sample_db\<lparr>user_profile := [oslo_user]\<rparr>\<rparr>"

lemma spender: "\<exists>r w'. findBudget far_clock one_zone spender_world = (Inr r, w')"
proof -
  have "wp (findBudget far_clock one_zone) (\<lambda>_ _. True) (\<lambda>_ _. False) spender_world"
    by (simp add: findBudget_def readBudget_def wp_simps wp_transaction provision_budget_def budget_row_def far_clock_def
        spender_world_def sample_db_def answering_env_def)
  then show ?thesis by (auto dest: wp_total)
qed

section \<open>A memory\<close>

definition tea_memory :: create_memory_dto where
  "tea_memory = \<lparr>cm_content = ''Likes tea'', cm_tags = Some [''Tea'', '' tea '', ''Drinks'']\<rparr>"

lemma sample_memory: "\<exists>r w'. createAgentMemory answering_env ''a1'' tea_memory sample_world = (Inr r, w')"
proof -
  have "wp (createAgentMemory answering_env ''a1'' tea_memory) (\<lambda>_ _. True) (\<lambda>_ _. False) sample_world"
    by (simp add: createAgentMemory_def wp_simps assertAgentExists_def agent_by_id_def insert_agent_memory_def
        answering_env_def sample_db_def sample_agent_def Let_def)
  then show ?thesis by (auto dest: wp_total)
qed

section \<open>A credential\<close>

text \<open>A cipher that satisfies the laws, with the text itself as ciphertext.\<close>

definition open_crypt :: crypt where
  "open_crypt = \<lparr>gcm_seal = (\<lambda>_ _ _ p. (p, replicate 16 0)),
     gcm_open = (\<lambda>_ _ _ c t. if t = replicate 16 0 then Some c else None), master_key = Inr (replicate 32 7)\<rparr>"

definition crypt_env :: env where
  "crypt_env = answering_env\<lparr>rand := (\<lambda>_. replicate 12 1), decrypt := (\<lambda>e n p. decrypt_text open_crypt e n (Some p))\<rparr>"

definition typed_key :: set_credential_dto where
  "typed_key = \<lparr>sc_apiKey = Some '' sk-ant-0123456789 '', sc_value = None\<rparr>"

lemma open_crypt_laws: "gcm_laws open_crypt"
  by (auto simp: gcm_laws_def open_crypt_def GCM_AUTH_TAG_LENGTH_def)

lemma crypt_env_decrypts: "decrypts_with crypt_env open_crypt"
  by (simp add: decrypts_with_def crypt_env_def)

lemma typed_key_trimmed: "js_trim (from_option [] (coalesce (sc_apiKey typed_key) (sc_value typed_key))) = ''sk-ant-0123456789''"
  by (simp add: typed_key_def js_trim_def js_ws_def code_unit_def)

lemma sample_credential: "\<exists>r w'. setCredential crypt_env open_crypt ''p1'' typed_key sample_world = (Inr r, w')"
proof -
  have "wp (setCredential crypt_env open_crypt ''p1'' typed_key) (\<lambda>_ _. True) (\<lambda>_ _. False) sample_world"
    using typed_key_trimmed
    by (simp add: setCredential_def wp_simps assertProviderExists_def provider_by_id_def upsert_credential_def
        credential_by_provider_def encrypt_text_def encrypt_bytes_def open_crypt_def crypt_env_def answering_env_def
        typed_key_def sample_db_def sample_provider_def Let_def)
  then show ?thesis by (auto dest: wp_total)
qed

end
