(* ===== verification/Spec2Isabelle.thy ===== *)
theory Spec2Isabelle
  imports RoutingFacts CompactionFacts SampleRuns ContextFacts ChatFacts AdapterFacts ServiceSamples
begin

text \<open>
  Glassbeetle is a local application for chats with agents and teams of agents: an API
  server (\<open>apps/api\<close>, NestJS over SQLite), a web client and a desktop shell. This
  development models the part of the server that answers in a chat, and what it
  rests on: \<open>modules/inference\<close>, \<open>modules/chats\<close>, \<open>model-adapters\<close> with the adapters
  of the four providers, \<open>modules/teams\<close>, \<open>modules/providers/models\<close>, \<open>file-storage\<close>, and the
  persistence and pagination helpers of \<open>common\<close>. All paths below are relative to
  \<open>apps/api/src\<close>.

  A request. \<open>completeChat\<close> and \<open>streamChat\<close> (\<open>modules/inference/inference.service.ts\<close>)
  look the chat up, and answer as its agent or run an exchange between the members of its
  team. Each turn resolves agent, model, provider and key, builds the context of the call
  from the stored transcript, calls the adapter of the provider, and stores the reply and a
  usage event; the streamed turn stores a pending row first, checkpoints the partial text
  into it, and closes it at the end. \<open>compactChat\<close> asks the model for a summary of the older
  messages and moves the boundary before which the context leaves messages out.

  The model. A computation (\<open>comp\<close>, theory \<open>Runtime\<close>) maps the state of the process to a
  value, an exception or \<open>Returned\<close> (the consumer of a generator left it), and a state. The
  state \<open>world\<close> holds the database, the local variables of the streamed turn in progress,
  the abort signal, the events sent so far and the counters of the inputs taken from the
  environment. The environment \<open>env\<close> is what is not under \<open>src\<close>: the clock, the random
  bytes, the failures of the database driver, the cipher, \<open>JSON.parse\<close>, the adapters, and
  what the rest of the process does while a request awaits or a generator is suspended. It
  is a parameter of every definition. A database is a record of tables, each the list of
  its rows in the order of insertion; a statement is a function that fails with the error
  of a violated constraint or returns the changed database. Numbers of JavaScript that the
  code only compares, adds and stores are \<open>int\<close> or \<open>rat\<close>, bytes are \<open>8 word\<close>.

  The theories, bottom up:
  \<^item> \<open>Prelude\<close>: the JavaScript string operations the code uses, and the state and error
    monad with its weakest precondition \<open>wp\<close> and the relation \<open>obeys\<close> between the states
    before and after.
  \<^item> \<open>Regex\<close>: backtracking matching of the regular expressions in the sources, with the
    priorities of JavaScript; the list of all matches of an expression is finite, so
    matching is a function with no fuel.
  \<^item> \<open>ModelErrors\<close> (\<open>model-adapters/errors/*\<close>): exceptions, error classes, redaction,
    classification, payloads.
  \<^item> \<open>Persistence\<close> (\<open>common/persistence\<close>): identifiers and timestamps.
  \<^item> \<open>Schema\<close> (\<open>database/*\<close>): rows, constraints, statements, the startup sweep.
  \<^item> \<open>Adapters\<close> (\<open>model-adapters/types\<close>, \<open>adapter-factory\<close>): requests, responses, events,
    the registry. The interface of an adapter is a function of the position of the call.
  \<^item> \<open>Runtime\<close>: environment, state, clock, statements, transactions, \<open>yield\<close>; the locale
    \<open>store_relation\<close> of relations between databases.
  \<^item> \<open>ContextConstruction\<close> (\<open>context-construction.service.ts\<close>): prompt, inclusion, fitting.
  \<^item> \<open>InferenceCore\<close>, \<open>StreamTurn\<close>, \<open>TeamChat\<close>, \<open>Compaction\<close> (\<open>inference.service.ts\<close>,
    \<open>compaction-prompts.ts\<close>): the execution chain and persistence; a turn; the four team
    strategies, streamed or not; compaction. The retry loops carry the number of attempts
    they have left (\<open>maxRetries\<close>, 3), the turn loops the number of turns (at most 10).
  \<^item> \<open>Pagination\<close> (\<open>common/pagination\<close>), \<open>Chats\<close> (\<open>modules/chats\<close>): list queries, chats and
    messages.
  \<^item> \<open>Transport\<close>: an HTTP exchange, and the loop in which every adapter reads a streamed body;
    a body is the finite list of its reads, so the loop is structural.
  \<^item> \<open>OpenAi\<close>, \<open>Anthropic\<close>, \<open>Gemini\<close>, \<open>Ollama\<close> (\<open>model-adapters/<provider>\<close>): payload,
    headers, error mapping, completion, stream and discovery of each adapter; \<open>Turns\<close> is the
    conversation as Anthropic and Gemini are sent it. The argument of type \<open>..._wire\<close> is
    \<open>JSON.parse\<close> with the casts to the wire types, and \<open>new URL\<close>. The discovery of Anthropic
    and of Gemini carries the number of further pages allowed (\<open>maxPages\<close>, 10). A creator
    makes an \<open>adapter\<close> of the model out of an adapter of the code, given what \<open>fetch\<close> answers.
  \<^item> \<open>Teams\<close> (\<open>modules/teams\<close>): teams and their rosters.
  \<^item> \<open>Models\<close>, \<open>Discovery\<close> (\<open>modules/providers/models\<close>): the models of a provider, and the
    reconciliation of what the provider offers with what is stored.
  \<^item> \<open>ContentType\<close>, \<open>PathSafety\<close>, \<open>FileStorage\<close> (\<open>file-storage\<close>): what a file is by its bytes,
    where a reference leads on a POSIX system, and the service on a disk of folders, files and
    symbolic links. A path is walked segment by segment, a link has a final path as its
    target, so no fuel is needed.

  And the facts about them:
  \<^item> In \<open>InferenceCore\<close>, the locale \<open>transcript_relation\<close> states what a relation must
    satisfy to hold across every statement the services run; \<open>StreamTurn\<close>, \<open>TeamChat\<close>,
    \<open>Compaction\<close> and \<open>Chats\<close> extend it to every request, and its four interpretations
    (numbering, identifiers, growth, frame) give the first four properties.
  \<^item> \<open>StreamFacts\<close>: what a streamed turn has sent and stored, wherever it ends.
  \<^item> \<open>ContextFacts\<close>: the context and the execution chain as a whole.
  \<^item> \<open>CompletionFacts\<close>, \<open>TeamFacts\<close>, \<open>RoutingFacts\<close>: completions, team exchanges and the
    directives between members.
  \<^item> \<open>CompactionFacts\<close>, \<open>ChatFacts\<close>: compaction; chats, lists, identifiers and the sweep.
  \<^item> \<open>RosterFacts\<close>: the locale \<open>roster_relation\<close> carries a relation over every request on teams;
    its interpretation on the numbering of the seats gives the invariant, and the
    weakest preconditions of the requests give the edited list.
  \<^item> \<open>DiscoveryFacts\<close>: a discovery as a function on catalogues (\<open>target\<close>), by folding the effect
    of one step over the items and over the missing models.
  \<^item> \<open>StorageFacts\<close>: reading, deletion and writing on a disk; \<open>PathSafety\<close> has the locale
    \<open>real_paths\<close> of what \<open>realpath\<close> promises, interpreted on the disk in \<open>FileStorage\<close>.
  \<^item> \<open>AdapterFacts\<close>: the locales \<open>answering_reader\<close>, \<open>closing_reader\<close> and
    \<open>typed_reader\<close> state what the reader of a body owes (an answer, exactly one final event,
    only adapter errors); they are interpreted on the readers of the four adapters.
  \<^item> \<open>Examples\<close>, \<open>SampleRuns\<close>, \<open>ServiceSamples\<close>: small databases, disks, an environment and runs for the witnesses.

  Assumptions. Where a property speaks of a whole request, what runs beside it is assumed to
  respect the same relation (\<open>env_obeys\<close>); a process in which only these services write does.
  Time is not before the epoch. Strings are lists of characters of one code unit each.

  The services of the inference are verified for any adapter (\<open>env\<close> has the registry), so
  what is shown of them holds for the four as well.

  Not modelled: the time at which timers fire and listeners run (the exchange says what had
  happened), the decoding of bytes to text, the services that manage providers, agents,
  projects, prompts, memories and artifacts (their rows are there, as far as the chat reads
  them), budgets, backups, encryption, the branches of the file storage for Windows, the
  controllers and validation decorators, logging, configuration, migrations, the web client and the desktop
  shell. Of \<open>database.service.ts\<close> connecting and pragmas are left out.
\<close>

section \<open>What every request preserves\<close>

text \<open>
  C1. The numbering of transcripts. When the messages of every chat are numbered
  \<open>1, 2, \<dots>, n\<close> in insertion order, they still are after a completion (of an agent's or a
  team's chat, streamed or not), a compaction or the posting of a message, however the
  request ends (a value, an exception, an abandoned stream), as long as whatever runs
  beside it keeps the numbering too.
\<close>

theorem transcripts_stay_numbered:
  assumes "env_obeys (keeps dense_sequences) env" "dense_sequences (db w)"
  shows "dense_sequences (db (snd (completeChat env chatId dto w)))
    \<and> dense_sequences (db (snd (streamChat env chatId dto w)))
    \<and> dense_sequences (db (snd (compactChat env chatId opts w)))
    \<and> dense_sequences (db (snd (createMessage env chatId body w)))"
  using dense.obeys_completeChat [OF assms(1)] dense.obeys_streamChat [OF assms(1)]
    dense.obeys_compactChat [OF assms(1)] dense.obeys_createMessage assms(2)
  by (simp add: obeys_def on_db_def keeps_def)

lemma sample_dense: "dense_sequences sample_db"
  by (simp add: dense_sequences_def sample_db_def sample_message_def chat_messages_def)

lemma answering_keeps: "env_obeys (keeps P) answering_env"
  by (rule answering_env_obeys) (simp add: keeps_def)

theorem transcripts_stay_numbered_witness:
  "dense_sequences (db (snd (completeChat answering_env ''c1'' sample_dto sample_world)))
   \<and> dense_sequences (db (snd (compactChat answering_env ''c1'' sample_compaction sample_world)))"
  using transcripts_stay_numbered [OF answering_keeps, of sample_world "''c1''" sample_dto sample_compaction] sample_dense
  by simp



text \<open>
  C3. Transcripts only grow. No completion, compaction or message request deletes a
  message, reorders messages, or changes the identity of one (its identifier, chat,
  number, role, author and time of creation); new rows come at the end.
\<close>

theorem transcripts_only_grow:
  assumes "env_obeys append_only env"
  shows "append_only (db w) (db (snd (completeChat env chatId dto w)))
    \<and> append_only (db w) (db (snd (streamChat env chatId dto w)))
    \<and> append_only (db w) (db (snd (compactChat env chatId opts w)))
    \<and> append_only (db w) (db (snd (createMessage env chatId body w)))"
  using growth.obeys_completeChat [OF assms] growth.obeys_streamChat [OF assms]
    growth.obeys_compactChat [OF assms] growth.obeys_createMessage
  by (simp add: obeys_def on_db_def)

theorem transcripts_only_grow_witness:
  "append_only sample_db (db (snd (streamChat answering_env ''c1'' sample_dto sample_world)))"
  using transcripts_only_grow [of answering_env sample_world] answering_env_obeys [of append_only]
  by (simp add: append_only_def)

text \<open>
  C4. The frame. These requests write messages, usage events and, of a chat, its summary,
  its compaction boundary and its time of update. They leave the agents, teams, models,
  providers, credentials, system prompts and projects as they are, and of a chat its
  identifier, title, project, owner and time of creation.
\<close>

theorem completions_keep_configuration:
  assumes "env_obeys same_configuration env"
  shows "same_configuration (db w) (db (snd (completeChat env chatId dto w)))
    \<and> same_configuration (db w) (db (snd (streamChat env chatId dto w)))
    \<and> same_configuration (db w) (db (snd (compactChat env chatId opts w)))
    \<and> same_configuration (db w) (db (snd (createMessage env chatId body w)))"
  using frame.obeys_completeChat [OF assms] frame.obeys_streamChat [OF assms]
    frame.obeys_compactChat [OF assms] frame.obeys_createMessage
  by (simp add: obeys_def on_db_def)

theorem completions_keep_configuration_witness:
  "same_configuration sample_db (db (snd (compactChat answering_env ''c1'' sample_compaction sample_world)))"
  using completions_keep_configuration [of answering_env sample_world] answering_env_obeys [of same_configuration]
  by (simp add: same_configuration_def)

section \<open>A streamed turn\<close>

text \<open>
  C5. What a streamed turn of an agent's chat leaves when it ends by itself. The events
  are one \<open>message_start\<close>, then token and thought events of that message, then the ending,
  and the ending fits the row: a completed turn (with \<open>message_complete\<close> and \<open>done\<close>, and
  a \<open>usage\<close> event exactly when usage was reported) has stored, as \<open>complete\<close>, precisely
  the text of its token events; a failed turn (\<open>error\<close>, \<open>done\<close>) and an aborted one have
  stored at least that text, as \<open>error\<close> or \<open>complete\<close>. No ended turn leaves its row
  pending or streaming. The other requests may do anything but change a stored message.
\<close>

theorem streamed_turn_ends_consistently:
  assumes "env_obeys preserves_messages env"
    and "streamAgentChat env chat dto w = (Inr (), w')"
  shows "turn_outcome chat (emitted w) turn_final w'"
  using wp_streamAgentChat [OF assms(1), of chat dto w] assms(2) by (simp add: wp_def)

lemma answering_quiet: "env_obeys preserves_messages answering_env"
  by (rule answering_env_obeys) (simp add: preserves_messages_def)

theorem streamed_turn_ends_consistently_witness:
  "\<exists>w'. streamAgentChat answering_env sample_chat sample_dto sample_world = (Inr (), w')
     \<and> turn_outcome sample_chat [] turn_final w'"
  using sample_stream streamed_turn_ends_consistently [OF answering_quiet, of sample_chat sample_dto sample_world] by auto

text \<open>
  C6. A consumer that leaves the stream (the generator's \<open>return()\<close>) never costs more
  than the last checkpoint: the row is final, or the stored text is a prefix of the text
  sent to the client that lacks fewer than 200 characters of it.
\<close>

theorem abandoned_turn_keeps_checkpoint:
  assumes "env_obeys preserves_messages env"
    and "streamAgentChat env chat dto w = (Inl Returned, w')"
  shows "turn_outcome chat (emitted w) turn_left w'"
  using wp_streamAgentChat [OF assms(1), of chat dto w] assms(2) by (simp add: wp_def)

lemma leaving_quiet: "env_obeys preserves_messages leaving_env"
  using answering_quiet by (simp add: leaving_env_def env_obeys_def)

theorem abandoned_turn_keeps_checkpoint_witness:
  "\<exists>w'. streamAgentChat leaving_env sample_chat sample_dto sample_world = (Inl Returned, w')
     \<and> turn_outcome sample_chat [] turn_left w'"
  using sample_leave abandoned_turn_keeps_checkpoint [OF leaving_quiet, of sample_chat sample_dto sample_world] by auto

section \<open>The context of a model call\<close>

text \<open>
  C7. Every message of the chat is accounted for exactly once: the messages in the prompt
  and the excluded ones, taken together by identifier and number, are the messages of the
  chat, with the same multiplicities.
\<close>

theorem context_accounts_for_every_message:
  assumes "buildContextPure inp = Inr ctx"
  shows "mset (map (\<lambda>d. (md_id d, md_sequence d)) (ctx_messageDetails ctx))
       + mset (map (\<lambda>e. (ex_id e, ex_sequence e)) (ctx_excludedMessages ctx))
     = mset (map message_key (bi_messages inp))"
  by (rule context_partition_keys [OF assms])

definition sample_input :: build_context_input where
  "sample_input = context_input sample_db sample_chat sample_agent (Some sample_model) None"

lemma sample_context: "\<exists>ctx. buildContextPure sample_input = Inr ctx"
  by (simp add: sample_input_def buildContextPure_def fit_candidates_def context_input_def window_of_def
      sample_model_def Let_def split: prod.split)

theorem context_accounts_for_every_message_witness:
  "\<exists>ctx. buildContextPure sample_input = Inr ctx
     \<and> mset (map (\<lambda>d. (md_id d, md_sequence d)) (ctx_messageDetails ctx))
       + mset (map (\<lambda>e. (ex_id e, ex_sequence e)) (ctx_excludedMessages ctx))
     = mset (map message_key (bi_messages sample_input))"
  using sample_context context_accounts_for_every_message by blast

text \<open>
  C8. The prompt is the most recent part of the eligible history, in order: the eligible
  messages by number, without the \<open>k\<close> oldest. Messages are dropped only under
  \<open>truncate_oldest\<close>, and no more of them than needed: with one more, the window would be
  exceeded. What remains fits the window.
\<close>

theorem context_is_recent_history:
  assumes "buildContextPure inp = Inr ctx"
  shows "\<exists>k. ctx_messages ctx = map cand_adapterMessage (drop k (context_candidates inp))
     \<and> (\<forall>w. window_of (bi_contextWindow inp) = Some w \<longrightarrow> te_totalTokens (ctx_tokenEstimate ctx) \<le> w)
     \<and> (0 < k \<longrightarrow> strategy_of inp = TruncateOldest \<and> (\<exists>w. window_of (bi_contextWindow inp) = Some w
          \<and> w < prompt_tokens inp + candidate_tokens (drop (k - 1) (context_candidates inp))))"
  using buildContextPure_fit [OF assms] by (auto dest!: fit_candidates_drop)

theorem context_is_recent_history_witness:
  "\<exists>ctx k. buildContextPure sample_input = Inr ctx
     \<and> ctx_messages ctx = map cand_adapterMessage (drop k (context_candidates sample_input))"
  using sample_context context_is_recent_history by blast

text \<open>
  C9. When a context is refused. Exactly when there is a window and what has to fit it (all
  eligible messages, or under \<open>truncate_oldest\<close> the last of them) does not, together with
  the system prompt; and then with the status 413 of an exceeded context length.
\<close>

theorem context_refused_iff_too_long:
  "case buildContextPure inp of
     Inl e \<Rightarrow> adapter_code_of e = Some CONTEXT_LENGTH_EXCEEDED \<and> consistent_error e
       \<and> (\<exists>w. window_of (bi_contextWindow inp) = Some w
            \<and> w < prompt_tokens inp + candidate_tokens (must_fit (strategy_of inp) (context_candidates inp)))
   | Inr _ \<Rightarrow> \<not> (\<exists>w. window_of (bi_contextWindow inp) = Some w
            \<and> w < prompt_tokens inp + candidate_tokens (must_fit (strategy_of inp) (context_candidates inp)))"
proof (cases "buildContextPure inp")
  case (Inl e)
  then have f: "fit_candidates (strategy_of inp) (window_of (bi_contextWindow inp)) (prompt_tokens inp)
      (context_candidates inp) = Inl e" by (simp only: buildContextPure_Inl)
  then have "\<exists>w. window_of (bi_contextWindow inp) = Some w
      \<and> w < prompt_tokens inp + candidate_tokens (must_fit (strategy_of inp) (context_candidates inp))"
    unfolding fit_candidates_refused_iff [OF context_candidates_nonneg, symmetric] by (rule exI)
  with fit_candidates_error [OF f] show ?thesis by (simp add: Inl)
next
  case (Inr ctx)
  then have "\<not> (\<exists>e. fit_candidates (strategy_of inp) (window_of (bi_contextWindow inp)) (prompt_tokens inp)
      (context_candidates inp) = Inl e)" by (simp only: buildContextPure_Inl [symmetric]) simp
  then show ?thesis unfolding fit_candidates_refused_iff [OF context_candidates_nonneg] by (simp add: Inr)
qed

section \<open>Completions\<close>

text \<open>
  C10. Which agents can run. The resolution of an agent's model succeeds exactly when the
  model it names (or the overriding one) exists and is enabled, its provider exists and is
  enabled, and there is a credential that is not blank, or none is needed because the
  provider is local; a credential that cannot be read is an error and no missing one.
\<close>

theorem resolution_succeeds_iff_runnable:
  "resolveAgentExecution env d agent override = Inr (model, provider, key) \<longleftrightarrow>
   runnable env d agent override model provider key"
  by (rule resolveAgentExecution_runnable)

text \<open>
  C11. A completion that returns has stored what it returns: the reply is the provider's
  answer to the request built for this chat, its row is in the database with the status
  \<open>complete\<close> and the agent that was resolved, a usage event with the same token counts is
  recorded for the chat, and the chat's time of update is the time of the message.
\<close>

theorem completion_is_stored:
  assumes "completeAgentChat env chat dto w = (Inr r, w')"
  shows "reply_stored chat r (db w') \<and> (\<exists>x req a response f.
        resolveExecutionChain env (db w) (ch_id chat) (cc_modelId dto) = Inr x
      \<and> request_setup env (db w) dto chat (ex_agent x) (ex_agent x) (ex_model x) None = Inr req
      \<and> create_adapter env (ex_model x) (ex_provider x) (ex_apiKey x) = Inr a
      \<and> ad_complete a (calls w) req = (Inr response, f)
      \<and> cd_content r = cs_content response \<and> cd_agentId r = Some (ag_id (ex_agent x)))"
  using wp_completeAgentChat [of env chat dto w] assms by (simp add: wp_def)

theorem completion_is_stored_witness:
  "\<exists>r w'. completeAgentChat answering_env sample_chat sample_dto sample_world = (Inr r, w')
     \<and> reply_stored sample_chat r (db w')"
  using sample_complete completion_is_stored by metis



text \<open>
  C13. The row of a streamed reply is allocated at the first attempt whenever the chat is
  numbered densely, the chat and the agent exist, the identifier is fresh and the driver
  works: it is pending and empty and takes the number after the last message.
\<close>

theorem pending_row_is_allocated:
  assumes "dense_sequences (db w)" "chat_by_id (db w) c \<noteq> None" "agent_by_id (db w) a \<noteq> None"
    and "\<And>n. fault env n = None"
    and "message_by_id (db w) (newId (clock env (ticks w)) (rand env (draws w))) = None"
  shows "\<exists>row w'. createPendingMessageRow env c a w = (Inr row, w')
     \<and> msg_sequence row = int (length (chat_messages (db w) c)) + 1 \<and> msg_status row = Pending
     \<and> msg_content row = [] \<and> chat_messages (db w') c = chat_messages (db w) c @ [row]"
  using wp_total [OF wp_createPending_succeeds [OF assms]] by blast

theorem pending_row_is_allocated_witness:
  "\<exists>row w'. createPendingMessageRow answering_env ''c1'' ''a1'' sample_world = (Inr row, w') \<and> msg_sequence row = 3"
proof -
  have "\<exists>row w'. createPendingMessageRow answering_env ''c1'' ''a1'' sample_world = (Inr row, w')
     \<and> msg_sequence row = int (length (chat_messages (db sample_world) ''c1'')) + 1 \<and> msg_status row = Pending
     \<and> msg_content row = [] \<and> chat_messages (db w') ''c1'' = chat_messages (db sample_world) ''c1'' @ [row]"
    by (rule pending_row_is_allocated)
      (simp_all add: sample_dense, simp_all add: answering_env_def chat_by_id_def agent_by_id_def message_by_id_def sample_rows)
  then show ?thesis by (auto simp: chat_messages_def sample_db_def sample_message_def)
qed

section \<open>Teams\<close>

text \<open>
  C14. The shape of a team exchange that returns: at least one reply and at most the
  bounded number of turns (1 to 10); in a sequential or broadcast exchange the members
  speak in their order; in a coordinator (two replies at most) or autonomous exchange the
  coordinator opens and nobody speaks twice in a row; a sequential or autonomous exchange
  goes on only after replies without the marker that ends it.
\<close>

theorem team_exchange_is_well_formed:
  assumes "completeTeamChat env chat teamId dto w = (Inr replies, w')"
  shows "team_exchange (team_strategy dto (team_by_id (db w) teamId)) (bounded_max_turns dto (team_by_id (db w) teamId))
       (getActiveTeamMembers (db w) teamId) replies
     \<and> bounded_max_turns dto (team_by_id (db w) teamId) \<in> {1..10}"
  using wp_completeTeamChat [of env chat teamId dto w] assms bounded_max_turns [of dto "team_by_id (db w) teamId"]
  by (simp add: wp_def Let_def)

theorem team_exchange_is_well_formed_witness:
  "\<exists>r w'. completeTeamChat answering_env team_chat ''t1'' (sample_dto\<lparr>cc_maxTurns := Some 1\<rparr>) team_world = (Inr r, w')
     \<and> length r = 1 \<and> cd_agentId (hd r) = Some ''a1''"
proof -
  obtain r w' where r: "completeTeamChat answering_env team_chat ''t1'' (sample_dto\<lparr>cc_maxTurns := Some 1\<rparr>) team_world = (Inr r, w')"
    using sample_team by blast
  from team_exchange_is_well_formed [OF r] have "r \<noteq> [] \<and> length r \<le> 1 \<and> authors [member_of_team ''a1'' ''Ada'' 1, member_of_team ''a2'' ''Bob'' 2] r"
    by (simp add: team_agents team_settings team_members_sample team_exchange_def)
  then show ?thesis using r by (cases r) (auto simp: authors_def)
qed





section \<open>Compaction\<close>

text \<open>
  C17. What a compaction takes. On a densely numbered chat the plan compacts exactly the
  messages before its boundary that no earlier compaction covers, preserves exactly the
  requested number of most recent ones at or after the boundary, and shows the model the
  completed messages with content among the compacted ones, of which there is at least one.
\<close>

theorem compaction_splits_at_boundary:
  assumes "dense_sequences d" "0 \<le> preserve"
    and "plan_compaction chat (transcript d c) preserve = Inr plan"
  shows "plan_compact plan = filter (\<lambda>m. msg_sequence m < plan_boundary plan) (uncompacted_messages chat (transcript d c))
     \<and> length (filter (\<lambda>m. plan_boundary plan \<le> msg_sequence m) (uncompacted_messages chat (transcript d c))) = nat preserve
     \<and> plan_prompted plan = filter has_prompt_content (plan_compact plan) \<and> plan_prompted plan \<noteq> []"
proof -
  let ?u = "uncompacted_messages chat (transcript d c)"
  have split: "plan_compact plan = filter (\<lambda>m. msg_sequence m < plan_boundary plan) ?u"
    by (rule plan_compaction_split [OF assms(3,2) transcript_sorted_strict [OF assms(1)]])
  from plan_compactionD [OF assms(3,2)] obtain rest where
    r: "?u = plan_compact plan @ rest" "length rest = nat preserve"
      "plan_prompted plan = filter has_prompt_content (plan_compact plan)" "plan_prompted plan \<noteq> []" by blast
  have "length (filter (\<lambda>m. msg_sequence m < plan_boundary plan) ?u)
      + length (filter (\<lambda>m. \<not> msg_sequence m < plan_boundary plan) ?u) = length ?u"
    by (rule sum_length_filter_compl)
  moreover have "length ?u = length (plan_compact plan) + nat preserve" using r(1,2) by (metis length_append)
  ultimately have "length (filter (\<lambda>m. plan_boundary plan \<le> msg_sequence m) ?u) = nat preserve"
    unfolding split by (simp add: not_less)
  with split r(3,4) show ?thesis by blast
qed

theorem compaction_splits_at_boundary_witness:
  "plan_compact \<lparr>plan_compact = [sample_message ''m1'' 1 ''user'' ''hi''],
     plan_prompted = [sample_message ''m1'' 1 ''user'' ''hi''], plan_boundary = 2\<rparr>
   = filter (\<lambda>m. msg_sequence m < 2) (uncompacted_messages sample_chat (transcript sample_db ''c1''))"
  using compaction_splits_at_boundary [OF sample_dense _ sample_plan] by simp

text \<open>
  C18. What a compaction that returns has done. The model was asked to summarise what the
  plan for the chat's transcript shows it; in the database as it was when the answer came,
  the chat got the trimmed answer as its summary and the plan's boundary, no other chat
  and no message changed.
\<close>

theorem compaction_stores_summary:
  assumes "compactChat env chatId dto w = (Inr r, w')"
  shows "\<exists>x plan a response f now.
        resolveExecutionChain env (db w) chatId (cp_modelId dto) = Inr x
      \<and> plan_compaction (ex_chat x) (transcript (db w) (ch_id (ex_chat x)))
          (from_option 2 (cp_preserveRecentCount dto)) = Inr plan
      \<and> create_adapter env (ex_model x) (ex_provider x) (ex_apiKey x) = Inr a
      \<and> ad_complete a (calls w) (compaction_request (ex_model x) (ex_chat x) plan) = (Inr response, f)
      \<and> chats (db w') = summarised (ch_id (ex_chat x)) (js_trim (cs_content response)) (plan_boundary plan) now
          (chats (eff_db f (db w)))
      \<and> messages (db w') = messages (eff_db f (db w))"
  using wp_compactChat [of env chatId dto w] assms by (simp add: wp_def)

theorem compaction_stores_summary_witness:
  "\<exists>r w'. compactChat answering_env ''c1'' sample_compaction sample_world = (Inr r, w')
     \<and> messages (db w') = messages sample_db"
proof -
  obtain r w' where r: "compactChat answering_env ''c1'' sample_compaction sample_world = (Inr r, w')"
    using sample_compact by blast
  from compaction_stores_summary [OF r] show ?thesis using r
    by (auto simp: answering_env_def create_adapter_def adapter_create_def split: if_splits)
qed

text \<open>
  A message that was still being generated (or was empty) when a chat was compacted
  is lost to the model: it lies behind the boundary though it was not shown for the
  summary, and when it completes afterwards no context that respects the boundary takes it.
\<close>

theorem unfinished_messages_fall_behind_boundary:
  assumes "dense_sequences d" "0 \<le> preserve"
    and "plan_compaction chat (transcript d c) preserve = Inr plan"
    and "m \<in> set (plan_compact plan)" "\<not> has_prompt_content m"
    and "bi_compactedBeforeSequence inp = Some (plan_boundary plan)"
    and "cm_sequence later = msg_sequence m"
  shows "m \<notin> set (plan_prompted plan) \<and> \<not> eligible inp later"
proof -
  have "msg_sequence m < plan_boundary plan"
    by (rule plan_compact_before [OF assms(3,2) transcript_sorted_strict [OF assms(1)] assms(4)])
  then have "\<not> eligible inp later" using assms(6,7) by (intro behind_boundary) simp_all
  moreover have "plan_prompted plan = filter has_prompt_content (plan_compact plan)"
    using plan_compactionD [OF assms(3,2)] by blast
  ultimately show ?thesis using assms(5) by simp
qed

definition busy_message :: message_row where
  "busy_message = (sample_message ''m2'' 2 ''assistant'' [])\<lparr>msg_status := Streaming\<rparr>"

definition busy_db :: database where
  "busy_db = sample_db\<lparr>messages := [sample_message ''m1'' 1 ''user'' ''hi'', busy_message]\<rparr>"

definition busy_plan :: compaction_plan where
  "busy_plan = \<lparr>plan_compact = [sample_message ''m1'' 1 ''user'' ''hi'', busy_message],
     plan_prompted = [sample_message ''m1'' 1 ''user'' ''hi''], plan_boundary = 3\<rparr>"

lemma busy_facts:
  "dense_sequences busy_db" "plan_compaction sample_chat (transcript busy_db ''c1'') 0 = Inr busy_plan"
  "\<not> has_prompt_content busy_message"
proof -
  have t: "transcript busy_db ''c1'' = [sample_message ''m1'' 1 ''user'' ''hi'', busy_message]"
    by (simp add: transcript_def chat_messages_def busy_db_def busy_message_def sample_message_def)
  have h: "has_prompt_content (sample_message ''m1'' 1 ''user'' ''hi'')" "\<not> has_prompt_content busy_message"
    by code_simp+
  show "dense_sequences busy_db"
    by (simp add: dense_sequences_def busy_db_def busy_message_def sample_message_def chat_messages_def)
  have "ch_compacted_before_sequence sample_chat = None" "msg_sequence busy_message = 2"
    by (simp_all add: sample_chat_def busy_message_def sample_message_def)
  then show "plan_compaction sample_chat (transcript busy_db ''c1'') 0 = Inr busy_plan"
    unfolding t by (simp add: plan_compaction_def uncompacted_messages_def busy_plan_def Let_def h)
  show "\<not> has_prompt_content busy_message" by (rule h(2))
qed

theorem unfinished_messages_fall_behind_boundary_witness:
  "busy_message \<notin> set (plan_prompted busy_plan)
   \<and> \<not> eligible (sample_input\<lparr>bi_compactedBeforeSequence := Some 3\<rparr>)
        (input_message sample_db sample_chat (busy_message\<lparr>msg_status := Complete, msg_content := ''late''\<rparr>))"
proof (rule unfinished_messages_fall_behind_boundary [OF busy_facts(1) _ busy_facts(2) _ busy_facts(3)])
  show "busy_message \<in> set (plan_compact busy_plan)" by (simp add: busy_plan_def)
qed (simp_all add: busy_plan_def input_message_def)

section \<open>Lists and searches\<close>

text \<open>
  A search term is taken literally. Whatever wildcard and escape characters it
  contains, the pattern built from it matches exactly the titles that contain the term,
  up to the case of ASCII letters.
\<close>

theorem search_terms_are_literal:
  "sql_like (search_pattern term) title \<longleftrightarrow> js_includes (map ascii_lower title) (map ascii_lower term)"
  by (rule search_literal)

text \<open>
  No text of a request reaches the clause of a list query: the sort column is one of
  the endpoint's own columns, the direction is one of two words, and the limit (1 to 100)
  and the offset (not negative) are bound as parameters.
\<close>

theorem pagination_clause_is_closed:
  assumes "buildPaginationSqlFragment opts = Inr f"
  shows "1 \<le> fst (sr_params f) \<and> fst (sr_params f) \<le> 100 \<and> 0 \<le> snd (sr_params f)
     \<and> (\<exists>col\<in>snd ` set (po_allowedSortColumns opts). \<exists>dir\<in>{''ASC'', ''DESC''}.
          sr_orderBySql f = ''ORDER BY '' @ col @ '' '' @ dir
        \<or> (\<exists>t. po_tiebreakerColumn opts = Some t \<and> sr_orderBySql f = ''ORDER BY '' @ col @ '' '' @ dir @ '', '' @ t @ '' '' @ dir))"
proof -
  from assms obtain col where c: "resolve_sort_column opts = Inr col"
    by (auto simp: buildPaginationSqlFragment_def Let_def split: sum.splits)
  then have "col \<in> snd ` set (po_allowedSortColumns opts)"
    by (auto simp: resolve_sort_column_def Let_def dest!: map_of_SomeD split: if_splits option.splits intro!: image_eqI)
  moreover have "\<exists>dir\<in>{''ASC'', ''DESC''}. sr_orderBySql f = ''ORDER BY '' @ col @ '' '' @ dir
        \<or> (\<exists>t. po_tiebreakerColumn opts = Some t \<and> sr_orderBySql f = ''ORDER BY '' @ col @ '' '' @ dir @ '', '' @ t @ '' '' @ dir)"
    using assms c by (auto simp: buildPaginationSqlFragment_def Let_def split: option.splits if_splits)
  moreover have "1 \<le> fst (sr_params f) \<and> fst (sr_params f) \<le> 100 \<and> 0 \<le> snd (sr_params f)"
    using assms c clamp_limit_bounds by (auto simp: buildPaginationSqlFragment_def Let_def)
  ultimately show ?thesis by blast
qed

definition sample_page_query :: pagination_query where
  "sample_page_query = \<lparr>pq_limit = Some 500, pq_offset = Some (- 3), pq_sort = Some ''sequence'', pq_order = None\<rparr>"

definition sample_list_query :: list_messages_query where
  "sample_list_query = \<lparr>lm_page = sample_page_query, lm_role = None, lm_status = None, lm_agentId = None,
     lm_before = None, lm_after = None\<rparr>"

lemma sample_fragment: "\<exists>f. buildPaginationSqlFragment (message_pagination sample_list_query) = Inr f"
proof -
  have "js_trim ''sequence'' = ''sequence''" by code_simp
  then show ?thesis
    by (simp add: buildPaginationSqlFragment_def resolve_sort_column_def message_pagination_def sample_list_query_def
        sample_page_query_def ALLOWED_MESSAGE_SORT_COLUMNS_def Let_def)
qed

theorem pagination_clause_is_closed_witness:
  "\<exists>f. buildPaginationSqlFragment (message_pagination sample_list_query) = Inr f \<and> fst (sr_params f) \<le> 100"
  using sample_fragment pagination_clause_is_closed by blast

text \<open>
  C19. A page of messages: at most 100 messages of the chat that satisfy the filters and
  the cursor, in the order of their numbers (or the reverse), with the count of all the
  chat's messages that satisfy the filters.
\<close>

theorem message_page_is_sound:
  assumes "findAllMessages d c q = Inr page"
  shows "\<exists>rows. page_items page = map mapMessageRowToResponse rows
     \<and> set rows \<subseteq> {m \<in> set (chat_messages d c). message_filter c q m \<and> message_cursor q m}
     \<and> length rows \<le> 100 \<and> ordered_by (sort_ascending (message_pagination q)) rows
     \<and> page_total page = length (filter (message_filter c q) (messages d))"
  by (rule findAllMessages_page [OF assms])

theorem message_page_is_sound_witness:
  "\<exists>page. findAllMessages sample_db ''c1'' sample_list_query = Inr page \<and> length (page_items page) \<le> 100"
proof -
  obtain f where f: "buildPaginationSqlFragment (message_pagination sample_list_query) = Inr f"
    using sample_fragment by blast
  have "chat_by_id sample_db ''c1'' = Some sample_chat" by (simp add: chat_by_id_def sample_db_def)
  then obtain page where p: "findAllMessages sample_db ''c1'' sample_list_query = Inr page"
    using f by (simp add: findAllMessages_def assertExists_def Let_def)
  from message_page_is_sound [OF this] p show ?thesis by auto
qed

section \<open>Identifiers and errors\<close>

text \<open>
  Identifiers sort by time: of two identifiers made in different milliseconds the
  earlier one is lexicographically smaller, whatever the random bytes are.
\<close>

theorem identifiers_sort_by_time:
  assumes "length r1 = 10" "length r2 = 10" "t1 < t2" "t2 < 2 ^ 48"
  shows "newId t1 r1 < newId t2 r2"
  by (rule newId_mono [OF assms])

theorem identifiers_sort_by_time_witness:
  "newId 1000 (replicate 10 255) < newId 1001 (replicate 10 0)"
  by (rule identifiers_sort_by_time) simp_all

text \<open>
  Every identifier is a well-formed UUID of version 7: 36 characters in five groups
  of lowercase hexadecimal digits, with the version digit and the variant bits in place.
\<close>

theorem identifiers_are_uuid_v7:
  assumes "length rnd = 10"
  shows "is_uuid_v7 (newId t rnd)"
  by (rule uuid_v7_newId [OF assms])

theorem identifiers_are_uuid_v7_witness: "is_uuid_v7 (newId 0 (replicate 10 0))"
  by (rule identifiers_are_uuid_v7) simp


text \<open>
  The registry of adapters is a map: registering kinds makes exactly those kinds
  create through the new factory and leaves the others alone, unregistering removes a kind
  and only it, no kind is ever listed twice, and creating an adapter of an unknown kind is
  an error that names the kinds there are.
\<close>

theorem adapter_registry_is_a_map:
  assumes "registry_ok r"
  shows "registry_ok (registry_register ks c r)
     \<and> map_of (registry_register ks c r) k = (if k \<in> set ks then Some c else map_of r k)
     \<and> (fst (registry_unregister k r) \<longleftrightarrow> isSupported r k)
     \<and> map_of (snd (registry_unregister k r)) k' = (if k' = k then None else map_of r k')
     \<and> (isSupported r (ac_providerKind config) \<or> adapter_create r config
          = Inl (unsupported_provider_kind_error (ac_providerKind config) (getSupportedKinds r)))"
  using registry_register_ok [OF assms] adapter_create_unsupported [of r config]
  by (auto simp: map_of_registry_register registry_unregister_def isSupported_def map_of_filter_other map_of_filter_same)

theorem adapter_registry_is_a_map_witness:
  "registry_ok (registry_register [''openai'', ''azure''] (\<lambda>_. Inl (ThrownString ''x'')) [])
   \<and> \<not> fst (registry_unregister ''openai'' [])"
  using adapter_registry_is_a_map [of "[]" "[''openai'', ''azure'']" "\<lambda>_. Inl (ThrownString ''x'')" "''openai''" "''b''"]
  by (simp add: registry_ok_def isSupported_def)

section \<open>Chats\<close>

text \<open>
  C29. Every chat keeps exactly one owner, an agent or a team, and every transcript its
  numbering, through the creation, the update and the deletion of chats, of one or of all.
\<close>

theorem chats_keep_one_owner:
  assumes "owners_ok (db w)" "dense_sequences (db w)"
  shows "\<forall>d\<in>{db (snd (createChat env new w)), db (snd (updateChat env i upd w)), db (snd (deleteChat env i w)),
      db (snd (removeAllChats env w))}. owners_ok d \<and> dense_sequences d"
  using owned.obeys_createChat owned.obeys_updateChat owned.obeys_deleteChat owned.obeys_removeAllChats
    numbered.obeys_createChat numbered.obeys_updateChat numbered.obeys_deleteChat numbered.obeys_removeAllChats assms
  by (simp add: obeys_def on_db_def keeps_def)

lemma sample_owners: "owners_ok sample_db"
  by (simp add: owners_ok_def sample_db_def sample_chat_def chat_owner_ok_def)

theorem chats_keep_one_owner_witness: "owners_ok (db (snd (deleteChat answering_env ''c1'' sample_world)))"
  using chats_keep_one_owner [of sample_world answering_env undefined "''c1''"] sample_owners sample_dense by simp

text \<open>
  An update of a chat writes the fields the request names, and only those, into the
  row of that chat, together with the time; when they have the values the chat already
  has, or when anything fails, the database does not change at all.
\<close>

theorem chat_update_is_minimal:
  "case updateChat env i dto w of
     (Inl e, w') \<Rightarrow> db w' = db w
   | (Inr r, w') \<Rightarrow> \<exists>row. chat_by_id (db w) i = Some row
        \<and> (if no_change row dto then db w' = db w \<and> r = mapChatRowToResponse row
           else \<exists>now. r = mapChatRowToResponse (row\<lparr>ch_title := from_option (ch_title row) (uc_title dto),
                      ch_project_id := from_option (ch_project_id row) (uc_projectId dto), ch_updated_at := now\<rparr>)
                 \<and> update_chat_columns i (changed (uc_title dto) (ch_title row))
                      (changed (uc_projectId dto) (ch_project_id row)) now (db w) = Inr (db w'))"
  using wp_updateChat [of env i dto w] by (simp add: wp_def split: prod.splits sum.splits)

text \<open>
  The sweep at start-up makes every message that was pending or streaming an error with
  a content (its partial text, or a notice when there is none), touches no finished message,
  keeps order and identity of all of them, and run again changes nothing.
\<close>

theorem sweep_ends_stranded_messages:
  "list_all2 (\<lambda>m m'. message_identity m' = message_identity m
       \<and> (if msg_status m \<in> {Pending, Streaming}
          then msg_status m' = Errored \<and> msg_content m' \<noteq> [] \<and> msg_content m' \<in> {msg_content m, ''Generation interrupted unexpectedly''}
          else m' = m))
     (messages d) (messages (sweepStrandedMessages d))
   \<and> sweepStrandedMessages (sweepStrandedMessages d) = sweepStrandedMessages d"
proof
  have "sweep_row (sweep_row m) = sweep_row m" for m by (simp add: sweep_row_def)
  then show "sweepStrandedMessages (sweepStrandedMessages d) = sweepStrandedMessages d"
    by (simp add: sweepStrandedMessages_def o_def)
qed (simp add: sweepStrandedMessages_def sweep_row_def message_identity_def list_all2_conv_all_nth)

section \<open>Where the code and its intent part\<close>

text \<open>
  A directive with a blank target is no hand-over to nobody: the empty text occurs in
  every name, so the first specialist is chosen.
\<close>

theorem blank_directive_picks_first_specialist:
  assumes "2 \<le> turns" "\<forall>m\<in>set (s # ss). me_agent_id m \<noteq> [] \<and> me_agent_name m \<noteq> []"
  shows "delegate_of turns (s # ss) ''[DELEGATE: ]'' = Some s"
proof -
  have m: "match_target delegate_rx ''[DELEGATE: ]'' = Some []" by code_simp
  have none: "find P ms = None" if "\<forall>m\<in>set ms. \<not> P m" for P and ms :: "team_member list"
    using that by (simp add: find_None_iff)
  have "find (\<lambda>m. js_lower (me_agent_id m) = []) (s # ss) = None" "find (\<lambda>m. js_lower (me_agent_name m) = []) (s # ss) = None"
    by (rule none, use assms(2) in \<open>auto simp: js_lower_def\<close>)+
  then have "find_target (s # ss) [] = Some s" by (simp add: find_target_def)
  with m assms(1) show ?thesis by (simp add: delegate_of_def)
qed

theorem blank_directive_picks_first_specialist_witness:
  "delegate_of 5 [member_of_team ''a1'' ''Ada'' 1] ''[DELEGATE: ]'' = Some (member_of_team ''a1'' ''Ada'' 1)"
  by (rule blank_directive_picks_first_specialist) simp_all

text \<open>
  A failure whose message contains the word \<open>abort\<close> in any case, from whatever
  provider and for whatever reason, ends a stream without an \<open>error\<close> event and without a
  \<open>done\<close> event, though the client has not aborted anything.
\<close>

theorem abort_in_message_silences_error:
  assumes "js_includes (js_lower msg) ''abort''"
  shows "emitted (snd (stream_catch env i x (Err k name msg stack cause) w)) = emitted w"
proof -
  have flush: "emitted (snd (flushPartial env i c st tok v)) = emitted v" for c st tok v
    by (simp add: flushPartial_def bnd_def now_iso_def date_now_def gets_def exec_write_def set_gen_def modify_def ret_def
        Let_def split: option.split sum.split)
  have "is_abort_error (Err k name msg stack cause)" using assms by (simp add: is_abort_error_def)
  then have "stream_catch env i x (Err k name msg stack cause) w = finish_aborted env i (ch_id (ex_chat x)) w"
    by (simp add: stream_catch_def Let_def is_aborted_def bnd_def gets_def)
  then show ?thesis
    by (simp add: finish_aborted_def bnd_def gets_def set_gen_def modify_def flush)
qed

theorem abort_in_message_silences_error_witness:
  "emitted (snd (stream_catch answering_env ''m2'' \<lparr>ex_chat = sample_chat, ex_agent = sample_agent,
     ex_model = sample_model, ex_provider = sample_provider, ex_apiKey = None\<rparr>
     (Err (Plain None) ''Error'' ''Upstream aborted the connection'' [] None) sample_world)) = []"
proof -
  have "js_includes (js_lower ''Upstream aborted the connection'') ''abort''" by code_simp
  from abort_in_message_silences_error [OF this] show ?thesis by simp
qed

text \<open>
  A consumer that leaves a stream before its end can leave the row of the message in
  the status \<open>streaming\<close>: the generator's \<open>return()\<close> runs none of its endings, and only the
  sweep at the next start ends the message.
\<close>

theorem abandoned_turn_can_stay_streaming:
  "\<exists>env chat dto w w' r. env_obeys preserves_messages env
     \<and> streamAgentChat env chat dto w = (Inl Returned, w') \<and> r \<in> set (messages (db w')) \<and> msg_status r = Streaming"
proof -
  from sample_leave obtain w' r where "streamAgentChat leaving_env sample_chat sample_dto sample_world = (Inl Returned, w')"
    "r \<in> set (messages (db w'))" "msg_status r = Streaming" by blast
  with leaving_quiet show ?thesis by blast
qed

text \<open>
  A chat requested with an empty agent identifier beside a team passes the checks of
  the service and fails in the database: the empty text counts as absent for the owner
  rule and as present for the constraint of the table.
\<close>

theorem empty_agent_identifier_breaks_creation:
  assumes "nc_contextSummary dto = None" "nc_context_summary dto = None"
    and "nc_agentId dto = Some []" "nc_teamId dto = Some t" "js_trim t \<noteq> []" "team_by_id (db w) t \<noteq> None"
    and "nc_projectId dto = None" "fault env (writes w) = None"
  shows "\<exists>w'. createChat env dto w
     = (Inl (Raised (sqlite_error ''SQLITE_CONSTRAINT_CHECK'' ''CHECK constraint failed: chats'')), w')"
proof -
  have "wp (createChat env dto) (\<lambda>_ _. False)
     (\<lambda>e _. e = Raised (sqlite_error ''SQLITE_CONSTRAINT_CHECK'' ''CHECK constraint failed: chats'')) w"
    using assms
    by (auto simp: createChat_def assertNoContextSummary_def assertOwnerRule_def given_def check_reference_def wp_simps
        wp_transaction Let_def insert_chat_def mapCreateChatDtoToRow_def chat_owner_ok_def)
  then show ?thesis by (auto simp: wp_def split: prod.splits sum.splits)
qed

definition split_dto :: create_chat_dto where
  "split_dto = \<lparr>nc_title = None, nc_projectId = None, nc_agentId = Some [], nc_teamId = Some ''t1'',
     nc_contextSummary = None, nc_context_summary = None\<rparr>"

theorem empty_agent_identifier_breaks_creation_witness:
  "\<exists>w'. createChat answering_env split_dto team_world
     = (Inl (Raised (sqlite_error ''SQLITE_CONSTRAINT_CHECK'' ''CHECK constraint failed: chats'')), w')"
proof -
  have "js_trim ''t1'' \<noteq> []" by code_simp
  then show ?thesis
    by (intro empty_agent_identifier_breaks_creation [where t = "''t1''"])
      (simp_all add: split_dto_def team_agents answering_env_def)
qed

text \<open>
  The samples of the adapter properties: wires on which no text is valid JSON but those named,
  the configuration of a provider, and exchanges that are answered at once.
\<close>

definition sample_exchange :: "exn + http_response \<Rightarrow> exchange" where
  "sample_exchange result = \<lparr>fx_abortedBefore = False, fx_result = result, fx_timedOut = False, fx_abortedAfter = False\<rparr>"

definition sample_answer :: "exn + string \<Rightarrow> body \<Rightarrow> http_response" where
  "sample_answer answer b = \<lparr>hr_status = 200, hr_text = answer, hr_body = Some b\<rparr>"

definition sample_body :: "string list \<Rightarrow> body" where
  "sample_body ts = foldr (Chunk False no_effect_at_all) ts (Closed False no_effect_at_all)"

definition syntax_error :: exn where
  "syntax_error = Err (Plain None) ''SyntaxError'' ''Unexpected token'' [] None"




definition sample_failure :: ollama_response where
  "sample_failure = \<lparr>lr_model = None, lr_message = None, lr_done_reason = None, lr_done = False,
     lr_prompt_eval_count = None, lr_eval_count = None, lr_error = Some ''out of memory''\<rparr>"

definition sample_ollama_wire :: ollama_wire where
  "sample_ollama_wire = \<lparr>lw_response = (\<lambda>t. if t = ''oom'' then Inr sample_failure else Inl syntax_error),
     lw_error = (\<lambda>_. Inl syntax_error), lw_models = (\<lambda>_. Inl syntax_error)\<rparr>"


definition sample_request :: completion_request where
  "sample_request = \<lparr>cq_model = None, cq_systemPrompt = None,
     cq_messages = [\<lparr>am_role = ''assistant'', am_content = ''hi'', am_name = None, am_toolCallId = None\<rparr>],
     cq_temperature = None, cq_maxTokens = None, cq_modelParams = None\<rparr>"

definition sample_openai :: openai_adapter where
  "sample_openai = \<lparr>oa_providerKind = ''openai'', oa_baseUrl = ''u'', oa_apiKey = Some ''sk-1'', oa_defaultModel = ''m'',
     oa_timeoutMs = 1\<rparr>"

definition sample_anthropic :: anthropic_adapter where
  "sample_anthropic = \<lparr>aa_baseUrl = ''u'', aa_apiKey = Some ''sk-1'', aa_defaultModel = ''m'', aa_timeoutMs = 1\<rparr>"

definition sample_gemini :: gemini_adapter where
  "sample_gemini = \<lparr>ga_baseUrl = ''u'', ga_apiKey = Some ''sk-1'', ga_defaultModel = ''m'', ga_apiVersion = ''v1'',
     ga_authMethod = QueryAuth, ga_timeoutMs = 1\<rparr>"

definition sample_ollama :: ollama_adapter where
  "sample_ollama = \<lparr>la_baseUrl = ''u'', la_apiKey = Some ''sk-1'', la_defaultModel = ''m'', la_connectTimeoutMs = 1,
     la_generationTimeoutMs = 1\<rparr>"

text \<open>
  C37. What a provider adapter makes of a streamed answer does not depend on how the text is
  cut into reads: a line, a name of an event or an escape of the JSON that is split between
  two reads is put together again, and the events are those of the text read at once.
\<close>

theorem streams_depend_on_text_only:
  assumes "fx_result x = Inr res" "\<not> fx_abortedBefore x" "response_ok res" "hr_body res = Some b" "undisturbed b"
  shows "stream_trace (openai_stream ow oa rq x f)
       = (read_text (openai_reader ow oa) (openai_stream_start oa rq) (body_text b), None)
     \<and> stream_trace (anthropic_stream aw aa rq x f)
       = (read_text (anthropic_reader aw aa) (anthropic_stream_start aa rq) (body_text b), None)
     \<and> stream_trace (gemini_stream gw ga rq x f)
       = (read_text (gemini_reader gw ga) (gemini_stream_start ga rq) (body_text b), None)
     \<and> stream_trace (ollama_stream lw la rq x f)
       = (read_text (ollama_reader lw la (ollama_model la rq) (hr_status res)) (ollama_stream_start la rq)
           (body_text b), None)"
  using assms
  by (simp add: read_body_text openai_stream_def openai_execute_fetch_def anthropic_stream_def anthropic_execute_fetch_def
      gemini_stream_def gemini_execute_fetch_def ollama_stream_def ollama_execute_fetch_def)

theorem streams_depend_on_text_only_witness:
  "stream_trace (ollama_stream sample_ollama_wire sample_ollama sample_request
       (sample_exchange (Inr (sample_answer (Inl syntax_error) (sample_body [''o'', ''om'' @ [CR], [LF]])))) no_effect_at_all)
     = (read_text (ollama_reader sample_ollama_wire sample_ollama (ollama_model sample_ollama sample_request) 200)
          (ollama_stream_start sample_ollama sample_request) (''oom'' @ [CR, LF]), None)"
proof -
  let ?res = "sample_answer (Inl syntax_error) (sample_body [''o'', ''om'' @ [CR], [LF]])"
  have "fx_result (sample_exchange (Inr ?res)) = Inr ?res" "\<not> fx_abortedBefore (sample_exchange (Inr ?res))"
    "response_ok ?res" "hr_body ?res = Some (sample_body [''o'', ''om'' @ [CR], [LF]])"
    "undisturbed (sample_body [''o'', ''om'' @ [CR], [LF]])" "hr_status ?res = 200"
    "body_text (sample_body [''o'', ''om'' @ [CR], [LF]]) = ''oom'' @ [CR, LF]"
    by (simp_all add: sample_exchange_def sample_answer_def sample_body_def response_ok_def)
  with streams_depend_on_text_only [of "sample_exchange (Inr ?res)" ?res] show ?thesis by simp
qed



text \<open>What a list of turns must be to stand for the conversation of a request.\<close>

definition renders :: "string \<Rightarrow> completion_request \<Rightarrow> wire_turn list \<Rightarrow> bool" where
  "renders assistant request turns = (\<exists>gs. concat gs = conversation request
     \<and> (\<forall>g\<in>set gs. same_role_run assistant g)
     \<and> (turns = map (turn_of assistant) gs \<or> turns = blank_turn # map (turn_of assistant) gs)
     \<and> alternating turns \<and> turns \<noteq> [] \<and> tu_role (hd turns) = ''user'')"

text \<open>
  What Anthropic and Gemini are sent is the conversation: the turns alternate between
  the two roles and begin with the user, every message that is no system message is in exactly one
  turn, in order, together with its neighbours of the same role, and the only turn added is a
  blank one of the user at the front.
\<close>

theorem turns_render_the_conversation:
  "(\<exists>turns. map_of (gemini_payload request) ''contents'' = Some (JArr (map gemini_content turns))
      \<and> renders ''model'' request turns)
   \<and> renders ''assistant'' request (translate_messages ''assistant'' request)"
proof -
  have "renders a request (translate_messages a request)" if "a \<noteq> ''user''" for a
    using translate_messages_runs [OF that, of request] unfolding renders_def .
  from this [of "''model''"] this [of "''assistant''"] show ?thesis
    by (auto simp: gemini_payload_def Let_def)
qed

text \<open>
  C39. The key of a provider does not survive in a message that an adapter has sanitized,
  nor in an address prepared for the log, if the key has no square bracket and does not
  occur in the mark that replaces it.
\<close>

theorem sanitizing_removes_the_key:
  assumes "oa_apiKey oa = Some k" "aa_apiKey aa = Some k" "ga_apiKey ga = Some k" "la_apiKey la = Some k"
    and "k \<noteq> []" "CHR ''['' \<notin> set k" "CHR '']'' \<notin> set k" "\<not> js_includes redaction_mark k"
  shows "\<not> js_includes (openai_sanitize oa message) k \<and> \<not> js_includes (anthropic_sanitize aa message) k
     \<and> \<not> js_includes (gemini_sanitize ga message) k \<and> \<not> js_includes (gemini_sanitize_url ga message) k
     \<and> \<not> js_includes (ollama_sanitize la message) k"
  using sanitize_key_gone [OF assms(5-8)]
  by (simp add: assms(1-4) openai_sanitize_def anthropic_sanitize_def gemini_sanitize_def
      gemini_sanitize_url_def ollama_sanitize_def)

theorem sanitizing_removes_the_key_witness:
  "\<not> js_includes (gemini_sanitize_url sample_gemini ''http://h/v1/models?key=sk-1&alt=sse'') ''sk-1''"
  by (rule sanitizing_removes_the_key [of sample_openai "''sk-1''" sample_anthropic sample_gemini sample_ollama,
        THEN conjunct2, THEN conjunct2, THEN conjunct2, THEN conjunct1])
    (simp_all add: sample_openai_def sample_anthropic_def sample_gemini_def sample_ollama_def redaction_mark_def)

text \<open>
  An error that the local server reports on its last line is lost when the line is not
  terminated: the same object ends the stream with the error when a newline follows it, and
  with a completion when the body ends first.
\<close>

theorem trailing_error_becomes_completion:
  assumes "LF \<notin> set line" "CR \<notin> set line" "js_trim line \<noteq> []" "lw_response w (js_trim line) = Inr chunk"
    and "lr_error chunk = Some msg" "msg \<noteq> []" "lr_message chunk = None" "\<not> lr_done chunk"
    and "lr_prompt_eval_count chunk = None" "lr_eval_count chunk = None"
  shows "read_text (ollama_reader w a m status) s (line @ [LF]) = [ErrorReport (ollama_map_error a status msg (Some m))]
     \<and> read_text (ollama_reader w a m status) s line
       = [CompleteReport (ls_finishReason s) (ls_currentUsage s) (Some (ls_model s))]"
  using assms
  by (simp add: read_text_def split_lines_plain split_lines_closed ollama_reader_def ollama_line_def ollama_close_def
      truthy_def ollama_text_events_def ollama_usage_events_def ollama_counts_def ollama_completion_def Let_def)

theorem trailing_error_becomes_completion_witness:
  "read_text (ollama_reader sample_ollama_wire sample_ollama ''m'' 200)
       \<lparr>ls_model = ''m'', ls_finishReason = FinishStop, ls_currentUsage = None\<rparr> ''oom''
     = [CompleteReport FinishStop None (Some ''m'')]"
proof -
  have trim: "js_trim ''oom'' = ''oom''" by code_simp
  have "LF \<notin> set ''oom''" "CR \<notin> set ''oom''" by code_simp+
  moreover have "js_trim ''oom'' \<noteq> []" "lw_response sample_ollama_wire (js_trim ''oom'') = Inr sample_failure"
    by (simp_all add: trim sample_ollama_wire_def)
  ultimately have "read_text (ollama_reader sample_ollama_wire sample_ollama ''m'' 200) s ''oom''
      = [CompleteReport (ls_finishReason s) (ls_currentUsage s) (Some (ls_model s))]" for s
    by (rule trailing_error_becomes_completion [where msg = "''out of memory''", THEN conjunct2]) (simp_all add: sample_failure_def)
  then show ?thesis by simp
qed

text \<open>
  After the module is initialised an adapter can be created for exactly six kinds of
  providers, and its creation needs nothing but, for a compatible server and for LM Studio,
  a base URL; any other kind is refused with the list of the six.
\<close>

theorem registered_kinds_are_creatable:
  "((\<exists>ad. adapter_create (register_adapters ow aw gw lw http []) config = Inr ad)
     \<longleftrightarrow> ac_providerKind config \<in> {''anthropic'', ''openai'', ''google'', ''ollama''}
         \<or> ac_providerKind config \<in> {''openai_compatible'', ''lmstudio''}
           \<and> (\<exists>base. trim_or_null (ac_baseUrl config) = Some base))
   \<and> (isSupported (register_adapters ow aw gw lw http []) (ac_providerKind config)
      \<or> adapter_create (register_adapters ow aw gw lw http []) config = Inl (unsupported_provider_kind_error
          (ac_providerKind config)
          [''anthropic'', ''openai'', ''openai_compatible'', ''lmstudio'', ''google'', ''ollama'']))"
proof
  show "(\<exists>ad. adapter_create (register_adapters ow aw gw lw http []) config = Inr ad)
     \<longleftrightarrow> ac_providerKind config \<in> {''anthropic'', ''openai'', ''google'', ''ollama''}
         \<or> ac_providerKind config \<in> {''openai_compatible'', ''lmstudio''}
           \<and> (\<exists>base. trim_or_null (ac_baseUrl config) = Some base)"
    by (auto simp: adapter_create_def map_of_register_adapters anthropic_creator_def openai_creator_def
        gemini_creator_def ollama_creator_def openai_new_def Let_def)
qed (use adapter_create_unsupported [of "register_adapters ow aw gw lw http []" config] in
    \<open>auto simp: register_adapters_kinds\<close>)



section \<open>Rosters\<close>





section \<open>Models of a provider\<close>

text \<open>
  C23. A discovery that returns has made the provider's catalogue the \<open>target\<close> of what it answered,
  taken from the database as it was when the answer arrived: models registered by hand are as
  they were, offered ones are stored with the offered values and enabled (new ones as
  discovered), discovered ones no longer offered are disabled. No model is deleted or renamed,
  the models of other providers and the other tables are untouched. One that fails has written
  nothing.
\<close>

theorem discovery_reconciles_the_catalogue:
  assumes "\<And>config call. discoveries config = Some call \<Longrightarrow> models_ok (dc_others call (db w))"
  shows "(discover env discoveries p timeout w = (Inr s, w') \<longrightarrow>
      (\<exists>config call its. discoveries config = Some call \<and> dc_result call = Inr (Some (map Some its))
        \<and> catalogue (db w') p = target its (catalogue (dc_others call (db w)) p)
        \<and> guarded p (db w') = guarded p (dc_others call (db w))
        \<and> prefix (identities (dc_others call (db w))) (identities (db w'))
        \<and> db w' = (dc_others call (db w))\<lparr>models := models (db w')\<rparr> \<and> models_ok (db w')))
    \<and> (discover env discoveries p timeout w = (Inl i, w') \<longrightarrow>
      db w' = db w \<or> (\<exists>config call. discoveries config = Some call \<and> db w' = dc_others call (db w)))"
proof -
  have d: "wp (discover env discoveries p timeout)
    (\<lambda>s w'. \<exists>config call its. discoveries config = Some call \<and> dc_result call = Inr (Some (map Some its))
        \<and> discovered p its (dc_others call (db w)) s (db w'))
    (\<lambda>_ w'. db w' = db w \<or> (\<exists>config call. discoveries config = Some call \<and> db w' = dc_others call (db w))) w"
    by (rule wp_discover) (rule assms)
  show ?thesis
    using wp_Inr [OF d] wp_Inl [OF d] unfolding discovered_def tidy_def by blast
qed

theorem discovery_reconciles_the_catalogue_witness:
  "\<exists>s w'. discover answering_env (\<lambda>_. Some sample_call) ''p1'' None model_world = (Inr s, w')
     \<and> catalogue (db w') ''p1'' ''phi'' = Some (''discovered'', ''Phi'', Some 4096, None, None, 1)
     \<and> catalogue (db w') ''p1'' ''llama'' = Some (''manual'', ''Llama'', None, None, None, 1)"
proof -
  obtain s w' where run: "discover answering_env (\<lambda>_. Some sample_call) ''p1'' None model_world = (Inr s, w')"
    using sample_discovery by blast
  have ok: "models_ok (dc_others call (db model_world))" if "(\<lambda>_. Some sample_call) config = Some call" for config :: adapter_config and call
    using that model_world_ok by (auto simp: sample_call_def)
  obtain call its where "Some sample_call = Some call" "dc_result call = Inr (Some (map Some its))"
    "catalogue (db w') ''p1'' = target its (catalogue (dc_others call (db model_world)) ''p1'')"
    using discovery_reconciles_the_catalogue [where discoveries = "\<lambda>_. Some sample_call", OF ok, THEN conjunct1, THEN mp, OF _ run]
    by blast
  then have "catalogue (db w') ''p1'' = target [sample_item] (catalogue (db model_world) ''p1'')"
    by (auto simp: sample_call_def Cons_eq_map_conv)
  moreover have "catalogue (db model_world) ''p1'' ''phi'' = None"
    "catalogue (db model_world) ''p1'' ''llama'' = Some (''manual'', ''Llama'', None, None, None, 1)"
    by (simp_all add: catalogue_def model_by_key_def model_world_def sample_db_def sample_model_def view_def)
  ultimately have "catalogue (db w') ''p1'' ''phi'' = Some (''discovered'', ''Phi'', Some 4096, None, None, 1)
     \<and> catalogue (db w') ''p1'' ''llama'' = Some (''manual'', ''Llama'', None, None, None, 1)"
    by (simp add: target_def sample_item_def offered_def)
  with run show ?thesis by blast
qed

text \<open>
  C24. A discovery repeated with the same answer writes nothing: the database stays as it is to
  the last timestamp, and no model is counted as added, updated or disabled.
\<close>

theorem discovery_is_idempotent:
  assumes "\<And>config call. discoveries config = Some call \<Longrightarrow> models_ok (dc_others call (db w))"
    and "discover env discoveries p timeout w = (Inr s, w1)"
    and "\<And>config call. again config = Some call \<Longrightarrow> dc_others call = (\<lambda>d. d)
      \<and> (\<exists>config' call'. discoveries config' = Some call' \<and> dc_result call = dc_result call')"
    and "\<And>config config' call call'. discoveries config = Some call \<Longrightarrow> discoveries config' = Some call'
      \<Longrightarrow> dc_result call = dc_result call'"
    and "discover env again p timeout w1 = (r, w2)"
  shows "db w2 = db w1 \<and> (\<forall>s'. r = Inr s' \<longrightarrow> sm_added s' = 0 \<and> sm_updated s' = 0 \<and> sm_disabled s' = 0)"
proof -
  obtain config call its where c: "discoveries config = Some call" "dc_result call = Inr (Some (map Some its))"
    and d: "discovered p its (dc_others call (db w)) s (db w1)"
    using wp_Inr [OF wp_discover [of discoveries w env p timeout] assms(2)] assms(1) by blast
  have a: "dc_result call' = Inr (Some (map Some its)) \<and> dc_others call' = (\<lambda>d. d)" if "again config' = Some call'" for config' call'
    using assms(3) [OF that] assms(4) [OF c(1)] c(2) by metis
  show ?thesis
    using wp_discover_again [OF d, of again env timeout] a assms(5)
    by (cases r) (auto simp: wp_def)
qed

theorem discovery_is_idempotent_witness:
  "\<exists>s w1. discover answering_env (\<lambda>_. Some sample_call) ''p1'' None model_world = (Inr s, w1)
     \<and> db (snd (discover answering_env (\<lambda>_. Some sample_call) ''p1'' None w1)) = db w1"
proof -
  obtain s w1 where run: "discover answering_env (\<lambda>_. Some sample_call) ''p1'' None model_world = (Inr s, w1)"
    using sample_discovery by blast
  obtain r w2 where again: "discover answering_env (\<lambda>_. Some sample_call) ''p1'' None w1 = (r, w2)"
    by (cases "discover answering_env (\<lambda>_. Some sample_call) ''p1'' None w1")
  have ok: "models_ok (dc_others call (db model_world))" if "(\<lambda>_. Some sample_call) config = Some call" for config :: adapter_config and call
    using that model_world_ok by (auto simp: sample_call_def)
  have "db w2 = db w1 \<and> (\<forall>s'. r = Inr s' \<longrightarrow> sm_added s' = 0 \<and> sm_updated s' = 0 \<and> sm_disabled s' = 0)"
    by (rule discovery_is_idempotent [OF ok run _ _ again]) (auto simp: sample_call_def)
  with run again show ?thesis by auto
qed

section \<open>Stored files\<close>

text \<open>
  C25. Whatever a reference says (encoded, with dots, with either separator, through symbolic
  links), what is read is a file strictly below the real path of the storage root, and the only
  name a deletion can remove lies there too. This holds for every decoding of percent
  sequences and every disk.
\<close>

theorem storage_stays_inside_its_root:
  assumes "\<forall>x\<in>set storageRoot. proper x"
  shows "(read_file D decode storageRoot reference = Inr bytes \<longrightarrow>
      (\<exists>real more. disk_realpath D storageRoot = Inr real \<and> more \<noteq> [] \<and> node_at D (real @ more) = Some (Regular bytes)))
    \<and> (node_at (snd (delete_file D decode storageRoot reference)) x \<noteq> node_at D x \<longrightarrow>
      (\<exists>real more. disk_realpath D storageRoot = Inr real \<and> more \<noteq> [] \<and> x = real @ more))"
proof (intro conjI impI)
  show "\<exists>real more. disk_realpath D storageRoot = Inr real \<and> more \<noteq> [] \<and> node_at D (real @ more) = Some (Regular bytes)"
    if "read_file D decode storageRoot reference = Inr bytes"
    using read_inside [OF assms that] by blast
  show "\<exists>real more. disk_realpath D storageRoot = Inr real \<and> more \<noteq> [] \<and> x = real @ more"
    if "node_at (snd (delete_file D decode storageRoot reference)) x \<noteq> node_at D x"
    using delete_inside [OF assms, of D decode reference] that by (metis prod.collapse)
qed

theorem storage_stays_inside_its_root_witness:
  "\<exists>sf D'. write_file sample_decoders None [''data''] ''artifacts'' [0xff, 0xd8, 0xff] None [] sample_file_id sample_disk = (Inr sf, D')
     \<and> (\<exists>real more. disk_realpath D' [''data''] = Inr real \<and> more \<noteq> [] \<and> node_at D' (real @ more) = Some (Regular [0xff, 0xd8, 0xff]))"
proof -
  obtain sf D' where w: "write_file sample_decoders None [''data''] ''artifacts'' [0xff, 0xd8, 0xff] None [] sample_file_id sample_disk = (Inr sf, D')"
    using sample_write by blast
  have "read_file D' Some [''data''] (sf_reference sf) = Inr [0xff, 0xd8, 0xff]"
    by (rule write_readable(1) [OF sample_root _ _ sample_id w])
      (simp_all add: KNOWN_STORAGE_BUCKETS_def sample_disk_def node_at_def)
  then show ?thesis using storage_stays_inside_its_root [OF sample_root(1), of D' Some "sf_reference sf" "[0xff, 0xd8, 0xff]"] w
    by blast
qed

text \<open>
  C26. What is stored is what is read back. The reference a write returns leads to exactly the
  bytes written, and their size and type as \<open>stat\<close> reports them are the ones the write
  returned, whatever was on the disk before (the root a real folder, the bucket one of the four
  known ones, a folder or not there yet), when decoding leaves the reference as it is.
\<close>

theorem stored_files_read_back:
  assumes "\<forall>x\<in>set storageRoot. proper x" "real_folder D storageRoot"
    and "bucket \<in> set KNOWN_STORAGE_BUCKETS" "node_at D (storageRoot @ [bucket]) \<in> {None, Some Folder}"
    and "length random = 10" "fileId = newId now random"
    and "write_file dec failure storageRoot bucket bytes maxBytes allowed fileId D = (Inr sf, D')"
    and "decode (sf_reference sf) = Some (sf_reference sf)"
  shows "read_file D' decode storageRoot (sf_reference sf) = Inr bytes
    \<and> stat_file dec D' decode storageRoot (sf_reference sf) = Inr (sf_size sf, sf_contentType sf)"
proof -
  have i: "is_uuid_v7 fileId" using uuid_v7_newId [OF assms(5), of now] assms(6) by simp
  show ?thesis using write_readable [where decode = decode, OF assms(1-4) i assms(7,8)] by blast
qed

theorem stored_files_read_back_witness:
  "\<exists>sf D'. write_file sample_decoders None [''data''] ''artifacts'' [0xff, 0xd8, 0xff] None [] sample_file_id sample_disk = (Inr sf, D')
     \<and> read_file D' Some [''data''] (sf_reference sf) = Inr [0xff, 0xd8, 0xff]"
proof -
  obtain sf D' where w: "write_file sample_decoders None [''data''] ''artifacts'' [0xff, 0xd8, 0xff] None [] sample_file_id sample_disk = (Inr sf, D')"
    using sample_write by blast
  have "read_file D' Some [''data''] (sf_reference sf) = Inr [0xff, 0xd8, 0xff]
      \<and> stat_file sample_decoders D' Some [''data''] (sf_reference sf) = Inr (sf_size sf, sf_contentType sf)"
    by (rule stored_files_read_back [OF sample_root _ _ _ sample_file_id_def w])
      (simp_all add: KNOWN_STORAGE_BUCKETS_def sample_disk_def node_at_def)
  with w show ?thesis by blast
qed

text \<open>
  C27. A file that arrives in chunks is stored like the same bytes in one buffer: the same disk
  and the same result, and one is refused exactly when the other is. The type is told from the
  first 4096 bytes in both cases, and detection depends on no other byte.
\<close>

theorem chunks_are_stored_as_one_buffer:
  "snd (write_stream dec failure storageRoot bucket chunks maxBytes allowed i D)
      = snd (write_file dec failure storageRoot bucket (concat chunks) maxBytes allowed i D)
   \<and> (fst (write_stream dec failure storageRoot bucket chunks maxBytes allowed i D) = Inr sf
      \<longleftrightarrow> fst (write_file dec failure storageRoot bucket (concat chunks) maxBytes allowed i D) = Inr sf)
   \<and> detectContentType dec (take 4096 bytes) = detectContentType dec bytes"
  by (intro conjI stream_as_buffer detect_head)

text \<open>
  C28. A picture is what its bytes say: an upload within the limit is accepted exactly when it
  begins with the signature of a JPEG, PNG, GIF or WebP file, so no document (SVG or HTML) is
  accepted under any name; and every type detected comes with the extension the table has for it.
\<close>

theorem pictures_are_told_by_their_bytes:
  "((\<exists>mime. assertUploadablePicture dec (Some bytes) maxBytes = Inr mime)
      \<longleftrightarrow> length bytes \<le> maxBytes \<and> picture_signature bytes)
   \<and> dt_extension (detectContentType dec bytes) = getExtensionForMime (dt_mime (detectContentType dec bytes))"
proof -
  have "bytes \<noteq> []" if "picture_signature bytes"
    using that by (auto simp: picture_signature_def bytes_at_def)
  then have "(\<exists>mime. assertUploadablePicture dec (Some bytes) maxBytes = Inr mime)
      \<longleftrightarrow> length bytes \<le> maxBytes \<and> picture_signature bytes"
    using picture_iff [of dec bytes] by (auto simp: assertUploadablePicture_def Let_def)
  then show ?thesis using known_extension [OF detect_known] by blast
qed

section \<open>The spending budget\<close>

text \<open>
  C30. The budget counts the period it is now. Asking for the budget (which provisions it when
  there is none) reports a window that holds the present instant, starts when the clocks of the
  user's time zone read midnight on the first day of the period, and ends where the next window
  starts; what it reports as spent is the rounded sum, and the number, of the recorded costs whose
  time is in that window. This holds for clocks that change at most once around each of the two
  midnights, and neither skip nor repeat that reading.
\<close>

theorem budget_counts_this_period:
  assumes "budgets_ok (db w)" "events_timed tm (db w)" "datable (clock env (ticks w))"
    and "\<forall>period \<in> set budget_periods. regular_window (user_clocks zones (db w)) period (int (clock env (ticks w)))"
    and "findBudget env zones w = (Inr r, w')"
  shows "counts_period (user_clocks zones (db w)) (clock env (ticks w)) tm (db w) r"
proof -
  obtain row where row: "provisioned (db w) row (db w')"
    and r: "r = budget_response_of zones (clock env (ticks w)) row (db w')"
    using wp_Inr [OF wp_findBudget [OF assms(1)] assms(5)] by blast
  then have d: "db w' = (db w)\<lparr>spend_budget := [row]\<rparr>" and p: "bud_period row \<in> set budget_periods"
    by (simp_all add: provisioned_def budgets_ok_def)
  have same: "events_timed tm (db w')" "user_clocks zones (db w') = user_clocks zones (db w)"
    "usage_events (db w') = usage_events (db w)"
    using assms(2) unfolding d by (simp_all add: events_timed_def user_clocks_def user_timezone_def)
  have "counts_period (user_clocks zones (db w')) (clock env (ticks w)) tm (db w') r"
    unfolding r by (rule response_counts [OF same(1) assms(3) p]) (use assms(4) p same(2) in simp)
  then show ?thesis unfolding counts_period_def same by simp
qed

theorem budget_counts_this_period_witness:
  "\<exists>r w'. findBudget far_clock one_zone spender_world = (Inr r, w')
   \<and> counts_period (\<lambda>_. 3600) 3600000000 (\<lambda>_. 0) (db spender_world) r"
proof -
  obtain r w' where run: "findBudget far_clock one_zone spender_world = (Inr r, w')" using spender by blast
  have z: "user_clocks one_zone (db spender_world) = (\<lambda>_. 3600)" "clock far_clock (ticks spender_world) = 3600000000"
    by (simp_all add: user_clocks_def user_timezone_def spender_world_def oslo_user_def clocks_def usableZone_def one_zone_def far_clock_def)
  have "counts_period (user_clocks one_zone (db spender_world)) (clock far_clock (ticks spender_world)) (\<lambda>_. 0) (db spender_world) r"
  proof (rule budget_counts_this_period [OF _ _ _ _ run])
    show "budgets_ok (db spender_world)" "events_timed (\<lambda>_. 0) (db spender_world)"
      by (simp_all add: budgets_ok_def events_timed_def spender_world_def sample_db_def)
    show "datable (clock far_clock (ticks spender_world))" unfolding z by (simp add: datable_def settled_def last_ms_def)
    show "\<forall>p\<in>set budget_periods. regular_window (user_clocks one_zone (db spender_world)) p (int (clock far_clock (ticks spender_world)))"
      unfolding z by (simp add: fixed_offset_regular)
  qed
  then show ?thesis using run z by auto
qed

section \<open>Memories\<close>

text \<open>
  C31. A memory is found by its tags, whatever their order, case and surrounding blanks. Creating
  one answers with the sorted set of its normalized tags, appends one row, and from then on the
  memory is read by its identifier; a list request selects it exactly when its search term
  matches the content and its tags (all, or any one of them, as asked) are among the tags the
  memory was created with. Sending the tags of the answer back changes nothing, when no tag was
  longer than the request may have it.
\<close>

theorem memories_are_found_by_their_tags:
  assumes "createAgentMemory env agentId dto w = (Inr r, w')"
  shows "amr_tags r = canonical_tags (cm_tags dto) \<and> findOneAgentMemory (db w') agentId (amr_id r) = Inr r
    \<and> (\<exists>row. agent_memories (db w') = agent_memories (db w) @ [row] \<and> mapAgentMemoryRowToResponse row = r
        \<and> (\<forall>q. memory_conditions q (mem_content row) (mem_tags row) \<longleftrightarrow>
             matches_tags (wanted_tags (coalesce (lq_tags q) (lq_tag q))) (lq_tagMode q) (set (canonical_tags (cm_tags dto)))
             \<and> matches_search (coalesce (lq_content q) (lq_search q)) (Some (cm_content dto)))
        \<and> ((\<forall>raw\<in>set (from_option [] (cm_tags dto)). length raw \<le> MAX_TAG_LENGTH) \<longrightarrow>
             \<not> mu_hasChanges (applyAgentMemoryUpdates row \<lparr>um_content = None, um_tags = Some (Some (amr_tags r))\<rparr>)))"
proof -
  obtain row where row: "agent_memories (db w') = agent_memories (db w) @ [row]" "r = mapAgentMemoryRowToResponse row"
    "agent_memory_by_id (db w') agentId (mem_id row) = Some row" "mem_content row = cm_content dto"
    "mem_tags row = normalizeTagsOnWrite (cm_tags dto)" "agent_by_id (db w') agentId \<noteq> None"
    using wp_Inr [OF wp_createAgentMemory assms] by blast
  have read: "amr_tags r = canonical_tags (cm_tags dto)" "findOneAgentMemory (db w') agentId (amr_id r) = Inr r"
    using row by (auto simp: mapAgentMemoryRowToResponse_def parse_normalized findOneAgentMemory_def assertAgentExists_def)
  have "normalizeTagsOnWrite (Some (amr_tags r)) = normalizeTagsOnWrite (cm_tags dto)"
    if "\<forall>raw\<in>set (from_option [] (cm_tags dto)). length raw \<le> MAX_TAG_LENGTH"
    unfolding read(1) by (rule stored_tags_same [OF canonical_again [OF that]])
  then show ?thesis
    using read row(1,2,4,5)
    by (auto simp: memory_conditions_def tag_condition_stored applyAgentMemoryUpdates_def changed_def Let_def)
qed

theorem memories_are_found_by_their_tags_witness:
  "\<exists>r w'. createAgentMemory answering_env ''a1'' tea_memory sample_world = (Inr r, w')
     \<and> amr_tags r = canonical_tags (Some [''Tea'', '' tea '', ''Drinks''])"
  using sample_memory memories_are_found_by_their_tags [of answering_env "''a1''" tea_memory sample_world]
  by (auto simp: tea_memory_def)

text \<open>
  C32. The private memories of an agent are out of reach of the others. Every request that names
  an agent leaves everything but the private memories of that agent as it is (the shared
  memories and those of the other agents included), whatever identifier of a memory it gives,
  and a list or a single read shows only memories of the agent named.
\<close>

theorem private_memories_stay_private:
  "private_frame agentId (db w) (db (snd (createAgentMemory env agentId dto w)))
   \<and> private_frame agentId (db w) (db (snd (updateAgentMemory env agentId memoryId changes w)))
   \<and> private_frame agentId (db w) (db (snd (removeAgentMemory env agentId memoryId w)))
   \<and> private_frame agentId (db w) (db (snd (removeAllAgentMemories env agentId w)))
   \<and> (findAllAgentMemories d agentId q = Inr p \<longrightarrow> (\<forall>x\<in>set (page_items p). amr_agentId x = agentId))
   \<and> (findOneAgentMemory d agentId memoryId = Inr x \<longrightarrow> amr_agentId x = agentId \<and> amr_id x = memoryId)"
  using private_requests [of agentId env] private_reads by (simp add: obeys_def on_db_def)

theorem private_memories_stay_private_witness:
  "\<exists>r w'. createAgentMemory answering_env ''a1'' tea_memory sample_world = (Inr r, w') \<and> amr_agentId r = ''a1''
     \<and> private_frame ''a1'' (db w') (db (snd (removeAgentMemory answering_env ''a1'' (amr_id r) w')))"
proof -
  obtain r w' where run: "createAgentMemory answering_env ''a1'' tea_memory sample_world = (Inr r, w')"
    using sample_memory by blast
  then have "findOneAgentMemory (db w') ''a1'' (amr_id r) = Inr r"
    using wp_Inr [OF wp_createAgentMemory run]
    by (auto simp: mapAgentMemoryRowToResponse_def findOneAgentMemory_def assertAgentExists_def)
  then show ?thesis using run private_memories_stay_private [where agentId = "''a1''" and d = "db w'" and w = w'] by blast
qed

section \<open>Keys and credentials\<close>

text \<open>
  C33. The key a user types is the key a provider is called with. After a credential is set, the
  execution chain decrypts exactly what was typed, without the blanks around it; the client is
  shown its preview only, and replacing a credential keeps the time it was first created.
\<close>

theorem credentials_round_trip:
  assumes "gcm_laws cy" "decrypts_with env cy" "length (rand env (draws w)) = GCM_NONCE_LENGTH"
    and "setCredential env cy p dto w = (Inr r, w')"
  shows "getDecryptedCredential env (db w') p = Inr (js_trim (from_option [] (coalesce (sc_apiKey dto) (sc_value dto))))
    \<and> findCredential (db w') p = Inr r
    \<and> crd_maskedPreview r = maskKey (Some (js_trim (from_option [] (coalesce (sc_apiKey dto) (sc_value dto))))) None
    \<and> (\<forall>old. credential_by_provider (db w) p = Some old \<longrightarrow> crd_createdAt r = cr_created_at old)"
proof -
  let ?secret = "js_trim (from_option [] (coalesce (sc_apiKey dto) (sc_value dto)))"
  obtain row where row: "credential_by_provider (db w') p = Some row" "provider_by_id (db w') p \<noteq> None"
    "encrypt_text cy ?secret (cr_nonce row) (Some p) = Inr (cr_encrypted_value row)" "cr_nonce row = rand env (draws w)"
    "cr_masked_preview row = Some (maskKey (Some ?secret) None)" "r = credential_metadata row"
    "\<forall>old. credential_by_provider (db w) p = Some old \<longrightarrow> cr_created_at row = cr_created_at old"
    using wp_Inr [OF wp_setCredential assms(4)] by auto
  have "decrypt_text cy (cr_encrypted_value row) (cr_nonce row) (Some p) = Inr ?secret"
    by (rule decrypt_encrypted_text [OF assms(1) _ row(3)]) (simp add: row(4) assms(3))
  then show ?thesis
    using row assms(2)
    by (auto simp: getDecryptedCredential_def findCredential_def assertProviderExists_def credential_metadata_def decrypts_with_def)
qed

theorem credentials_round_trip_witness:
  "\<exists>r w'. setCredential crypt_env open_crypt ''p1'' typed_key sample_world = (Inr r, w')
     \<and> getDecryptedCredential crypt_env (db w') ''p1'' = Inr ''sk-ant-0123456789''"
proof -
  have "length (rand crypt_env (draws sample_world)) = GCM_NONCE_LENGTH" by (simp add: crypt_env_def GCM_NONCE_LENGTH_def)
  then show ?thesis
    using sample_credential credentials_round_trip [OF open_crypt_laws crypt_env_decrypts] typed_key_trimmed by metis
qed

text \<open>
  C34. Only what was encrypted is decrypted. Decryption of a stored value succeeds exactly when the
  nonce has twelve bytes and the value is the one that encrypting the result under the same key,
  nonce and associated data gives, so any other value, a truncated one, one of another version or
  one with a byte changed included, is refused; and text comes back as it was, for every text.
\<close>

theorem decryption_accepts_only_encryptions:
  assumes "gcm_laws cy"
  shows "(decryptToBuffer cy enc nonce aad = Inr p \<longleftrightarrow>
      length nonce = GCM_NONCE_LENGTH \<and> encrypt_bytes cy p nonce aad = Inr enc)
    \<and> (length nonce = GCM_NONCE_LENGTH \<longrightarrow> encrypt_text cy s nonce aad = Inr enc' \<longrightarrow> decrypt_text cy enc' nonce aad = Inr s)"
  using decrypt_iff [OF assms] decrypt_encrypted_text [OF assms] by blast

theorem decryption_accepts_only_encryptions_witness:
  "decryptToBuffer open_crypt ([1, 5] @ replicate 16 0) (replicate 12 9) None = Inr [5]"
  using decryption_accepts_only_encryptions [OF open_crypt_laws, of "[1, 5] @ replicate 16 0" "replicate 12 9" None "[5]"]
  by (simp add: encrypt_bytes_def open_crypt_def ENCRYPTION_FORMAT_VERSION_V1_def GCM_NONCE_LENGTH_def)



text \<open>
  A preview does not show the key. The preview of a key that is stored is an ellipsis, with the
  last four characters when there are more than four, and with one of the known prefixes before
  it when at least one character stays hidden in between.
\<close>

theorem previews_hide_the_key:
  assumes "key \<noteq> []"
  shows "length key \<le> 4 \<and> maskKey (Some key) None = MASK_ELLIPSIS
    \<or> (\<exists>start hidden tail. start \<in> insert [] (set KNOWN_CREDENTIAL_PREFIXES) \<and> hidden \<noteq> [] \<and> length tail = 4
        \<and> key = start @ hidden @ tail \<and> maskKey (Some key) None = start @ MASK_ELLIPSIS @ tail)"
  by (rule mask_hides [OF refl assms])

theorem previews_hide_the_key_witness:
  "\<exists>start hidden tail. hidden \<noteq> [] \<and> ''sk-ant-0123'' = start @ hidden @ tail \<and> maskKey (Some ''sk-ant-0123'') None = start @ MASK_ELLIPSIS @ tail"
  using previews_hide_the_key [of "''sk-ant-0123''"] by fastforce

text \<open>
  C36. A provider that needs an address has one. When every provider is of a known kind, has an
  address if its kind needs one and is marked local if its kind always is, then so it is after a
  creation, an update or a deletion, however the request ends.
\<close>

theorem providers_stay_reachable:
  assumes "providers_ok (db w)"
  shows "providers_ok (db (snd (createProvider env dto w)))
    \<and> providers_ok (db (snd (updateProvider env i changes w)))
    \<and> providers_ok (db (snd (removeProvider env i w)))"
  using wp_createProvider [OF assms] wp_updateProvider [OF assms] wp_removeProvider [OF assms]
  by (simp add: wp_snd [where P = "\<lambda>w. providers_ok (db w)"])

theorem providers_stay_reachable_witness:
  "providers_ok (db (snd (removeProvider answering_env ''p1'' model_world)))"
  using providers_stay_reachable [of model_world answering_env _ "''p1''"]
  by (simp add: providers_ok_def provider_ok_def model_world_def sample_provider_def PROVIDER_KINDS_def ALWAYS_LOCAL_KINDS_def)

end
